(* ===== verification/Umoja_Prelude.thy ===== *)
theory Umoja_Prelude
  imports Main "HOL-Library.Sublist"
begin

text \<open>
  Shared vocabulary of the control-plane model: identifiers and instants, JavaScript string
  trimming, the JSON values the services exchange and the audit trail stores, errors as
  values, transactions, and database tables as lists of rows together with the contract
  (a locale) under which the component theories use them. Three further locales state the
  contracts that several components share: an append-only audit trail, an invariant that every step
  preserves, and a status lifecycle with an allow-list of transitions.
\<close>

section \<open>Collections of facts used by the component theories\<close>

named_theorems table_simps \<open>reading a table after an insert or an update\<close>

section \<open>Basic types\<close>

text \<open>
  UUIDs are natural numbers: the code only compares them. Instants (JavaScript \<open>Date\<close> values
  and PostgreSQL timestamps) are integers, dates are day numbers.
\<close>

type_synonym uuid = nat
type_synonym instant = int
type_synonym date = int

text \<open>
  A JavaScript \<open>throw new Error(m)\<close> is \<open>Refused m\<close>; the other constructors are the errors
  PostgreSQL raises for a constraint of the schema, with the name of the table.
\<close>

datatype error =
    Refused string
  | UniqueViolation string
  | ForeignKeyViolation string
  | CheckViolation string
  | NumericOverflow string

type_synonym 'a result = "error + 'a"

subsection \<open>JavaScript strings\<close>

text \<open>
  \<open>String.prototype.trim\<close> removes the white space and line terminators of ECMAScript at both
  ends. Strings are sequences of characters with codes below 256; among those codes the white
  space is tab, line feed, vertical tab, form feed, carriage return, space and no-break space.
\<close>

definition is_js_space :: "char \<Rightarrow> bool" where
  "is_js_space c \<longleftrightarrow> c \<in> set [CHR 0x09, CHR 0x0A, CHR 0x0B, CHR 0x0C, CHR 0x0D, CHR 0x20, CHR 0xA0]"

definition js_trim :: "string \<Rightarrow> string" where
  "js_trim s = rev (dropWhile is_js_space (rev (dropWhile is_js_space s)))"

definition is_digit :: "char \<Rightarrow> bool" where
  "is_digit c \<longleftrightarrow> c \<in> set ''0123456789''"

definition is_upper :: "char \<Rightarrow> bool" where
  "is_upper c \<longleftrightarrow> c \<in> set ''ABCDEFGHIJKLMNOPQRSTUVWXYZ''"

definition is_lower :: "char \<Rightarrow> bool" where
  "is_lower c \<longleftrightarrow> c \<in> set ''abcdefghijklmnopqrstuvwxyz''"

definition is_alnum :: "char \<Rightarrow> bool" where
  "is_alnum c \<longleftrightarrow> is_upper c \<or> is_lower c \<or> is_digit c"

text \<open>\<open>toLowerCase\<close> on the characters below 256.\<close>

definition latin1_lower :: "char \<Rightarrow> char" where
  "latin1_lower c = (let n = of_char c :: nat
     in if is_upper c \<or> (192 \<le> n \<and> n \<le> 222 \<and> n \<noteq> 215) then char_of (n + 32) else c)"

lemma length_dropWhile_rev_le: "length (dropWhile P (rev xs)) \<le> length xs"
  by (metis length_dropWhile_le length_rev)

lemma length_js_trim: "length (js_trim s) \<le> length s"
  unfolding js_trim_def
  by (metis length_dropWhile_le length_rev order_trans)

lemma js_trim_Nil [simp]: "js_trim [] = []"
  by (simp add: js_trim_def)

lemma dropWhile_idem [simp]: "dropWhile P (dropWhile P xs) = dropWhile P xs"
  by (induction xs) auto

lemma dropWhile_rev_dropWhile:
  "dropWhile P (rev (dropWhile P (rev (dropWhile P xs)))) = rev (dropWhile P (rev (dropWhile P xs)))"
proof -
  obtain ys where ys: "ys = dropWhile P xs" and hd: "ys = [] \<or> \<not> P (hd ys)"
    using hd_dropWhile by blast
  have "suffix (dropWhile P (rev ys)) (rev ys)"
    by (simp add: suffix_dropWhile)
  then have pre: "prefix (rev (dropWhile P (rev ys))) ys"
    by (simp add: suffix_to_prefix)
  show ?thesis
  proof (cases "rev (dropWhile P (rev ys))")
    case Nil
    show ?thesis by (simp only: ys [symmetric] Nil dropWhile.simps)
  next
    case (Cons z zs)
    with pre have "ys \<noteq> []" and "hd ys = z"
      by (auto simp: prefix_def)
    with hd have "\<not> P z" by simp
    then show ?thesis by (simp add: ys [symmetric] Cons)
  qed
qed

lemma js_trim_idem [simp]: "js_trim (js_trim s) = js_trim s"
  unfolding js_trim_def by (simp add: dropWhile_rev_dropWhile)

text \<open>Decimal text of numbers, as template literals print them, and lower-case hexadecimal digests.\<close>

function nat_text :: "nat \<Rightarrow> string" where
  "nat_text n = (if n < 10 then [char_of (48 + n)] else nat_text (n div 10) @ [char_of (48 + n mod 10)])"
  by pat_completeness auto
termination by (relation "measure id") auto

declare nat_text.simps [simp del]

definition int_text :: "int \<Rightarrow> string" where
  "int_text i = (if i < 0 then ''-'' @ nat_text (nat (- i)) else nat_text (nat i))"

text \<open>The decimal digits of a non-negative integer.\<close>

function pos_text :: "int \<Rightarrow> string" where
  "pos_text n = (if n < 10 then [char_of (48 + n)] else pos_text (n div 10) @ [char_of (48 + n mod 10)])"
  by pat_completeness auto
termination by (relation "measure nat") auto

declare pos_text.simps [simp del]

text \<open>The value of a string of decimal digits.\<close>

definition digits_value :: "string \<Rightarrow> int" where
  "digits_value ds = foldl (\<lambda>n c. 10 * n + (of_char c - 48)) 0 ds"

lemma digits_value_snoc: "digits_value (ds @ [c]) = 10 * digits_value ds + (of_char c - 48)"
  by (simp add: digits_value_def)

lemma digit_value: "0 \<le> n \<Longrightarrow> n < 10 \<Longrightarrow> (of_char (char_of (48 + n :: int)) :: int) = 48 + n"
  by (simp add: of_char_of)

lemma digit_char: "0 \<le> n \<Longrightarrow> n < 10 \<Longrightarrow> is_digit (char_of (48 + n :: int))"
proof -
  assume "0 \<le> n" "n < 10"
  then have "n = 0 \<or> n = 1 \<or> n = 2 \<or> n = 3 \<or> n = 4 \<or> n = 5 \<or> n = 6 \<or> n = 7 \<or> n = 8 \<or> n = 9" by presburger
  then show ?thesis by (elim disjE; hypsubst; code_simp)
qed

lemma pos_text_digits: "0 \<le> n \<Longrightarrow> list_all is_digit (pos_text n) \<and> pos_text n \<noteq> [] \<and> digits_value (pos_text n) = n"
proof (induction n rule: pos_text.induct)
  case (1 n)
  show ?case
  proof (cases "n < 10")
    case True
    with 1(2) show ?thesis
      by (subst (1 2 3) pos_text.simps) (simp add: digit_char digits_value_def digit_value)
  next
    case False
    with 1 have IH: "list_all is_digit (pos_text (n div 10))" "digits_value (pos_text (n div 10)) = n div 10" by simp_all
    from False have eq: "pos_text n = pos_text (n div 10) @ [char_of (48 + n mod 10)]" by (subst pos_text.simps) simp
    show ?thesis unfolding eq using IH by (simp add: digits_value_snoc digit_char digit_value)
  qed
qed

definition sha256_text :: "string \<Rightarrow> bool" where
  "sha256_text s \<longleftrightarrow> length s = 64 \<and> list_all (\<lambda>c. c \<in> set ''abcdef0123456789'') s"

text \<open>
  \<open>trim(x)\<close> of PostgreSQL removes spaces only, so a text that is long enough after the
  JavaScript trim is long enough after the one of the database.
\<close>

definition sql_trim :: "string \<Rightarrow> string" where
  "sql_trim s = rev (dropWhile (\<lambda>c. c = CHR 0x20) (rev (dropWhile (\<lambda>c. c = CHR 0x20) s)))"

lemma dropWhile_weaker:
  "(\<And>x. Q x \<Longrightarrow> P x) \<Longrightarrow> dropWhile P (dropWhile Q xs) = dropWhile P xs"
  by (induction xs) auto

lemma length_dropWhile_weaker: "(\<And>x. Q x \<Longrightarrow> P x) \<Longrightarrow> length (dropWhile P xs) \<le> length (dropWhile Q xs)"
  by (metis dropWhile_weaker length_dropWhile_le)

lemma length_dropWhile_prefix: "length (dropWhile P ys) \<le> length (dropWhile P (ys @ zs))"
  by (induction ys) auto

lemma length_js_trim_sql_trim: "length (js_trim s) \<le> length (sql_trim s)"
proof -
  let ?Q = "\<lambda>c :: char. c = CHR 0x20"
  have Q: "?Q c \<Longrightarrow> is_js_space c" for c by (simp add: is_js_space_def)
  obtain w where "dropWhile ?Q s = w @ dropWhile is_js_space s"
    using dropWhile_weaker [of ?Q is_js_space s] Q by (metis suffix_def suffix_dropWhile)
  then have "rev (dropWhile ?Q s) = rev (dropWhile is_js_space s) @ rev w" by simp
  then have "length (dropWhile is_js_space (rev (dropWhile is_js_space s)))
      \<le> length (dropWhile is_js_space (rev (dropWhile ?Q s)))"
    by (metis length_dropWhile_prefix)
  also have "\<dots> \<le> length (dropWhile ?Q (rev (dropWhile ?Q s)))"
    using Q by (rule length_dropWhile_weaker)
  finally show ?thesis by (simp add: js_trim_def sql_trim_def)
qed

subsection \<open>JSON values\<close>

text \<open>
  Decoded JSON and the metadata of audit events. \<open>JTime t\<close> is the JSON string
  \<open>t.toISOString()\<close>; \<open>JNum\<close> carries integers; \<open>JFrac\<close> is a number that is not an integer
  (its value is never inspected).
\<close>

datatype json =
    JNull
  | JBool bool
  | JNum int
  | JFrac string
  | JStr string
  | JTime instant
  | JArr "json list"
  | JObj "(string \<times> json) list"

text \<open>JavaScript \<open>x ?? null\<close> for an optional string or identifier.\<close>

definition jopt :: "('a \<Rightarrow> json) \<Rightarrow> 'a option \<Rightarrow> json" where
  "jopt f x = (case x of None \<Rightarrow> JNull | Some v \<Rightarrow> f v)"

abbreviation jid :: "uuid \<Rightarrow> json" where
  "jid i \<equiv> JNum (int i)"

section \<open>Tables\<close>

text \<open>
  A table is the list of its rows in insertion order. \<open>find_row key k\<close> is
  \<open>SELECT ... WHERE key = k\<close> on a unique column, \<open>update_row key k f\<close> is
  \<open>UPDATE ... WHERE key = k\<close>.
\<close>

definition find_row :: "('r \<Rightarrow> 'k) \<Rightarrow> 'k \<Rightarrow> 'r list \<Rightarrow> 'r option" where
  "find_row key k rows = find (\<lambda>r. key r = k) rows"

definition update_row :: "('r \<Rightarrow> 'k) \<Rightarrow> 'k \<Rightarrow> ('r \<Rightarrow> 'r) \<Rightarrow> 'r list \<Rightarrow> 'r list" where
  "update_row key k f rows = map (\<lambda>r. if key r = k then f r else r) rows"

definition insert_row :: "'r \<Rightarrow> 'r list \<Rightarrow> 'r list" where
  "insert_row r rows = rows @ [r]"

text \<open>
  The contract of a table towards the components: the key identifies a row, an insert of a
  fresh key and an update that keeps keys preserve this, and a read after a write returns
  what was written.
\<close>

locale keyed_table =
  fixes key :: "'r \<Rightarrow> 'k"
    and lookup :: "'k \<Rightarrow> 't \<Rightarrow> 'r option"
    and ins :: "'r \<Rightarrow> 't \<Rightarrow> 't"
    and upd :: "'k \<Rightarrow> ('r \<Rightarrow> 'r) \<Rightarrow> 't \<Rightarrow> 't"
    and rows :: "'t \<Rightarrow> 'r set"
    and wf :: "'t \<Rightarrow> bool"
  assumes lookup_rows: "wf t \<Longrightarrow> lookup k t = Some r \<longleftrightarrow> r \<in> rows t \<and> key r = k"
    and rows_ins: "rows (ins r t) = insert r (rows t)"
    and wf_ins: "wf t \<Longrightarrow> lookup (key r) t = None \<Longrightarrow> wf (ins r t)"
    and rows_upd: "rows (upd k f t) = (\<lambda>r. if key r = k then f r else r) ` rows t"
    and wf_upd: "wf t \<Longrightarrow> (\<And>r. key (f r) = key r) \<Longrightarrow> wf (upd k f t)"
begin

lemma lookup_None: "wf t \<Longrightarrow> lookup k t = None \<longleftrightarrow> (\<forall>r \<in> rows t. key r \<noteq> k)"
  using lookup_rows by (metis not_None_eq)

lemma lookup_key: "wf t \<Longrightarrow> lookup k t = Some r \<Longrightarrow> key r = k"
  using lookup_rows by blast

lemma lookup_ins:
  assumes "wf t" and "lookup (key r) t = None"
  shows "lookup k (ins r t) = (if k = key r then Some r else lookup k t)"
proof -
  have wf': "wf (ins r t)" using assms by (rule wf_ins)
  show ?thesis
  proof (cases "k = key r")
    case True
    then show ?thesis using lookup_rows [OF wf'] by (auto simp: rows_ins)
  next
    case False
    have "lookup k (ins r t) = Some x \<longleftrightarrow> lookup k t = Some x" for x
      using False lookup_rows [OF wf'] lookup_rows [OF assms(1)] by (auto simp: rows_ins)
    then show ?thesis using False by (metis option.exhaust)
  qed
qed

lemma lookup_upd:
  assumes "wf t" and keep: "\<And>r. key (f r) = key r"
  shows "lookup j (upd k f t) = (if j = k then map_option f (lookup k t) else lookup j t)"
proof -
  have wf': "wf (upd k f t)" using assms by (rule wf_upd)
  have "lookup j (upd k f t) = Some x \<longleftrightarrow>
      (if j = k then map_option f (lookup k t) else lookup j t) = Some x" for x
    using lookup_rows [OF wf'] lookup_rows [OF assms(1)]
    by (auto simp: rows_upd keep image_iff split: if_splits)
  then show ?thesis by (metis option.exhaust)
qed

text \<open>A row-wise invariant survives an insert or update whose own row satisfies it.\<close>

lemma all_rows_ins: "(\<forall>r \<in> rows (ins x t). P r) \<longleftrightarrow> P x \<and> (\<forall>r \<in> rows t. P r)"
  by (auto simp: rows_ins)

lemma all_rows_upd:
  "(\<And>r. r \<in> rows t \<Longrightarrow> key r = k \<Longrightarrow> P (f r)) \<Longrightarrow> (\<And>r. r \<in> rows t \<Longrightarrow> key r \<noteq> k \<Longrightarrow> P r)
   \<Longrightarrow> \<forall>r \<in> rows (upd k f t). P r"
  by (auto simp: rows_upd)

end

text \<open>Lists of rows with distinct keys satisfy the contract, whatever the key column.\<close>

abbreviation distinct_keys :: "('r \<Rightarrow> 'k) \<Rightarrow> 'r list \<Rightarrow> bool" where
  "distinct_keys key rows \<equiv> distinct (map key rows)"

lemma find_row_Some: "distinct_keys key rows \<Longrightarrow> find_row key k rows = Some r \<longleftrightarrow> r \<in> set rows \<and> key r = k"
  unfolding find_row_def by (induction rows) (auto simp: image_iff)

lemma unique_row: "distinct_keys key rows \<Longrightarrow> find_row key k rows = Some c \<Longrightarrow> r \<in> set rows \<Longrightarrow> key r = k \<Longrightarrow> r = c"
  by (metis find_row_Some option.inject)

lemma find_row_None: "find_row key k rows = None \<longleftrightarrow> k \<notin> key ` set rows"
  unfolding find_row_def by (auto simp: find_None_iff)

lemma find_row_mem: "find_row key k rows = Some r \<Longrightarrow> r \<in> set rows \<and> key r = k"
  unfolding find_row_def by (auto simp: find_Some_iff)

lemma find_row_image: "find_row key k rows = Some r \<Longrightarrow> k \<in> key ` set rows"
  using find_row_mem by fastforce

lemma map_key_update_row: "(\<And>r. key (f r) = key r) \<Longrightarrow> map key (update_row key k f rows) = map key rows"
  unfolding update_row_def by (induction rows) auto

lemma find_row_insert [table_simps]:
  "find_row key k (insert_row r rows) =
     (case find_row key k rows of None \<Rightarrow> (if key r = k then Some r else None) | Some x \<Rightarrow> Some x)"
  unfolding find_row_def insert_row_def by (induction rows) auto

lemma find_row_update [table_simps]:
  "(\<And>r. key (f r) = key r) \<Longrightarrow>
   find_row key j (update_row key k f rows) = (if j = k then map_option f (find_row key k rows) else find_row key j rows)"
  unfolding find_row_def update_row_def by (induction rows) auto

lemma find_row_map:
  "(\<And>r. key (f r) = key r) \<Longrightarrow> find_row key k (map f rows) = map_option f (find_row key k rows)"
  unfolding find_row_def by (induction rows) auto

lemma set_update_row: "set (update_row key k f rows) = (\<lambda>r. if key r = k then f r else r) ` set rows"
  by (simp add: update_row_def)

lemma set_insert_row [table_simps]: "set (insert_row r rows) = insert r (set rows)"
  by (simp add: insert_row_def)

lemma distinct_insert_row [table_simps]: "distinct_keys key (insert_row r rows) \<longleftrightarrow> key r \<notin> key ` set rows \<and> distinct_keys key rows"
  by (auto simp: insert_row_def)

lemma map_update_row:
  "(\<And>r. g (f r) = g r) \<Longrightarrow> map g (update_row key k f rows) = map g rows"
  unfolding update_row_def by simp

lemma image_update_row:
  "(\<And>r. g (f r) = g r) \<Longrightarrow> g ` set (update_row key k f rows) = g ` set rows"
  using map_update_row [of g f key k rows] by (metis list.set_map)

lemma length_filter_key:
  "distinct_keys key rows \<Longrightarrow> find_row key k rows = Some r \<Longrightarrow> P r \<Longrightarrow> length (filter (\<lambda>x. key x = k \<and> P x) rows) = 1"
proof (induction rows)
  case (Cons x xs)
  then show ?case
    by (cases "key x = k") (auto simp: find_row_def filter_empty_conv image_iff)
qed (simp add: find_row_def)

lemma keyed_table_rows:
  "keyed_table key (find_row key) insert_row (update_row key) set (distinct_keys key)"
proof
  fix t :: "'a list" and k r
  show "distinct_keys key t \<Longrightarrow> find_row key k t = Some r \<longleftrightarrow> r \<in> set t \<and> key r = k"
    by (rule find_row_Some)
  show "set (insert_row r t) = insert r (set t)"
    by (simp add: insert_row_def)
  show "distinct_keys key t \<Longrightarrow> find_row key (key r) t = None \<Longrightarrow> distinct_keys key (insert_row r t)"
    by (simp add: insert_row_def find_row_None)
  show "set (update_row key k f t) = (\<lambda>r. if key r = k then f r else r) ` set t" for f
    by (simp add: update_row_def)
  show "distinct_keys key t \<Longrightarrow> (\<And>r. key (f r) = key r) \<Longrightarrow> distinct_keys key (update_row key k f t)" for f
    by (metis map_key_update_row)
qed

section \<open>Append-only audit trail\<close>

text \<open>
  Every mutating operation runs in one transaction: on an error nothing is kept. \<open>audited\<close> is
  the contract of such an operation towards the audit trail: it only ever appends to it. The
  client's lemma lifts this to any sequence of operations.
\<close>

locale audited =
  fixes log :: "'s \<Rightarrow> 'e list"
    and step :: "'s \<Rightarrow> 's \<Rightarrow> bool"
  assumes step_appends: "step s t \<Longrightarrow> prefix (log s) (log t)"
begin

lemma run_appends: "step\<^sup>*\<^sup>* s t \<Longrightarrow> prefix (log s) (log t)"
  by (induction rule: rtranclp_induct) (auto intro: prefix_order.trans step_appends)

lemma event_never_lost: "step\<^sup>*\<^sup>* s t \<Longrightarrow> e \<in> set (log s) \<Longrightarrow> e \<in> set (log t)"
  using run_appends set_mono_prefix by blast

end

section \<open>Invariants\<close>

text \<open>
  An invariant of a step relation holds after any run that starts in it.
\<close>

locale preserved =
  fixes inv :: "'s \<Rightarrow> bool"
    and step :: "'s \<Rightarrow> 's \<Rightarrow> bool"
  assumes step_inv: "inv s \<Longrightarrow> step s t \<Longrightarrow> inv t"
begin

lemma run_inv: "step\<^sup>*\<^sup>* s t \<Longrightarrow> inv s \<Longrightarrow> inv t"
  by (induction rule: rtranclp_induct) (auto intro: step_inv)

end

section \<open>Status lifecycles\<close>

text \<open>
  A lifecycle is an allow-list of transitions between the statuses of a row, and the contract
  that a step changes the status of a row only along that list and never removes the row.
  Its clients get: statuses move along the reflexive-transitive closure of the list, and a
  status without successors is final.
\<close>

locale lifecycle =
  fixes allowed :: "'st \<Rightarrow> 'st list"
    and status_of :: "'s \<Rightarrow> 'k \<Rightarrow> 'st option"
    and step :: "'s \<Rightarrow> 's \<Rightarrow> bool"
  assumes step_status: "step s t \<Longrightarrow> status_of s k = Some a \<Longrightarrow>
      \<exists>b. status_of t k = Some b \<and> (b = a \<or> b \<in> set (allowed a))"
begin

lemma run_status:
  assumes "step\<^sup>*\<^sup>* s t" and "status_of s k = Some a"
  shows "\<exists>b. status_of t k = Some b \<and> (\<lambda>x y. y \<in> set (allowed x))\<^sup>*\<^sup>* a b"
  using assms(1)
proof (induction rule: rtranclp_induct)
  case base
  then show ?case using assms(2) by blast
next
  case (step t u)
  then obtain b where b: "status_of t k = Some b" and path: "(\<lambda>x y. y \<in> set (allowed x))\<^sup>*\<^sup>* a b"
    by blast
  from step_status [OF step.hyps(2) b] obtain c
    where "status_of u k = Some c" and "c = b \<or> c \<in> set (allowed b)" by blast
  with path show ?case by (metis rtranclp.rtrancl_into_rtrancl)
qed

lemma run_closed:
  assumes "step\<^sup>*\<^sup>* s t" and "status_of s k = Some a" and "a \<in> S"
    and closed: "\<And>x. x \<in> S \<Longrightarrow> set (allowed x) \<subseteq> S"
  shows "\<exists>b \<in> S. status_of t k = Some b"
proof -
  obtain b where b: "status_of t k = Some b" and path: "(\<lambda>x y. y \<in> set (allowed x))\<^sup>*\<^sup>* a b"
    using run_status [OF assms(1,2)] by blast
  from path have "b \<in> S"
    by (induction rule: rtranclp_induct) (use assms(3) closed in auto)
  with b show ?thesis by blast
qed

lemma run_final:
  assumes "step\<^sup>*\<^sup>* s t" and "status_of s k = Some a" and "allowed a = []"
  shows "status_of t k = Some a"
  using run_closed [OF assms(1,2), of "{a}"] assms(3) by auto

end

end
