(* ===== verification/Umoja_Store.thy ===== *)
theory Umoja_Store
  imports Umoja_Prelude
begin

text \<open>
  The canonical PostgreSQL store of the control plane: one record per table of
  \<open>database/postgresql\<close> with the columns the modelled operations read or write, and the
  database as a record of tables. The enumerations are the PostgreSQL enum types; each has
  the text under which the code compares, logs and reports it. Column defaults
  (\<open>gen_random_uuid()\<close>, \<open>now()\<close>, \<open>current_date\<close>) and the JavaScript clock are supplied by
  an environment record, so that every operation is a function. The identifier of an audit
  event and its correlation identifier are generated by PostgreSQL and read by no modelled
  operation; they are left out.
\<close>

section \<open>Roles, corridors, assets\<close>

datatype operating_role =
    Admin | Compliance_officer | Treasury_operator | Auditor | Provider_contact | Cbn_liaison
  | System_monitor

datatype corridor = NIGERIA_NGN | KENYA_KES | SOUTH_AFRICA_ZAR

datatype asset = NGN | KES | ZAR | USD | USDC | USDT

fun role_text :: "operating_role \<Rightarrow> string" where
  "role_text Admin = ''admin''"
| "role_text Compliance_officer = ''compliance_officer''"
| "role_text Treasury_operator = ''treasury_operator''"
| "role_text Auditor = ''auditor''"
| "role_text Provider_contact = ''provider_contact''"
| "role_text Cbn_liaison = ''cbn_liaison''"
| "role_text System_monitor = ''system_monitor''"

fun corridor_text :: "corridor \<Rightarrow> string" where
  "corridor_text NIGERIA_NGN = ''NIGERIA_NGN''"
| "corridor_text KENYA_KES = ''KENYA_KES''"
| "corridor_text SOUTH_AFRICA_ZAR = ''SOUTH_AFRICA_ZAR''"

record actor =
  openId :: string
  role :: operating_role

record env =
  js_now :: instant
  pg_now :: instant
  pg_today :: date
  new_uuid :: uuid
  node_uuid :: uuid

section \<open>Status enumerations\<close>

datatype payment_status =
    PS_draft | PS_pending_policy_decision | PS_blocked | PS_manual_review | PS_approved
  | PS_executing | PS_partially_completed | PS_completed | PS_failed | PS_cancelled

fun payment_status_text :: "payment_status \<Rightarrow> string" where
  "payment_status_text PS_draft = ''draft''"
| "payment_status_text PS_pending_policy_decision = ''pending_policy_decision''"
| "payment_status_text PS_blocked = ''blocked''"
| "payment_status_text PS_manual_review = ''manual_review''"
| "payment_status_text PS_approved = ''approved''"
| "payment_status_text PS_executing = ''executing''"
| "payment_status_text PS_partially_completed = ''partially_completed''"
| "payment_status_text PS_completed = ''completed''"
| "payment_status_text PS_failed = ''failed''"
| "payment_status_text PS_cancelled = ''cancelled''"

datatype rate_lock_status = RL_locked | RL_expired | RL_cancelled

fun rate_lock_status_text :: "rate_lock_status \<Rightarrow> string" where
  "rate_lock_status_text RL_locked = ''locked''"
| "rate_lock_status_text RL_expired = ''expired''"
| "rate_lock_status_text RL_cancelled = ''cancelled''"

datatype screening_state =
    SC_not_run | SC_clear | SC_potential_match | SC_confirmed_match | SC_source_unavailable

fun screening_state_text :: "screening_state \<Rightarrow> string" where
  "screening_state_text SC_not_run = ''not_run''"
| "screening_state_text SC_clear = ''clear''"
| "screening_state_text SC_potential_match = ''potential_match''"
| "screening_state_text SC_confirmed_match = ''confirmed_match''"
| "screening_state_text SC_source_unavailable = ''source_unavailable''"

datatype authorization_status =
    AU_pending_review | AU_verified | AU_expired | AU_suspended | AU_rejected

fun authorization_status_text :: "authorization_status \<Rightarrow> string" where
  "authorization_status_text AU_pending_review = ''pending_review''"
| "authorization_status_text AU_verified = ''verified''"
| "authorization_status_text AU_expired = ''expired''"
| "authorization_status_text AU_suspended = ''suspended''"
| "authorization_status_text AU_rejected = ''rejected''"

datatype integration_state =
    IN_unconfigured | IN_credential_pending | IN_verification_pending | IN_active | IN_suspended | IN_failed

fun integration_state_text :: "integration_state \<Rightarrow> string" where
  "integration_state_text IN_unconfigured = ''unconfigured''"
| "integration_state_text IN_credential_pending = ''credential_pending''"
| "integration_state_text IN_verification_pending = ''verification_pending''"
| "integration_state_text IN_active = ''active''"
| "integration_state_text IN_suspended = ''suspended''"
| "integration_state_text IN_failed = ''failed''"

datatype case_status = CC_open | CC_under_review | CC_cleared | CC_escalated | CC_reported | CC_closed

fun case_status_text :: "case_status \<Rightarrow> string" where
  "case_status_text CC_open = ''open''"
| "case_status_text CC_under_review = ''under_review''"
| "case_status_text CC_cleared = ''cleared''"
| "case_status_text CC_escalated = ''escalated''"
| "case_status_text CC_reported = ''reported''"
| "case_status_text CC_closed = ''closed''"

datatype alert_state = CA_open | CA_acknowledged | CA_escalated | CA_dismissed

fun alert_state_text :: "alert_state \<Rightarrow> string" where
  "alert_state_text CA_open = ''open''"
| "alert_state_text CA_acknowledged = ''acknowledged''"
| "alert_state_text CA_escalated = ''escalated''"
| "alert_state_text CA_dismissed = ''dismissed''"

datatype alert_type =
    Liquidity_threshold | Payment_failure | Compliance_flag | Regulatory_deadline | Segregation_of_duties

fun alert_type_text :: "alert_type \<Rightarrow> string" where
  "alert_type_text Liquidity_threshold = ''liquidity_threshold''"
| "alert_type_text Payment_failure = ''payment_failure''"
| "alert_type_text Compliance_flag = ''compliance_flag''"
| "alert_type_text Regulatory_deadline = ''regulatory_deadline''"
| "alert_type_text Segregation_of_duties = ''segregation_of_duties''"

datatype severity = Low | Medium | High | Critical

fun severity_text :: "severity \<Rightarrow> string" where
  "severity_text Low = ''low''"
| "severity_text Medium = ''medium''"
| "severity_text High = ''high''"
| "severity_text Critical = ''critical''"

datatype filing_status =
    SF_draft | SF_under_review | SF_approved_for_submission | SF_pending_submission | SF_submitted
  | SF_submission_unavailable | SF_rejected

fun filing_status_text :: "filing_status \<Rightarrow> string" where
  "filing_status_text SF_draft = ''draft''"
| "filing_status_text SF_under_review = ''under_review''"
| "filing_status_text SF_approved_for_submission = ''approved_for_submission''"
| "filing_status_text SF_pending_submission = ''pending_submission''"
| "filing_status_text SF_submitted = ''submitted''"
| "filing_status_text SF_submission_unavailable = ''submission_unavailable''"
| "filing_status_text SF_rejected = ''rejected''"

datatype onboarding_stage =
    OB_legal_onboarding | OB_technical_readiness | OB_pilot | OB_steady_state | OB_recertification_due | OB_blocked

fun onboarding_stage_text :: "onboarding_stage \<Rightarrow> string" where
  "onboarding_stage_text OB_legal_onboarding = ''legal_onboarding''"
| "onboarding_stage_text OB_technical_readiness = ''technical_readiness''"
| "onboarding_stage_text OB_pilot = ''pilot''"
| "onboarding_stage_text OB_steady_state = ''steady_state''"
| "onboarding_stage_text OB_recertification_due = ''recertification_due''"
| "onboarding_stage_text OB_blocked = ''blocked''"

datatype onboarding_gate = Gate_legal | Gate_technical | Gate_pilot

fun onboarding_gate_text :: "onboarding_gate \<Rightarrow> string" where
  "onboarding_gate_text Gate_legal = ''legal''"
| "onboarding_gate_text Gate_technical = ''technical''"
| "onboarding_gate_text Gate_pilot = ''pilot''"

datatype gate_decision = Decision_approved | Decision_blocked

fun gate_decision_text :: "gate_decision \<Rightarrow> string" where
  "gate_decision_text Decision_approved = ''approved''"
| "gate_decision_text Decision_blocked = ''blocked''"

datatype customer_archetype = Importer | Exporter | Intercompany_rebalancing | Payroll_operator

fun customer_archetype_text :: "customer_archetype \<Rightarrow> string" where
  "customer_archetype_text Importer = ''importer''"
| "customer_archetype_text Exporter = ''exporter''"
| "customer_archetype_text Intercompany_rebalancing = ''intercompany_rebalancing''"
| "customer_archetype_text Payroll_operator = ''payroll_operator''"

datatype customer_tier = Smb | Mid | Enterprise

fun customer_tier_text :: "customer_tier \<Rightarrow> string" where
  "customer_tier_text Smb = ''smb''"
| "customer_tier_text Mid = ''mid''"
| "customer_tier_text Enterprise = ''enterprise''"

datatype operator_phase = OP_role_access_request | OP_lms_enrolment | OP_shadow_period | OP_steady_state

datatype engagement_phase = AE_engagement_letter | AE_access_provisioning | AE_audit_fieldwork | AE_annual_review

datatype assurance_area =
    Controlled_live_test | Governance_legal_ownership | Aml_cft_cpf_operations | Customer_asset_safeguarding
  | Cybersecurity_resilience | Consumer_incident_reporting

fun assurance_area_text :: "assurance_area \<Rightarrow> string" where
  "assurance_area_text Controlled_live_test = ''controlled_live_test''"
| "assurance_area_text Governance_legal_ownership = ''governance_legal_ownership''"
| "assurance_area_text Aml_cft_cpf_operations = ''aml_cft_cpf_operations''"
| "assurance_area_text Customer_asset_safeguarding = ''customer_asset_safeguarding''"
| "assurance_area_text Cybersecurity_resilience = ''cybersecurity_resilience''"
| "assurance_area_text Consumer_incident_reporting = ''consumer_incident_reporting''"

datatype assurance_status = RA_open | RA_evidence_recorded | RA_externally_verified | RA_rejected

datatype sandbox_track = Vasp | Data_enabled_non_vasp

fun sandbox_track_text :: "sandbox_track \<Rightarrow> string" where
  "sandbox_track_text Vasp = ''vasp''"
| "sandbox_track_text Data_enabled_non_vasp = ''data_enabled_non_vasp''"

datatype evaluation_state = EV_clean | EV_exceptions_detected | EV_indeterminate

fun evaluation_state_text :: "evaluation_state \<Rightarrow> string" where
  "evaluation_state_text EV_clean = ''clean''"
| "evaluation_state_text EV_exceptions_detected = ''exceptions_detected''"
| "evaluation_state_text EV_indeterminate = ''indeterminate''"

datatype recommendation_status = TR_proposed | TR_approved | TR_rejected | TR_expired | TR_superseded

fun recommendation_status_text :: "recommendation_status \<Rightarrow> string" where
  "recommendation_status_text TR_proposed = ''proposed''"
| "recommendation_status_text TR_approved = ''approved''"
| "recommendation_status_text TR_rejected = ''rejected''"
| "recommendation_status_text TR_expired = ''expired''"
| "recommendation_status_text TR_superseded = ''superseded''"

datatype report_status =
    RS_draft | RS_under_review | RS_approved | RS_validated | RS_pending_submission | RS_submitted | RS_rejected
  | RS_submission_unavailable

fun report_status_text :: "report_status \<Rightarrow> string" where
  "report_status_text RS_draft = ''draft''"
| "report_status_text RS_under_review = ''under_review''"
| "report_status_text RS_approved = ''approved''"
| "report_status_text RS_validated = ''validated''"
| "report_status_text RS_pending_submission = ''pending_submission''"
| "report_status_text RS_submitted = ''submitted''"
| "report_status_text RS_rejected = ''rejected''"
| "report_status_text RS_submission_unavailable = ''submission_unavailable''"

datatype review_status = RV_current | RV_due | RV_overdue | RV_escalated

fun review_status_text :: "review_status \<Rightarrow> string" where
  "review_status_text RV_current = ''current''"
| "review_status_text RV_due = ''due''"
| "review_status_text RV_overdue = ''overdue''"
| "review_status_text RV_escalated = ''escalated''"

fun asset_text :: "asset \<Rightarrow> string" where
  "asset_text NGN = ''NGN''"
| "asset_text KES = ''KES''"
| "asset_text ZAR = ''ZAR''"
| "asset_text USD = ''USD''"
| "asset_text USDC = ''USDC''"
| "asset_text USDT = ''USDT''"

section \<open>Partner archetypes\<close>

datatype lp_archetype =
    LP_principal_market_maker | LP_regional_liquidity_desk | LP_stablecoin_fiat_conversion_desk | LP_otc_counterparty

fun lp_archetype_text :: "lp_archetype \<Rightarrow> string" where
  "lp_archetype_text LP_principal_market_maker = ''principal_market_maker''"
| "lp_archetype_text LP_regional_liquidity_desk = ''regional_liquidity_desk''"
| "lp_archetype_text LP_stablecoin_fiat_conversion_desk = ''stablecoin_fiat_conversion_desk''"
| "lp_archetype_text LP_otc_counterparty = ''otc_counterparty''"

datatype bank_archetype =
    BA_correspondent_bank | BA_receiving_bank | BA_settlement_bank | BA_custodian_bank | BA_issuing_bank

fun bank_archetype_text :: "bank_archetype \<Rightarrow> string" where
  "bank_archetype_text BA_correspondent_bank = ''correspondent_bank''"
| "bank_archetype_text BA_receiving_bank = ''receiving_bank''"
| "bank_archetype_text BA_settlement_bank = ''settlement_bank''"
| "bank_archetype_text BA_custodian_bank = ''custodian_bank''"
| "bank_archetype_text BA_issuing_bank = ''issuing_bank''"

datatype psp_archetype =
    PA_bank_instant_rail | PA_mobile_money | PA_virtual_card_issuer | PA_otc_cash_pickup | PA_aggregator_psp

fun psp_archetype_text :: "psp_archetype \<Rightarrow> string" where
  "psp_archetype_text PA_bank_instant_rail = ''bank_instant_rail''"
| "psp_archetype_text PA_mobile_money = ''mobile_money''"
| "psp_archetype_text PA_virtual_card_issuer = ''virtual_card_issuer''"
| "psp_archetype_text PA_otc_cash_pickup = ''otc_cash_pickup''"
| "psp_archetype_text PA_aggregator_psp = ''aggregator_psp''"

datatype stablecoin_issuer_archetype =
    SI_regulated_issuer | SI_open_issuer | SI_network

fun stablecoin_issuer_archetype_text :: "stablecoin_issuer_archetype \<Rightarrow> string" where
  "stablecoin_issuer_archetype_text SI_regulated_issuer = ''regulated_issuer''"
| "stablecoin_issuer_archetype_text SI_open_issuer = ''open_issuer''"
| "stablecoin_issuer_archetype_text SI_network = ''network''"

datatype compliance_vendor_archetype =
    CV_kyc_kyb_platform | CV_sanctions_screening | CV_chain_analytics | CV_travel_rule_vendor | CV_adverse_media

fun compliance_vendor_archetype_text :: "compliance_vendor_archetype \<Rightarrow> string" where
  "compliance_vendor_archetype_text CV_kyc_kyb_platform = ''kyc_kyb_platform''"
| "compliance_vendor_archetype_text CV_sanctions_screening = ''sanctions_screening''"
| "compliance_vendor_archetype_text CV_chain_analytics = ''chain_analytics''"
| "compliance_vendor_archetype_text CV_travel_rule_vendor = ''travel_rule_vendor''"
| "compliance_vendor_archetype_text CV_adverse_media = ''adverse_media''"

section \<open>Rows\<close>

record activity_event =
  ev_actor_subject :: string
  ev_actor_role :: operating_role
  ev_action :: string
  ev_object_type :: string
  ev_object_id :: "uuid option"
  ev_metadata :: "(string \<times> json) list"
  ev_occurred_at :: instant

record customer =
  cu_id :: uuid
  cu_legal_name :: string
  cu_registration_identifier :: string
  cu_kyc_status :: case_status
  cu_archetype :: "customer_archetype option"
  cu_tier :: "customer_tier option"
  cu_country :: "corridor option"
  cu_use_case_narrative :: "string option"

record beneficiary =
  be_id :: uuid
  be_customer_id :: uuid
  be_legal_name :: string
  be_country_code :: string
  be_bank_or_wallet_reference :: string
  be_screening_state :: screening_state

record screening_check =
  sk_id :: uuid
  sk_beneficiary_id :: uuid
  sk_integration_connection_id :: uuid
  sk_correlation_id :: uuid
  sk_screening_state :: screening_state
  sk_provider_reference :: string
  sk_source_version :: string
  sk_evidence_sha256 :: string
  sk_screened_at :: instant

record counterparty =
  cp_id :: uuid
  cp_legal_name :: string
  cp_counterparty_type :: string
  cp_jurisdiction :: string
  cp_lp_archetype :: "lp_archetype option"
  cp_bank_archetype :: "bank_archetype option"
  cp_psp_archetype :: "psp_archetype option"
  cp_stablecoin_issuer_archetype :: "stablecoin_issuer_archetype option"
  cp_compliance_vendor_archetype :: "compliance_vendor_archetype option"

record counterparty_authorization =
  cpa_id :: uuid
  cpa_counterparty_id :: uuid
  cpa_regulator :: string
  cpa_licence_reference :: string
  cpa_scope_description :: string
  cpa_evidence_uri :: string
  cpa_valid_from :: date
  cpa_valid_to :: "date option"
  cpa_status :: authorization_status
  cpa_verified_by :: "string option"
  cpa_verified_at :: "instant option"

record health_outcome =
  ho_reachable :: bool
  ho_httpStatus :: "int option"
  ho_observedAt :: instant
  ho_detail :: string
  ho_endpoint :: string

record integration_connection =
  ic_id :: uuid
  ic_counterparty_id :: uuid
  ic_category :: string
  ic_environment :: string
  ic_documentation_url :: string
  ic_secret_reference :: "string option"
  ic_state :: integration_state
  ic_last_health_checked_at :: "instant option"
  ic_last_health_result :: "health_outcome option"

text \<open>Amounts and rates are \<open>NUMERIC(30, 12)\<close>: integers counting units of $10^{-12}$.\<close>

record market_observation =
  mo_id :: uuid
  mo_integration_connection_id :: uuid
  mo_base_asset :: asset
  mo_quote_asset :: asset
  mo_rate :: int
  mo_observed_at :: instant
  mo_source_reference :: string

record rate_lock =
  rl_id :: uuid
  rl_market_observation_id :: uuid
  rl_payment_order_id :: "uuid option"
  rl_corridor :: corridor
  rl_base_asset :: asset
  rl_quote_asset :: asset
  rl_locked_rate :: int
  rl_status :: rate_lock_status
  rl_expires_at :: instant
  rl_created_by :: string

record payment_order =
  po_id :: uuid
  po_idempotency_key :: string
  po_customer_id :: uuid
  po_beneficiary_id :: uuid
  po_corridor :: corridor
  po_source_currency :: asset
  po_source_amount :: int
  po_target_currency :: asset
  po_target_amount :: int
  po_status :: payment_status
  po_policy_decision_id :: "uuid option"
  po_provider_finality_reference :: "string option"
  po_created_by :: string
  po_updated_at :: instant

record payment_leg =
  pl_id :: uuid
  pl_payment_order_id :: uuid
  pl_sequence_number :: int
  pl_leg_kind :: string
  pl_counterparty_id :: "uuid option"
  pl_status :: payment_status
  pl_provider_instruction_reference :: "string option"
  pl_provider_finality_reference :: "string option"

record alert_policy =
  ap_id :: uuid
  ap_alert_type :: alert_type
  ap_corridor :: "corridor option"
  ap_threshold :: json
  ap_enabled :: bool
  ap_created_by :: string
  ap_created_at :: instant

record compliance_alert =
  ca_id :: uuid
  ca_alert_policy_id :: uuid
  ca_alert_type :: alert_type
  ca_corridor :: "corridor option"
  ca_severity :: severity
  ca_state :: alert_state
  ca_source_reference :: string
  ca_evidence :: json
  ca_detected_at :: instant
  ca_payment_order_id :: "uuid option"
  ca_customer_id :: "uuid option"
  ca_counterparty_id :: "uuid option"
  ca_acknowledged_by :: "(string \<times> operating_role) option"
  ca_acknowledged_at :: "instant option"
  ca_acknowledgement_note :: "string option"
  ca_escalated_case_id :: "uuid option"
  ca_escalated_by :: "(string \<times> operating_role) option"
  ca_escalated_at :: "instant option"
  ca_dismissed_by :: "(string \<times> operating_role) option"
  ca_dismissed_at :: "instant option"
  ca_dismissal_reason :: "string option"

record compliance_case =
  cc_id :: uuid
  cc_payment_order_id :: "uuid option"
  cc_customer_id :: "uuid option"
  cc_case_type :: string
  cc_status :: case_status
  cc_severity :: severity
  cc_source_reference :: string
  cc_decision_reason :: "string option"
  cc_opened_at :: instant
  cc_closed_at :: "instant option"

record sar_str_filing =
  sf_id :: uuid
  sf_compliance_case_id :: uuid
  sf_corridor :: corridor
  sf_filing_type :: string
  sf_filing_authority :: string
  sf_source_reference :: string
  sf_status :: filing_status
  sf_submission_reference :: "string option"
  sf_created_by :: string
  sf_updated_at :: instant

record counterparty_onboarding =
  ob_id :: uuid
  ob_counterparty_id :: uuid
  ob_country_overlays :: "corridor list"
  ob_stage :: onboarding_stage
  ob_cycle_number :: int
  ob_legal_evidence_uri :: string
  ob_technical_evidence_uri :: "string option"
  ob_pilot_evidence_uri :: "string option"
  ob_recertification_due_at :: "instant option"
  ob_current_reason :: "string option"
  ob_created_by :: string
  ob_updated_at :: instant

record onboarding_gate_decision =
  gd_onboarding_id :: uuid
  gd_cycle_number :: int
  gd_gate :: onboarding_gate
  gd_decision :: gate_decision
  gd_evidence_uri :: string
  gd_rationale :: string
  gd_decided_by :: string
  gd_decided_role :: operating_role

record liquidity_position =
  lp_id :: uuid
  lp_corridor :: corridor
  lp_currency :: asset
  lp_account_kind :: string
  lp_account_reference :: string
  lp_available_amount :: int
  lp_reserved_amount :: int
  lp_source_reference :: string
  lp_reconciled_at :: instant
  lp_recorded_by :: string

text \<open>Percentages are \<open>NUMERIC(8, 6)\<close>: integers counting units of $10^{-6}$.\<close>

record buffer_policy =
  bp_id :: uuid
  bp_corridor :: corridor
  bp_currency :: asset
  bp_policy_version :: string
  bp_approved_daily_outflow :: int
  bp_minimum_buffer_pct :: int
  bp_target_buffer_pct :: int
  bp_amber_buffer_pct :: int
  bp_max_recommendation_pct_of_target :: int
  bp_permitted_account_kinds :: "string list"
  bp_effective_from :: instant
  bp_effective_to :: "instant option"

record treasury_recommendation =
  tr_id :: uuid
  tr_buffer_policy_id :: uuid
  tr_corridor :: corridor
  tr_currency :: asset
  tr_reconciled_available_balance :: int
  tr_reconciled_at :: instant
  tr_balance_source_reference :: string
  tr_verified_near_term_funding_gap :: int
  tr_funding_gap_source_reference :: string
  tr_minimum_buffer_amount :: int
  tr_target_buffer_amount :: int
  tr_computed_recommendation_amount :: int
  tr_status :: recommendation_status
  tr_proposed_by :: string
  tr_proposed_at :: instant
  tr_decided_by :: "string option"
  tr_decided_at :: "instant option"
  tr_decision_reason :: "string option"
  tr_expires_at :: instant

record notification_delivery =
  nd_alert_policy_id :: uuid
  nd_alert_type :: alert_type
  nd_accepted :: bool
  nd_destination :: string
  nd_correlation_id :: uuid
  nd_payload_hash :: string
  nd_created_at :: instant

record legal_entity =
  le_id :: uuid
  le_legal_name :: string
  le_jurisdiction :: string
  le_registration_identifier :: string

record regulatory_report =
  rr_id :: uuid
  rr_regulator :: string
  rr_corridor :: corridor
  rr_report_type :: string
  rr_period_start :: date
  rr_period_end :: date
  rr_legal_entity_id :: uuid
  rr_status :: report_status
  rr_artifact_uri :: "string option"
  rr_evidence_manifest :: "json option"
  rr_submission_reference :: "string option"
  rr_status_reason :: "string option"
  rr_reviewed_by :: "string option"
  rr_approved_by :: "string option"

record risk_assessment =
  ra_id :: uuid
  ra_counterparty_id :: uuid
  ra_risk_level :: severity
  ra_risk_score :: int
  ra_assessed_at :: instant
  ra_next_review_at :: instant
  ra_assessed_by :: string
  ra_review_status :: review_status
  ra_escalation_reason :: "string option"
  ra_escalated_by :: "string option"
  ra_escalated_at :: "instant option"

record destination_counterparty =
  dc_id :: uuid
  dc_customer_id :: uuid
  dc_counterparty_name :: string
  dc_destination_jurisdiction :: string
  dc_invoice_reference :: "string option"
  dc_created_by :: string

record use_case_decision =
  uc_id :: uuid
  uc_customer_id :: uuid
  uc_decision :: gate_decision
  uc_rationale :: string
  uc_decided_by :: string
  uc_decided_role :: operating_role
  uc_decided_at :: instant

record operator_onboarding =
  oo_id :: uuid
  oo_subject :: string
  oo_phase :: operator_phase
  oo_sod_matrix_reviewed :: bool
  oo_sod_matrix_reviewed_by :: "string option"
  oo_sod_matrix_reviewed_at :: "instant option"
  oo_sod_matrix_note :: "string option"
  oo_lms_cert_reference :: "string option"
  oo_lms_cert_assigned_at :: "instant option"
  oo_shadow_period_supervised_by :: "string option"
  oo_shadow_period_started_at :: "instant option"
  oo_shadow_period_ended_at :: "instant option"
  oo_steady_state_activated_at :: "instant option"
  oo_next_recert_due_at :: "instant option"
  oo_created_by :: string

record auditor_engagement =
  ae_id :: uuid
  ae_auditor_firm_name :: string
  ae_engagement_reference :: string
  ae_phase :: engagement_phase
  ae_engagement_letter_uri :: "string option"
  ae_engagement_letter_signed_at :: "instant option"
  ae_scope_note :: "string option"
  ae_auditor_subject :: "string option"
  ae_access_provisioned_at :: "instant option"
  ae_access_provisioned_by :: "string option"
  ae_fieldwork_note :: "string option"
  ae_fieldwork_started_at :: "instant option"
  ae_fieldwork_completed_at :: "instant option"
  ae_last_annual_review_at :: "instant option"
  ae_next_annual_review_due_at :: "instant option"
  ae_created_by :: string

record sandbox_dossier =
  sd_id :: uuid
  sd_legal_entity_id :: uuid
  sd_track :: sandbox_track
  sd_product_name :: string
  sd_product_summary :: string
  sd_created_by :: string

record assurance_item =
  ri_id :: uuid
  ri_dossier_id :: uuid
  ri_area :: assurance_area
  ri_max_points :: int
  ri_required_evidence :: string
  ri_accountable_owner_role :: string
  ri_status :: assurance_status
  ri_evidence_uri :: "string option"
  ri_evidence_sha256 :: "string option"
  ri_evidence_recorded_by :: "string option"
  ri_evidence_recorded_at :: "instant option"
  ri_external_verifier :: "string option"
  ri_external_attestation_uri :: "string option"
  ri_external_attestation_sha256 :: "string option"
  ri_verified_by :: "string option"
  ri_verified_at :: "instant option"
  ri_verification_rationale :: "string option"
  ri_rejection_rationale :: "string option"

record evaluation_run =
  er_correlation_id :: uuid
  er_evaluator_subject :: string
  er_evaluator_role :: operating_role
  er_query_version :: string
  er_evaluation_state :: evaluation_state
  er_exception_count :: nat
  er_exception_digest :: "string option"
  er_error_summary :: "string option"

section \<open>The database\<close>

record db =
  activity_events :: "activity_event list"
  customers :: "customer list"
  beneficiaries :: "beneficiary list"
  aml_screening_checks :: "screening_check list"
  counterparties :: "counterparty list"
  counterparty_authorizations :: "counterparty_authorization list"
  integration_connections :: "integration_connection list"
  market_observations :: "market_observation list"
  rate_locks :: "rate_lock list"
  payment_orders :: "payment_order list"
  payment_legs :: "payment_leg list"
  alert_policies :: "alert_policy list"
  compliance_alerts :: "compliance_alert list"
  compliance_cases :: "compliance_case list"
  sar_str_filings :: "sar_str_filing list"
  counterparty_onboardings :: "counterparty_onboarding list"
  onboarding_gate_decisions :: "onboarding_gate_decision list"
  liquidity_positions :: "liquidity_position list"
  treasury_buffer_policies :: "buffer_policy list"
  treasury_recommendations :: "treasury_recommendation list"
  notification_deliveries :: "notification_delivery list"
  legal_entities :: "legal_entity list"
  regulatory_reports :: "regulatory_report list"
  risk_assessments :: "risk_assessment list"
  destination_counterparties :: "destination_counterparty list"
  use_case_decisions :: "use_case_decision list"
  operator_onboardings :: "operator_onboarding list"
  auditor_engagements :: "auditor_engagement list"
  sandbox_dossiers :: "sandbox_dossier list"
  assurance_items :: "assurance_item list"
  evaluation_runs :: "evaluation_run list"

definition empty_db :: db where
  "empty_db = \<lparr>activity_events = [], customers = [], beneficiaries = [], aml_screening_checks = [],
     counterparties = [], counterparty_authorizations = [], integration_connections = [],
     market_observations = [], rate_locks = [], payment_orders = [], payment_legs = [],
     alert_policies = [], compliance_alerts = [], compliance_cases = [], sar_str_filings = [],
     counterparty_onboardings = [], onboarding_gate_decisions = [],
     liquidity_positions = [], treasury_buffer_policies = [], treasury_recommendations = [], notification_deliveries = [],
     legal_entities = [], regulatory_reports = [], risk_assessments = [], destination_counterparties = [],
     use_case_decisions = [], operator_onboardings = [], auditor_engagements = [], sandbox_dossiers = [],
     assurance_items = [], evaluation_runs = []\<rparr>"

text \<open>
  An operation returns its result with the database it commits, or the error that made it
  roll back. \<open>committed\<close> is the database after the call: the old one on an error.
\<close>

type_synonym 'r tx = "db \<Rightarrow> ('r \<times> db) result"

definition committed :: "('r \<times> db) result \<Rightarrow> db \<Rightarrow> db" where
  "committed out db = (case out of Inl _ \<Rightarrow> db | Inr (_, db') \<Rightarrow> db')"

lemma committed_simps [simp]:
  "committed (Inl e) db = db"
  "committed (Inr (r, db')) db = db'"
  by (simp_all add: committed_def)

section \<open>The audit trail\<close>

definition insert_event ::
  "env \<Rightarrow> actor \<Rightarrow> string \<Rightarrow> string \<Rightarrow> uuid option \<Rightarrow> (string \<times> json) list \<Rightarrow> db \<Rightarrow> db" where
  "insert_event e a action object_type object_id metadata db =
     db\<lparr>activity_events := activity_events db @
       [\<lparr>ev_actor_subject = openId a, ev_actor_role = role a, ev_action = action,
         ev_object_type = object_type, ev_object_id = object_id, ev_metadata = metadata,
         ev_occurred_at = pg_now e\<rparr>]\<rparr>"

lemma insert_event_tables [simp]:
  "customers (insert_event e a ac ot oi md db) = customers db"
  "beneficiaries (insert_event e a ac ot oi md db) = beneficiaries db"
  "aml_screening_checks (insert_event e a ac ot oi md db) = aml_screening_checks db"
  "counterparties (insert_event e a ac ot oi md db) = counterparties db"
  "counterparty_authorizations (insert_event e a ac ot oi md db) = counterparty_authorizations db"
  "integration_connections (insert_event e a ac ot oi md db) = integration_connections db"
  "market_observations (insert_event e a ac ot oi md db) = market_observations db"
  "rate_locks (insert_event e a ac ot oi md db) = rate_locks db"
  "payment_orders (insert_event e a ac ot oi md db) = payment_orders db"
  "payment_legs (insert_event e a ac ot oi md db) = payment_legs db"
  "alert_policies (insert_event e a ac ot oi md db) = alert_policies db"
  "compliance_alerts (insert_event e a ac ot oi md db) = compliance_alerts db"
  "compliance_cases (insert_event e a ac ot oi md db) = compliance_cases db"
  "sar_str_filings (insert_event e a ac ot oi md db) = sar_str_filings db"
  "counterparty_onboardings (insert_event e a ac ot oi md db) = counterparty_onboardings db"
  "onboarding_gate_decisions (insert_event e a ac ot oi md db) = onboarding_gate_decisions db"
  "liquidity_positions (insert_event e a ac ot oi md db) = liquidity_positions db"
  "treasury_buffer_policies (insert_event e a ac ot oi md db) = treasury_buffer_policies db"
  "treasury_recommendations (insert_event e a ac ot oi md db) = treasury_recommendations db"
  "notification_deliveries (insert_event e a ac ot oi md db) = notification_deliveries db"
  "legal_entities (insert_event e a ac ot oi md db) = legal_entities db"
  "regulatory_reports (insert_event e a ac ot oi md db) = regulatory_reports db"
  "risk_assessments (insert_event e a ac ot oi md db) = risk_assessments db"
  "destination_counterparties (insert_event e a ac ot oi md db) = destination_counterparties db"
  "use_case_decisions (insert_event e a ac ot oi md db) = use_case_decisions db"
  "operator_onboardings (insert_event e a ac ot oi md db) = operator_onboardings db"
  "auditor_engagements (insert_event e a ac ot oi md db) = auditor_engagements db"
  "sandbox_dossiers (insert_event e a ac ot oi md db) = sandbox_dossiers db"
  "assurance_items (insert_event e a ac ot oi md db) = assurance_items db"
  "evaluation_runs (insert_event e a ac ot oi md db) = evaluation_runs db"
  by (simp_all add: insert_event_def)

lemma insert_event_log:
  "activity_events (insert_event e a ac ot oi md db) = activity_events db @
     [\<lparr>ev_actor_subject = openId a, ev_actor_role = role a, ev_action = ac, ev_object_type = ot,
       ev_object_id = oi, ev_metadata = md, ev_occurred_at = pg_now e\<rparr>]"
  by (simp add: insert_event_def)

lemma prefix_insert_event [simp]:
  "prefix (activity_events db) (activity_events (insert_event e a ac ot oi md db))"
  by (simp add: insert_event_log)

section \<open>Notification deliveries\<close>

text \<open>
  \<open>INSERT INTO notification_deliveries\<close>: the table's check names four alert types. Migration
  0041 widens the checks of \<open>alert_policies\<close> and \<open>compliance_alerts\<close>, not this one.
\<close>

definition delivery_alert_types :: "alert_type list" where
  "delivery_alert_types = [Liquidity_threshold, Payment_failure, Compliance_flag, Regulatory_deadline]"

definition insert_delivery :: "notification_delivery \<Rightarrow> db \<Rightarrow> db result" where
  "insert_delivery d db =
    (if nd_alert_type d \<notin> set delivery_alert_types then Inl (CheckViolation ''notification_deliveries'')
     else if find_row ap_id (nd_alert_policy_id d) (alert_policies db) = None then Inl (ForeignKeyViolation ''notification_deliveries'')
     else Inr (db\<lparr>notification_deliveries := insert_row d (notification_deliveries db)\<rparr>))"

section \<open>The tables satisfy the table contract\<close>

interpretation customer_table: keyed_table cu_id "find_row cu_id" insert_row "update_row cu_id" set "distinct_keys cu_id"
  by (rule keyed_table_rows)

interpretation beneficiary_table: keyed_table be_id "find_row be_id" insert_row "update_row be_id" set "distinct_keys be_id"
  by (rule keyed_table_rows)

interpretation authorization_table: keyed_table cpa_id "find_row cpa_id" insert_row "update_row cpa_id" set "distinct_keys cpa_id"
  by (rule keyed_table_rows)

interpretation integration_table: keyed_table ic_id "find_row ic_id" insert_row "update_row ic_id" set "distinct_keys ic_id"
  by (rule keyed_table_rows)

interpretation rate_lock_table: keyed_table rl_id "find_row rl_id" insert_row "update_row rl_id" set "distinct_keys rl_id"
  by (rule keyed_table_rows)

interpretation order_table: keyed_table po_id "find_row po_id" insert_row "update_row po_id" set "distinct_keys po_id"
  by (rule keyed_table_rows)

interpretation leg_table: keyed_table pl_id "find_row pl_id" insert_row "update_row pl_id" set "distinct_keys pl_id"
  by (rule keyed_table_rows)

interpretation alert_table: keyed_table ca_id "find_row ca_id" insert_row "update_row ca_id" set "distinct_keys ca_id"
  by (rule keyed_table_rows)

interpretation case_table: keyed_table cc_id "find_row cc_id" insert_row "update_row cc_id" set "distinct_keys cc_id"
  by (rule keyed_table_rows)

interpretation filing_table: keyed_table sf_id "find_row sf_id" insert_row "update_row sf_id" set "distinct_keys sf_id"
  by (rule keyed_table_rows)

interpretation onboarding_table: keyed_table ob_id "find_row ob_id" insert_row "update_row ob_id" set "distinct_keys ob_id"
  by (rule keyed_table_rows)

end
