(* ===== verification/Payment_Workflow.thy ===== *)
theory Payment_Workflow
  imports Umoja_Store
begin

text \<open>
  The payment-order, payment-leg and rate-lock lifecycle (\<open>server/paymentWorkflow.ts\<close> and the
  rate-lock procedures of \<open>server/postgres.ts\<close>). An order is drafted from a live rate lock; its
  target amount is derived from the locked rate; the lock is consumed by the order. Orders and
  legs then move through internal preparation states only.

  Operations come first, in the order of the source; then the step relation they generate, the
  invariants of the reachable states, and the behaviour of single operations.
\<close>

section \<open>Amounts\<close>

text \<open>
  The pattern \<open>/^\d+(\.\d{1,12})?$/\<close> and the \<open>numeric\<close> value of a text that matches it, in
  units of $10^{-12}$.
\<close>

definition amount_pattern :: "string \<Rightarrow> bool" where
  "amount_pattern s \<longleftrightarrow> takeWhile is_digit s \<noteq> [] \<and>
     (case dropWhile is_digit s of
        [] \<Rightarrow> True
      | c # f \<Rightarrow> c = CHR ''.'' \<and> f \<noteq> [] \<and> length f \<le> 12 \<and> list_all is_digit f)"

definition numeric_of_text :: "string \<Rightarrow> int" where
  "numeric_of_text s =
     (let f = drop 1 (dropWhile is_digit s)
      in digits_value (takeWhile is_digit s) * 10 ^ 12 + digits_value f * 10 ^ (12 - length f))"

text \<open>
  \<open>round(x, 8)\<close> of PostgreSQL's \<open>numeric\<close> rounds half away from zero. The product of two
  values in units of $10^{-12}$ is in units of $10^{-24}$; the result is in units of $10^{-8}$.
\<close>

definition pg_round8 :: "int \<Rightarrow> int" where
  "pg_round8 x = sgn x * ((\<bar>x\<bar> + 5 * 10 ^ 15) div 10 ^ 16)"

definition derive_target :: "int \<Rightarrow> int \<Rightarrow> int" where
  "derive_target source_amount locked_rate = pg_round8 (source_amount * locked_rate)"

text \<open>A value assigned to a \<open>NUMERIC(30, 12)\<close> column has at most 30 digits.\<close>

definition fits_numeric_30_12 :: "int \<Rightarrow> bool" where
  "fits_numeric_30_12 x \<longleftrightarrow> \<bar>x\<bar> < 10 ^ 30"

section \<open>Events\<close>

definition recordEvent ::
  "env \<Rightarrow> actor \<Rightarrow> string \<Rightarrow> string \<Rightarrow> uuid \<Rightarrow> (string \<times> json) list \<Rightarrow> db \<Rightarrow> db" where
  "recordEvent e a action object_type object_id metadata db =
     insert_event e a action object_type (Some object_id)
       (metadata @ [(''source'', JStr ''postgres-control-plane'')]) db"

text \<open>\<open>recordActivity\<close> of \<open>server/postgres.ts\<close>.\<close>

definition recordActivity ::
  "env \<Rightarrow> actor \<Rightarrow> string \<Rightarrow> string \<Rightarrow> uuid \<Rightarrow> (string \<times> json) list \<Rightarrow> db \<Rightarrow> db" where
  "recordActivity e a action object_type object_id metadata db =
     insert_event e a action object_type (Some object_id) metadata db"

section \<open>Rate locks\<close>

definition createPostgresRateLock ::
  "env \<Rightarrow> actor \<Rightarrow> uuid \<Rightarrow> corridor \<Rightarrow> instant \<Rightarrow> rate_lock tx" where
  "createPostgresRateLock e a marketObservationId cor expiresAt db =
    (case find_row mo_id marketObservationId (market_observations db) of
       None \<Rightarrow> Inl (Refused ''rate lock requires an existing canonical market observation'')
     | Some obs \<Rightarrow>
         if expiresAt \<le> js_now e then Inl (Refused ''rate lock expiry must be in the future'')
         else if \<not> 0 < mo_rate obs \<or> mo_base_asset obs = mo_quote_asset obs then Inl (CheckViolation ''rate_locks'')
         else if find_row rl_id (new_uuid e) (rate_locks db) \<noteq> None then Inl (UniqueViolation ''rate_locks'')
         else
           let lock = \<lparr>rl_id = new_uuid e, rl_market_observation_id = mo_id obs, rl_payment_order_id = None,
                 rl_corridor = cor, rl_base_asset = mo_base_asset obs, rl_quote_asset = mo_quote_asset obs,
                 rl_locked_rate = mo_rate obs, rl_status = RL_locked, rl_expires_at = expiresAt,
                 rl_created_by = openId a\<rparr>
           in Inr (lock,
                recordActivity e a ''rate_lock.created'' ''rate_lock'' (rl_id lock)
                  [(''marketObservationId'', jid (mo_id obs)), (''corridor'', JStr (corridor_text cor)),
                   (''lockedRate'', JNum (rl_locked_rate lock)),
                   (''derivedFromObservationAt'', JTime (mo_observed_at obs)),
                   (''executionEnabled'', JBool False)]
                  (db\<lparr>rate_locks := insert_row lock (rate_locks db)\<rparr>)))"

text \<open>
  \<open>expirePostgresRateLocks\<close>: every locked row whose expiry has passed becomes expired, and
  each gets its own event.
\<close>

definition elapsed :: "instant \<Rightarrow> rate_lock \<Rightarrow> bool" where
  "elapsed now l \<longleftrightarrow> rl_status l = RL_locked \<and> rl_expires_at l \<le> now"

definition record_expiry :: "env \<Rightarrow> actor \<Rightarrow> rate_lock \<Rightarrow> db \<Rightarrow> db" where
  "record_expiry e a l =
     recordEvent e a ''rate_lock.expired'' ''rate_lock'' (rl_id l)
       [(''from'', JStr ''locked''), (''to'', JStr ''expired''), (''expiresAt'', JTime (rl_expires_at l)),
        (''reason'', JStr ''expiry_elapsed'')]"

definition expirePostgresRateLocks :: "env \<Rightarrow> actor \<Rightarrow> (nat \<times> uuid list) tx" where
  "expirePostgresRateLocks e a db =
    (let rows = filter (elapsed (pg_now e)) (rate_locks db);
         db1 = db\<lparr>rate_locks := map (\<lambda>l. if elapsed (pg_now e) l then l\<lparr>rl_status := RL_expired\<rparr> else l) (rate_locks db)\<rparr>
     in Inr ((length rows, map rl_id rows), fold (record_expiry e a) rows db1))"

text \<open>
  \<open>cancelPostgresRateLock\<close> exists twice. The one of \<open>paymentWorkflow.ts\<close> requires a reason and
  refuses a lock bound to an order; the one of \<open>postgres.ts\<close>, which the router's
  \<open>cancelRateLock\<close> procedure calls, does neither.
\<close>

definition workflow_cancelPostgresRateLock ::
  "env \<Rightarrow> actor \<Rightarrow> uuid \<Rightarrow> string \<Rightarrow> (uuid \<times> rate_lock_status) tx" where
  "workflow_cancelPostgresRateLock e a rateLockId reason db =
    (if length (js_trim reason) < 10 then Inl (Refused ''A substantive cancellation reason is required'')
     else case find_row rl_id rateLockId (rate_locks db) of
       None \<Rightarrow> Inl (Refused ''Rate lock was not found'')
     | Some lock \<Rightarrow>
         if rl_status lock \<noteq> RL_locked then
           Inl (Refused (''Only a live rate lock may be cancelled; this lock is '' @ rate_lock_status_text (rl_status lock)))
         else if rl_payment_order_id lock \<noteq> None then
           Inl (Refused ''Rate lock is bound to a payment order and may not be cancelled'')
         else Inr ((rl_id lock, RL_cancelled),
           recordEvent e a ''rate_lock.cancelled'' ''rate_lock'' (rl_id lock)
             [(''from'', JStr ''locked''), (''to'', JStr ''cancelled''),
              (''expiresAt'', JTime (rl_expires_at lock)), (''reason'', JStr reason)]
             (db\<lparr>rate_locks := update_row rl_id rateLockId (\<lambda>l. l\<lparr>rl_status := RL_cancelled\<rparr>) (rate_locks db)\<rparr>)))"

definition postgres_cancelPostgresRateLock ::
  "env \<Rightarrow> actor \<Rightarrow> uuid \<Rightarrow> (uuid \<times> rate_lock_status) tx" where
  "postgres_cancelPostgresRateLock e a rateLockId db =
    (case find_row rl_id rateLockId (rate_locks db) of
       None \<Rightarrow> Inl (Refused ''rate lock was not found'')
     | Some lock \<Rightarrow>
         if rl_status lock \<noteq> RL_locked then Inl (Refused ''only a locked rate lock can be cancelled'')
         else Inr ((rl_id lock, RL_cancelled),
           recordActivity e a ''rate_lock.cancelled'' ''rate_lock'' (rl_id lock)
             [(''from'', JStr (rate_lock_status_text (rl_status lock))),
              (''to'', JStr (rate_lock_status_text RL_cancelled))]
             (db\<lparr>rate_locks := update_row rl_id rateLockId (\<lambda>l. l\<lparr>rl_status := RL_cancelled\<rparr>) (rate_locks db)\<rparr>)))"

section \<open>Drafting an order\<close>

record order_input =
  oi_idempotencyKey :: string
  oi_customerId :: uuid
  oi_beneficiaryId :: uuid
  oi_rateLockId :: uuid
  oi_sourceAmount :: string

record order_result =
  or_id :: uuid
  or_status :: payment_status
  or_targetAmount :: int
  or_rateLockId :: uuid
  or_lockedRate :: int
  or_idempotentReplay :: bool

definition assertBeneficiaryScreeningClear :: "screening_state \<Rightarrow> unit result" where
  "assertBeneficiaryScreeningClear st =
     (if st \<noteq> SC_clear then
        Inl (Refused (''Beneficiary screening must be clear before drafting a payment order; current state is ''
          @ screening_state_text st))
      else Inr ())"

text \<open>
  \<open>INSERT INTO payment_orders ... ON CONFLICT (idempotency_key) DO NOTHING\<close>: column types and
  row checks are evaluated first, then the conflict on the key (no row, no error), then the
  primary key and the foreign keys.
\<close>

definition insert_payment_order :: "payment_order \<Rightarrow> payment_order option tx" where
  "insert_payment_order ord db =
    (if \<not> fits_numeric_30_12 (po_source_amount ord) \<or> \<not> fits_numeric_30_12 (po_target_amount ord)
     then Inl (NumericOverflow ''payment_orders'')
     else if \<not> 0 < po_source_amount ord then Inl (CheckViolation ''payment_orders'')
     else if find_row po_idempotency_key (po_idempotency_key ord) (payment_orders db) \<noteq> None then Inr (None, db)
     else if find_row po_id (po_id ord) (payment_orders db) \<noteq> None then Inl (UniqueViolation ''payment_orders'')
     else if find_row cu_id (po_customer_id ord) (customers db) = None
        \<or> find_row be_id (po_beneficiary_id ord) (beneficiaries db) = None
     then Inl (ForeignKeyViolation ''payment_orders'')
     else Inr (Some ord, db\<lparr>payment_orders := insert_row ord (payment_orders db)\<rparr>))"

text \<open>
  The replay branch: the existing order of the key, with the lock bound to it, if any. A bound
  lock other than the presented one is refused.
\<close>

definition bound_lock :: "uuid \<Rightarrow> rate_lock list \<Rightarrow> uuid option" where
  "bound_lock orderId locks = map_option rl_id (find (\<lambda>l. rl_payment_order_id l = Some orderId) locks)"

definition replay_order :: "order_input \<Rightarrow> rate_lock \<Rightarrow> order_result tx" where
  "replay_order i lock db =
    (case find_row po_idempotency_key (oi_idempotencyKey i) (payment_orders db) of
       None \<Rightarrow> Inl (Refused ''Payment order insert did not return a record'')
     | Some replay \<Rightarrow>
         if bound_lock (po_id replay) (rate_locks db) \<noteq> None
            \<and> bound_lock (po_id replay) (rate_locks db) \<noteq> Some (rl_id lock) then
           Inl (Refused ''Idempotency key already refers to an order backed by a different rate lock'')
         else Inr (\<lparr>or_id = po_id replay, or_status = po_status replay, or_targetAmount = po_target_amount replay,
                or_rateLockId = rl_id lock, or_lockedRate = rl_locked_rate lock, or_idempotentReplay = True\<rparr>, db))"

text \<open>The row an accepted draft inserts, with the target amount derived from the lock.\<close>

definition draft_order :: "env \<Rightarrow> actor \<Rightarrow> order_input \<Rightarrow> rate_lock \<Rightarrow> payment_order" where
  "draft_order e a i lock =
    \<lparr>po_id = new_uuid e, po_idempotency_key = oi_idempotencyKey i, po_customer_id = oi_customerId i,
     po_beneficiary_id = oi_beneficiaryId i, po_corridor = rl_corridor lock,
     po_source_currency = rl_base_asset lock, po_source_amount = numeric_of_text (oi_sourceAmount i),
     po_target_currency = rl_quote_asset lock,
     po_target_amount = derive_target (numeric_of_text (oi_sourceAmount i)) (rl_locked_rate lock) * 10 ^ 4,
     po_status = PS_draft, po_policy_decision_id = None, po_provider_finality_reference = None,
     po_created_by = openId a, po_updated_at = pg_now e\<rparr>"

text \<open>
  After the insert: the drafting event, the consumption of the lock
  (\<open>UPDATE ... WHERE id = lock AND payment_order_id IS NULL\<close>, which must hit one row), and the
  consumption event.
\<close>

definition consume_lock :: "env \<Rightarrow> actor \<Rightarrow> order_input \<Rightarrow> rate_lock \<Rightarrow> payment_order \<Rightarrow> order_result tx" where
  "consume_lock e a i lock ord db =
    (let db1 = recordEvent e a ''payment_order.drafted'' ''payment_order'' (po_id ord)
                [(''rateLockId'', jid (rl_id lock)), (''lockedRate'', JNum (rl_locked_rate lock)),
                 (''corridor'', JStr (corridor_text (rl_corridor lock))),
                 (''sourceAmount'', JStr (oi_sourceAmount i)), (''targetAmount'', JNum (po_target_amount ord)),
                 (''derivation'', JStr ''target_amount = source_amount * locked_rate'')] db;
         free = (\<lambda>l. rl_id l = rl_id lock \<and> rl_payment_order_id l = None)
     in if length (filter free (rate_locks db1)) \<noteq> 1 then
          Inl (Refused ''Rate lock consumption could not be recorded; payment drafting fails closed'')
        else Inr (\<lparr>or_id = po_id ord, or_status = po_status ord, or_targetAmount = po_target_amount ord,
              or_rateLockId = rl_id lock, or_lockedRate = rl_locked_rate lock, or_idempotentReplay = False\<rparr>,
            recordEvent e a ''rate_lock.consumed'' ''rate_lock'' (rl_id lock)
              [(''paymentOrderId'', jid (po_id ord)), (''lockedRate'', JNum (rl_locked_rate lock))]
              (db1\<lparr>rate_locks := map (\<lambda>l. if free l then l\<lparr>rl_payment_order_id := Some (po_id ord)\<rparr> else l) (rate_locks db1)\<rparr>)))"

definition createPostgresPaymentOrder :: "env \<Rightarrow> actor \<Rightarrow> order_input \<Rightarrow> order_result tx" where
  "createPostgresPaymentOrder e a i db =
    (if \<not> amount_pattern (oi_sourceAmount i) \<or> oi_sourceAmount i = ''0'' then
       Inl (Refused ''A positive source amount is required'')
     else case find_row rl_id (oi_rateLockId i) (rate_locks db) of
       None \<Rightarrow> Inl (Refused ''A canonical rate lock is required before drafting a payment order'')
     | Some lock \<Rightarrow>
       if rl_status lock \<noteq> RL_locked then Inl (Refused ''Rate lock is not live; payment drafting fails closed'')
       else if rl_expires_at lock \<le> js_now e then Inl (Refused ''Rate lock has expired; payment drafting fails closed'')
       else if rl_payment_order_id lock \<noteq> None then
         Inl (Refused ''Rate lock has already been consumed by a payment order; reuse fails closed'')
       else case find_row be_id (oi_beneficiaryId i) (beneficiaries db) of
         None \<Rightarrow> Inl (Refused ''A canonical beneficiary record is required'')
       | Some target \<Rightarrow>
         if be_customer_id target \<noteq> oi_customerId i then
           Inl (Refused ''Beneficiary does not belong to the specified customer'')
         else case assertBeneficiaryScreeningClear (be_screening_state target) of
           Inl er \<Rightarrow> Inl er
         | Inr _ \<Rightarrow>
           if derive_target (numeric_of_text (oi_sourceAmount i)) (rl_locked_rate lock) = 0 then
             Inl (Refused ''Locked rate is unusable; payment drafting fails closed'')
           else case insert_payment_order (draft_order e a i lock) db of
             Inl er \<Rightarrow> Inl er
           | Inr (None, db1) \<Rightarrow> replay_order i lock db1
           | Inr (Some ord, db1) \<Rightarrow> consume_lock e a i lock ord db1)"

section \<open>Payment legs\<close>

record leg_input =
  li_paymentOrderId :: uuid
  li_sequenceNumber :: int
  li_legKind :: string
  li_counterpartyId :: uuid

definition leg_kinds :: "string list" where
  "leg_kinds = [''collection'', ''fx'', ''stablecoin_settlement'', ''payout'', ''reversal'']"

text \<open>A licence authorisation that is verified and in force on the given day.\<close>

definition currently_verified :: "date \<Rightarrow> uuid \<Rightarrow> counterparty_authorization \<Rightarrow> bool" where
  "currently_verified today cpId z \<longleftrightarrow> cpa_counterparty_id z = cpId \<and> cpa_status z = AU_verified \<and>
     cpa_valid_from z \<le> today \<and> (case cpa_valid_to z of None \<Rightarrow> True | Some d \<Rightarrow> today \<le> d)"

text \<open>
  \<open>INSERT INTO payment_legs\<close>: the \<open>INTEGER\<close> column, the checks on the sequence number and on
  the kind, the primary key, \<open>UNIQUE (payment_order_id, sequence_number)\<close> and the foreign keys.
\<close>

definition insert_payment_leg :: "payment_leg \<Rightarrow> payment_leg tx" where
  "insert_payment_leg leg db =
    (if 2147483647 < pl_sequence_number leg then Inl (NumericOverflow ''payment_legs'')
     else if \<not> 0 < pl_sequence_number leg \<or> pl_leg_kind leg \<notin> set leg_kinds then Inl (CheckViolation ''payment_legs'')
     else if find_row pl_id (pl_id leg) (payment_legs db) \<noteq> None then Inl (UniqueViolation ''payment_legs'')
     else if list_ex (\<lambda>l. pl_payment_order_id l = pl_payment_order_id leg \<and>
                pl_sequence_number l = pl_sequence_number leg) (payment_legs db)
     then Inl (UniqueViolation ''payment_legs'')
     else if find_row po_id (pl_payment_order_id leg) (payment_orders db) = None
       \<or> (case pl_counterparty_id leg of None \<Rightarrow> False
            | Some cp \<Rightarrow> find_row cp_id cp (counterparties db) = None)
     then Inl (ForeignKeyViolation ''payment_legs'')
     else Inr (leg, db\<lparr>payment_legs := insert_row leg (payment_legs db)\<rparr>))"

definition createPostgresPaymentLeg :: "env \<Rightarrow> actor \<Rightarrow> leg_input \<Rightarrow> payment_leg tx" where
  "createPostgresPaymentLeg e a i db =
    (if li_sequenceNumber i < 1 then Inl (Refused ''Leg sequence number must be a positive integer'')
     else case find_row po_id (li_paymentOrderId i) (payment_orders db) of
       None \<Rightarrow> Inl (Refused ''A canonical payment order is required before adding a leg'')
     | Some ord \<Rightarrow>
         if po_status ord \<noteq> PS_draft then Inl (Refused ''Legs may only be added while the order is in draft'')
         else if length (filter (currently_verified (pg_today e) (li_counterpartyId i))
                           (counterparty_authorizations db)) = 0 then
           Inl (Refused ''Counterparty has no currently verified licence authorisation; leg creation fails closed'')
         else case insert_payment_leg
             \<lparr>pl_id = new_uuid e, pl_payment_order_id = li_paymentOrderId i,
              pl_sequence_number = li_sequenceNumber i, pl_leg_kind = li_legKind i,
              pl_counterparty_id = Some (li_counterpartyId i), pl_status = PS_draft,
              pl_provider_instruction_reference = None, pl_provider_finality_reference = None\<rparr> db of
           Inl er \<Rightarrow> Inl er
         | Inr (leg, db1) \<Rightarrow> Inr (leg,
             recordEvent e a ''payment_leg.drafted'' ''payment_leg'' (pl_id leg)
               [(''paymentOrderId'', jid (li_paymentOrderId i)), (''sequenceNumber'', JNum (li_sequenceNumber i)),
                (''legKind'', JStr (li_legKind i)), (''counterpartyId'', jid (li_counterpartyId i))] db1))"

section \<open>Lifecycle transitions\<close>

fun internalOrderTransitions :: "payment_status \<Rightarrow> payment_status list" where
  "internalOrderTransitions PS_draft = [PS_pending_policy_decision, PS_cancelled]"
| "internalOrderTransitions PS_pending_policy_decision = [PS_blocked, PS_manual_review, PS_approved, PS_cancelled]"
| "internalOrderTransitions PS_manual_review = [PS_blocked, PS_approved, PS_cancelled]"
| "internalOrderTransitions PS_blocked = [PS_manual_review, PS_cancelled]"
| "internalOrderTransitions PS_approved = [PS_cancelled]"
| "internalOrderTransitions _ = []"

definition providerDependentOrderStates :: "payment_status list" where
  "providerDependentOrderStates = [PS_executing, PS_partially_completed, PS_completed, PS_failed]"

definition transitionPostgresPaymentOrder ::
  "env \<Rightarrow> actor \<Rightarrow> uuid \<Rightarrow> payment_status \<Rightarrow> string \<Rightarrow> (uuid \<times> payment_status) tx" where
  "transitionPostgresPaymentOrder e a paymentOrderId status reason db =
    (if status \<in> set providerDependentOrderStates then
       Inl (Refused ''Execution states require a verified provider finality reference from an authorised provider integration; this transition fails closed'')
     else if length (js_trim reason) < 10 then Inl (Refused ''A substantive transition reason is required'')
     else case find_row po_id paymentOrderId (payment_orders db) of
       None \<Rightarrow> Inl (Refused ''Payment order was not found'')
     | Some ord \<Rightarrow>
         if status \<notin> set (internalOrderTransitions (po_status ord)) then
           Inl (Refused ''invalid payment order lifecycle transition'')
         else if status = PS_approved \<and> po_policy_decision_id ord = None then
           Inl (Refused ''A recorded policy decision is required before an order may be approved'')
         else Inr ((paymentOrderId, status),
           recordEvent e a (''payment_order.'' @ payment_status_text status) ''payment_order'' paymentOrderId
             [(''from'', JStr (payment_status_text (po_status ord))), (''to'', JStr (payment_status_text status)),
              (''reason'', JStr reason)]
             (db\<lparr>payment_orders := update_row po_id paymentOrderId
                    (\<lambda>r. r\<lparr>po_status := status, po_updated_at := pg_now e\<rparr>) (payment_orders db)\<rparr>)))"

fun internalLegTransitions :: "payment_status \<Rightarrow> payment_status list option" where
  "internalLegTransitions PS_draft = Some [PS_pending_policy_decision, PS_cancelled]"
| "internalLegTransitions PS_pending_policy_decision = Some [PS_blocked, PS_manual_review, PS_approved, PS_cancelled]"
| "internalLegTransitions PS_manual_review = Some [PS_blocked, PS_approved, PS_cancelled]"
| "internalLegTransitions PS_blocked = Some [PS_manual_review, PS_cancelled]"
| "internalLegTransitions PS_approved = Some [PS_cancelled]"
| "internalLegTransitions _ = None"

definition allowedInternalLegTransitions :: "payment_status \<Rightarrow> payment_status list" where
  "allowedInternalLegTransitions st = (case internalLegTransitions st of None \<Rightarrow> [] | Some ts \<Rightarrow> ts)"

definition transitionPostgresPaymentLeg ::
  "env \<Rightarrow> actor \<Rightarrow> uuid \<Rightarrow> payment_status \<Rightarrow> string \<Rightarrow> (uuid \<times> payment_status) tx" where
  "transitionPostgresPaymentLeg e a paymentLegId status reason db =
    (if status \<in> set providerDependentOrderStates then
       Inl (Refused ''Leg execution states require a verified provider instruction or finality reference from an authorised provider integration; this transition fails closed'')
     else if length (js_trim reason) < 10 then Inl (Refused ''A substantive transition reason is required'')
     else case find_row pl_id paymentLegId (payment_legs db) of
       None \<Rightarrow> Inl (Refused ''Payment leg was not found'')
     | Some leg \<Rightarrow> (case find_row po_id (pl_payment_order_id leg) (payment_orders db) of
         None \<Rightarrow> Inl (Refused ''Payment leg was not found'')
       | Some ord \<Rightarrow>
           if status \<notin> set (allowedInternalLegTransitions (pl_status leg)) then
             Inl (Refused ''invalid payment leg lifecycle transition'')
           else if status = PS_approved \<and> po_status ord \<noteq> PS_approved then
             Inl (Refused ''A leg may only be approved after its payment order is approved'')
           else Inr ((paymentLegId, status),
             recordEvent e a (''payment_leg.'' @ payment_status_text status) ''payment_leg'' paymentLegId
               [(''from'', JStr (payment_status_text (pl_status leg))), (''to'', JStr (payment_status_text status)),
                (''paymentOrderId'', jid (pl_payment_order_id leg)),
                (''orderStatus'', JStr (payment_status_text (po_status ord))), (''reason'', JStr reason)]
               (db\<lparr>payment_legs := update_row pl_id paymentLegId (\<lambda>l. l\<lparr>pl_status := status\<rparr>) (payment_legs db)\<rparr>))))"

section \<open>Steps and invariant\<close>

text \<open>
  A step of the payment component is one successful call of one of its operations, by any
  actor, at any time, with any input.
\<close>

inductive payment_step :: "db \<Rightarrow> db \<Rightarrow> bool" where
  rate_lock_created: "createPostgresRateLock e a m c x db = Inr (r1, db') \<Longrightarrow> payment_step db db'"
| rate_locks_expired: "expirePostgresRateLocks e a db = Inr (r2, db') \<Longrightarrow> payment_step db db'"
| rate_lock_withdrawn: "workflow_cancelPostgresRateLock e a k rs db = Inr (r3, db') \<Longrightarrow> payment_step db db'"
| rate_lock_cancelled: "postgres_cancelPostgresRateLock e a k db = Inr (r3, db') \<Longrightarrow> payment_step db db'"
| order_created: "createPostgresPaymentOrder e a i db = Inr (r4, db') \<Longrightarrow> payment_step db db'"
| order_moved: "transitionPostgresPaymentOrder e a k st rs db = Inr (r5, db') \<Longrightarrow> payment_step db db'"
| leg_created: "createPostgresPaymentLeg e a li db = Inr (r6, db') \<Longrightarrow> payment_step db db'"
| leg_moved: "transitionPostgresPaymentLeg e a k st rs db = Inr (r5, db') \<Longrightarrow> payment_step db db'"

text \<open>The order was priced by the lock: same corridor and assets, target derived from the rate.\<close>

definition order_backed :: "payment_order \<Rightarrow> rate_lock \<Rightarrow> bool" where
  "order_backed ord l \<longleftrightarrow> rl_payment_order_id l = Some (po_id ord) \<and> po_corridor ord = rl_corridor l \<and>
     po_source_currency ord = rl_base_asset l \<and> po_target_currency ord = rl_quote_asset l \<and>
     po_target_amount ord = derive_target (po_source_amount ord) (rl_locked_rate l) * 10 ^ 4"

text \<open>No two locks are bound to the same order.\<close>

definition single_use :: "rate_lock list \<Rightarrow> bool" where
  "single_use ls \<longleftrightarrow> (\<forall>l \<in> set ls. \<forall>m \<in> set ls.
     rl_payment_order_id l = rl_payment_order_id m \<longrightarrow> rl_payment_order_id l \<noteq> None \<longrightarrow> rl_id l = rl_id m)"

definition lock_ok :: "db \<Rightarrow> rate_lock \<Rightarrow> bool" where
  "lock_ok db l \<longleftrightarrow> 0 < rl_locked_rate l \<and> rl_base_asset l \<noteq> rl_quote_asset l \<and>
     set_option (rl_payment_order_id l) \<subseteq> po_id ` set (payment_orders db)"

definition order_ok :: "db \<Rightarrow> payment_order \<Rightarrow> bool" where
  "order_ok db ord \<longleftrightarrow> 0 < po_source_amount ord \<and> 0 < po_target_amount ord \<and>
     fits_numeric_30_12 (po_source_amount ord) \<and> fits_numeric_30_12 (po_target_amount ord) \<and>
     po_status ord \<notin> set providerDependentOrderStates \<and>
     (po_status ord = PS_approved \<longrightarrow> po_policy_decision_id ord \<noteq> None) \<and>
     (\<exists>l \<in> set (rate_locks db). order_backed ord l)"

definition leg_ok :: "db \<Rightarrow> payment_leg \<Rightarrow> bool" where
  "leg_ok db l \<longleftrightarrow> pl_payment_order_id l \<in> po_id ` set (payment_orders db) \<and>
     0 < pl_sequence_number l \<and> pl_sequence_number l \<le> 2147483647 \<and> pl_leg_kind l \<in> set leg_kinds \<and>
     pl_status l \<notin> set providerDependentOrderStates"

definition leg_slot :: "payment_leg \<Rightarrow> uuid \<times> int" where
  "leg_slot l = (pl_payment_order_id l, pl_sequence_number l)"

definition payment_inv :: "db \<Rightarrow> bool" where
  "payment_inv db \<longleftrightarrow>
     distinct_keys rl_id (rate_locks db) \<and> distinct_keys po_id (payment_orders db) \<and>
     distinct_keys po_idempotency_key (payment_orders db) \<and> distinct_keys pl_id (payment_legs db) \<and>
     distinct_keys leg_slot (payment_legs db) \<and>
     single_use (rate_locks db) \<and>
     (\<forall>l \<in> set (rate_locks db). lock_ok db l) \<and>
     (\<forall>ord \<in> set (payment_orders db). order_ok db ord) \<and>
     (\<forall>l \<in> set (payment_legs db). leg_ok db l)"

section \<open>What each operation does when it succeeds\<close>

lemmas event_defs = recordEvent_def recordActivity_def record_expiry_def

lemma record_expiry_tables [simp]:
  "rate_locks (fold (record_expiry e a) ls db) = rate_locks db"
  "payment_orders (fold (record_expiry e a) ls db) = payment_orders db"
  "payment_legs (fold (record_expiry e a) ls db) = payment_legs db"
  by (induction ls arbitrary: db) (simp_all add: event_defs)

lemma record_expiry_log:
  "activity_events (fold (record_expiry e a) ls db) = activity_events db @
     map (\<lambda>l. \<lparr>ev_actor_subject = openId a, ev_actor_role = role a, ev_action = ''rate_lock.expired'',
       ev_object_type = ''rate_lock'', ev_object_id = Some (rl_id l),
       ev_metadata = [(''from'', JStr ''locked''), (''to'', JStr ''expired''), (''expiresAt'', JTime (rl_expires_at l)),
        (''reason'', JStr ''expiry_elapsed''), (''source'', JStr ''postgres-control-plane'')],
       ev_occurred_at = pg_now e\<rparr>) ls"
  by (induction ls arbitrary: db) (simp_all add: event_defs insert_event_log)

text \<open>
  A successful draft either replays an existing order and changes nothing, or adds one order
  and binds its lock.
\<close>

definition draft_effect :: "env \<Rightarrow> actor \<Rightarrow> order_input \<Rightarrow> rate_lock \<Rightarrow> db \<Rightarrow> db \<Rightarrow> bool" where
  "draft_effect e a i lock db db' \<longleftrightarrow>
     payment_orders db' = insert_row (draft_order e a i lock) (payment_orders db) \<and>
     rate_locks db' = map (\<lambda>l. if rl_id l = rl_id lock \<and> rl_payment_order_id l = None
        then l\<lparr>rl_payment_order_id := Some (new_uuid e)\<rparr> else l) (rate_locks db) \<and>
     payment_legs db' = payment_legs db \<and>
     map ev_action (activity_events db') =
       map ev_action (activity_events db) @ [''payment_order.drafted'', ''rate_lock.consumed''] \<and>
     prefix (activity_events db) (activity_events db')"

lemma createPostgresPaymentOrder_Inr:
  assumes "createPostgresPaymentOrder e a i db = Inr (r, db')"
  obtains lock target where "find_row rl_id (oi_rateLockId i) (rate_locks db) = Some lock"
    and "amount_pattern (oi_sourceAmount i)" and "rl_status lock = RL_locked" and "js_now e < rl_expires_at lock"
    and "rl_payment_order_id lock = None"
    and "find_row be_id (oi_beneficiaryId i) (beneficiaries db) = Some target"
    and "be_customer_id target = oi_customerId i" and "be_screening_state target = SC_clear"
    and "derive_target (numeric_of_text (oi_sourceAmount i)) (rl_locked_rate lock) \<noteq> 0"
    and "fits_numeric_30_12 (po_source_amount (draft_order e a i lock))"
    and "fits_numeric_30_12 (po_target_amount (draft_order e a i lock))"
    and "0 < po_source_amount (draft_order e a i lock)"
    and "(find_row po_idempotency_key (oi_idempotencyKey i) (payment_orders db) \<noteq> None \<and>
            replay_order i lock db = Inr (r, db')) \<or>
         (find_row po_idempotency_key (oi_idempotencyKey i) (payment_orders db) = None \<and>
            find_row po_id (new_uuid e) (payment_orders db) = None \<and> draft_effect e a i lock db db' \<and>
            r = \<lparr>or_id = new_uuid e, or_status = PS_draft,
              or_targetAmount = po_target_amount (draft_order e a i lock), or_rateLockId = rl_id lock,
              or_lockedRate = rl_locked_rate lock, or_idempotentReplay = False\<rparr>)"
proof -
  have sel: "po_id (draft_order e a i lock) = new_uuid e" "po_status (draft_order e a i lock) = PS_draft"
    "po_idempotency_key (draft_order e a i lock) = oi_idempotencyKey i" for lock
    by (simp_all add: draft_order_def)
  show ?thesis
    using assms
    by (auto simp: createPostgresPaymentOrder_def assertBeneficiaryScreeningClear_def
        insert_payment_order_def consume_lock_def draft_effect_def event_defs insert_event_log sel Let_def
        split: if_splits option.splits intro!: that)
qed

section \<open>Every operation keeps the invariant\<close>

lemma payment_inv_cong:
  "rate_locks db' = rate_locks db \<Longrightarrow> payment_orders db' = payment_orders db \<Longrightarrow>
   payment_legs db' = payment_legs db \<Longrightarrow> payment_inv db' = payment_inv db"
  by (simp add: payment_inv_def lock_ok_def order_ok_def leg_ok_def)

text \<open>Changing nothing of the locks but their status.\<close>

lemma payment_inv_relabel_locks:
  assumes inv: "payment_inv db"
    and locks: "rate_locks db' = map f (rate_locks db)"
    and same: "payment_orders db' = payment_orders db" "payment_legs db' = payment_legs db"
    and f: "\<And>l. f l = l \<or> (\<exists>s. f l = l\<lparr>rl_status := s\<rparr>)"
  shows "payment_inv db'"
proof -
  have sel: "rl_id (f l) = rl_id l" "rl_payment_order_id (f l) = rl_payment_order_id l"
    "rl_locked_rate (f l) = rl_locked_rate l" "rl_base_asset (f l) = rl_base_asset l"
    "rl_quote_asset (f l) = rl_quote_asset l" "rl_corridor (f l) = rl_corridor l" for l
    using f [of l] by auto
  have "order_backed ord (f l) = order_backed ord l" for ord l
    by (simp add: order_backed_def sel)
  moreover have "rl_id \<circ> f = rl_id"
    by (simp add: sel fun_eq_iff)
  moreover have "single_use (map f (rate_locks db)) = single_use (rate_locks db)"
    unfolding single_use_def set_map ball_simps sel by (rule refl)
  ultimately show ?thesis
    using inv unfolding payment_inv_def lock_ok_def order_ok_def leg_ok_def locks same
    by (simp add: sel)
qed

lemma single_use_insert:
  "rl_payment_order_id r = None \<Longrightarrow> single_use ls \<Longrightarrow> single_use (insert_row r ls)"
  unfolding single_use_def set_insert_row by (metis insert_iff)

lemma createPostgresRateLock_inv:
  assumes "payment_inv db" and "createPostgresRateLock e a m c x db = Inr (r, db')"
  shows "payment_inv db'"
proof -
  from assms(2) have new: "rate_locks db' = insert_row r (rate_locks db)" "payment_orders db' = payment_orders db"
    "payment_legs db' = payment_legs db" "rl_id r \<notin> rl_id ` set (rate_locks db)" "rl_payment_order_id r = None"
    "0 < rl_locked_rate r" "rl_base_asset r \<noteq> rl_quote_asset r"
    by (auto simp: createPostgresRateLock_def event_defs Let_def find_row_None split: if_splits option.splits)
  moreover from new have "single_use (rate_locks db) \<Longrightarrow> single_use (rate_locks db')"
    by (simp add: single_use_insert)
  ultimately show ?thesis
    using assms(1) unfolding payment_inv_def lock_ok_def order_ok_def leg_ok_def
    by (auto simp: table_simps)
qed

lemma expirePostgresRateLocks_inv:
  "payment_inv db \<Longrightarrow> expirePostgresRateLocks e a db = Inr (r, db') \<Longrightarrow> payment_inv db'"
  by (erule payment_inv_relabel_locks [where f = "\<lambda>l. if elapsed (pg_now e) l then l\<lparr>rl_status := RL_expired\<rparr> else l"])
     (auto simp: expirePostgresRateLocks_def Let_def)

lemma workflow_cancelPostgresRateLock_inv:
  "payment_inv db \<Longrightarrow> workflow_cancelPostgresRateLock e a k rs db = Inr (r, db') \<Longrightarrow> payment_inv db'"
  by (erule payment_inv_relabel_locks [where f = "\<lambda>l. if rl_id l = k then l\<lparr>rl_status := RL_cancelled\<rparr> else l"])
     (auto simp: workflow_cancelPostgresRateLock_def event_defs update_row_def split: if_splits option.splits)

lemma postgres_cancelPostgresRateLock_inv:
  "payment_inv db \<Longrightarrow> postgres_cancelPostgresRateLock e a k db = Inr (r, db') \<Longrightarrow> payment_inv db'"
  by (erule payment_inv_relabel_locks [where f = "\<lambda>l. if rl_id l = k then l\<lparr>rl_status := RL_cancelled\<rparr> else l"])
     (auto simp: postgres_cancelPostgresRateLock_def event_defs update_row_def split: if_splits option.splits)

lemma replay_order_unchanged: "replay_order i lock db = Inr (r, db') \<Longrightarrow> db' = db"
  by (auto simp: replay_order_def split: option.splits if_splits)

lemma pg_round8_pos: "0 < x \<Longrightarrow> pg_round8 x \<noteq> 0 \<Longrightarrow> 0 < pg_round8 x"
  using pos_imp_zdiv_nonneg_iff [of "10 ^ 16" "x + 5 * 10 ^ 15"] by (simp add: pg_round8_def)

lemma draft_effect_inv:
  assumes inv: "payment_inv db" and lock: "lock \<in> set (rate_locks db)" and unbound: "rl_payment_order_id lock = None"
    and key: "find_row po_idempotency_key (oi_idempotencyKey i) (payment_orders db) = None"
    and fresh: "find_row po_id (new_uuid e) (payment_orders db) = None"
    and eff: "draft_effect e a i lock db db'"
    and amounts: "fits_numeric_30_12 (po_source_amount (draft_order e a i lock))"
      "fits_numeric_30_12 (po_target_amount (draft_order e a i lock))"
      "0 < po_source_amount (draft_order e a i lock)"
      "derive_target (numeric_of_text (oi_sourceAmount i)) (rl_locked_rate lock) \<noteq> 0"
  shows "payment_inv db'"
proof -
  let ?ord = "draft_order e a i lock"
  let ?f = "\<lambda>l. if rl_id l = rl_id lock \<and> rl_payment_order_id l = None
        then l\<lparr>rl_payment_order_id := Some (new_uuid e)\<rparr> else l"
  have new_id: "new_uuid e \<notin> po_id ` set (payment_orders db)" and new_key: "oi_idempotencyKey i \<notin> po_idempotency_key ` set (payment_orders db)"
    using fresh key by (simp_all add: find_row_None)
  have tabs: "payment_orders db' = insert_row ?ord (payment_orders db)" "rate_locks db' = map ?f (rate_locks db)"
    "payment_legs db' = payment_legs db"
    using eff by (simp_all add: draft_effect_def)
  have locks: "\<forall>l \<in> set (rate_locks db). lock_ok db l"
    and orders: "\<forall>ord \<in> set (payment_orders db). order_ok db ord"
    and dist: "distinct_keys rl_id (rate_locks db)"
    and bind1: "\<And>l m. l \<in> set (rate_locks db) \<Longrightarrow> m \<in> set (rate_locks db) \<Longrightarrow>
        rl_payment_order_id l = rl_payment_order_id m \<Longrightarrow> rl_payment_order_id l \<noteq> None \<Longrightarrow> rl_id l = rl_id m"
    using inv unfolding payment_inv_def single_use_def by blast+
  have backed_old: "order_backed ord (?f l)" if "order_backed ord l" for ord l
    using that by (auto simp: order_backed_def)
  have backed_new: "order_backed ?ord (?f lock)"
    using unbound by (simp add: order_backed_def draft_order_def)
  have pos: "0 < po_target_amount ?ord"
    using amounts(3,4) lock locks pg_round8_pos [of "numeric_of_text (oi_sourceAmount i) * rl_locked_rate lock"]
    by (auto simp: draft_order_def derive_target_def lock_ok_def)
  have "\<exists>l \<in> set (rate_locks db'). order_backed ?ord l"
    using backed_new by (rule bexI) (unfold tabs set_map, rule imageI, rule lock)
  then have new_ok: "order_ok db' ?ord"
    using pos amounts by (simp add: order_ok_def) (simp add: draft_order_def providerDependentOrderStates_def)
  have old_ok: "order_ok db' ord" if "ord \<in> set (payment_orders db)" for ord
  proof -
    from orders that obtain l where "l \<in> set (rate_locks db)" "order_backed ord l"
      by (auto simp: order_ok_def)
    then have "\<exists>l \<in> set (rate_locks db'). order_backed ord l"
      unfolding tabs set_map using backed_old [of ord l] by (intro bexI) (assumption, rule imageI)
    then show ?thesis using orders that by (auto simp: order_ok_def)
  qed
  have locks': "lock_ok db' (?f l)" if "l \<in> set (rate_locks db)" for l
    using locks that by (auto simp: lock_ok_def tabs table_simps draft_order_def)
  have bound_old: "rl_payment_order_id l \<noteq> Some (new_uuid e)" if "l \<in> set (rate_locks db)" for l
    using locks that new_id by (auto simp: lock_ok_def)
  have bind: "rl_id (?f l) = rl_id (?f m)"
    if "l \<in> set (rate_locks db)" "m \<in> set (rate_locks db)"
      "rl_payment_order_id (?f l) = rl_payment_order_id (?f m)" "rl_payment_order_id (?f l) \<noteq> None" for l m
    using that bind1 [of l m] bound_old [of l] bound_old [of m] by (auto split: if_splits)
  have ids: "map rl_id (map ?f (rate_locks db)) = map rl_id (rate_locks db)"
    by simp
  show ?thesis
    unfolding payment_inv_def
  proof (intro conjI)
    show "distinct_keys rl_id (rate_locks db')" unfolding tabs(2) ids by (rule dist)
    show "distinct_keys po_id (payment_orders db')" "distinct_keys po_idempotency_key (payment_orders db')"
      using inv new_id new_key by (auto simp: payment_inv_def tabs table_simps draft_order_def)
    show "distinct_keys pl_id (payment_legs db')" "distinct_keys leg_slot (payment_legs db')"
      using inv by (simp_all add: payment_inv_def tabs)
    show "single_use (rate_locks db')"
      unfolding single_use_def tabs(2) set_map ball_simps using bind by blast
    show "\<forall>l \<in> set (rate_locks db'). lock_ok db' l"
      unfolding tabs(2) set_map ball_simps using locks' by blast
    show "\<forall>ord \<in> set (payment_orders db'). order_ok db' ord"
      unfolding tabs(1) set_insert_row using new_ok old_ok by simp
    show "\<forall>l \<in> set (payment_legs db'). leg_ok db' l"
      using inv by (auto simp: payment_inv_def leg_ok_def tabs table_simps)
  qed
qed

lemma createPostgresPaymentOrder_inv:
  assumes inv: "payment_inv db" and "createPostgresPaymentOrder e a i db = Inr (r, db')"
  shows "payment_inv db'"
  using assms(2)
proof (rule createPostgresPaymentOrder_Inr)
  fix lock target
  assume lock: "find_row rl_id (oi_rateLockId i) (rate_locks db) = Some lock" "rl_payment_order_id lock = None"
    and amounts: "fits_numeric_30_12 (po_source_amount (draft_order e a i lock))"
      "fits_numeric_30_12 (po_target_amount (draft_order e a i lock))"
      "0 < po_source_amount (draft_order e a i lock)"
      "derive_target (numeric_of_text (oi_sourceAmount i)) (rl_locked_rate lock) \<noteq> 0"
    and outcome: "(find_row po_idempotency_key (oi_idempotencyKey i) (payment_orders db) \<noteq> None \<and>
            replay_order i lock db = Inr (r, db')) \<or>
         (find_row po_idempotency_key (oi_idempotencyKey i) (payment_orders db) = None \<and>
            find_row po_id (new_uuid e) (payment_orders db) = None \<and> draft_effect e a i lock db db' \<and>
            r = \<lparr>or_id = new_uuid e, or_status = PS_draft,
              or_targetAmount = po_target_amount (draft_order e a i lock), or_rateLockId = rl_id lock,
              or_lockedRate = rl_locked_rate lock, or_idempotentReplay = False\<rparr>)"
  have "lock \<in> set (rate_locks db)" using find_row_mem [OF lock(1)] by blast
  then show ?thesis
    using outcome inv lock(2) amounts draft_effect_inv [of db lock i e a db'] replay_order_unchanged by blast
qed

lemma transitionPostgresPaymentOrder_inv:
  assumes inv: "payment_inv db" and "transitionPostgresPaymentOrder e a k st rs db = Inr (r, db')"
  shows "payment_inv db'"
proof -
  let ?f = "\<lambda>r. r\<lparr>po_status := st, po_updated_at := pg_now e\<rparr>"
  from assms(2) obtain ord where ord: "find_row po_id k (payment_orders db) = Some ord"
    and st: "st \<notin> set providerDependentOrderStates" "st = PS_approved \<longrightarrow> po_policy_decision_id ord \<noteq> None"
    and tabs: "payment_orders db' = update_row po_id k ?f (payment_orders db)" "rate_locks db' = rate_locks db"
      "payment_legs db' = payment_legs db"
    by (auto simp: transitionPostgresPaymentOrder_def event_defs split: if_splits option.splits)
  have one: "row = ord" if "row \<in> set (payment_orders db)" "po_id row = k" for row
    using inv ord that by (auto simp: payment_inv_def find_row_Some eq_key_imp_eq_value inj_on_def distinct_map)
  have ids: "po_id ` set (payment_orders db') = po_id ` set (payment_orders db)"
    unfolding tabs(1) by (rule image_update_row) simp
  have "\<forall>row \<in> set (payment_orders db'). order_ok db' row"
    unfolding tabs(1)
  proof (rule order_table.all_rows_upd)
    fix row assume row: "row \<in> set (payment_orders db)" "po_id row = k"
    then have "order_ok db row" using inv by (simp add: payment_inv_def)
    with one [OF row] st show "order_ok db' (?f row)"
      by (simp add: order_ok_def order_backed_def tabs)
  next
    fix row assume "row \<in> set (payment_orders db)" "po_id row \<noteq> k"
    then show "order_ok db' row" using inv by (simp add: payment_inv_def order_ok_def tabs)
  qed
  with inv show ?thesis
    unfolding payment_inv_def lock_ok_def leg_ok_def ids tabs(2,3)
    by (simp add: tabs(1) map_update_row)
qed

lemma createPostgresPaymentLeg_inv:
  assumes inv: "payment_inv db" and "createPostgresPaymentLeg e a i db = Inr (r, db')"
  shows "payment_inv db'"
proof -
  from assms(2) have new: "payment_legs db' = insert_row r (payment_legs db)" "rate_locks db' = rate_locks db"
    "payment_orders db' = payment_orders db" "leg_ok db r" "pl_id r \<notin> pl_id ` set (payment_legs db)"
    "leg_slot r \<notin> leg_slot ` set (payment_legs db)"
    by (auto simp: createPostgresPaymentLeg_def insert_payment_leg_def event_defs leg_ok_def leg_slot_def
        find_row_None list_ex_iff providerDependentOrderStates_def split: if_splits option.splits dest: find_row_image)
  then show ?thesis
    using inv unfolding payment_inv_def lock_ok_def order_ok_def leg_ok_def
    by (simp add: table_simps)
qed

lemma transitionPostgresPaymentLeg_inv:
  assumes inv: "payment_inv db" and "transitionPostgresPaymentLeg e a k st rs db = Inr (r, db')"
  shows "payment_inv db'"
proof -
  let ?f = "\<lambda>l. l\<lparr>pl_status := st\<rparr>"
  from assms(2) have st: "st \<notin> set providerDependentOrderStates"
    and tabs: "payment_legs db' = update_row pl_id k ?f (payment_legs db)" "rate_locks db' = rate_locks db"
      "payment_orders db' = payment_orders db"
    by (auto simp: transitionPostgresPaymentLeg_def event_defs split: if_splits option.splits)
  have "\<forall>l \<in> set (payment_legs db'). leg_ok db' l"
    unfolding tabs(1) by (rule leg_table.all_rows_upd) (use inv st in \<open>simp_all add: payment_inv_def leg_ok_def tabs\<close>)
  with inv show ?thesis
    unfolding payment_inv_def lock_ok_def order_ok_def tabs(2,3)
    by (simp add: tabs(1) map_update_row leg_slot_def)
qed

lemma payment_step_inv: "payment_inv db \<Longrightarrow> payment_step db db' \<Longrightarrow> payment_inv db'"
  by (erule payment_step.cases)
     (blast intro: createPostgresRateLock_inv expirePostgresRateLocks_inv workflow_cancelPostgresRateLock_inv
       postgres_cancelPostgresRateLock_inv createPostgresPaymentOrder_inv transitionPostgresPaymentOrder_inv
       createPostgresPaymentLeg_inv transitionPostgresPaymentLeg_inv)+

section \<open>The status of a row moves along its allow-list\<close>

definition order_status :: "db \<Rightarrow> uuid \<Rightarrow> payment_status option" where
  "order_status db k = map_option po_status (find_row po_id k (payment_orders db))"

definition leg_status :: "db \<Rightarrow> uuid \<Rightarrow> payment_status option" where
  "leg_status db k = map_option pl_status (find_row pl_id k (payment_legs db))"

definition lock_status :: "db \<Rightarrow> uuid \<Rightarrow> rate_lock_status option" where
  "lock_status db k = map_option rl_status (find_row rl_id k (rate_locks db))"

fun rate_lock_transitions :: "rate_lock_status \<Rightarrow> rate_lock_status list" where
  "rate_lock_transitions RL_locked = [RL_expired, RL_cancelled]"
| "rate_lock_transitions _ = []"

lemmas payment_op_defs = createPostgresRateLock_def expirePostgresRateLocks_def
  workflow_cancelPostgresRateLock_def postgres_cancelPostgresRateLock_def
  transitionPostgresPaymentOrder_def createPostgresPaymentLeg_def insert_payment_leg_def
  transitionPostgresPaymentLeg_def event_defs Let_def

lemma createPostgresPaymentOrder_effect:
  assumes "createPostgresPaymentOrder e a i db = Inr (r, db')"
  shows "db' = db \<or> (\<exists>lock. draft_effect e a i lock db db')"
  using assms by (rule createPostgresPaymentOrder_Inr) (elim disjE conjE, simp add: replay_order_unchanged, blast)

lemma draft_tables:
  assumes "createPostgresPaymentOrder e a i db = Inr (r, db')"
  shows "payment_legs db' = payment_legs db"
    and "payment_orders db' = payment_orders db \<or>
         (\<exists>ord. payment_orders db' = insert_row ord (payment_orders db) \<and>
            po_policy_decision_id ord = None \<and> po_status ord = PS_draft)"
    and "\<exists>f. rate_locks db' = map f (rate_locks db) \<and> (\<forall>l. rl_id (f l) = rl_id l \<and> rl_status (f l) = rl_status l)"
    and "prefix (activity_events db) (activity_events db')"
proof -
  note eff = createPostgresPaymentOrder_effect [OF assms]
  show "payment_legs db' = payment_legs db" "prefix (activity_events db) (activity_events db')"
    using eff unfolding draft_effect_def by (elim disjE exE conjE; simp)+
  have "po_policy_decision_id (draft_order e a i lock) = None \<and> po_status (draft_order e a i lock) = PS_draft" for lock
    by (simp add: draft_order_def)
  then show "payment_orders db' = payment_orders db \<or> (\<exists>ord. payment_orders db' = insert_row ord (payment_orders db) \<and>
            po_policy_decision_id ord = None \<and> po_status ord = PS_draft)"
    using eff unfolding draft_effect_def by blast
  show "\<exists>f. rate_locks db' = map f (rate_locks db) \<and> (\<forall>l. rl_id (f l) = rl_id l \<and> rl_status (f l) = rl_status l)"
    using eff
  proof (elim disjE exE)
    assume "db' = db"
    then show ?thesis by (intro exI [of _ "\<lambda>l. l"]) simp
  next
    fix lock assume "draft_effect e a i lock db db'"
    then have "rate_locks db' = map (\<lambda>l. if rl_id l = rl_id lock \<and> rl_payment_order_id l = None
        then l\<lparr>rl_payment_order_id := Some (new_uuid e)\<rparr> else l) (rate_locks db)"
      unfolding draft_effect_def by (elim conjE)
    then show ?thesis by (intro exI conjI, assumption) simp
  qed
qed

lemma order_status_step:
  assumes "payment_step db db'" and "order_status db k = Some st"
  shows "\<exists>st'. order_status db' k = Some st' \<and> (st' = st \<or> st' \<in> set (internalOrderTransitions st))"
  using assms(1)
proof cases
  case (order_created e a i r)
  then show ?thesis
    using draft_tables(2) [OF order_created] assms(2) by (auto simp: order_status_def table_simps)
next
  case (order_moved e a j s rs r)
  then show ?thesis
    using assms(2) by (auto simp: order_status_def payment_op_defs table_simps split: if_splits option.splits)
qed (use assms(2) in \<open>auto simp: order_status_def payment_op_defs split: if_splits option.splits\<close>)

lemma leg_status_step:
  assumes "payment_step db db'" and "leg_status db k = Some st"
  shows "\<exists>st'. leg_status db' k = Some st' \<and> (st' = st \<or> st' \<in> set (allowedInternalLegTransitions st))"
  using assms(1)
proof cases
  case (order_created e a i r)
  then show ?thesis
    using draft_tables(1) [OF order_created] assms(2) by (auto simp: leg_status_def)
qed (use assms(2) in \<open>auto simp: leg_status_def payment_op_defs table_simps split: if_splits option.splits\<close>)

lemma lock_status_step:
  assumes "payment_step db db'" and "lock_status db k = Some st"
  shows "\<exists>st'. lock_status db' k = Some st' \<and> (st' = st \<or> st' \<in> set (rate_lock_transitions st))"
  using assms(1)
proof cases
  case (order_created e a i r)
  then show ?thesis
    using draft_tables(3) [OF order_created] assms(2) by (auto simp: lock_status_def find_row_map)
next
  case (rate_locks_expired e a r)
  then show ?thesis
    using assms(2) by (auto simp: lock_status_def expirePostgresRateLocks_def Let_def find_row_map elapsed_def)
qed (use assms(2) in \<open>auto simp: lock_status_def payment_op_defs table_simps split: if_splits option.splits\<close>)

lemma payment_step_appends: "payment_step db db' \<Longrightarrow> prefix (activity_events db) (activity_events db')"
  by (erule payment_step.cases)
     (auto simp: payment_op_defs insert_event_log record_expiry_log split: if_splits option.splits dest: draft_tables(4))

text \<open>No operation of the component writes a policy decision: a new order has none.\<close>

definition decision_of :: "db \<Rightarrow> uuid \<Rightarrow> uuid option" where
  "decision_of db k = Option.bind (find_row po_id k (payment_orders db)) po_policy_decision_id"

lemma decision_of_step:
  assumes "payment_step db db'"
  shows "decision_of db' k = decision_of db k"
  using assms
proof cases
  case (order_created e a i r)
  then show ?thesis using draft_tables(2) [OF order_created]
    by (auto simp: decision_of_def table_simps split: option.splits)
next
  case (order_moved e a j s rs r)
  then have "\<exists>f. payment_orders db' = update_row po_id j f (payment_orders db) \<and>
      (\<forall>x. po_id (f x) = po_id x \<and> po_policy_decision_id (f x) = po_policy_decision_id x)"
    by (auto simp: transitionPostgresPaymentOrder_def event_defs split: if_splits option.splits)
  then show ?thesis
    by (auto simp: decision_of_def table_simps bind_map_option comp_def)
qed (auto simp: decision_of_def payment_op_defs split: if_splits option.splits)

end
