(* ===== verification/Payment_Properties.thy ===== *)
theory Payment_Properties
  imports Payment_Workflow
begin

text \<open>
  Correctness of the single operations of the payment component: when a draft is accepted and
  what it writes, rounding of the derived amount, single use of rate locks, expiry, the two
  cancellation procedures, legs and lifecycle transitions. A small database with one customer,
  one screened beneficiary and a few locks and orders instantiates the hypotheses.
\<close>

section \<open>A concrete database\<close>

definition sample_lock :: rate_lock where
  "sample_lock = \<lparr>rl_id = 30, rl_market_observation_id = 20, rl_payment_order_id = None, rl_corridor = NIGERIA_NGN,
     rl_base_asset = USDC, rl_quote_asset = NGN, rl_locked_rate = 1500500000000000, rl_status = RL_locked,
     rl_expires_at = 1000, rl_created_by = ''op-1''\<rparr>"

definition sample_db :: db where
  "sample_db = empty_db\<lparr>
     customers := [\<lparr>cu_id = 1, cu_legal_name = ''Acme'', cu_registration_identifier = ''RC1'', cu_kyc_status = CC_cleared,
        cu_archetype = None, cu_tier = None, cu_country = None, cu_use_case_narrative = None\<rparr>],
     beneficiaries := [\<lparr>be_id = 2, be_customer_id = 1, be_legal_name = ''Payee'', be_country_code = ''NG'',
        be_bank_or_wallet_reference = ''ref'', be_screening_state = SC_clear\<rparr>],
     counterparties := [\<lparr>cp_id = 5, cp_legal_name = ''Bank'', cp_counterparty_type = ''bank'', cp_jurisdiction = ''NG'', cp_lp_archetype = None,
       cp_bank_archetype = None, cp_psp_archetype = None, cp_stablecoin_issuer_archetype = None, cp_compliance_vendor_archetype = None\<rparr>],
     counterparty_authorizations := [\<lparr>cpa_id = 6, cpa_counterparty_id = 5, cpa_regulator = ''CBN'',
        cpa_licence_reference = ''L'', cpa_scope_description = ''S'', cpa_evidence_uri = ''u'', cpa_valid_from = 0,
        cpa_valid_to = Some 400, cpa_status = AU_verified, cpa_verified_by = Some ''co-1'', cpa_verified_at = Some 1\<rparr>],
     rate_locks := [sample_lock]\<rparr>"

definition sample_env :: env where
  "sample_env = \<lparr>js_now = 100, pg_now = 100, pg_today = 10, new_uuid = 50, node_uuid = 51\<rparr>"

definition sample_actor :: actor where
  "sample_actor = \<lparr>openId = ''op-1'', role = Treasury_operator\<rparr>"

definition sample_input :: order_input where
  "sample_input = \<lparr>oi_idempotencyKey = ''key-1'', oi_customerId = 1, oi_beneficiaryId = 2, oi_rateLockId = 30,
     oi_sourceAmount = ''12.5''\<rparr>"

text \<open>The same database after the draft of \<^const>\<open>sample_input\<close>.\<close>

definition sample_order :: payment_order where
  "sample_order = \<lparr>po_id = 50, po_idempotency_key = ''key-1'', po_customer_id = 1, po_beneficiary_id = 2,
     po_corridor = NIGERIA_NGN, po_source_currency = USDC, po_source_amount = 12500000000000,
     po_target_currency = NGN, po_target_amount = 18756250000000000, po_status = PS_draft,
     po_policy_decision_id = None, po_provider_finality_reference = None, po_created_by = ''op-1'',
     po_updated_at = 100\<rparr>"

definition drafted_db :: db where
  "drafted_db = committed (createPostgresPaymentOrder sample_env sample_actor sample_input sample_db) sample_db"


lemma sample_amounts:
  "amount_pattern ''12.5''" "numeric_of_text ''12.5'' = 12500000000000"
  "derive_target 12500000000000 1500500000000000 = 1875625000000"
  by (simp_all add: amount_pattern_def numeric_of_text_def digits_value_def is_digit_def derive_target_def pg_round8_def)





lemma drafted_tables:
  "rate_locks drafted_db = [sample_lock\<lparr>rl_payment_order_id := Some 50\<rparr>]"
  "payment_orders drafted_db = [sample_order]"
  "payment_legs drafted_db = []"
  by code_simp+

lemma drafted_inv: "payment_inv sample_db" "payment_inv drafted_db"
  by code_simp+

section \<open>Drafting an order\<close>

text \<open>
  What the source requires of a draft, as one predicate: a positive amount, a live, unexpired and
  unconsumed lock, a beneficiary of the customer whose screening is clear, a usable derived
  amount that fits its column, an unused idempotency key.
\<close>

definition draft_admissible :: "env \<Rightarrow> actor \<Rightarrow> order_input \<Rightarrow> db \<Rightarrow> bool" where
  "draft_admissible e a i db \<longleftrightarrow> amount_pattern (oi_sourceAmount i) \<and>
     (case (find_row rl_id (oi_rateLockId i) (rate_locks db), find_row be_id (oi_beneficiaryId i) (beneficiaries db)) of
        (Some lock, Some target) \<Rightarrow>
          rl_status lock = RL_locked \<and> js_now e < rl_expires_at lock \<and> rl_payment_order_id lock = None \<and>
          be_customer_id target = oi_customerId i \<and> be_screening_state target = SC_clear \<and>
          0 < numeric_of_text (oi_sourceAmount i) \<and> fits_numeric_30_12 (numeric_of_text (oi_sourceAmount i)) \<and>
          derive_target (numeric_of_text (oi_sourceAmount i)) (rl_locked_rate lock) \<noteq> 0 \<and>
          fits_numeric_30_12 (derive_target (numeric_of_text (oi_sourceAmount i)) (rl_locked_rate lock) * 10 ^ 4)
      | _ \<Rightarrow> False) \<and>
     find_row cu_id (oi_customerId i) (customers db) \<noteq> None \<and>
     oi_idempotencyKey i \<notin> po_idempotency_key ` set (payment_orders db) \<and>
     new_uuid e \<notin> po_id ` set (payment_orders db)"

lemma bound_lock_None: "bound_lock k ls = None \<longleftrightarrow> (\<forall>l \<in> set ls. rl_payment_order_id l \<noteq> Some k)"
  by (auto simp: bound_lock_def find_None_iff)

lemma bound_lock_Some:
  "bound_lock k ls = Some j \<Longrightarrow> \<exists>l \<in> set ls. rl_payment_order_id l = Some k \<and> rl_id l = j"
  unfolding bound_lock_def by (auto simp: find_Some_iff)

lemma replay_refused:
  assumes inv: "payment_inv db" and lock: "find_row rl_id k (rate_locks db) = Some lock" "rl_payment_order_id lock = None"
  shows "replay_order i lock db \<noteq> Inr x"
proof (cases "find_row po_idempotency_key (oi_idempotencyKey i) (payment_orders db)")
  case None
  then show ?thesis by (simp add: replay_order_def)
next
  case (Some ord)
  then have "order_ok db ord" using inv find_row_mem [OF Some] by (simp add: payment_inv_def)
  then have "bound_lock (po_id ord) (rate_locks db) \<noteq> None"
    by (auto simp: order_ok_def order_backed_def bound_lock_None)
  moreover have "bound_lock (po_id ord) (rate_locks db) \<noteq> Some (rl_id lock)"
  proof
    assume "bound_lock (po_id ord) (rate_locks db) = Some (rl_id lock)"
    then obtain l where "l \<in> set (rate_locks db)" "rl_payment_order_id l = Some (po_id ord)" "rl_id l = rl_id lock"
      using bound_lock_Some by blast
    moreover have "distinct_keys rl_id (rate_locks db)" using inv by (simp add: payment_inv_def)
    ultimately show False using lock find_row_mem [OF lock(1)] by (metis find_row_Some option.distinct(1) option.inject)
  qed
  ultimately show ?thesis using Some by (simp add: replay_order_def)
qed

lemma draft_accepted_customer:
  assumes "createPostgresPaymentOrder e a i db = Inr (r, db')"
    and "find_row po_idempotency_key (oi_idempotencyKey i) (payment_orders db) = None"
  shows "find_row cu_id (oi_customerId i) (customers db) \<noteq> None"
proof
  have key: "po_idempotency_key (draft_order e a i lock) = oi_idempotencyKey i"
    "po_customer_id (draft_order e a i lock) = oi_customerId i" for lock
    by (simp_all add: draft_order_def)
  assume "find_row cu_id (oi_customerId i) (customers db) = None"
  then have "insert_payment_order (draft_order e a i lock) db \<noteq> Inr x" for lock x
    using assms(2) by (simp add: insert_payment_order_def key)
  then show False
    using assms(1) by (auto simp: createPostgresPaymentOrder_def split: if_splits option.splits sum.splits)
qed

lemma draft_accepted_admissible:
  assumes inv: "payment_inv db" and ok: "createPostgresPaymentOrder e a i db = Inr (r, db')"
  shows "draft_admissible e a i db"
  using ok
proof (rule createPostgresPaymentOrder_Inr)
  fix lock target
  assume l: "find_row rl_id (oi_rateLockId i) (rate_locks db) = Some lock" "rl_payment_order_id lock = None"
  have no_replay: "replay_order i lock db \<noteq> Inr (r, db')"
    using inv l by (rule replay_refused)
  assume "(find_row po_idempotency_key (oi_idempotencyKey i) (payment_orders db) \<noteq> None \<and>
            replay_order i lock db = Inr (r, db')) \<or>
         (find_row po_idempotency_key (oi_idempotencyKey i) (payment_orders db) = None \<and>
            find_row po_id (new_uuid e) (payment_orders db) = None \<and> draft_effect e a i lock db db' \<and>
            r = \<lparr>or_id = new_uuid e, or_status = PS_draft,
              or_targetAmount = po_target_amount (draft_order e a i lock), or_rateLockId = rl_id lock,
              or_lockedRate = rl_locked_rate lock, or_idempotentReplay = False\<rparr>)"
  with no_replay have fresh: "find_row po_idempotency_key (oi_idempotencyKey i) (payment_orders db) = None"
    "find_row po_id (new_uuid e) (payment_orders db) = None" by blast+
  moreover note draft_accepted_customer [OF ok fresh(1)]
  moreover assume "amount_pattern (oi_sourceAmount i)" "rl_status lock = RL_locked" "js_now e < rl_expires_at lock"
    "find_row be_id (oi_beneficiaryId i) (beneficiaries db) = Some target"
    "be_customer_id target = oi_customerId i" "be_screening_state target = SC_clear"
    "derive_target (numeric_of_text (oi_sourceAmount i)) (rl_locked_rate lock) \<noteq> 0"
    "fits_numeric_30_12 (po_source_amount (draft_order e a i lock))"
    "fits_numeric_30_12 (po_target_amount (draft_order e a i lock))"
    "0 < po_source_amount (draft_order e a i lock)"
  ultimately show ?thesis
    using l by (simp add: draft_admissible_def draft_order_def find_row_None)
qed

lemma draft_admissible_accepted:
  assumes inv: "payment_inv db" and adm: "draft_admissible e a i db"
  shows "\<not> isl (createPostgresPaymentOrder e a i db)"
proof -
  from adm obtain lock target where l: "find_row rl_id (oi_rateLockId i) (rate_locks db) = Some lock"
    and b: "find_row be_id (oi_beneficiaryId i) (beneficiaries db) = Some target"
    by (auto simp: draft_admissible_def split: option.splits)
  have "distinct_keys rl_id (rate_locks db)" using inv by (simp add: payment_inv_def)
  then have "length (filter (\<lambda>x. rl_id x = oi_rateLockId i \<and> rl_payment_order_id x = None) (rate_locks db)) = 1"
    using l adm b by (intro length_filter_key [of rl_id _ _ lock]) (auto simp: draft_admissible_def)
  moreover have "rl_id lock = oi_rateLockId i" using find_row_mem [OF l] by blast
  moreover have "oi_sourceAmount i \<noteq> ''0''"
    using adm b l by (auto simp: draft_admissible_def numeric_of_text_def digits_value_def is_digit_def)
  ultimately show ?thesis
    using adm l b
    by (simp add: draft_admissible_def createPostgresPaymentOrder_def assertBeneficiaryScreeningClear_def
        insert_payment_order_def find_row_None consume_lock_def event_defs draft_order_def)
qed

text \<open>
  C1: In a consistent database a draft is accepted exactly when it is admissible: a positive
  amount in the accepted format, a live, unexpired and unconsumed lock, a beneficiary of the
  customer whose screening is clear, amounts that fit their columns, and an unused idempotency
  key. Every other input is refused.
\<close>

theorem draft_accepted_iff:
  assumes "payment_inv db"
  shows "\<not> isl (createPostgresPaymentOrder e a i db) \<longleftrightarrow> draft_admissible e a i db"
  using draft_accepted_admissible [OF assms] draft_admissible_accepted [OF assms, of e a i]
  by (cases "createPostgresPaymentOrder e a i db") auto

theorem draft_accepted_iff_witness:
  "payment_inv sample_db \<and> draft_admissible sample_env sample_actor sample_input sample_db \<and>
   \<not> isl (createPostgresPaymentOrder sample_env sample_actor sample_input sample_db)"
proof -
  have "draft_admissible sample_env sample_actor sample_input sample_db" by code_simp
  then show ?thesis using drafted_inv(1) draft_accepted_iff [OF drafted_inv(1)] by blast
qed



text \<open>
  C35: The replay of an instruction never succeeds: once an order with an idempotency key exists,
  every later call with that key is refused, whichever lock it presents. The presented lock is
  either consumed, and the reuse guard refuses it before the replay branch is reached, or it is
  not the lock the order is backed by.
\<close>

theorem replay_always_refused:
  assumes "payment_inv db" and "oi_idempotencyKey i \<in> po_idempotency_key ` set (payment_orders db)"
  shows "\<exists>er. createPostgresPaymentOrder e a i db = Inl er"
proof -
  have "\<not> draft_admissible e a i db" using assms(2) by (simp add: draft_admissible_def)
  then show ?thesis
    using draft_accepted_admissible [OF assms(1)] by (cases "createPostgresPaymentOrder e a i db") auto
qed

theorem replay_always_refused_witness:
  "payment_inv drafted_db \<and> (\<exists>er. createPostgresPaymentOrder sample_env sample_actor sample_input drafted_db = Inl er)"
  using replay_always_refused [OF drafted_inv(2), of sample_input sample_env sample_actor] drafted_inv(2)
  by (simp add: drafted_tables sample_order_def sample_input_def)

text \<open>
  C8: The derived amount is the exact product rounded to eight decimals: it is within half a unit
  of the eighth decimal of the product, ties go away from zero, and a larger source amount never
  gives a smaller target amount.
\<close>

theorem derive_target_rounding:
  assumes "0 \<le> src" and "0 < rate"
  shows "2 * \<bar>derive_target src rate * 10 ^ 16 - src * rate\<bar> \<le> 10 ^ 16 \<and>
    2 * (src * rate - derive_target src rate * 10 ^ 16) < 10 ^ 16 \<and>
    (src \<le> src' \<longrightarrow> derive_target src rate \<le> derive_target src' rate)"
proof -
  define x where "x = src * rate"
  have x: "0 \<le> x" using assms by (simp add: x_def)
  define q where "q = (x + 5 * 10 ^ 15) div 10 ^ 16"
  have q: "q * 10 ^ 16 \<le> x + 5 * 10 ^ 15" "x + 5 * 10 ^ 15 < (q + 1) * 10 ^ 16"
    unfolding q_def by (simp_all add: algebra_simps)
  have d: "derive_target src rate = q"
    using x by (auto simp: derive_target_def pg_round8_def x_def [symmetric] q_def sgn_if)
  have "derive_target src rate \<le> derive_target src' rate" if "src \<le> src'"
  proof -
    have "src * rate \<le> src' * rate" using that assms(2) by (simp add: mult_right_mono)
    with x show ?thesis by (auto simp: derive_target_def pg_round8_def sgn_if zdiv_mono1 x_def)
  qed
  then show ?thesis
    using q unfolding d x_def [symmetric] by auto
qed

theorem derive_target_rounding_witness:
  "derive_target 12500000000000 1500500000000000 = 1875625000000 \<and>
   2 * \<bar>derive_target 12500000000000 1500500000000000 * 10 ^ 16 - 12500000000000 * 1500500000000000\<bar> \<le> 10 ^ 16"
  using derive_target_rounding [of 12500000000000 1500500000000000] sample_amounts(3) by simp

section \<open>Expiry\<close>

text \<open>
  C9: An expiry run expires exactly the live locks whose time has passed: it reports them and
  appends one event for each, in table order, changes no other lock, and a second run at the same
  instant finds nothing, changes nothing and appends nothing.
\<close>

theorem expiry_exact_and_idempotent:
  "\<exists>db'. expirePostgresRateLocks e a db =
      Inr ((length (filter (elapsed (pg_now e)) (rate_locks db)),
            map rl_id (filter (elapsed (pg_now e)) (rate_locks db))), db') \<and>
    rate_locks db' = map (\<lambda>l. if rl_status l = RL_locked \<and> rl_expires_at l \<le> pg_now e
        then l\<lparr>rl_status := RL_expired\<rparr> else l) (rate_locks db) \<and>
    map (\<lambda>ev. (ev_action ev, ev_object_id ev)) (activity_events db') =
      map (\<lambda>ev. (ev_action ev, ev_object_id ev)) (activity_events db) @
      map (\<lambda>l. (''rate_lock.expired'', Some (rl_id l))) (filter (elapsed (pg_now e)) (rate_locks db)) \<and>
    expirePostgresRateLocks e a db' = Inr ((0, []), db')"
proof -
  let ?f = "\<lambda>l. if elapsed (pg_now e) l then l\<lparr>rl_status := RL_expired\<rparr> else l"
  let ?rows = "filter (elapsed (pg_now e)) (rate_locks db)"
  define db' where "db' = fold (record_expiry e a) ?rows (db\<lparr>rate_locks := map ?f (rate_locks db)\<rparr>)"
  have locks: "rate_locks db' = map ?f (rate_locks db)"
    by (simp add: db'_def)
  then have none: "filter (elapsed (pg_now e)) (rate_locks db') = []"
    by (auto simp: filter_empty_conv elapsed_def)
  then have "map ?f (rate_locks db') = rate_locks db'"
    by (auto simp: filter_empty_conv intro: map_idI)
  with none have "expirePostgresRateLocks e a db' = Inr ((0, []), db')"
    by (simp add: expirePostgresRateLocks_def Let_def)
  moreover have "expirePostgresRateLocks e a db = Inr ((length ?rows, map rl_id ?rows), db')"
    by (simp add: expirePostgresRateLocks_def Let_def db'_def)
  moreover have "map (\<lambda>ev. (ev_action ev, ev_object_id ev)) (activity_events db') =
      map (\<lambda>ev. (ev_action ev, ev_object_id ev)) (activity_events db) @
      map (\<lambda>l. (''rate_lock.expired'', Some (rl_id l))) ?rows"
    by (simp add: db'_def record_expiry_log)
  ultimately show ?thesis using locks unfolding elapsed_def by blast
qed

section \<open>The two cancellation procedures\<close>

text \<open>
  C36: A lock that backs an order can be cancelled through the router. The cancellation the router
  calls accepts the lock and leaves the order backed by a cancelled lock, while the cancellation
  of the payment workflow refuses it, as its contract demands.
\<close>

theorem router_cancels_consumed_lock:
  assumes "find_row rl_id k (rate_locks db) = Some lock" and "rl_status lock = RL_locked"
    and "rl_payment_order_id lock = Some ordId" and "10 \<le> length (js_trim reason)"
  shows "workflow_cancelPostgresRateLock e a k reason db =
      Inl (Refused ''Rate lock is bound to a payment order and may not be cancelled'') \<and>
    (\<exists>db'. postgres_cancelPostgresRateLock e a k db = Inr ((k, RL_cancelled), db') \<and>
       find_row rl_id k (rate_locks db') = Some (lock\<lparr>rl_status := RL_cancelled\<rparr>) \<and>
       payment_orders db' = payment_orders db)"
proof -
  have "rl_id lock = k" using find_row_mem [OF assms(1)] by blast
  then show ?thesis
    using assms by (simp add: workflow_cancelPostgresRateLock_def postgres_cancelPostgresRateLock_def event_defs table_simps)
qed

theorem router_cancels_consumed_lock_witness:
  "payment_inv drafted_db \<and> (\<exists>db'. postgres_cancelPostgresRateLock sample_env sample_actor 30 drafted_db =
     Inr ((30, RL_cancelled), db') \<and> payment_orders db' = [sample_order])"
proof -
  have "find_row rl_id 30 (rate_locks drafted_db) = Some (sample_lock\<lparr>rl_payment_order_id := Some 50\<rparr>)"
    by (simp add: drafted_tables find_row_def sample_lock_def)
  moreover have "10 \<le> length (js_trim ''customer withdrew'')" by code_simp
  ultimately show ?thesis
    using router_cancels_consumed_lock [of 30 drafted_db "sample_lock\<lparr>rl_payment_order_id := Some 50\<rparr>" 50
        "''customer withdrew''" sample_env sample_actor]
    by (auto simp: sample_lock_def drafted_tables drafted_inv)
qed

section \<open>Legs\<close>

text \<open>
  A leg is added exactly when its order exists and is a draft, its counterparty has a licence
  authorisation that is verified and in force today, its kind is one of the schema's, its
  sequence number fits and is free on that order, and the new identifier and the counterparty
  satisfy the keys. The leg starts as a draft without any provider reference.
\<close>

lemma leg_added_iff:
  "(\<exists>db'. createPostgresPaymentLeg e a i db = Inr
      (\<lparr>pl_id = new_uuid e, pl_payment_order_id = li_paymentOrderId i, pl_sequence_number = li_sequenceNumber i,
        pl_leg_kind = li_legKind i, pl_counterparty_id = Some (li_counterpartyId i), pl_status = PS_draft,
        pl_provider_instruction_reference = None, pl_provider_finality_reference = None\<rparr>, db')) \<longleftrightarrow>
   order_status db (li_paymentOrderId i) = Some PS_draft \<and>
   (\<exists>z \<in> set (counterparty_authorizations db). currently_verified (pg_today e) (li_counterpartyId i) z) \<and>
   li_legKind i \<in> set leg_kinds \<and> 1 \<le> li_sequenceNumber i \<and> li_sequenceNumber i < 2 ^ 31 \<and>
   (li_paymentOrderId i, li_sequenceNumber i) \<notin> leg_slot ` set (payment_legs db) \<and>
   new_uuid e \<notin> pl_id ` set (payment_legs db) \<and> li_counterpartyId i \<in> cp_id ` set (counterparties db)"
  (is "?ok \<longleftrightarrow> ?guards")
proof
  assume ?ok
  then show ?guards
    by (auto simp: createPostgresPaymentLeg_def insert_payment_leg_def event_defs order_status_def leg_slot_def
        find_row_None list_ex_iff filter_empty_conv split: if_splits option.splits)
next
  assume g: ?guards
  then have "list_ex (\<lambda>l. pl_payment_order_id l = li_paymentOrderId i \<and> pl_sequence_number l = li_sequenceNumber i)
      (payment_legs db) = False"
    by (auto simp: list_ex_iff leg_slot_def image_iff)
  moreover from g obtain ord where "find_row po_id (li_paymentOrderId i) (payment_orders db) = Some ord" "po_status ord = PS_draft"
    by (auto simp: order_status_def)
  ultimately show ?ok
    using g by (auto simp: createPostgresPaymentLeg_def insert_payment_leg_def event_defs
        find_row_None filter_empty_conv)
qed

section \<open>Transitions\<close>

lemma internal_not_provider_dependent:
  "st' \<in> set (internalOrderTransitions st) \<Longrightarrow> st' \<notin> set providerDependentOrderStates"
  "st' \<in> set (allowedInternalLegTransitions st) \<Longrightarrow> st' \<notin> set providerDependentOrderStates"
  by (cases st; auto simp: providerDependentOrderStates_def allowedInternalLegTransitions_def)+

text \<open>
  An order moves exactly along the internal transition table, with a substantive reason, and to
  approved only with a recorded policy decision; the move changes the status and the update time of
  that order and appends one event that names both states.
\<close>

lemma order_transition_iff:
  "(\<exists>db'. transitionPostgresPaymentOrder e a k st rs db = Inr ((k, st), db') \<and>
      payment_orders db' = update_row po_id k (\<lambda>r. r\<lparr>po_status := st, po_updated_at := pg_now e\<rparr>) (payment_orders db) \<and>
      rate_locks db' = rate_locks db \<and> payment_legs db' = payment_legs db \<and>
      map ev_action (activity_events db') = map ev_action (activity_events db) @ [''payment_order.'' @ payment_status_text st])
   \<longleftrightarrow> (case find_row po_id k (payment_orders db) of
          None \<Rightarrow> False
        | Some ord \<Rightarrow> st \<in> set (internalOrderTransitions (po_status ord)) \<and> 10 \<le> length (js_trim rs) \<and>
            (st = PS_approved \<longrightarrow> po_policy_decision_id ord \<noteq> None))"
  by (auto simp: transitionPostgresPaymentOrder_def event_defs insert_event_log
      dest: internal_not_provider_dependent split: option.splits)

definition decided_order :: payment_order where
  "decided_order = sample_order\<lparr>po_status := PS_manual_review, po_policy_decision_id := Some 77\<rparr>"

definition sample_leg :: payment_leg where
  "sample_leg = \<lparr>pl_id = 60, pl_payment_order_id = 50, pl_sequence_number = 1, pl_leg_kind = ''payout'',
     pl_counterparty_id = Some 5, pl_status = PS_manual_review, pl_provider_instruction_reference = None,
     pl_provider_finality_reference = None\<rparr>"

definition decided_db :: db where
  "decided_db = drafted_db\<lparr>payment_orders := [decided_order], payment_legs := [sample_leg]\<rparr>"

lemma decided_lookup:
  "find_row po_id 50 (payment_orders decided_db) = Some decided_order"
  "find_row pl_id 60 (payment_legs decided_db) = Some sample_leg"
  by (simp_all add: decided_db_def decided_order_def sample_order_def sample_leg_def find_row_def)

lemma decided_inv: "payment_inv decided_db"
  by code_simp

lemma order_transition_iff_witness:
  "\<exists>db'. transitionPostgresPaymentOrder sample_env sample_actor 50 PS_approved ''policy decision 77 allows'' decided_db
     = Inr ((50, PS_approved), db')"
proof -
  have "10 \<le> length (js_trim ''policy decision 77 allows'')" by code_simp
  then show ?thesis
    using order_transition_iff [of sample_env sample_actor 50 PS_approved "''policy decision 77 allows''" decided_db]
    by (auto simp: decided_lookup decided_order_def)
qed

text \<open>
  A leg moves exactly along the internal transition table, with a substantive reason and an
  existing order, and to approved only while its order is approved; the move changes nothing but
  the status of that leg and appends one event.
\<close>

lemma leg_transition_iff:
  "(\<exists>db'. transitionPostgresPaymentLeg e a k st rs db = Inr ((k, st), db') \<and>
      payment_legs db' = update_row pl_id k (\<lambda>l. l\<lparr>pl_status := st\<rparr>) (payment_legs db) \<and>
      rate_locks db' = rate_locks db \<and> payment_orders db' = payment_orders db \<and>
      map ev_action (activity_events db') = map ev_action (activity_events db) @ [''payment_leg.'' @ payment_status_text st])
   \<longleftrightarrow> (case find_row pl_id k (payment_legs db) of
          None \<Rightarrow> False
        | Some leg \<Rightarrow> (case order_status db (pl_payment_order_id leg) of
            None \<Rightarrow> False
          | Some ost \<Rightarrow> st \<in> set (allowedInternalLegTransitions (pl_status leg)) \<and> 10 \<le> length (js_trim rs) \<and>
              (st = PS_approved \<longrightarrow> ost = PS_approved)))"
  by (auto simp: transitionPostgresPaymentLeg_def event_defs insert_event_log order_status_def
      dest: internal_not_provider_dependent split: option.splits)

lemma leg_transition_iff_witness:
  "\<exists>db'. transitionPostgresPaymentLeg sample_env sample_actor 60 PS_blocked ''sanctions query open'' decided_db
     = Inr ((60, PS_blocked), db')"
proof -
  have "10 \<le> length (js_trim ''sanctions query open'')" by code_simp
  then show ?thesis
    using leg_transition_iff [of sample_env sample_actor 60 PS_blocked "''sanctions query open''" decided_db]
    by (auto simp: decided_lookup order_status_def decided_order_def sample_leg_def allowedInternalLegTransitions_def)
qed

text \<open>
  An approved leg can outrank its order. Cancelling an approved order is always possible and
  leaves its legs untouched, so an approved leg stays approved under a cancelled order.
\<close>

lemma approved_leg_outlives_order:
  assumes "find_row pl_id l (payment_legs db) = Some leg" and "pl_status leg = PS_approved"
    and "order_status db (pl_payment_order_id leg) = Some PS_approved" and "10 \<le> length (js_trim rs)"
  shows "\<exists>db'. transitionPostgresPaymentOrder e a (pl_payment_order_id leg) PS_cancelled rs db =
      Inr ((pl_payment_order_id leg, PS_cancelled), db') \<and>
    order_status db' (pl_payment_order_id leg) = Some PS_cancelled \<and> leg_status db' l = Some PS_approved"
  using assms
  by (auto simp: transitionPostgresPaymentOrder_def event_defs order_status_def leg_status_def
      providerDependentOrderStates_def table_simps)

definition approved_db :: db where
  "approved_db = decided_db\<lparr>payment_orders := [decided_order\<lparr>po_status := PS_approved\<rparr>],
     payment_legs := [sample_leg\<lparr>pl_status := PS_approved\<rparr>]\<rparr>"

lemma approved_leg_outlives_order_witness:
  "payment_inv approved_db \<and> (\<exists>db'. transitionPostgresPaymentOrder sample_env sample_actor 50 PS_cancelled
      ''customer withdrew the instruction'' approved_db = Inr ((50, PS_cancelled), db') \<and>
    order_status db' 50 = Some PS_cancelled \<and> leg_status db' 60 = Some PS_approved)"
proof -
  have "payment_inv approved_db" by code_simp
  moreover have "10 \<le> length (js_trim ''customer withdrew the instruction'')" by code_simp
  ultimately show ?thesis
    using approved_leg_outlives_order [of 60 approved_db "sample_leg\<lparr>pl_status := PS_approved\<rparr>"
        "''customer withdrew the instruction''" sample_env sample_actor]
    by (simp add: approved_db_def sample_leg_def decided_order_def sample_order_def find_row_def order_status_def)
qed

end
