(* ===== verification/Compliance_Workflow.thy ===== *)
theory Compliance_Workflow
  imports Umoja_Store
begin

text \<open>
  Compliance alerts (\<open>server/complianceAlerts.ts\<close>), compliance cases
  (\<open>server/complianceCaseWorkflow.ts\<close> and \<open>createPostgresComplianceCase\<close> of
  \<open>server/postgres.ts\<close>) and SAR/STR filings (\<open>server/postgres.ts\<close>). An alert is raised at
  most once per policy and source reference and leaves the queue by escalation into a case or
  by dismissal; a case records human dispositions; a filing reaches submitted only with a
  submission reference.
\<close>

section \<open>Alert policies\<close>

definition createPostgresAlertPolicy ::
  "env \<Rightarrow> actor \<Rightarrow> alert_type \<Rightarrow> corridor option \<Rightarrow> json \<Rightarrow> alert_policy tx" where
  "createPostgresAlertPolicy e a alertType cor threshold db =
    (if find_row ap_id (new_uuid e) (alert_policies db) \<noteq> None then Inl (UniqueViolation ''alert_policies'')
     else let row = \<lparr>ap_id = new_uuid e, ap_alert_type = alertType, ap_corridor = cor, ap_threshold = threshold,
                ap_enabled = True, ap_created_by = openId a, ap_created_at = pg_now e\<rparr>
          in Inr (row, insert_event e a ''alert_policy.created'' ''alert_policy'' (Some (ap_id row))
               [(''alertType'', JStr (alert_type_text alertType)), (''corridor'', jopt (\<lambda>c. JStr (corridor_text c)) cor),
                (''enabled'', JBool (ap_enabled row))]
               (db\<lparr>alert_policies := insert_row row (alert_policies db)\<rparr>)))"

section \<open>Alerts\<close>

fun ALLOWED_TRANSITIONS :: "alert_state \<Rightarrow> alert_state list" where
  "ALLOWED_TRANSITIONS CA_open = [CA_acknowledged, CA_escalated, CA_dismissed]"
| "ALLOWED_TRANSITIONS CA_acknowledged = [CA_escalated, CA_dismissed]"
| "ALLOWED_TRANSITIONS CA_escalated = []"
| "ALLOWED_TRANSITIONS CA_dismissed = []"

record alert_input =
  ai_alertPolicyId :: uuid
  ai_severity :: severity
  ai_sourceReference :: string
  ai_evidence :: "json option"
  ai_detectedAt :: instant
  ai_paymentOrderId :: "uuid option"
  ai_customerId :: "uuid option"
  ai_counterpartyId :: "uuid option"

text \<open>The row constraints of \<open>compliance_alerts\<close>.\<close>

definition substantive :: "string option \<Rightarrow> bool" where
  "substantive x \<longleftrightarrow> (case x of None \<Rightarrow> False | Some s \<Rightarrow> 8 \<le> length (sql_trim s))"

definition alert_row_checks :: "compliance_alert \<Rightarrow> bool" where
  "alert_row_checks r \<longleftrightarrow> 8 \<le> length (sql_trim (ca_source_reference r)) \<and>
     (ca_state r = CA_acknowledged \<longrightarrow> ca_acknowledged_by r \<noteq> None \<and> ca_acknowledged_at r \<noteq> None \<and>
        substantive (ca_acknowledgement_note r)) \<and>
     (ca_state r = CA_escalated \<longrightarrow> ca_escalated_case_id r \<noteq> None \<and> ca_escalated_by r \<noteq> None \<and> ca_escalated_at r \<noteq> None) \<and>
     (ca_state r = CA_dismissed \<longrightarrow> ca_dismissed_by r \<noteq> None \<and> ca_dismissed_at r \<noteq> None \<and>
        substantive (ca_dismissal_reason r))"

definition alert_slot :: "compliance_alert \<Rightarrow> uuid \<times> string" where
  "alert_slot r = (ca_alert_policy_id r, ca_source_reference r)"

text \<open>A foreign key column that may be null.\<close>

definition fk_ok :: "('r \<Rightarrow> uuid) \<Rightarrow> uuid option \<Rightarrow> 'r list \<Rightarrow> bool" where
  "fk_ok key k rows \<longleftrightarrow> (case k of None \<Rightarrow> True | Some i \<Rightarrow> find_row key i rows \<noteq> None)"

definition insert_compliance_alert :: "compliance_alert \<Rightarrow> compliance_alert tx" where
  "insert_compliance_alert r db =
    (if \<not> alert_row_checks r then Inl (CheckViolation ''compliance_alerts'')
     else if find_row ca_id (ca_id r) (compliance_alerts db) \<noteq> None
          \<or> find_row alert_slot (alert_slot r) (compliance_alerts db) \<noteq> None
     then Inl (UniqueViolation ''compliance_alerts'')
     else if find_row ap_id (ca_alert_policy_id r) (alert_policies db) = None
          \<or> \<not> fk_ok po_id (ca_payment_order_id r) (payment_orders db)
          \<or> \<not> fk_ok cu_id (ca_customer_id r) (customers db)
          \<or> \<not> fk_ok cp_id (ca_counterparty_id r) (counterparties db)
     then Inl (ForeignKeyViolation ''compliance_alerts'')
     else Inr (r, db\<lparr>compliance_alerts := insert_row r (compliance_alerts db)\<rparr>))"

definition raisePostgresComplianceAlert :: "env \<Rightarrow> actor \<Rightarrow> alert_input \<Rightarrow> (compliance_alert \<times> bool) tx" where
  "raisePostgresComplianceAlert e a i db =
    (if length (js_trim (ai_sourceReference i)) < 8 then
       Inl (Refused ''compliance alert requires a verifiable source reference of at least 8 characters'')
     else if ai_evidence i = None \<or> ai_evidence i = Some JNull then
       Inl (Refused ''compliance alert requires detection evidence'')
     else
       (case find_row ap_id (ai_alertPolicyId i) (alert_policies db) of
          None \<Rightarrow> Inl (Refused ''alert policy not found; an alert cannot exist without its policy'')
        | Some policy \<Rightarrow>
          if \<not> ap_enabled policy then Inl (Refused ''alert policy is disabled; no alert was raised'')
          else case find_row alert_slot (ai_alertPolicyId i, ai_sourceReference i) (compliance_alerts db) of
            Some existing \<Rightarrow> Inr ((existing, False), db)
          | None \<Rightarrow>
            (case insert_compliance_alert
                \<lparr>ca_id = new_uuid e, ca_alert_policy_id = ai_alertPolicyId i, ca_alert_type = ap_alert_type policy,
                 ca_corridor = ap_corridor policy, ca_severity = ai_severity i, ca_state = CA_open,
                 ca_source_reference = ai_sourceReference i, ca_evidence = the (ai_evidence i),
                 ca_detected_at = ai_detectedAt i, ca_payment_order_id = ai_paymentOrderId i,
                 ca_customer_id = ai_customerId i, ca_counterparty_id = ai_counterpartyId i,
                 ca_acknowledged_by = None, ca_acknowledged_at = None, ca_acknowledgement_note = None,
                 ca_escalated_case_id = None, ca_escalated_by = None, ca_escalated_at = None,
                 ca_dismissed_by = None, ca_dismissed_at = None, ca_dismissal_reason = None\<rparr> db of
               Inl er \<Rightarrow> Inl er
             | Inr (alert, db1) \<Rightarrow> Inr ((alert, True),
                 insert_event e a ''compliance_alert.raised'' ''compliance_alert'' (Some (ca_id alert))
                   [(''alertType'', JStr (alert_type_text (ap_alert_type policy))),
                    (''severity'', JStr (severity_text (ai_severity i))),
                    (''sourceReference'', JStr (ai_sourceReference i)),
                    (''detectedAt'', JTime (ai_detectedAt i))] db1))))"

text \<open>
  \<open>transitionAlert\<close> is the shared frame of the three transitions: the guard on the current
  state, the caller's update, one event. The update of a row is checked against the row
  constraints, and a new case reference against the cases.
\<close>

definition update_alert :: "uuid \<Rightarrow> (compliance_alert \<Rightarrow> compliance_alert) \<Rightarrow> compliance_alert \<Rightarrow> db \<Rightarrow> db result" where
  "update_alert alertId f current db =
    (if \<not> alert_row_checks (f current) then Inl (CheckViolation ''compliance_alerts'')
     else if \<not> fk_ok cc_id (ca_escalated_case_id (f current)) (compliance_cases db)
     then Inl (ForeignKeyViolation ''compliance_alerts'')
     else Inr (db\<lparr>compliance_alerts := update_row ca_id alertId f (compliance_alerts db)\<rparr>))"

definition transitionAlert ::
  "env \<Rightarrow> actor \<Rightarrow> uuid \<Rightarrow> alert_state
    \<Rightarrow> (compliance_alert \<Rightarrow> db \<Rightarrow> ((string \<times> json) list \<times> db) result) \<Rightarrow> compliance_alert tx" where
  "transitionAlert e a alertId target apply db =
    (case find_row ca_id alertId (compliance_alerts db) of
       None \<Rightarrow> Inl (Refused ''compliance alert not found'')
     | Some current \<Rightarrow>
         if target \<notin> set (ALLOWED_TRANSITIONS (ca_state current)) then
           Inl (Refused (''compliance alert cannot move from '' @ alert_state_text (ca_state current) @ '' to ''
             @ alert_state_text target))
         else case apply current db of
           Inl er \<Rightarrow> Inl er
         | Inr (metadata, db1) \<Rightarrow>
             (let db2 = insert_event e a (''compliance_alert.'' @ alert_state_text target) ''compliance_alert'' (Some alertId)
                    ([(''from'', JStr (alert_state_text (ca_state current))), (''to'', JStr (alert_state_text target))]
                      @ metadata) db1
              in case find_row ca_id alertId (compliance_alerts db2) of
                   None \<Rightarrow> Inl (Refused ''compliance alert not found'')
                 | Some updated \<Rightarrow> Inr (updated, db2)))"

definition apply_acknowledged ::
  "env \<Rightarrow> actor \<Rightarrow> uuid \<Rightarrow> string \<Rightarrow> compliance_alert \<Rightarrow> db \<Rightarrow> ((string \<times> json) list \<times> db) result" where
  "apply_acknowledged e a alertId note current db =
    (case update_alert alertId (\<lambda>r. r\<lparr>ca_state := CA_acknowledged, ca_acknowledged_by := Some (openId a, role a),
        ca_acknowledged_at := Some (pg_now e), ca_acknowledgement_note := Some note\<rparr>) current db of
       Inl er \<Rightarrow> Inl er
     | Inr db1 \<Rightarrow> Inr ([(''note'', JStr note)], db1))"

definition acknowledgePostgresComplianceAlert :: "env \<Rightarrow> actor \<Rightarrow> uuid \<Rightarrow> string \<Rightarrow> compliance_alert tx" where
  "acknowledgePostgresComplianceAlert e a alertId note db =
    (if length (js_trim note) < 8 then Inl (Refused ''acknowledgement requires a substantive note'')
     else transitionAlert e a alertId CA_acknowledged (apply_acknowledged e a alertId note) db)"

text \<open>The subjects of an alert and of a case agree wherever both name one.\<close>

definition subjects_differ :: "uuid option \<Rightarrow> uuid option \<Rightarrow> bool" where
  "subjects_differ x y \<longleftrightarrow> x \<noteq> None \<and> y \<noteq> None \<and> x \<noteq> y"

definition apply_escalated ::
  "env \<Rightarrow> actor \<Rightarrow> uuid \<Rightarrow> uuid \<Rightarrow> compliance_alert \<Rightarrow> db \<Rightarrow> ((string \<times> json) list \<times> db) result" where
  "apply_escalated e a alertId caseId current db =
    (case find_row cc_id caseId (compliance_cases db) of
       None \<Rightarrow> Inl (Refused ''escalation requires an existing compliance case'')
     | Some complianceCase \<Rightarrow>
         if cc_status complianceCase = CC_closed then
           Inl (Refused ''cannot escalate an alert into a closed compliance case'')
         else if subjects_differ (ca_customer_id current) (cc_customer_id complianceCase) then
           Inl (Refused ''escalation case subject does not match the alert subject'')
         else if subjects_differ (ca_payment_order_id current) (cc_payment_order_id complianceCase) then
           Inl (Refused ''escalation case payment order does not match the alert'')
         else case update_alert alertId (\<lambda>r. r\<lparr>ca_state := CA_escalated, ca_escalated_case_id := Some caseId,
             ca_escalated_by := Some (openId a, role a), ca_escalated_at := Some (pg_now e)\<rparr>) current db of
           Inl er \<Rightarrow> Inl er
         | Inr db1 \<Rightarrow> Inr ([(''caseId'', jid caseId)], db1))"

definition escalatePostgresComplianceAlert :: "env \<Rightarrow> actor \<Rightarrow> uuid \<Rightarrow> uuid \<Rightarrow> compliance_alert tx" where
  "escalatePostgresComplianceAlert e a alertId caseId db =
     transitionAlert e a alertId CA_escalated (apply_escalated e a alertId caseId) db"

definition apply_dismissed ::
  "env \<Rightarrow> actor \<Rightarrow> uuid \<Rightarrow> string \<Rightarrow> compliance_alert \<Rightarrow> db \<Rightarrow> ((string \<times> json) list \<times> db) result" where
  "apply_dismissed e a alertId reason current db =
    (case update_alert alertId (\<lambda>r. r\<lparr>ca_state := CA_dismissed, ca_dismissed_by := Some (openId a, role a),
        ca_dismissed_at := Some (pg_now e), ca_dismissal_reason := Some reason\<rparr>) current db of
       Inl er \<Rightarrow> Inl er
     | Inr db1 \<Rightarrow> Inr ([(''reason'', JStr reason)], db1))"

definition dismissPostgresComplianceAlert :: "env \<Rightarrow> actor \<Rightarrow> uuid \<Rightarrow> string \<Rightarrow> compliance_alert tx" where
  "dismissPostgresComplianceAlert e a alertId reason db =
    (if length (js_trim reason) < 8 then Inl (Refused ''dismissal requires a substantive reason'')
     else transitionAlert e a alertId CA_dismissed (apply_dismissed e a alertId reason) db)"

section \<open>Cases\<close>

fun ALLOWED_CASE_TRANSITIONS :: "case_status \<Rightarrow> case_status list" where
  "ALLOWED_CASE_TRANSITIONS CC_open = [CC_under_review, CC_closed]"
| "ALLOWED_CASE_TRANSITIONS CC_under_review = [CC_cleared, CC_escalated, CC_reported, CC_closed]"
| "ALLOWED_CASE_TRANSITIONS CC_escalated = [CC_reported, CC_cleared, CC_closed]"
| "ALLOWED_CASE_TRANSITIONS CC_cleared = [CC_closed]"
| "ALLOWED_CASE_TRANSITIONS CC_reported = [CC_closed]"
| "ALLOWED_CASE_TRANSITIONS CC_closed = []"

definition allowedComplianceCaseTransitions :: "case_status \<Rightarrow> case_status list" where
  "allowedComplianceCaseTransitions st = ALLOWED_CASE_TRANSITIONS st"

definition disposeComplianceCase ::
  "env \<Rightarrow> actor \<Rightarrow> uuid \<Rightarrow> case_status \<Rightarrow> string \<Rightarrow> (uuid \<times> case_status) tx" where
  "disposeComplianceCase e a complianceCaseId status reason db =
    (let decisionReason = js_trim reason
     in if length decisionReason < 20 then
          Inl (Refused ''a compliance-case disposition requires an attributable rationale of at least 20 characters'')
        else case find_row cc_id complianceCaseId (compliance_cases db) of
          None \<Rightarrow> Inl (Refused ''compliance case was not found'')
        | Some existing \<Rightarrow>
            if status \<notin> set (ALLOWED_CASE_TRANSITIONS (cc_status existing)) then
              Inl (Refused (''a compliance case in '' @ case_status_text (cc_status existing)
                @ '' cannot transition to '' @ case_status_text status))
            else Inr ((complianceCaseId, status),
              insert_event e a ''compliance_case.disposed'' ''compliance_case'' (Some complianceCaseId)
                [(''fromStatus'', JStr (case_status_text (cc_status existing))),
                 (''toStatus'', JStr (case_status_text status)), (''caseType'', JStr (cc_case_type existing)),
                 (''decisionReason'', JStr decisionReason), (''decidedAt'', JTime (js_now e)),
                 (''evidenceReference'', jid (node_uuid e))]
                (db\<lparr>compliance_cases := update_row cc_id complianceCaseId
                   (\<lambda>r. r\<lparr>cc_status := status, cc_decision_reason := Some decisionReason,
                          cc_closed_at := (if status = CC_closed then Some (pg_now e) else cc_closed_at r)\<rparr>)
                   (compliance_cases db)\<rparr>)))"

definition case_types :: "string list" where
  "case_types = [''kyc'', ''sanctions'', ''transaction_monitoring'', ''travel_rule'', ''counterparty'', ''sar_str'']"

definition createPostgresComplianceCase ::
  "env \<Rightarrow> actor \<Rightarrow> string \<Rightarrow> severity \<Rightarrow> string \<Rightarrow> string option \<Rightarrow> compliance_case tx" where
  "createPostgresComplianceCase e a caseType sev sourceReference decisionReason db =
    (if caseType \<notin> set case_types then Inl (CheckViolation ''compliance_cases'')
     else if find_row cc_id (new_uuid e) (compliance_cases db) \<noteq> None then Inl (UniqueViolation ''compliance_cases'')
     else let row = \<lparr>cc_id = new_uuid e, cc_payment_order_id = None, cc_customer_id = None, cc_case_type = caseType,
                cc_status = CC_open, cc_severity = sev, cc_source_reference = sourceReference,
                cc_decision_reason = decisionReason, cc_opened_at = pg_now e, cc_closed_at = None\<rparr>
          in Inr (row, insert_event e a ''compliance_case.opened'' ''compliance_case'' (Some (cc_id row))
               [(''caseType'', JStr caseType), (''severity'', JStr (severity_text sev)),
                (''sourceReference'', JStr sourceReference),
                (''hasDecisionReason'', JBool (case decisionReason of None \<Rightarrow> False | Some s \<Rightarrow> js_trim s \<noteq> []))]
               (db\<lparr>compliance_cases := insert_row row (compliance_cases db)\<rparr>)))"

section \<open>SAR/STR filings\<close>

definition createPostgresSarStrFiling ::
  "env \<Rightarrow> actor \<Rightarrow> uuid \<Rightarrow> corridor \<Rightarrow> string \<Rightarrow> string \<Rightarrow> string \<Rightarrow> sar_str_filing tx" where
  "createPostgresSarStrFiling e a complianceCaseId cor filingType filingAuthority sourceReference db =
    (if find_row cc_id complianceCaseId (compliance_cases db) = None then
       Inl (Refused ''SAR/STR filing requires an existing compliance case'')
     else if find_row sf_id (new_uuid e) (sar_str_filings db) \<noteq> None then Inl (UniqueViolation ''sar_str_filings'')
     else let row = \<lparr>sf_id = new_uuid e, sf_compliance_case_id = complianceCaseId, sf_corridor = cor,
                sf_filing_type = filingType, sf_filing_authority = filingAuthority,
                sf_source_reference = sourceReference, sf_status = SF_draft, sf_submission_reference = None,
                sf_created_by = openId a, sf_updated_at = pg_now e\<rparr>
          in Inr (row, insert_event e a ''sar_str_filing.draft_created'' ''sar_str_filing'' (Some (sf_id row))
               [(''complianceCaseId'', jid complianceCaseId), (''corridor'', JStr (corridor_text cor)),
                (''filingType'', JStr filingType), (''filingAuthority'', JStr filingAuthority),
                (''sourceReference'', JStr sourceReference)]
               (db\<lparr>sar_str_filings := insert_row row (sar_str_filings db)\<rparr>)))"

fun filing_transitions :: "filing_status \<Rightarrow> filing_status list" where
  "filing_transitions SF_draft = [SF_under_review]"
| "filing_transitions SF_under_review = [SF_approved_for_submission, SF_rejected]"
| "filing_transitions SF_approved_for_submission = [SF_pending_submission]"
| "filing_transitions SF_pending_submission = [SF_submitted, SF_submission_unavailable]"
| "filing_transitions SF_submission_unavailable = [SF_pending_submission]"
| "filing_transitions SF_rejected = []"
| "filing_transitions SF_submitted = []"

text \<open>\<open>!x?.trim()\<close>: the text is missing or blank.\<close>

definition blank :: "string option \<Rightarrow> bool" where
  "blank x \<longleftrightarrow> (case x of None \<Rightarrow> True | Some s \<Rightarrow> js_trim s = [])"

definition transitionPostgresSarStrFiling ::
  "env \<Rightarrow> actor \<Rightarrow> uuid \<Rightarrow> filing_status \<Rightarrow> string option \<Rightarrow> (uuid \<times> filing_status) tx" where
  "transitionPostgresSarStrFiling e a filingId status submissionReference db =
    (case find_row sf_id filingId (sar_str_filings db) of
       None \<Rightarrow> Inl (Refused ''SAR/STR filing was not found'')
     | Some filing \<Rightarrow>
         if status \<notin> set (filing_transitions (sf_status filing)) then
           Inl (Refused ''invalid SAR/STR workflow transition'')
         else
           let ref = (case submissionReference of None \<Rightarrow> sf_submission_reference filing | Some s \<Rightarrow> Some s)
           in if status = SF_submitted \<and> blank ref then
                Inl (Refused ''verified submission reference is required before submitted status'')
              else Inr ((filingId, status),
                insert_event e a ''sar_str_filing.transitioned'' ''sar_str_filing'' (Some filingId)
                  [(''from'', JStr (filing_status_text (sf_status filing))), (''to'', JStr (filing_status_text status)),
                   (''hasSubmissionReference'', JBool (\<not> blank ref)), (''providerSubmissionActivated'', JBool False)]
                  (db\<lparr>sar_str_filings := update_row sf_id filingId
                     (\<lambda>r. r\<lparr>sf_status := status, sf_submission_reference := ref, sf_updated_at := pg_now e\<rparr>)
                     (sar_str_filings db)\<rparr>)))"

section \<open>Steps and invariant\<close>

inductive alert_step :: "db \<Rightarrow> db \<Rightarrow> bool" where
  alert_raised: "raisePostgresComplianceAlert e a i db = Inr (r1, db') \<Longrightarrow> alert_step db db'"
| alert_acknowledged: "acknowledgePostgresComplianceAlert e a k s db = Inr (r2, db') \<Longrightarrow> alert_step db db'"
| alert_escalated: "escalatePostgresComplianceAlert e a k c db = Inr (r2, db') \<Longrightarrow> alert_step db db'"
| alert_dismissed: "dismissPostgresComplianceAlert e a k s db = Inr (r2, db') \<Longrightarrow> alert_step db db'"

inductive case_step :: "db \<Rightarrow> db \<Rightarrow> bool" where
  case_opened: "createPostgresComplianceCase e a t sv s d db = Inr (r1, db') \<Longrightarrow> case_step db db'"
| case_disposed: "disposeComplianceCase e a k st s db = Inr (r2, db') \<Longrightarrow> case_step db db'"

inductive filing_step :: "db \<Rightarrow> db \<Rightarrow> bool" where
  filing_drafted: "createPostgresSarStrFiling e a c cor t au s db = Inr (r1, db') \<Longrightarrow> filing_step db db'"
| filing_moved: "transitionPostgresSarStrFiling e a k st rf db = Inr (r2, db') \<Longrightarrow> filing_step db db'"

inductive compliance_step :: "db \<Rightarrow> db \<Rightarrow> bool" where
  policy_created: "createPostgresAlertPolicy e a t cor th db = Inr (r, db') \<Longrightarrow> compliance_step db db'"
| alert: "alert_step db db' \<Longrightarrow> compliance_step db db'"
| case_: "case_step db db' \<Longrightarrow> compliance_step db db'"
| filing: "filing_step db db' \<Longrightarrow> compliance_step db db'"

text \<open>The audit trail shows that the case was taken under review.\<close>

definition review_recorded :: "activity_event list \<Rightarrow> uuid \<Rightarrow> bool" where
  "review_recorded log k \<longleftrightarrow> list_ex (\<lambda>ev. ev_action ev = ''compliance_case.disposed'' \<and> ev_object_id ev = Some k \<and>
     (''toStatus'', JStr ''under_review'') \<in> set (ev_metadata ev)) log"

definition case_ok :: "activity_event list \<Rightarrow> compliance_case \<Rightarrow> bool" where
  "case_ok log r \<longleftrightarrow> (cc_closed_at r \<noteq> None \<longleftrightarrow> cc_status r = CC_closed) \<and>
     (cc_status r \<noteq> CC_open \<longrightarrow> (\<exists>s \<in> set_option (cc_decision_reason r). 20 \<le> length s)) \<and>
     (cc_status r \<in> {CC_under_review, CC_cleared, CC_escalated, CC_reported} \<longrightarrow> review_recorded log (cc_id r))"

definition alert_ok :: "db \<Rightarrow> compliance_alert \<Rightarrow> bool" where
  "alert_ok db r \<longleftrightarrow> alert_row_checks r \<and> ca_alert_policy_id r \<in> ap_id ` set (alert_policies db) \<and>
     set_option (ca_escalated_case_id r) \<subseteq> cc_id ` set (compliance_cases db)"

definition filing_ok :: "db \<Rightarrow> sar_str_filing \<Rightarrow> bool" where
  "filing_ok db r \<longleftrightarrow> sf_compliance_case_id r \<in> cc_id ` set (compliance_cases db) \<and>
     (sf_status r = SF_submitted \<longrightarrow> \<not> blank (sf_submission_reference r))"

definition compliance_inv :: "db \<Rightarrow> bool" where
  "compliance_inv db \<longleftrightarrow>
     distinct_keys ap_id (alert_policies db) \<and>
     distinct_keys ca_id (compliance_alerts db) \<and> distinct_keys alert_slot (compliance_alerts db) \<and>
     distinct_keys cc_id (compliance_cases db) \<and> distinct_keys sf_id (sar_str_filings db) \<and>
     (\<forall>r \<in> set (compliance_alerts db). alert_ok db r) \<and>
     (\<forall>r \<in> set (compliance_cases db). case_ok (activity_events db) r) \<and>
     (\<forall>r \<in> set (sar_str_filings db). filing_ok db r)"

lemma review_recorded_mono: "prefix log log' \<Longrightarrow> review_recorded log k \<Longrightarrow> review_recorded log' k"
  by (auto simp: review_recorded_def list_ex_iff prefix_def)

lemma case_ok_mono: "prefix log log' \<Longrightarrow> case_ok log r \<Longrightarrow> case_ok log' r"
  by (auto simp: case_ok_def intro: review_recorded_mono)

section \<open>What each operation does when it succeeds\<close>

lemma substantive_js: "8 \<le> length (js_trim s) \<Longrightarrow> substantive (Some s)"
  using length_js_trim_sql_trim [of s] by (simp add: substantive_def)

lemma raise_effect:
  assumes "raisePostgresComplianceAlert e a i db = Inr ((alert, created), db')"
  shows "(\<not> created \<and> db' = db \<and> find_row alert_slot (ai_alertPolicyId i, ai_sourceReference i) (compliance_alerts db) = Some alert) \<or>
    (created \<and> compliance_alerts db' = insert_row alert (compliance_alerts db) \<and> ca_state alert = CA_open \<and>
      alert_slot alert = (ai_alertPolicyId i, ai_sourceReference i) \<and> alert_row_checks alert \<and>
      ca_id alert \<notin> ca_id ` set (compliance_alerts db) \<and> alert_slot alert \<notin> alert_slot ` set (compliance_alerts db) \<and>
      ca_alert_policy_id alert \<in> ap_id ` set (alert_policies db) \<and> ca_escalated_case_id alert = None \<and>
      prefix (activity_events db) (activity_events db') \<and>
      db'\<lparr>compliance_alerts := compliance_alerts db, activity_events := activity_events db\<rparr> = db)"
  using assms
  by (auto simp: raisePostgresComplianceAlert_def insert_compliance_alert_def find_row_None alert_slot_def
      insert_event_def split: if_splits option.splits dest: find_row_image)

text \<open>The common effect of the three transitions.\<close>

definition alert_moved :: "uuid \<Rightarrow> alert_state \<Rightarrow> compliance_alert \<Rightarrow> (compliance_alert \<Rightarrow> compliance_alert) \<Rightarrow> db \<Rightarrow> db \<Rightarrow> bool" where
  "alert_moved k target current f db db' \<longleftrightarrow>
     find_row ca_id k (compliance_alerts db) = Some current \<and> target \<in> set (ALLOWED_TRANSITIONS (ca_state current)) \<and>
     alert_row_checks (f current) \<and> set_option (ca_escalated_case_id (f current)) \<subseteq> cc_id ` set (compliance_cases db) \<and>
     (\<forall>r. ca_id (f r) = ca_id r \<and> alert_slot (f r) = alert_slot r \<and> ca_state (f r) = target) \<and>
     compliance_alerts db' = update_row ca_id k f (compliance_alerts db) \<and>
     prefix (activity_events db) (activity_events db') \<and>
     db'\<lparr>compliance_alerts := compliance_alerts db, activity_events := activity_events db\<rparr> = db"

lemma fk_ok_set: "fk_ok key k rows \<longleftrightarrow> set_option k \<subseteq> key ` set rows"
  by (cases k) (auto simp: fk_ok_def find_row_None dest: find_row_image)

lemmas alert_transition_defs = transitionAlert_def update_alert_def apply_acknowledged_def
  apply_escalated_def apply_dismissed_def acknowledgePostgresComplianceAlert_def
  escalatePostgresComplianceAlert_def dismissPostgresComplianceAlert_def

lemma acknowledge_effect:
  "acknowledgePostgresComplianceAlert e a k s db = Inr (r, db') \<Longrightarrow> \<exists>current f. alert_moved k CA_acknowledged current f db db'"
  unfolding alert_moved_def
  by (rule exI [of _ "the (find_row ca_id k (compliance_alerts db))"], rule exI [of _ "\<lambda>r. r\<lparr>ca_state := CA_acknowledged, ca_acknowledged_by := Some (openId a, role a),
        ca_acknowledged_at := Some (pg_now e), ca_acknowledgement_note := Some s\<rparr>"])
     (auto simp: alert_transition_defs fk_ok_set alert_slot_def insert_event_def Let_def
       split: if_splits option.splits)

lemma escalate_effect:
  "escalatePostgresComplianceAlert e a k c db = Inr (r, db') \<Longrightarrow> \<exists>current f. alert_moved k CA_escalated current f db db'"
  unfolding alert_moved_def
  by (rule exI [of _ "the (find_row ca_id k (compliance_alerts db))"], rule exI [of _ "\<lambda>r. r\<lparr>ca_state := CA_escalated, ca_escalated_case_id := Some c,
             ca_escalated_by := Some (openId a, role a), ca_escalated_at := Some (pg_now e)\<rparr>"])
     (auto simp: alert_transition_defs fk_ok_set alert_slot_def insert_event_def Let_def
       split: if_splits option.splits)

lemma dismiss_effect:
  "dismissPostgresComplianceAlert e a k s db = Inr (r, db') \<Longrightarrow> \<exists>current f. alert_moved k CA_dismissed current f db db'"
  unfolding alert_moved_def
  by (rule exI [of _ "the (find_row ca_id k (compliance_alerts db))"], rule exI [of _ "\<lambda>r. r\<lparr>ca_state := CA_dismissed, ca_dismissed_by := Some (openId a, role a),
        ca_dismissed_at := Some (pg_now e), ca_dismissal_reason := Some s\<rparr>"])
     (auto simp: alert_transition_defs fk_ok_set alert_slot_def insert_event_def Let_def
       split: if_splits option.splits)

text \<open>An alert step is a raise of a new alert, a raise of a known one, or a transition.\<close>

lemma alert_step_effect:
  assumes "alert_step db db'"
  obtains "db' = db"
  | alert where "compliance_alerts db' = insert_row alert (compliance_alerts db)" "ca_state alert = CA_open"
      "alert_row_checks alert" "ca_id alert \<notin> ca_id ` set (compliance_alerts db)"
      "alert_slot alert \<notin> alert_slot ` set (compliance_alerts db)"
      "ca_alert_policy_id alert \<in> ap_id ` set (alert_policies db)" "ca_escalated_case_id alert = None"
      "prefix (activity_events db) (activity_events db')"
      "db'\<lparr>compliance_alerts := compliance_alerts db, activity_events := activity_events db\<rparr> = db"
  | k target current f where "alert_moved k target current f db db'"
  using assms
proof cases
  case (alert_raised e a i r)
  then show ?thesis using raise_effect [of e a i db "fst r" "snd r" db'] that(1,2) by fastforce
next
  case (alert_acknowledged e a k s r)
  then show ?thesis using acknowledge_effect that(3) by blast
next
  case (alert_escalated e a k c r)
  then show ?thesis using escalate_effect that(3) by blast
next
  case (alert_dismissed e a k s r)
  then show ?thesis using dismiss_effect that(3) by blast
qed

section \<open>Every operation keeps the invariant\<close>

lemma frame_alerts:
  assumes "db'\<lparr>compliance_alerts := compliance_alerts db, activity_events := activity_events db\<rparr> = db"
  shows "alert_policies db' = alert_policies db" "compliance_cases db' = compliance_cases db"
    "sar_str_filings db' = sar_str_filings db" "payment_orders db' = payment_orders db"
    "payment_legs db' = payment_legs db" "rate_locks db' = rate_locks db" "customers db' = customers db"
    "beneficiaries db' = beneficiaries db"
  using arg_cong [OF assms, of alert_policies] arg_cong [OF assms, of compliance_cases]
    arg_cong [OF assms, of sar_str_filings] arg_cong [OF assms, of payment_orders]
    arg_cong [OF assms, of payment_legs] arg_cong [OF assms, of rate_locks] arg_cong [OF assms, of customers]
    arg_cong [OF assms, of beneficiaries] by simp_all

lemma alert_step_inv:
  assumes inv: "compliance_inv db" and "alert_step db db'"
  shows "compliance_inv db'"
  using assms(2)
proof (cases rule: alert_step_effect)
  case 1
  with inv show ?thesis by simp
next
  case (2 alert)
  then show ?thesis
    using inv frame_alerts [OF 2(9)] case_ok_mono [OF 2(8)]
    by (simp add: compliance_inv_def alert_ok_def filing_ok_def table_simps)
next
  case (3 k target current f)
  then have cur: "find_row ca_id k (compliance_alerts db) = Some current" and ok: "alert_row_checks (f current)"
    and fk: "set_option (ca_escalated_case_id (f current)) \<subseteq> cc_id ` set (compliance_cases db)"
    and keep: "\<And>r. ca_id (f r) = ca_id r" "\<And>r. alert_slot (f r) = alert_slot r"
    and tab: "compliance_alerts db' = update_row ca_id k f (compliance_alerts db)"
    and log: "prefix (activity_events db) (activity_events db')"
    and frame: "db'\<lparr>compliance_alerts := compliance_alerts db, activity_events := activity_events db\<rparr> = db"
    by (auto simp: alert_moved_def)
  have pol: "ca_alert_policy_id (f r) = ca_alert_policy_id r" for r
    using keep(2) [of r] by (simp add: alert_slot_def)
  have dist: "distinct_keys ca_id (compliance_alerts db)" using inv by (simp add: compliance_inv_def)
  have "\<forall>r \<in> set (compliance_alerts db'). alert_ok db' r"
    unfolding tab
  proof (rule alert_table.all_rows_upd)
    fix r assume r: "r \<in> set (compliance_alerts db)" "ca_id r = k"
    then have "r = current" by (rule unique_row [OF dist cur])
    moreover have "alert_ok db r" using inv r by (simp add: compliance_inv_def)
    ultimately show "alert_ok db' (f r)"
      using ok fk by (simp add: alert_ok_def frame_alerts [OF frame] pol)
  next
    fix r assume "r \<in> set (compliance_alerts db)" "ca_id r \<noteq> k"
    then show "alert_ok db' r" using inv by (simp add: compliance_inv_def alert_ok_def frame_alerts [OF frame])
  qed
  with inv case_ok_mono [OF log] show ?thesis
    by (simp add: compliance_inv_def filing_ok_def frame_alerts [OF frame])
       (simp add: tab map_update_row keep)
qed

lemma createPostgresComplianceCase_inv:
  assumes inv: "compliance_inv db" and "createPostgresComplianceCase e a t sv s d db = Inr (r, db')"
  shows "compliance_inv db'"
proof -
  from assms(2) have new: "compliance_cases db' = insert_row r (compliance_cases db)"
    "cc_id r \<notin> cc_id ` set (compliance_cases db)" "case_ok (activity_events db') r"
    "prefix (activity_events db) (activity_events db')" "alert_policies db' = alert_policies db"
    "compliance_alerts db' = compliance_alerts db" "sar_str_filings db' = sar_str_filings db"
    by (auto simp: createPostgresComplianceCase_def find_row_None Let_def case_ok_def insert_event_log split: if_splits)
  then show ?thesis
    using inv case_ok_mono [OF new(4)] unfolding compliance_inv_def alert_ok_def filing_ok_def
    by (simp add: table_simps) blast
qed

lemma disposeComplianceCase_effect:
  assumes "disposeComplianceCase e a k st s db = Inr (r, db')"
  obtains existing where "find_row cc_id k (compliance_cases db) = Some existing"
    "st \<in> set (ALLOWED_CASE_TRANSITIONS (cc_status existing))" "20 \<le> length (js_trim s)"
    "compliance_cases db' = update_row cc_id k (\<lambda>r. r\<lparr>cc_status := st, cc_decision_reason := Some (js_trim s),
        cc_closed_at := (if st = CC_closed then Some (pg_now e) else cc_closed_at r)\<rparr>) (compliance_cases db)"
    "prefix (activity_events db) (activity_events db')"
    "st = CC_under_review \<Longrightarrow> review_recorded (activity_events db') k"
    "alert_policies db' = alert_policies db" "compliance_alerts db' = compliance_alerts db"
    "sar_str_filings db' = sar_str_filings db"
  using assms
  by (auto simp: disposeComplianceCase_def Let_def review_recorded_def insert_event_log
      split: if_splits option.splits intro!: that)

lemma disposeComplianceCase_inv:
  assumes inv: "compliance_inv db" and "disposeComplianceCase e a k st s db = Inr (r, db')"
  shows "compliance_inv db'"
  using assms(2)
proof (rule disposeComplianceCase_effect)
  let ?f = "\<lambda>r. r\<lparr>cc_status := st, cc_decision_reason := Some (js_trim s),
        cc_closed_at := (if st = CC_closed then Some (pg_now e) else cc_closed_at r)\<rparr>"
  fix existing
  assume ex: "find_row cc_id k (compliance_cases db) = Some existing"
    and st: "st \<in> set (ALLOWED_CASE_TRANSITIONS (cc_status existing))" and len: "20 \<le> length (js_trim s)"
    and tab: "compliance_cases db' = update_row cc_id k ?f (compliance_cases db)"
    and log: "prefix (activity_events db) (activity_events db')"
    and rev: "st = CC_under_review \<Longrightarrow> review_recorded (activity_events db') k"
    and same: "alert_policies db' = alert_policies db" "compliance_alerts db' = compliance_alerts db"
      "sar_str_filings db' = sar_str_filings db"
  have dist: "distinct_keys cc_id (compliance_cases db)" using inv by (simp add: compliance_inv_def)
  have ids: "cc_id ` set (compliance_cases db') = cc_id ` set (compliance_cases db)"
    unfolding tab by (rule image_update_row) simp
  have "\<forall>r \<in> set (compliance_cases db'). case_ok (activity_events db') r"
    unfolding tab
  proof (rule case_table.all_rows_upd)
    fix r assume r: "r \<in> set (compliance_cases db)" "cc_id r = k"
    then have "r = existing" by (rule unique_row [OF dist ex])
    moreover have "case_ok (activity_events db') r" using inv r case_ok_mono [OF log] by (simp add: compliance_inv_def)
    ultimately show "case_ok (activity_events db') (?f r)"
      using st len rev r(2) by (cases "cc_status existing") (auto simp: case_ok_def)
  next
    fix r assume "r \<in> set (compliance_cases db)" "cc_id r \<noteq> k"
    then show "case_ok (activity_events db') r" using inv case_ok_mono [OF log] by (simp add: compliance_inv_def)
  qed
  with inv show ?thesis
    unfolding compliance_inv_def alert_ok_def filing_ok_def same ids by (simp add: tab map_update_row)
qed

lemma createPostgresSarStrFiling_inv:
  assumes inv: "compliance_inv db" and "createPostgresSarStrFiling e a c cor t au s db = Inr (r, db')"
  shows "compliance_inv db'"
proof -
  from assms(2) have new: "sar_str_filings db' = insert_row r (sar_str_filings db)"
    "sf_id r \<notin> sf_id ` set (sar_str_filings db)" "filing_ok db r"
    "prefix (activity_events db) (activity_events db')" "alert_policies db' = alert_policies db"
    "compliance_alerts db' = compliance_alerts db" "compliance_cases db' = compliance_cases db"
    by (auto simp: createPostgresSarStrFiling_def find_row_None Let_def filing_ok_def insert_event_log dest: find_row_image split: if_splits)
  then show ?thesis
    using inv case_ok_mono [OF new(4)] unfolding compliance_inv_def alert_ok_def filing_ok_def
    by (simp add: table_simps)
qed

lemma transitionPostgresSarStrFiling_inv:
  assumes inv: "compliance_inv db" and "transitionPostgresSarStrFiling e a k st rf db = Inr (r, db')"
  shows "compliance_inv db'"
proof -
  from assms(2) obtain ref where ref: "st = SF_submitted \<Longrightarrow> \<not> blank ref"
    and tab: "sar_str_filings db' = update_row sf_id k (\<lambda>r. r\<lparr>sf_status := st, sf_submission_reference := ref,
        sf_updated_at := pg_now e\<rparr>) (sar_str_filings db)"
    and same: "alert_policies db' = alert_policies db"
      "compliance_alerts db' = compliance_alerts db" "compliance_cases db' = compliance_cases db"
    and log: "prefix (activity_events db) (activity_events db')"
    by (auto simp: transitionPostgresSarStrFiling_def Let_def insert_event_log split: if_splits option.splits)
  have "\<forall>r \<in> set (sar_str_filings db'). filing_ok db' r"
    unfolding tab by (rule filing_table.all_rows_upd)
      (use inv ref in \<open>auto simp: compliance_inv_def filing_ok_def same\<close>)
  with inv case_ok_mono [OF log] show ?thesis
    unfolding compliance_inv_def alert_ok_def same by (simp add: tab map_update_row)
qed

lemma createPostgresAlertPolicy_inv:
  assumes inv: "compliance_inv db" and "createPostgresAlertPolicy e a t cor th db = Inr (r, db')"
  shows "compliance_inv db'"
proof -
  from assms(2) have new: "alert_policies db' = insert_row r (alert_policies db)"
    "ap_id r \<notin> ap_id ` set (alert_policies db)"
    "prefix (activity_events db) (activity_events db')" "sar_str_filings db' = sar_str_filings db"
    "compliance_alerts db' = compliance_alerts db" "compliance_cases db' = compliance_cases db"
    by (auto simp: createPostgresAlertPolicy_def find_row_None Let_def insert_event_log split: if_splits)
  then show ?thesis
    using inv case_ok_mono [OF new(3)] unfolding compliance_inv_def alert_ok_def filing_ok_def
    by (simp add: table_simps)
qed

lemma compliance_step_inv:
  assumes "compliance_inv db" and "compliance_step db db'"
  shows "compliance_inv db'"
  using assms(2)
proof cases
  case (policy_created e a t cor th r)
  then show ?thesis using assms(1) by (rule createPostgresAlertPolicy_inv [rotated])
next
  case alert
  with assms(1) show ?thesis by (rule alert_step_inv)
next
  case case_
  then show ?thesis
    using assms(1) by cases (blast intro: createPostgresComplianceCase_inv disposeComplianceCase_inv)+
next
  case filing
  then show ?thesis
    using assms(1) by cases (blast intro: createPostgresSarStrFiling_inv transitionPostgresSarStrFiling_inv)+
qed

section \<open>The status of a row moves along its allow-list\<close>

definition alert_state_of :: "db \<Rightarrow> uuid \<Rightarrow> alert_state option" where
  "alert_state_of db k = map_option ca_state (find_row ca_id k (compliance_alerts db))"

definition case_status_of :: "db \<Rightarrow> uuid \<Rightarrow> case_status option" where
  "case_status_of db k = map_option cc_status (find_row cc_id k (compliance_cases db))"

definition filing_status_of :: "db \<Rightarrow> uuid \<Rightarrow> filing_status option" where
  "filing_status_of db k = map_option sf_status (find_row sf_id k (sar_str_filings db))"

lemmas compliance_op_defs = createPostgresAlertPolicy_def createPostgresComplianceCase_def
  disposeComplianceCase_def createPostgresSarStrFiling_def transitionPostgresSarStrFiling_def Let_def

lemma alert_state_alert_step:
  assumes "alert_step db db'" and "alert_state_of db k = Some st"
  shows "\<exists>st'. alert_state_of db' k = Some st' \<and> (st' = st \<or> st' \<in> set (ALLOWED_TRANSITIONS st))"
  using assms(1)
proof (cases rule: alert_step_effect)
  case (3 j target current f)
  then show ?thesis
    using assms(2) by (auto simp: alert_moved_def alert_state_of_def table_simps)
qed (use assms(2) in \<open>auto simp: alert_state_of_def table_simps\<close>)

lemma alert_step_frame:
  assumes "alert_step db db'"
  shows "db'\<lparr>compliance_alerts := compliance_alerts db, activity_events := activity_events db\<rparr> = db"
    and "prefix (activity_events db) (activity_events db')"
  using assms by (cases rule: alert_step_effect; simp add: alert_moved_def)+

lemma case_or_filing_frame:
  "case_step db db' \<Longrightarrow> compliance_alerts db' = compliance_alerts db \<and> sar_str_filings db' = sar_str_filings db"
  "filing_step db db' \<Longrightarrow> compliance_alerts db' = compliance_alerts db \<and> compliance_cases db' = compliance_cases db"
  by (auto elim!: case_step.cases filing_step.cases simp: compliance_op_defs split: if_splits option.splits)

lemma alert_state_step:
  assumes "compliance_step db db'" and "alert_state_of db k = Some st"
  shows "\<exists>st'. alert_state_of db' k = Some st' \<and> (st' = st \<or> st' \<in> set (ALLOWED_TRANSITIONS st))"
  using assms(1)
proof cases
  case alert
  then show ?thesis using assms(2) by (rule alert_state_alert_step)
qed (use assms(2) case_or_filing_frame in \<open>auto simp: alert_state_of_def compliance_op_defs split: if_splits\<close>)

lemma case_status_step:
  assumes "compliance_step db db'" and "case_status_of db k = Some st"
  shows "\<exists>st'. case_status_of db' k = Some st' \<and> (st' = st \<or> st' \<in> set (ALLOWED_CASE_TRANSITIONS st))"
  using assms(1)
proof cases
  case alert
  then show ?thesis using assms(2) frame_alerts(2) [OF alert_step_frame(1)] by (auto simp: case_status_of_def)
next
  case case_
  then show ?thesis
    using assms(2) by cases (auto simp: case_status_of_def compliance_op_defs table_simps split: if_splits option.splits)
qed (use assms(2) case_or_filing_frame in \<open>auto simp: case_status_of_def compliance_op_defs split: if_splits\<close>)

lemma filing_status_step:
  assumes "compliance_step db db'" and "filing_status_of db k = Some st"
  shows "\<exists>st'. filing_status_of db' k = Some st' \<and> (st' = st \<or> st' \<in> set (filing_transitions st))"
  using assms(1)
proof cases
  case alert
  then show ?thesis using assms(2) frame_alerts(3) [OF alert_step_frame(1)] by (auto simp: filing_status_of_def)
next
  case filing
  then show ?thesis
    using assms(2) by cases (auto simp: filing_status_of_def compliance_op_defs table_simps split: if_splits option.splits)
qed (use assms(2) case_or_filing_frame in \<open>auto simp: filing_status_of_def compliance_op_defs split: if_splits\<close>)

lemma compliance_step_appends: "compliance_step db db' \<Longrightarrow> prefix (activity_events db) (activity_events db')"
  by (erule compliance_step.cases)
     (auto elim!: case_step.cases filing_step.cases simp: compliance_op_defs insert_event_log alert_step_frame(2)
       split: if_splits option.splits)

lemma compliance_step_payment_tables:
  "compliance_step db db' \<Longrightarrow> rate_locks db' = rate_locks db \<and> payment_orders db' = payment_orders db \<and> payment_legs db' = payment_legs db"
  by (erule compliance_step.cases)
     (auto elim!: case_step.cases filing_step.cases simp: compliance_op_defs frame_alerts(4,5,6) [OF alert_step_frame(1)]
       split: if_splits option.splits)

end
