(* ===== verification/Compliance_Properties.thy ===== *)
theory Compliance_Properties
  imports Compliance_Workflow
begin

text \<open>
  Correctness of the single operations of the compliance component: raising is idempotent,
  alert operations touch nothing but the alert queue and the audit trail, escalation needs an
  open case about the same subject, dispositions are exactly the documented ones, and a filing
  is submitted only with a reference.
\<close>

section \<open>A concrete database\<close>

definition desk_env :: env where
  "desk_env = \<lparr>js_now = 500, pg_now = 500, pg_today = 5, new_uuid = 90, node_uuid = 91\<rparr>"

definition desk_actor :: actor where
  "desk_actor = \<lparr>openId = ''co-1'', role = Compliance_officer\<rparr>"

definition desk_alert :: compliance_alert where
  "desk_alert = \<lparr>ca_id = 80, ca_alert_policy_id = 70, ca_alert_type = Compliance_flag, ca_corridor = None,
     ca_severity = High, ca_state = CA_open, ca_source_reference = ''screening/2'', ca_evidence = JBool True,
     ca_detected_at = 400, ca_payment_order_id = None, ca_customer_id = Some 1, ca_counterparty_id = None,
     ca_acknowledged_by = None, ca_acknowledged_at = None, ca_acknowledgement_note = None,
     ca_escalated_case_id = None, ca_escalated_by = None, ca_escalated_at = None,
     ca_dismissed_by = None, ca_dismissed_at = None, ca_dismissal_reason = None\<rparr>"

definition desk_case :: compliance_case where
  "desk_case = \<lparr>cc_id = 85, cc_payment_order_id = None, cc_customer_id = Some 1, cc_case_type = ''sanctions'',
     cc_status = CC_open, cc_severity = High, cc_source_reference = ''screening/2'', cc_decision_reason = None,
     cc_opened_at = 450, cc_closed_at = None\<rparr>"

definition desk_filing :: sar_str_filing where
  "desk_filing = \<lparr>sf_id = 88, sf_compliance_case_id = 85, sf_corridor = NIGERIA_NGN, sf_filing_type = ''str'',
     sf_filing_authority = ''NFIU'', sf_source_reference = ''screening/2'', sf_status = SF_pending_submission,
     sf_submission_reference = None, sf_created_by = ''co-1'', sf_updated_at = 450\<rparr>"

definition desk_db :: db where
  "desk_db = empty_db\<lparr>
     customers := [\<lparr>cu_id = 1, cu_legal_name = ''Acme'', cu_registration_identifier = ''RC1'', cu_kyc_status = CC_open, cu_archetype = None,
       cu_tier = None, cu_country = None, cu_use_case_narrative = None\<rparr>],
     alert_policies := [\<lparr>ap_id = 70, ap_alert_type = Compliance_flag, ap_corridor = None, ap_threshold = JNull,
       ap_enabled = True, ap_created_by = ''co-1'', ap_created_at = 300\<rparr>],
     compliance_alerts := [desk_alert], compliance_cases := [desk_case], sar_str_filings := [desk_filing]\<rparr>"

definition desk_input :: alert_input where
  "desk_input = \<lparr>ai_alertPolicyId = 70, ai_severity = Medium, ai_sourceReference = ''ledger/17'', ai_evidence = Some (JBool True),
     ai_detectedAt = 490, ai_paymentOrderId = None, ai_customerId = Some 1, ai_counterpartyId = None\<rparr>"

lemma desk_inv: "compliance_inv desk_db"
  by code_simp

lemma desk_lookup:
  "find_row ca_id 80 (compliance_alerts desk_db) = Some desk_alert"
  "find_row cc_id 85 (compliance_cases desk_db) = Some desk_case"
  "find_row sf_id 88 (sar_str_filings desk_db) = Some desk_filing"
  by (simp_all add: desk_db_def desk_alert_def desk_case_def desk_filing_def find_row_def)

section \<open>Alerts\<close>

text \<open>
  Raising an alert is idempotent per policy and source reference. After a successful raise,
  any further raise of the same condition under the same policy, by any actor and with any other
  details, returns that same alert, reports that none was created, and changes nothing.
\<close>

lemma raise_idempotent:
  assumes "raisePostgresComplianceAlert e a i db = Inr ((alert, created), db')"
    and "ai_alertPolicyId i' = ai_alertPolicyId i" and "ai_sourceReference i' = ai_sourceReference i"
    and "ai_evidence i' \<notin> {None, Some JNull}"
  shows "raisePostgresComplianceAlert e' a' i' db' = Inr ((alert, False), db')"
proof -
  have "find_row alert_slot (ai_alertPolicyId i, ai_sourceReference i) (compliance_alerts db') = Some alert"
    using raise_effect [OF assms(1)] by (auto simp: table_simps find_row_None split: option.splits dest: find_row_image)
  moreover have "\<not> length (js_trim (ai_sourceReference i)) < 8"
    using assms(1) by (auto simp: raisePostgresComplianceAlert_def split: if_splits)
  moreover obtain policy where "find_row ap_id (ai_alertPolicyId i) (alert_policies db') = Some policy" "ap_enabled policy"
    using assms(1) by (auto simp: raisePostgresComplianceAlert_def insert_compliance_alert_def
        split: if_splits option.splits)
  ultimately show ?thesis
    using assms(2-4) by (auto simp: raisePostgresComplianceAlert_def)
qed

definition raised_db :: db where
  "raised_db = committed (raisePostgresComplianceAlert desk_env desk_actor desk_input desk_db) desk_db"

lemma raise_idempotent_witness:
  "length (compliance_alerts raised_db) = 2 \<and>
   committed (raisePostgresComplianceAlert desk_env desk_actor (desk_input\<lparr>ai_severity := Critical\<rparr>) raised_db) raised_db = raised_db"
proof -
  let ?out = "raisePostgresComplianceAlert desk_env desk_actor desk_input desk_db"
  have "\<not> isl ?out \<and> length (compliance_alerts raised_db) = 2" by code_simp
  then obtain r where "?out = Inr (r, raised_db)" unfolding raised_db_def by (cases ?out) auto
  then have "?out = Inr ((fst r, snd r), raised_db)" by simp
  from raise_idempotent [OF this, of "desk_input\<lparr>ai_severity := Critical\<rparr>" desk_env desk_actor]
  show ?thesis using \<open>\<not> isl ?out \<and> length (compliance_alerts raised_db) = 2\<close> by (simp add: desk_input_def)
qed

text \<open>
  No alert operation clears a customer, approves a payment or decides a case: raising,
  acknowledging, escalating and dismissing change the alert table and append to the audit trail,
  and leave every other table as it was.
\<close>

lemma alert_operations_touch_alerts_only:
  assumes "alert_step db db'"
  shows "db'\<lparr>compliance_alerts := compliance_alerts db, activity_events := activity_events db\<rparr> = db \<and>
    prefix (activity_events db) (activity_events db')"
  using alert_step_frame [OF assms] by blast

lemma alert_operations_touch_alerts_only_witness:
  "\<exists>r db'. dismissPostgresComplianceAlert desk_env desk_actor 80 ''false positive match'' desk_db = Inr (r, db') \<and>
     compliance_cases db' = compliance_cases desk_db"
proof -
  let ?out = "dismissPostgresComplianceAlert desk_env desk_actor 80 ''false positive match'' desk_db"
  have "\<not> isl ?out" by code_simp
  then obtain r db' where out: "?out = Inr (r, db')" by (cases ?out) auto
  then have "alert_step desk_db db'" by (rule alert_dismissed)
  from alert_operations_touch_alerts_only [OF this] have "compliance_cases db' = compliance_cases desk_db"
    using frame_alerts(2) by blast
  with out show ?thesis by blast
qed

text \<open>
  An alert is escalated exactly when it is open or acknowledged and the case exists, is not
  closed, and is about the same customer and payment order wherever both name one. The schema's
  completeness constraint never rejects the update, and the alert ends linked to that case.
\<close>

lemma escalation_iff:
  assumes "compliance_inv db"
  shows "(\<exists>db'. escalatePostgresComplianceAlert e a k c db = Inr (r, db') \<and> ca_state r = CA_escalated \<and>
      ca_escalated_case_id r = Some c \<and> ca_escalated_by r = Some (openId a, role a)) \<longleftrightarrow>
    (case (find_row ca_id k (compliance_alerts db), find_row cc_id c (compliance_cases db)) of
       (Some al, Some cs) \<Rightarrow> ca_state al \<in> {CA_open, CA_acknowledged} \<and> cc_status cs \<noteq> CC_closed \<and>
          \<not> subjects_differ (ca_customer_id al) (cc_customer_id cs) \<and>
          \<not> subjects_differ (ca_payment_order_id al) (cc_payment_order_id cs) \<and>
          r = al\<lparr>ca_state := CA_escalated, ca_escalated_case_id := Some c,
               ca_escalated_by := Some (openId a, role a), ca_escalated_at := Some (pg_now e)\<rparr>
     | _ \<Rightarrow> False)"
proof (cases "find_row ca_id k (compliance_alerts db)")
  case None
  then show ?thesis by (simp add: alert_transition_defs)
next
  case (Some al)
  then have "alert_row_checks al" using assms find_row_mem [OF Some] by (simp add: compliance_inv_def alert_ok_def)
  then have "alert_row_checks (al\<lparr>ca_state := CA_escalated, ca_escalated_case_id := Some c,
               ca_escalated_by := Some (openId a, role a), ca_escalated_at := Some (pg_now e)\<rparr>)"
    by (simp add: alert_row_checks_def)
  moreover have "CA_escalated \<in> set (ALLOWED_TRANSITIONS (ca_state al)) \<longleftrightarrow> ca_state al \<in> {CA_open, CA_acknowledged}"
    by (cases "ca_state al") auto
  ultimately show ?thesis
    using Some by (auto simp: alert_transition_defs fk_ok_def table_simps Let_def split: option.splits)
qed

lemma escalation_iff_witness:
  "compliance_inv desk_db \<and> (\<exists>db'. escalatePostgresComplianceAlert desk_env desk_actor 80 85 desk_db =
     Inr (desk_alert\<lparr>ca_state := CA_escalated, ca_escalated_case_id := Some 85,
            ca_escalated_by := Some (''co-1'', Compliance_officer), ca_escalated_at := Some 500\<rparr>, db'))"
  using escalation_iff [OF desk_inv, of desk_env desk_actor 80 85 "desk_alert\<lparr>ca_state := CA_escalated,
      ca_escalated_case_id := Some 85, ca_escalated_by := Some (''co-1'', Compliance_officer), ca_escalated_at := Some 500\<rparr>"]
  by (simp add: desk_lookup desk_inv) (auto simp: desk_alert_def desk_case_def desk_actor_def desk_env_def subjects_differ_def)

section \<open>Cases and filings\<close>

text \<open>
  A disposition is recorded exactly when it is one the lifecycle allows from the current status
  and its trimmed rationale has at least twenty characters. It stores the trimmed rationale, stamps
  the closing time only when it closes the case, and appends one event with both statuses.
\<close>

lemma disposition_iff:
  "(\<exists>db'. disposeComplianceCase e a k st s db = Inr ((k, st), db') \<and>
      compliance_cases db' = update_row cc_id k (\<lambda>r. r\<lparr>cc_status := st, cc_decision_reason := Some (js_trim s),
        cc_closed_at := (if st = CC_closed then Some (pg_now e) else cc_closed_at r)\<rparr>) (compliance_cases db) \<and>
      map ev_action (activity_events db') = map ev_action (activity_events db) @ [''compliance_case.disposed'']) \<longleftrightarrow>
    20 \<le> length (js_trim s) \<and>
    (case case_status_of db k of None \<Rightarrow> False | Some cur \<Rightarrow> st \<in> set (ALLOWED_CASE_TRANSITIONS cur))"
  by (auto simp: disposeComplianceCase_def Let_def insert_event_log case_status_of_def split: option.splits)

text \<open>
  A filing moves exactly along its workflow, and to submitted only when the reference given with
  the call, or failing that the one already stored, is present and not blank; that reference is what
  the filing keeps.
\<close>

lemma filing_transition_iff:
  "(\<exists>db'. transitionPostgresSarStrFiling e a k st rf db = Inr ((k, st), db') \<and>
      find_row sf_id k (sar_str_filings db') = Some fl') \<longleftrightarrow>
    (case find_row sf_id k (sar_str_filings db) of
       None \<Rightarrow> False
     | Some fl \<Rightarrow> st \<in> set (filing_transitions (sf_status fl)) \<and>
         fl' = fl\<lparr>sf_status := st, sf_submission_reference := (if rf = None then sf_submission_reference fl else rf),
                 sf_updated_at := pg_now e\<rparr> \<and>
         \<not> (st = SF_submitted \<and> blank (sf_submission_reference fl')))"
  by (cases rf) (auto simp: transitionPostgresSarStrFiling_def Let_def table_simps split: option.splits)

end
