(* ===== verification/Service_Contracts.thy ===== *)
theory Service_Contracts
  imports Umoja_Prelude
begin

text \<open>
  The versioned contracts with the Go, Rust and Python services (\<open>server/contracts/services.ts\<close>,
  \<open>server/contracts/events.ts\<close>). The schemas are data: a term per exported schema. Validation is
  done by the zod package, which is an argument of every parser; its documented meaning is the
  function \<open>conforms\<close>, and the locale \<open>zod_validator\<close> is the contract between the two. What the
  source adds on top of validation -- the scan for execution authority, the chain check, the
  re-derivation of balances and agreements -- is translated in full.
\<close>

section \<open>Schemas\<close>

datatype zschema =
    ZString nat
  | ZRegex "string \<Rightarrow> bool"
  | ZDateTime bool
  | ZLiteral string
  | ZFalse
  | ZEnum "string list"
  | ZInt "int option"
  | ZBoolean
  | ZNullable zschema
  | ZUnion zschema zschema
  | ZArray nat zschema
  | ZStrict "(string \<times> zschema) list"
  | ZUnknown

definition may_be_missing :: "zschema \<Rightarrow> bool" where
  "may_be_missing s = (case s of ZUnknown \<Rightarrow> True | _ \<Rightarrow> False)"

text \<open>\<open>z.number().int()\<close> admits the integers a double represents exactly and safely.\<close>

definition safe_int :: "int \<Rightarrow> bool" where
  "safe_int n \<longleftrightarrow> \<bar>n\<bar> \<le> 9007199254740991"

text \<open>
  What a value has to satisfy. \<open>datetime offset\<close> decides ISO date-times, with or without a zone
  offset. A strict object has exactly the declared keys, except that an unconstrained one may be
  missing.
\<close>

primrec conforms :: "zschema \<Rightarrow> (bool \<Rightarrow> string \<Rightarrow> bool) \<Rightarrow> json \<Rightarrow> bool" where
  "conforms (ZString n) dt v = (case v of JStr s \<Rightarrow> n \<le> length s | JTime t \<Rightarrow> True | _ \<Rightarrow> False)"
| "conforms (ZRegex p) dt v = (case v of JStr s \<Rightarrow> p s | _ \<Rightarrow> False)"
| "conforms (ZDateTime off) dt v = (case v of JStr s \<Rightarrow> dt off s | JTime t \<Rightarrow> True | _ \<Rightarrow> False)"
| "conforms (ZLiteral l) dt v = (v = JStr l)"
| "conforms ZFalse dt v = (v = JBool False)"
| "conforms (ZEnum ls) dt v = (case v of JStr s \<Rightarrow> s \<in> set ls | _ \<Rightarrow> False)"
| "conforms (ZInt lo) dt v = (case v of JNum n \<Rightarrow> safe_int n \<and> (case lo of None \<Rightarrow> True | Some l \<Rightarrow> l \<le> n) | _ \<Rightarrow> False)"
| "conforms ZBoolean dt v = (case v of JBool b \<Rightarrow> True | _ \<Rightarrow> False)"
| "conforms (ZNullable s) dt v = (v = JNull \<or> conforms s dt v)"
| "conforms (ZUnion s t) dt v = (conforms s dt v \<or> conforms t dt v)"
| "conforms (ZArray n s) dt v = (case v of JArr vs \<Rightarrow> n \<le> length vs \<and> list_all (conforms s dt) vs | _ \<Rightarrow> False)"
| "conforms (ZStrict fs) dt v =
    (case v of
       JObj kvs \<Rightarrow> distinct (map fst kvs) \<and> list_all (\<lambda>(k, _). k \<in> fst ` set fs) kvs \<and>
         list_all (\<lambda>(k, (s, c)). case map_of kvs k of None \<Rightarrow> may_be_missing s | Some x \<Rightarrow> c dt x)
           (map (map_prod id (\<lambda>s. (s, conforms s))) fs)
     | _ \<Rightarrow> False)"
| "conforms ZUnknown dt v = True"

section \<open>Execution authority\<close>

definition FORBIDDEN_EXECUTION_KEYS :: "string list" where
  "FORBIDDEN_EXECUTION_KEYS = [''execute'', ''execution_instruction'', ''settle'', ''settlement_instruction'',
     ''submit'', ''submission_instruction'', ''file_report'', ''transfer'', ''transfer_instruction'',
     ''provider_credential'', ''credential'', ''api_key'']"

definition forbidden_key :: "string \<Rightarrow> bool" where
  "forbidden_key k \<longleftrightarrow> map latin1_lower k \<in> set FORBIDDEN_EXECUTION_KEYS"

text \<open>The first violation in document order, or none.\<close>

fun assertNoExecutionAuthority :: "json \<Rightarrow> string \<Rightarrow> error option"
  and assert_entries :: "json list \<Rightarrow> string \<Rightarrow> nat \<Rightarrow> error option"
  and assert_fields :: "(string \<times> json) list \<Rightarrow> string \<Rightarrow> error option" where
  "assertNoExecutionAuthority (JArr vs) path = assert_entries vs path 0"
| "assertNoExecutionAuthority (JObj fs) path = assert_fields fs path"
| "assertNoExecutionAuthority _ path = None"
| "assert_entries [] path i = None"
| "assert_entries (v # vs) path i =
    (case assertNoExecutionAuthority v (path @ ''['' @ nat_text i @ '']'') of
       Some er \<Rightarrow> Some er
     | None \<Rightarrow> assert_entries vs path (i + 1))"
| "assert_fields [] path = None"
| "assert_fields ((key, nested) # fs) path =
    (if forbidden_key key then
       Some (Refused (''service contract violation at '' @ path @ ''.'' @ key @
         '': service outputs must not carry execution authority or credentials''))
     else case assertNoExecutionAuthority nested (path @ ''.'' @ key) of
       Some er \<Rightarrow> Some er
     | None \<Rightarrow> assert_fields fs path)"

section \<open>The exported schemas\<close>

definition corridorSchema :: zschema where
  "corridorSchema = ZEnum [''NIGERIA_NGN'', ''KENYA_KES'', ''SOUTH_AFRICA_ZAR'']"

definition go_statuses :: "string list" where
  "go_statuses = [''DRAFT'', ''PENDING_POLICY_DECISION'', ''BLOCKED'', ''MANUAL_REVIEW'', ''APPROVED'', ''EXECUTING'',
     ''COMPLETED'', ''FAILED'', ''CANCELLED'']"

definition goAuditEventSchema :: zschema where
  "goAuditEventSchema = ZStrict
    [(''sequence'', ZInt (Some 1)), (''order_id'', ZString 1), (''corridor'', corridorSchema),
     (''from_status'', ZEnum go_statuses), (''to_status'', ZEnum go_statuses), (''reason'', ZString 0),
     (''actor_role'', ZString 1), (''occurred_at'', ZDateTime True),
     (''previous_hash'', ZUnion (ZLiteral []) (ZRegex sha256_text)), (''hash'', ZRegex sha256_text)]"

definition goAuditTrailEnvelopeSchema :: zschema where
  "goAuditTrailEnvelopeSchema = ZStrict
    [(''service'', ZLiteral ''umojaflowos-payment-engine''), (''contract_version'', ZLiteral ''v1''),
     (''envelope_type'', ZLiteral ''umojaflowos.payment.audit_trail.v1''), (''order_id'', ZString 1),
     (''events'', ZArray 0 goAuditEventSchema)]"

definition rustMonitoringFindingSchema :: zschema where
  "rustMonitoringFindingSchema = ZStrict
    [(''rule_id'', ZString 1), (''triggered'', ZBoolean), (''reason_code'', ZString 1)]"

definition rustMonitoringResultSchema :: zschema where
  "rustMonitoringResultSchema = ZStrict
    [(''service'', ZLiteral ''umojaflowos-risk-compliance-core''), (''contract_version'', ZLiteral ''v1''),
     (''envelope_type'', ZLiteral ''umojaflowos.risk.monitoring_result.v1''),
     (''decision'', ZEnum [''ALLOW'', ''MANUAL_REVIEW'', ''BLOCK'']),
     (''findings'', ZArray 1 rustMonitoringFindingSchema)]"

definition rustCounterpartyRiskSchema :: zschema where
  "rustCounterpartyRiskSchema = ZStrict
    [(''service'', ZLiteral ''umojaflowos-risk-compliance-core''), (''contract_version'', ZLiteral ''v1''),
     (''envelope_type'', ZLiteral ''umojaflowos.risk.counterparty_assessment.v1''),
     (''band'', ZEnum [''UNDETERMINED'', ''LOW'', ''MEDIUM'', ''HIGH'', ''PROHIBITED'']),
     (''reason_codes'', ZArray 0 (ZString 1)), (''review_required'', ZBoolean)]"

definition iso_date :: "string \<Rightarrow> bool" where
  "iso_date s \<longleftrightarrow> length s = 10 \<and> list_all is_digit (take 4 s) \<and> s ! 4 = CHR ''-'' \<and>
     list_all is_digit (take 2 (drop 5 s)) \<and> s ! 7 = CHR ''-'' \<and> list_all is_digit (drop 8 s)"

definition pythonAssembledReportSchema :: zschema where
  "pythonAssembledReportSchema = ZStrict
    [(''service'', ZLiteral ''umojaflowos-reporting-analytics''), (''contract_version'', ZLiteral ''v1''),
     (''envelope_type'', ZLiteral ''umojaflowos.reporting.assembled_report.v1''),
     (''regulator'', ZEnum [''CBN'', ''CBK'', ''SARB'']), (''corridor'', corridorSchema),
     (''settlement_currency'', ZEnum [''NGN'', ''KES'', ''ZAR'']), (''report_type'', ZString 1),
     (''period_start'', ZRegex iso_date), (''period_end'', ZRegex iso_date), (''regulated_entity_id'', ZString 1),
     (''generated_at'', ZDateTime True),
     (''totals'', ZStrict [(''record_count'', ZInt (Some 0)), (''inbound_total'', ZString 0),
        (''outbound_total'', ZString 0), (''net_total'', ZString 0)]),
     (''artifact_digest'', ZRegex sha256_text), (''submission_state'', ZLiteral ''assembled_pending_review'')]"

definition pythonStablecoinExposureSchema :: zschema where
  "pythonStablecoinExposureSchema = ZStrict
    [(''service'', ZLiteral ''umojaflowos-reporting-analytics''), (''contract_version'', ZLiteral ''v1''),
     (''envelope_type'', ZLiteral ''umojaflowos.reporting.stablecoin_exposure.v1''),
     (''generated_at'', ZDateTime True), (''total_usd_equivalent'', ZString 0),
     (''corridor_exposures'', ZArray 1 (ZStrict
        [(''corridor'', corridorSchema), (''asset'', ZEnum [''USDC'', ''USDT'']), (''available_amount'', ZString 0),
         (''reserved_amount'', ZString 0), (''total_amount'', ZString 0), (''usd_equivalent'', ZString 0),
         (''peg_deviation_basis_points'', ZInt None), (''position_count'', ZInt (Some 1)),
         (''source_references'', ZArray 1 (ZString 1))])),
     (''observations'', ZArray 0 (ZString 1))]"

definition rustLedgerPostingSchema :: zschema where
  "rustLedgerPostingSchema = ZStrict
    [(''account_id'', ZString 1), (''currency'', ZString 1), (''debit_minor'', ZInt (Some 0)), (''credit_minor'', ZInt (Some 0))]"

definition rustLedgerValidationSchema :: zschema where
  "rustLedgerValidationSchema = ZStrict
    [(''service'', ZLiteral ''umojaflowos-ledger-gateway''), (''contract_version'', ZLiteral ''v1''),
     (''envelope_type'', ZLiteral ''umojaflowos.ledger.posting_validation.v1''),
     (''postings'', ZArray 1 rustLedgerPostingSchema), (''balanced'', ZBoolean),
     (''imbalance'', ZNullable (ZStrict [(''currency'', ZString 1), (''net_minor'', ZInt None)]))]"

definition rustLedgerReconciliationSchema :: zschema where
  "rustLedgerReconciliationSchema = ZStrict
    [(''service'', ZLiteral ''umojaflowos-ledger-gateway''), (''contract_version'', ZLiteral ''v1''),
     (''envelope_type'', ZLiteral ''umojaflowos.ledger.projection_reconciliation.v1''),
     (''confirmed_fact'', ZStrict [(''transfer_id'', ZInt (Some 1)), (''correlation_id'', ZString 1),
        (''currency'', ZString 1), (''amount_minor'', ZInt (Some 1)), (''posted_at'', ZDateTime True)]),
     (''projection'', ZStrict [(''transfer_id'', ZInt (Some 1)), (''correlation_id'', ZString 1),
        (''currency'', ZString 1), (''amount_minor'', ZInt (Some 1)), (''projected_at'', ZDateTime True)]),
     (''reconciled'', ZBoolean),
     (''discrepancy_reason'', ZNullable (ZEnum [''INCOMPLETE_CONFIRMED_FACT'', ''INCOMPLETE_PROJECTION'', ''MISMATCH'']))]"

definition goPaymentOrderValidatedEventSchema :: zschema where
  "goPaymentOrderValidatedEventSchema = ZStrict
    [(''event_id'', ZString 1), (''event_type'', ZLiteral ''umojaflowos.payment.order.validated.v1''),
     (''schema_version'', ZLiteral ''v1''), (''occurred_at'', ZDateTime False), (''correlation_id'', ZString 1),
     (''payload'', ZUnknown)]"

definition rustPolicyDecisionEventSchema :: zschema where
  "rustPolicyDecisionEventSchema = ZStrict
    [(''event_id'', ZString 1), (''correlation_id'', ZString 1),
     (''event_type'', ZLiteral ''umojaflowos.policy.decision.v1''), (''schema_version'', ZLiteral ''v1''),
     (''decision'', ZEnum [''ALLOW'', ''MANUAL_REVIEW'', ''BLOCK'']), (''reason_codes'', ZArray 0 (ZString 1)),
     (''external_execution_authorized'', ZFalse)]"

definition pythonBronzeBatchManifestSchema :: zschema where
  "pythonBronzeBatchManifestSchema = ZStrict
    [(''dataset'', ZString 1), (''layer'', ZLiteral ''bronze''), (''schema_version'', ZLiteral ''v1''),
     (''record_count'', ZInt (Some 0)), (''payload_sha256'', ZRegex sha256_text)]"

section \<open>Reading validated values\<close>

definition jfield :: "string \<Rightarrow> json \<Rightarrow> json" where
  "jfield k v = (case v of JObj fs \<Rightarrow> (case map_of fs k of None \<Rightarrow> JNull | Some x \<Rightarrow> x) | _ \<Rightarrow> JNull)"

fun jstr :: "json \<Rightarrow> string" where
  "jstr (JStr s) = s"
| "jstr _ = []"

fun jint :: "json \<Rightarrow> int" where
  "jint (JNum n) = n"
| "jint _ = 0"

fun jbool :: "json \<Rightarrow> bool" where
  "jbool (JBool b) = b"
| "jbool _ = False"

fun jlist :: "json \<Rightarrow> json list" where
  "jlist (JArr vs) = vs"
| "jlist _ = []"

section \<open>Parsers\<close>

text \<open>The first two statements of every service parser: the scan, then the validator.\<close>

definition scan_and_validate :: "(zschema \<Rightarrow> json \<Rightarrow> bool) \<Rightarrow> zschema \<Rightarrow> json \<Rightarrow> json result" where
  "scan_and_validate zod schema input =
    (case assertNoExecutionAuthority input ''$'' of
       Some er \<Rightarrow> Inl er
     | None \<Rightarrow> if zod schema input then Inr input else Inl (Refused ''ZodError''))"

fun check_chain :: "string \<Rightarrow> json list \<Rightarrow> nat \<Rightarrow> string \<Rightarrow> error option" where
  "check_chain orderId [] index expectedPrevious = None"
| "check_chain orderId (event # events) index expectedPrevious =
    (if jint (jfield ''sequence'' event) \<noteq> int index + 1 then
       Some (Refused (''audit trail sequence gap at index '' @ nat_text index @ '': expected '' @ nat_text (index + 1)
         @ '', received '' @ int_text (jint (jfield ''sequence'' event))))
     else if jstr (jfield ''order_id'' event) \<noteq> orderId then
       Some (Refused ''audit trail contains an event for a different order'')
     else if jstr (jfield ''previous_hash'' event) \<noteq> expectedPrevious then
       Some (Refused (''audit trail chain broken at sequence '' @ int_text (jint (jfield ''sequence'' event))
         @ '': previous hash does not match the preceding event''))
     else check_chain orderId events (index + 1) (jstr (jfield ''hash'' event)))"

definition parseGoAuditTrailEnvelope :: "(zschema \<Rightarrow> json \<Rightarrow> bool) \<Rightarrow> json \<Rightarrow> json result" where
  "parseGoAuditTrailEnvelope zod input =
    (case scan_and_validate zod goAuditTrailEnvelopeSchema input of
       Inl er \<Rightarrow> Inl er
     | Inr envelope \<Rightarrow>
         (case check_chain (jstr (jfield ''order_id'' envelope)) (jlist (jfield ''events'' envelope)) 0 [] of
            Some er \<Rightarrow> Inl er
          | None \<Rightarrow> Inr envelope))"

definition unavailable_findings :: "json \<Rightarrow> json list" where
  "unavailable_findings res = filter (\<lambda>f. jbool (jfield ''triggered'' f) \<and>
     prefix ''INPUT_UNAVAILABLE'' (jstr (jfield ''reason_code'' f))) (jlist (jfield ''findings'' res))"

fun join :: "string \<Rightarrow> string list \<Rightarrow> string" where
  "join sep [] = []"
| "join sep [w] = w"
| "join sep (w # ws) = w @ sep @ join sep ws"

definition parseRustMonitoringResult :: "(zschema \<Rightarrow> json \<Rightarrow> bool) \<Rightarrow> json \<Rightarrow> json result" where
  "parseRustMonitoringResult zod input =
    (case scan_and_validate zod rustMonitoringResultSchema input of
       Inl er \<Rightarrow> Inl er
     | Inr res \<Rightarrow>
         if 0 < length (unavailable_findings res) \<and> jstr (jfield ''decision'' res) \<noteq> ''BLOCK'' then
           Inl (Refused (''monitoring result claims '' @ jstr (jfield ''decision'' res)
             @ '' while reporting unavailable inputs (''
             @ join '', '' (map (\<lambda>f. jstr (jfield ''reason_code'' f)) (unavailable_findings res))
             @ ''); missing evidence must fail closed''))
         else Inr res)"

definition parseRustCounterpartyRisk :: "(zschema \<Rightarrow> json \<Rightarrow> bool) \<Rightarrow> json \<Rightarrow> json result" where
  "parseRustCounterpartyRisk zod input =
    (case scan_and_validate zod rustCounterpartyRiskSchema input of
       Inl er \<Rightarrow> Inl er
     | Inr assessment \<Rightarrow>
         (let band = jstr (jfield ''band'' assessment); review = jbool (jfield ''review_required'' assessment)
          in if band = ''UNDETERMINED'' \<and> \<not> review then Inl (Refused ''an undetermined risk band must require human review'')
             else if band = ''PROHIBITED'' \<and> \<not> review then Inl (Refused ''a prohibited risk band must require human review'')
             else if band = ''UNDETERMINED'' \<and> length (jlist (jfield ''reason_codes'' assessment)) = 0 then
               Inl (Refused ''an undetermined risk band must state which evidence was missing'')
             else Inr assessment))"

text \<open>\<open><\<close> on JavaScript strings.\<close>

fun str_less :: "string \<Rightarrow> string \<Rightarrow> bool" where
  "str_less [] [] = False"
| "str_less [] (d # t) = True"
| "str_less (c # s) [] = False"
| "str_less (c # s) (d # t) = ((of_char c :: nat) < of_char d \<or> (c = d \<and> str_less s t))"

definition supervised_corridor :: "string \<Rightarrow> string option" where
  "supervised_corridor = map_of [(''CBN'', ''NIGERIA_NGN''), (''CBK'', ''KENYA_KES''), (''SARB'', ''SOUTH_AFRICA_ZAR'')]"

definition parsePythonAssembledReport :: "(zschema \<Rightarrow> json \<Rightarrow> bool) \<Rightarrow> json \<Rightarrow> json result" where
  "parsePythonAssembledReport zod input =
    (case scan_and_validate zod pythonAssembledReportSchema input of
       Inl er \<Rightarrow> Inl er
     | Inr report \<Rightarrow>
         if str_less (jstr (jfield ''period_end'' report)) (jstr (jfield ''period_start'' report)) then
           Inl (Refused ''assembled report period end precedes its start'')
         else if supervised_corridor (jstr (jfield ''regulator'' report)) \<noteq> Some (jstr (jfield ''corridor'' report)) then
           Inl (Refused (''regulator '' @ jstr (jfield ''regulator'' report) @ '' does not supervise corridor ''
             @ jstr (jfield ''corridor'' report)))
         else Inr report)"

definition parsePythonStablecoinExposure :: "(zschema \<Rightarrow> json \<Rightarrow> bool) \<Rightarrow> json \<Rightarrow> json result" where
  "parsePythonStablecoinExposure zod input =
    (case scan_and_validate zod pythonStablecoinExposureSchema input of
       Inl er \<Rightarrow> Inl er
     | Inr exposure \<Rightarrow>
         (case find (\<lambda>entry. length (jlist (jfield ''source_references'' entry)) < 1)
             (jlist (jfield ''corridor_exposures'' exposure)) of
            Some entry \<Rightarrow> Inl (Refused (''exposure for '' @ jstr (jfield ''corridor'' entry) @ ''/''
              @ jstr (jfield ''asset'' entry) @ '' carries no source reference''))
          | None \<Rightarrow> Inr exposure))"

subsection \<open>Ledger postings\<close>

text \<open>
  Numbers are IEEE doubles. An integer of more than 53 bits is rounded to the nearest multiple of
  the unit in its last place, ties to the even multiple. (Overflow to infinity would take more
  than \<open>2 ^ 970\<close> postings.)
\<close>

function bit_length :: "int \<Rightarrow> nat" where
  "bit_length n = (if n \<le> 0 then 0 else 1 + bit_length (n div 2))"
  by pat_completeness auto
termination by (relation "measure nat") auto

declare bit_length.simps [simp del]

definition js_round :: "int \<Rightarrow> int" where
  "js_round x =
    (let n = \<bar>x\<bar>; b = bit_length n
     in if b \<le> 53 then x
        else let u = 2 ^ (b - 53); q = n div u; r = n mod u
             in sgn x * u * (if u < 2 * r \<or> (2 * r = u \<and> odd q) then q + 1 else q))"

text \<open>\<open>Map.set\<close> keeps the position of a known key.\<close>

fun map_set :: "string \<Rightarrow> int \<Rightarrow> (string \<times> int) list \<Rightarrow> (string \<times> int) list" where
  "map_set k v [] = [(k, v)]"
| "map_set k v ((j, w) # m) = (if j = k then (k, v) # m else (j, w) # map_set k v m)"

definition add_posting :: "json \<Rightarrow> (string \<times> int) list \<Rightarrow> (string \<times> int) list" where
  "add_posting posting net =
    (let cur = jstr (jfield ''currency'' posting);
         current = (case map_of net cur of None \<Rightarrow> 0 | Some n \<Rightarrow> n)
     in map_set cur (js_round (js_round (current + jint (jfield ''debit_minor'' posting))
          - jint (jfield ''credit_minor'' posting))) net)"

definition netByCurrency :: "json list \<Rightarrow> (string \<times> int) list" where
  "netByCurrency postings = fold add_posting postings []"

fun bool_text :: "bool \<Rightarrow> string" where
  "bool_text True = ''true''"
| "bool_text False = ''false''"

definition parseRustLedgerValidation :: "(zschema \<Rightarrow> json \<Rightarrow> bool) \<Rightarrow> json \<Rightarrow> json result" where
  "parseRustLedgerValidation zod input =
    (case scan_and_validate zod rustLedgerValidationSchema input of
       Inl er \<Rightarrow> Inl er
     | Inr envelope \<Rightarrow>
         (let net = netByCurrency (jlist (jfield ''postings'' envelope));
              imbalances = filter (\<lambda>(_, n). n \<noteq> 0) net;
              derivedBalanced = (length imbalances = 0);
              balanced = jbool (jfield ''balanced'' envelope);
              imbalance = jfield ''imbalance'' envelope
          in if derivedBalanced \<noteq> balanced then
               Inl (Refused (''ledger validation claims balanced='' @ bool_text balanced
                 @ '' but the supplied postings derive balanced='' @ bool_text derivedBalanced))
             else if \<not> balanced \<and> imbalance = JNull then
               Inl (Refused ''an unbalanced posting set must name the offending currency and net amount'')
             else if balanced \<and> imbalance \<noteq> JNull then
               Inl (Refused ''a balanced posting set must not report an imbalance'')
             else if imbalance \<noteq> JNull \<and>
               map_of net (jstr (jfield ''currency'' imbalance)) \<noteq> Some (jint (jfield ''net_minor'' imbalance)) then
               Inl (Refused (''reported imbalance for '' @ jstr (jfield ''currency'' imbalance)
                 @ '' does not match the supplied postings''))
             else Inr envelope))"

definition facts_agree :: "json \<Rightarrow> json \<Rightarrow> bool" where
  "facts_agree confirmed projection \<longleftrightarrow>
     jint (jfield ''transfer_id'' confirmed) = jint (jfield ''transfer_id'' projection) \<and>
     jstr (jfield ''correlation_id'' confirmed) = jstr (jfield ''correlation_id'' projection) \<and>
     jstr (jfield ''currency'' confirmed) = jstr (jfield ''currency'' projection) \<and>
     jint (jfield ''amount_minor'' confirmed) = jint (jfield ''amount_minor'' projection)"

definition parseRustLedgerReconciliation :: "(zschema \<Rightarrow> json \<Rightarrow> bool) \<Rightarrow> json \<Rightarrow> json result" where
  "parseRustLedgerReconciliation zod input =
    (case scan_and_validate zod rustLedgerReconciliationSchema input of
       Inl er \<Rightarrow> Inl er
     | Inr envelope \<Rightarrow>
         (let agrees = facts_agree (jfield ''confirmed_fact'' envelope) (jfield ''projection'' envelope);
              reconciled = jbool (jfield ''reconciled'' envelope);
              reason = jfield ''discrepancy_reason'' envelope
          in if reconciled \<and> \<not> agrees then
               Inl (Refused ''ledger reconciliation claims agreement while the confirmed fact and projection differ'')
             else if \<not> reconciled \<and> reason = JNull then
               Inl (Refused ''a failed reconciliation must state its discrepancy reason'')
             else if reconciled \<and> reason \<noteq> JNull then
               Inl (Refused ''a successful reconciliation must not report a discrepancy reason'')
             else if \<not> reconciled \<and> reason = JStr ''MISMATCH'' \<and> agrees then
               Inl (Refused ''a mismatch was reported but the supplied records agree'')
             else Inr envelope))"

subsection \<open>Events\<close>

definition parseGoPaymentOrderValidatedEvent :: "(zschema \<Rightarrow> json \<Rightarrow> bool) \<Rightarrow> json \<Rightarrow> json result" where
  "parseGoPaymentOrderValidatedEvent zod input =
    (if zod goPaymentOrderValidatedEventSchema input then Inr input else Inl (Refused ''ZodError''))"

definition parseRustNonExecutablePolicyDecisionEvent :: "(zschema \<Rightarrow> json \<Rightarrow> bool) \<Rightarrow> json \<Rightarrow> json result" where
  "parseRustNonExecutablePolicyDecisionEvent zod input =
    (if zod rustPolicyDecisionEventSchema input then Inr input else Inl (Refused ''ZodError''))"

definition parsePythonBronzeBatchManifest :: "(zschema \<Rightarrow> json \<Rightarrow> bool) \<Rightarrow> json \<Rightarrow> json result" where
  "parsePythonBronzeBatchManifest zod input =
    (if zod pythonBronzeBatchManifestSchema input then Inr input else Inl (Refused ''ZodError''))"

section \<open>The validator's contract\<close>

text \<open>
  What the parsers rely on: the validator accepts exactly the values its documentation admits.
  The facts below read a validated value field by field.
\<close>

locale zod_validator =
  fixes zod :: "zschema \<Rightarrow> json \<Rightarrow> bool"
    and datetime :: "bool \<Rightarrow> string \<Rightarrow> bool"
  assumes zod_conforms: "zod s v \<longleftrightarrow> conforms s datetime v"
begin

lemma strict_field:
  assumes "zod (ZStrict fs) v" and "(k, s) \<in> set fs" and "\<not> may_be_missing s"
  shows "zod s (jfield k v)"
proof -
  from assms(1) obtain kvs where v: "v = JObj kvs"
    and all: "\<forall>x \<in> set fs. case map_prod id (\<lambda>s. (s, conforms s)) x of
        (k, s, c) \<Rightarrow> case map_of kvs k of None \<Rightarrow> may_be_missing s | Some x \<Rightarrow> c datetime x"
    by (cases v) (auto simp: zod_conforms list_all_iff)
  have "case map_of kvs k of None \<Rightarrow> may_be_missing s | Some x \<Rightarrow> conforms s datetime x"
    using bspec [OF all assms(2)] by simp
  then show ?thesis
    using assms(3) by (auto simp: v zod_conforms jfield_def split: option.splits)
qed

lemma array_entries:
  assumes "zod (ZArray n s) v" and "x \<in> set (jlist v)"
  shows "zod s x"
  using assms by (cases v) (auto simp: zod_conforms list_all_iff)

lemma posting_amounts:
  assumes "zod rustLedgerPostingSchema p"
  shows "0 \<le> jint (jfield ''debit_minor'' p)" and "0 \<le> jint (jfield ''credit_minor'' p)"
proof -
  have "zod (ZInt (Some 0)) (jfield ''debit_minor'' p)" "zod (ZInt (Some 0)) (jfield ''credit_minor'' p)"
    using assms unfolding rustLedgerPostingSchema_def
    by (auto intro: strict_field simp: may_be_missing_def)
  then show "0 \<le> jint (jfield ''debit_minor'' p)" "0 \<le> jint (jfield ''credit_minor'' p)"
    by (auto simp: zod_conforms split: json.splits)
qed

lemma accepted_postings:
  assumes "scan_and_validate zod rustLedgerValidationSchema input = Inr envelope"
    and "p \<in> set (jlist (jfield ''postings'' envelope))"
  shows "0 \<le> jint (jfield ''debit_minor'' p)" and "0 \<le> jint (jfield ''credit_minor'' p)"
proof -
  have "zod rustLedgerValidationSchema envelope"
    using assms(1) by (auto simp: scan_and_validate_def split: option.splits if_splits)
  then have "zod (ZArray 1 rustLedgerPostingSchema) (jfield ''postings'' envelope)"
    unfolding rustLedgerValidationSchema_def by (auto intro: strict_field simp: may_be_missing_def)
  then have "zod rustLedgerPostingSchema p" using assms(2) by (rule array_entries)
  then show "0 \<le> jint (jfield ''debit_minor'' p)" "0 \<le> jint (jfield ''credit_minor'' p)"
    by (rule posting_amounts)+
qed

end

text \<open>The documented meaning itself satisfies the contract, for every date-time predicate.\<close>

interpretation documented: zod_validator "\<lambda>s. conforms s dt" dt for dt
  by unfold_locales simp

section \<open>The scan is complete\<close>

text \<open>A key occurs in a value at any depth.\<close>

inductive occurs_key :: "json \<Rightarrow> string \<Rightarrow> bool" where
  here: "(k, v) \<in> set fs \<Longrightarrow> occurs_key (JObj fs) k"
| in_field: "(j, v) \<in> set fs \<Longrightarrow> occurs_key v k \<Longrightarrow> occurs_key (JObj fs) k"
| in_entry: "v \<in> set vs \<Longrightarrow> occurs_key v k \<Longrightarrow> occurs_key (JArr vs) k"

inductive_simps occurs_key_JObj: "occurs_key (JObj fs) k"
inductive_simps occurs_key_JArr: "occurs_key (JArr vs) k"
inductive_cases occurs_key_leaf: "occurs_key JNull k" "occurs_key (JBool b) k" "occurs_key (JNum n) k"
  "occurs_key (JFrac s) k" "occurs_key (JStr s) k" "occurs_key (JTime t) k"

lemma occurs_key_JObj_Nil: "\<not> occurs_key (JObj []) j"
  by (simp add: occurs_key_JObj)

lemma occurs_key_JObj_Cons: "occurs_key (JObj ((k, v) # fs)) j \<longleftrightarrow> j = k \<or> occurs_key v j \<or> occurs_key (JObj fs) j"
  unfolding occurs_key_JObj by (simp only: set_simps insert_iff prod.inject) blast

lemma occurs_key_JStr: "\<not> occurs_key (JStr s) j"
  by (auto elim: occurs_key_leaf)

lemmas occurs_key_simps = occurs_key_JObj_Nil occurs_key_JObj_Cons occurs_key_JStr occurs_key_JArr

lemma scan_complete:
  "assertNoExecutionAuthority v path = None \<longleftrightarrow> (\<forall>k. occurs_key v k \<longrightarrow> \<not> forbidden_key k)"
  "assert_entries vs path i = None \<longleftrightarrow> (\<forall>v \<in> set vs. \<forall>k. occurs_key v k \<longrightarrow> \<not> forbidden_key k)"
  "assert_fields fs path = None \<longleftrightarrow> (\<forall>(j, v) \<in> set fs. \<not> forbidden_key j \<and> (\<forall>k. occurs_key v k \<longrightarrow> \<not> forbidden_key k))"
proof (induction v path and vs path i and fs path rule: assertNoExecutionAuthority_assert_entries_assert_fields.induct)
  case (2 fs path)
  then show ?case by (fastforce simp: occurs_key_JObj)
qed (auto simp: occurs_key_JArr elim: occurs_key_leaf split: option.splits)

section \<open>The chain\<close>

definition chain_links :: "string \<Rightarrow> json list \<Rightarrow> bool" where
  "chain_links orderId events \<longleftrightarrow> (\<forall>i < length events.
     jint (jfield ''sequence'' (events ! i)) = int i + 1 \<and> jstr (jfield ''order_id'' (events ! i)) = orderId \<and>
     jstr (jfield ''previous_hash'' (events ! i)) = (if i = 0 then [] else jstr (jfield ''hash'' (events ! (i - 1)))))"

lemma check_chain_from:
  "check_chain orderId events n prev = None \<longleftrightarrow> (\<forall>i < length events.
     jint (jfield ''sequence'' (events ! i)) = int (n + i) + 1 \<and> jstr (jfield ''order_id'' (events ! i)) = orderId \<and>
     jstr (jfield ''previous_hash'' (events ! i)) = (if i = 0 then prev else jstr (jfield ''hash'' (events ! (i - 1)))))"
proof (induction events arbitrary: n prev)
  case (Cons ev events)
  have "(\<forall>i < length (ev # events). P i) \<longleftrightarrow> P 0 \<and> (\<forall>i < length events. P (Suc i))" for P
    by (auto simp: less_Suc_eq_0_disj)
  then show ?case
    by (auto simp: Cons.IH nth_Cons' split: if_splits)
qed simp

lemma check_chain_links: "check_chain orderId events 0 [] = None \<longleftrightarrow> chain_links orderId events"
  using check_chain_from [of orderId events 0 "[]"] by (simp add: chain_links_def)

section \<open>Rounded sums\<close>

lemma bit_length_le: "n < 2 ^ k \<Longrightarrow> bit_length n \<le> k"
proof (induction k arbitrary: n)
  case 0
  then show ?case by (subst bit_length.simps) simp
next
  case (Suc k)
  then have "n div 2 < 2 ^ k" by auto
  then have "bit_length (n div 2) \<le> k" by (rule Suc.IH)
  then show ?case by (subst bit_length.simps) simp
qed

lemma js_round_exact: "\<bar>x\<bar> < 2 ^ 53 \<Longrightarrow> js_round x = x"
  using bit_length_le [of "\<bar>x\<bar>" 53] by (simp add: js_round_def Let_def)

text \<open>The exact net of a currency.\<close>

definition exact_net :: "string \<Rightarrow> json list \<Rightarrow> int" where
  "exact_net cur ps = (\<Sum>p \<leftarrow> filter (\<lambda>p. jstr (jfield ''currency'' p) = cur) ps.
     jint (jfield ''debit_minor'' p) - jint (jfield ''credit_minor'' p))"

definition turnover :: "json list \<Rightarrow> int" where
  "turnover ps = (\<Sum>p \<leftarrow> ps. jint (jfield ''debit_minor'' p) + jint (jfield ''credit_minor'' p))"

lemma map_of_map_set: "map_of (map_set k v m) j = (if j = k then Some v else map_of m j)"
  by (induction m) auto

lemma keys_map_set: "fst ` set (map_set k v m) = insert k (fst ` set m)"
proof (induction m)
  case (Cons x m)
  then show ?case by (cases x) (simp add: insert_commute)
qed simp

lemma distinct_map_set: "distinct (map fst m) \<Longrightarrow> distinct (map fst (map_set k v m))"
proof (induction m)
  case (Cons x m)
  then show ?case using keys_map_set [of k v m] by (cases x) auto
qed simp

lemma turnover_snoc:
  "turnover (ps @ [p]) = turnover ps + (jint (jfield ''debit_minor'' p) + jint (jfield ''credit_minor'' p))"
  by (simp add: turnover_def)

lemma exact_net_snoc:
  "exact_net cur (ps @ [p]) = exact_net cur ps +
     (if jstr (jfield ''currency'' p) = cur then jint (jfield ''debit_minor'' p) - jint (jfield ''credit_minor'' p) else 0)"
  by (simp add: exact_net_def)

lemma exact_net_bound:
  assumes "\<And>p. p \<in> set ps \<Longrightarrow> 0 \<le> jint (jfield ''debit_minor'' p) \<and> 0 \<le> jint (jfield ''credit_minor'' p)"
  shows "\<bar>exact_net cur ps\<bar> \<le> turnover ps"
  using assms
proof (induction ps rule: rev_induct)
  case (snoc p ps)
  then have "\<bar>exact_net cur ps\<bar> \<le> turnover ps" "0 \<le> jint (jfield ''debit_minor'' p)" "0 \<le> jint (jfield ''credit_minor'' p)"
    by simp_all
  then show ?case unfolding exact_net_snoc turnover_snoc by (split if_split) linarith
qed (simp add: exact_net_def turnover_def)

lemma netByCurrency_snoc: "netByCurrency (ps @ [p]) = add_posting p (netByCurrency ps)"
  by (simp add: netByCurrency_def)

lemma netByCurrency_exact:
  assumes "\<And>p. p \<in> set ps \<Longrightarrow> 0 \<le> jint (jfield ''debit_minor'' p) \<and> 0 \<le> jint (jfield ''credit_minor'' p)"
    and "turnover ps < 2 ^ 53"
  shows "distinct (map fst (netByCurrency ps)) \<and> map_of (netByCurrency ps) cur =
    (if cur \<in> (\<lambda>p. jstr (jfield ''currency'' p)) ` set ps then Some (exact_net cur ps) else None)"
  using assms
proof (induction ps arbitrary: cur rule: rev_induct)
  case Nil
  then show ?case by (simp add: netByCurrency_def)
next
  case (snoc p ps)
  let ?c = "jstr (jfield ''currency'' p)" and ?d = "jint (jfield ''debit_minor'' p)" and ?k = "jint (jfield ''credit_minor'' p)"
  have nn: "0 \<le> ?d" "0 \<le> ?k" using snoc.prems(1) [of p] by simp_all
  have old: "\<And>q. q \<in> set ps \<Longrightarrow> 0 \<le> jint (jfield ''debit_minor'' q) \<and> 0 \<le> jint (jfield ''credit_minor'' q)"
    using snoc.prems(1) by simp
  have less: "turnover ps + ?d + ?k < 2 ^ 53" using snoc.prems(2) by (simp add: turnover_snoc)
  then have "turnover ps < 2 ^ 53" using nn by linarith
  note IH = snoc.IH [OF old this]
  have "exact_net ?c ps = 0" if "?c \<notin> (\<lambda>p. jstr (jfield ''currency'' p)) ` set ps"
  proof -
    have "filter (\<lambda>p. jstr (jfield ''currency'' p) = ?c) ps = []"
      using that by (auto simp: filter_empty_conv image_iff)
    then show ?thesis by (simp add: exact_net_def)
  qed
  then have cur: "(case map_of (netByCurrency ps) ?c of None \<Rightarrow> 0 | Some n \<Rightarrow> n) = exact_net ?c ps"
    using IH [of ?c] by simp
  have "\<bar>exact_net ?c ps\<bar> \<le> turnover ps" using old by (rule exact_net_bound)
  then have "\<bar>exact_net ?c ps + ?d\<bar> < 2 ^ 53" "\<bar>exact_net ?c ps + ?d - ?k\<bar> < 2 ^ 53"
    using less nn by linarith+
  then have "js_round (js_round (exact_net ?c ps + ?d) - ?k) = exact_net ?c (ps @ [p])"
    by (simp add: js_round_exact exact_net_snoc)
  then have "netByCurrency (ps @ [p]) = map_set ?c (exact_net ?c (ps @ [p])) (netByCurrency ps)"
    by (simp add: netByCurrency_snoc add_posting_def cur Let_def)
  then show ?case
    using IH [of cur] by (auto simp: map_of_map_set distinct_map_set exact_net_snoc)
qed

end
