(* ===== verification/Service_Properties.thy ===== *)
theory Service_Properties
  imports Service_Contracts
begin

text \<open>
  What the contract parsers guarantee about the values they accept, whatever the services send.
\<close>

section \<open>Execution authority\<close>

text \<open>
  The scan accepts a value exactly when no key at any depth, in nested objects or arrays, is an
  execution or credential key up to letter case; and no service parser returns a value the scan
  refuses.
\<close>

lemma no_execution_authority:
  "(assertNoExecutionAuthority v path = None \<longleftrightarrow> (\<forall>k. occurs_key v k \<longrightarrow> map latin1_lower k \<notin> set FORBIDDEN_EXECUTION_KEYS)) \<and>
   (parse \<in> {parseGoAuditTrailEnvelope zod, parseRustMonitoringResult zod, parseRustCounterpartyRisk zod,
      parsePythonAssembledReport zod, parsePythonStablecoinExposure zod, parseRustLedgerValidation zod,
      parseRustLedgerReconciliation zod} \<longrightarrow> parse v = Inr w \<longrightarrow>
    (\<forall>k. occurs_key w k \<longrightarrow> map latin1_lower k \<notin> set FORBIDDEN_EXECUTION_KEYS))"
proof -
  have scanned: "scan_and_validate zod schema v = Inr w \<Longrightarrow> w = v \<and> assertNoExecutionAuthority v ''$'' = None" for schema
    by (auto simp: scan_and_validate_def split: option.splits if_splits)
  have "assertNoExecutionAuthority w ''$'' = None"
    if "parse \<in> {parseGoAuditTrailEnvelope zod, parseRustMonitoringResult zod, parseRustCounterpartyRisk zod,
      parsePythonAssembledReport zod, parsePythonStablecoinExposure zod, parseRustLedgerValidation zod,
      parseRustLedgerReconciliation zod}" and "parse v = Inr w"
  proof -
    from that have "\<exists>schema. scan_and_validate zod schema v = Inr w"
      by (elim insertE emptyE)
         (auto simp: parseGoAuditTrailEnvelope_def parseRustMonitoringResult_def parseRustCounterpartyRisk_def
           parsePythonAssembledReport_def parsePythonStablecoinExposure_def parseRustLedgerValidation_def
           parseRustLedgerReconciliation_def Let_def split: sum.splits option.splits if_splits)
    then show ?thesis using scanned by metis
  qed
  then show ?thesis unfolding scan_complete(1) forbidden_key_def by blast
qed

lemma no_execution_authority_witness:
  "assertNoExecutionAuthority (JArr [JObj [(''a'', JObj [(''Settle'', JNum 1)])]]) ''$'' \<noteq> None \<and>
   assertNoExecutionAuthority (JArr [JObj [(''a'', JObj [(''settled'', JNum 1)])]]) ''$'' = None"
proof -
  have "occurs_key (JArr [JObj [(''a'', JObj [(''Settle'', JNum 1)])]]) ''Settle''"
    by (rule in_entry, simp, rule in_field, simp, rule here, simp)
  moreover have "map latin1_lower ''Settle'' \<in> set FORBIDDEN_EXECUTION_KEYS" by code_simp
  moreover have "assertNoExecutionAuthority (JArr [JObj [(''a'', JObj [(''settled'', JNum 1)])]]) ''$'' = None" by code_simp
  ultimately show ?thesis
    using no_execution_authority [of "JArr [JObj [(''a'', JObj [(''Settle'', JNum 1)])]]" "''$''"
      "parseRustMonitoringResult (\<lambda>_ _. True)" "\<lambda>_ _. True"] by blast
qed

section \<open>The Go audit trail\<close>

definition trail :: "string \<Rightarrow> json list \<Rightarrow> json" where
  "trail orderId events = JObj
    [(''service'', JStr ''umojaflowos-payment-engine''), (''contract_version'', JStr ''v1''),
     (''envelope_type'', JStr ''umojaflowos.payment.audit_trail.v1''), (''order_id'', JStr orderId),
     (''events'', JArr events)]"

lemma trail_fields [simp]:
  "jstr (jfield ''order_id'' (trail k es)) = k" "jlist (jfield ''events'' (trail k es)) = es"
  by (simp_all add: trail_def jfield_def)

lemma trail_conforms:
  "conforms goAuditTrailEnvelopeSchema dt (trail k es) \<longleftrightarrow> 1 \<le> length k \<and> list_all (conforms goAuditEventSchema dt) es"
  by (simp add: goAuditTrailEnvelopeSchema_def trail_def may_be_missing_def)

lemma occurs_trail:
  "occurs_key (trail k es) j \<longleftrightarrow>
     j \<in> {''service'', ''contract_version'', ''envelope_type'', ''order_id'', ''events''} \<or> (\<exists>ev \<in> set es. occurs_key ev j)"
  unfolding trail_def by (simp only: occurs_key_simps insert_iff empty_iff simp_thms Bex_def disj_assoc)

lemma scan_trail:
  "assertNoExecutionAuthority (trail k es) ''$'' = None \<longleftrightarrow> (\<forall>ev \<in> set es. assertNoExecutionAuthority ev ''$'' = None)"
proof -
  have distribute: "(\<forall>j. j \<in> K \<or> (\<exists>ev \<in> set es. occurs_key ev j) \<longrightarrow> \<not> forbidden_key j) \<longleftrightarrow>
      (\<forall>ev \<in> set es. \<forall>j. occurs_key ev j \<longrightarrow> \<not> forbidden_key j)" if "\<forall>j \<in> K. \<not> forbidden_key j" for K
    using that by blast
  have "\<forall>j \<in> {''service'', ''contract_version'', ''envelope_type'', ''order_id'', ''events''}. \<not> forbidden_key j"
    by code_simp
  from distribute [OF this] show ?thesis
    unfolding scan_complete(1) occurs_trail .
qed

text \<open>
  C27: A trail is accepted exactly when it conforms to the schema, carries no execution authority,
  is numbered from one without gaps, names one order throughout, and links every event to the hash
  of its predecessor; the first event links to nothing.
\<close>

theorem audit_trail_accepted_iff:
  assumes "\<forall>s v. zod s v = conforms s dt v"
  shows "\<not> isl (parseGoAuditTrailEnvelope zod (trail k es)) \<longleftrightarrow>
    k \<noteq> [] \<and> (\<forall>ev \<in> set es. conforms goAuditEventSchema dt ev \<and> assertNoExecutionAuthority ev ''$'' = None) \<and>
    (\<forall>i < length es. jint (jfield ''sequence'' (es ! i)) = int i + 1 \<and> jstr (jfield ''order_id'' (es ! i)) = k \<and>
       jstr (jfield ''previous_hash'' (es ! i)) = (if i = 0 then [] else jstr (jfield ''hash'' (es ! (i - 1)))))"
proof -
  have "check_chain k es 0 [] = None \<longleftrightarrow> (\<forall>i < length es. jint (jfield ''sequence'' (es ! i)) = int i + 1 \<and>
      jstr (jfield ''order_id'' (es ! i)) = k \<and>
      jstr (jfield ''previous_hash'' (es ! i)) = (if i = 0 then [] else jstr (jfield ''hash'' (es ! (i - 1)))))"
    unfolding check_chain_links chain_links_def by (rule refl)
  moreover have "1 \<le> length k \<longleftrightarrow> k \<noteq> []" by (cases k) auto
  moreover have "\<not> isl (parseGoAuditTrailEnvelope zod (trail k es)) \<longleftrightarrow>
      assertNoExecutionAuthority (trail k es) ''$'' = None \<and> zod goAuditTrailEnvelopeSchema (trail k es) \<and>
      check_chain k es 0 [] = None"
    by (simp add: parseGoAuditTrailEnvelope_def scan_and_validate_def split: option.split)
  ultimately show ?thesis
    unfolding assms [rule_format] trail_conforms scan_trail list_all_iff ball_conj_distrib by argo
qed

definition hash_a :: string where "hash_a = replicate 64 (CHR ''a'')"
definition hash_b :: string where "hash_b = replicate 64 (CHR ''b'')"

definition audit_event :: "int \<Rightarrow> string \<Rightarrow> string \<Rightarrow> string \<Rightarrow> json" where
  "audit_event n reason prev hash = JObj
    [(''sequence'', JNum n), (''order_id'', JStr ''ord-1''), (''corridor'', JStr ''KENYA_KES''),
     (''from_status'', JStr ''DRAFT''), (''to_status'', JStr ''PENDING_POLICY_DECISION''), (''reason'', JStr reason),
     (''actor_role'', JStr ''treasury''), (''occurred_at'', JStr ''2026-01-01T00:00:00Z''),
     (''previous_hash'', JStr prev), (''hash'', JStr hash)]"

definition sample_events :: "json list" where
  "sample_events = [audit_event 1 ''submitted'' [] hash_a, audit_event 2 ''reviewed'' hash_a hash_b]"

definition any_time :: "bool \<Rightarrow> string \<Rightarrow> bool" where "any_time offset s = (20 \<le> length s)"

theorem audit_trail_accepted_iff_witness:
  "\<not> isl (parseGoAuditTrailEnvelope (\<lambda>s. conforms s any_time) (trail ''ord-1'' sample_events))"
proof -
  have "\<forall>i < length sample_events. jint (jfield ''sequence'' (sample_events ! i)) = int i + 1 \<and>
      jstr (jfield ''order_id'' (sample_events ! i)) = ''ord-1'' \<and>
      jstr (jfield ''previous_hash'' (sample_events ! i)) =
        (if i = 0 then [] else jstr (jfield ''hash'' (sample_events ! (i - 1))))" by code_simp
  moreover have "\<forall>ev \<in> set sample_events. conforms goAuditEventSchema any_time ev \<and> assertNoExecutionAuthority ev ''$'' = None"
    by code_simp
  ultimately show ?thesis
    using audit_trail_accepted_iff [of "\<lambda>s. conforms s any_time" any_time "''ord-1''" sample_events] by simp
qed

text \<open>
  the chain check is blind at the end: whenever a trail is accepted, every trail cut short after
  some of its events is accepted as well, so removed final events are not noticed.
\<close>

lemma dropped_tail_accepted:
  assumes "\<forall>s v. zod s v = conforms s dt v" and "\<not> isl (parseGoAuditTrailEnvelope zod (trail k es))"
  shows "\<not> isl (parseGoAuditTrailEnvelope zod (trail k (take n es)))"
proof -
  have zod: "zod s v \<longleftrightarrow> conforms s dt v" for s v using assms(1) by blast
  have parts: "\<not> isl (parseGoAuditTrailEnvelope zod (trail k xs)) \<longleftrightarrow>
      assertNoExecutionAuthority (trail k xs) ''$'' = None \<and> conforms goAuditTrailEnvelopeSchema dt (trail k xs) \<and>
      chain_links k xs" for xs
    unfolding check_chain_links [symmetric]
    by (simp add: parseGoAuditTrailEnvelope_def scan_and_validate_def zod split: option.split)
  from assms(2) show ?thesis
    unfolding parts trail_conforms scan_trail list_all_iff chain_links_def by (auto dest: in_set_takeD)
qed

lemma dropped_tail_accepted_witness:
  "\<not> isl (parseGoAuditTrailEnvelope (\<lambda>s. conforms s any_time) (trail ''ord-1'' (take 1 sample_events)))"
proof -
  have "\<not> isl (parseGoAuditTrailEnvelope (\<lambda>s. conforms s any_time) (trail ''ord-1'' sample_events))" by code_simp
  then show ?thesis using dropped_tail_accepted [of "\<lambda>s. conforms s any_time" any_time] by simp
qed

section \<open>Ledger postings\<close>

text \<open>
  C28: as long as the turnover of a posting set stays below \<open>2 ^ 53\<close> minor units, the balance that
  the parser derives with doubles is the exact one: an accepted set claims to be balanced exactly
  when every currency nets to zero, and otherwise the reported imbalance is the exact net.
\<close>

theorem ledger_balance_exact:
  assumes "\<forall>s v. zod s v = conforms s dt v" and "parseRustLedgerValidation zod input = Inr envelope"
    and "turnover (jlist (jfield ''postings'' envelope)) < 2 ^ 53"
  shows "(jbool (jfield ''balanced'' envelope) \<longleftrightarrow> (\<forall>cur. exact_net cur (jlist (jfield ''postings'' envelope)) = 0)) \<and>
    (\<not> jbool (jfield ''balanced'' envelope) \<longrightarrow>
      exact_net (jstr (jfield ''currency'' (jfield ''imbalance'' envelope))) (jlist (jfield ''postings'' envelope)) =
        jint (jfield ''net_minor'' (jfield ''imbalance'' envelope)))"
proof -
  let ?ps = "jlist (jfield ''postings'' envelope)" and ?cur = "\<lambda>p. jstr (jfield ''currency'' p)"
  have zod: "zod = (\<lambda>s. conforms s dt)" using assms(1) by blast
  from assms(2) have valid: "scan_and_validate zod rustLedgerValidationSchema input = Inr envelope"
    and bal: "jbool (jfield ''balanced'' envelope) \<longleftrightarrow> filter (\<lambda>(_, n). n \<noteq> 0) (netByCurrency ?ps) = []"
    and imb: "jbool (jfield ''balanced'' envelope) \<or> map_of (netByCurrency ?ps) (?cur (jfield ''imbalance'' envelope)) =
        Some (jint (jfield ''net_minor'' (jfield ''imbalance'' envelope)))"
    unfolding parseRustLedgerValidation_def Let_def by (auto split: sum.splits if_splits)
  have nn: "0 \<le> jint (jfield ''debit_minor'' p) \<and> 0 \<le> jint (jfield ''credit_minor'' p)" if "p \<in> set ?ps" for p
    using documented.accepted_postings [OF valid [unfolded zod] that] by blast
  note net = netByCurrency_exact [OF nn assms(3)]
  have absent: "exact_net cur ?ps = 0" if "cur \<notin> ?cur ` set ?ps" for cur
  proof -
    have "filter (\<lambda>p. ?cur p = cur) ?ps = []" using that by (auto simp: filter_empty_conv)
    then show ?thesis by (simp add: exact_net_def)
  qed
  have "(\<forall>(c, n) \<in> set (netByCurrency ?ps). n = 0) \<longleftrightarrow> (\<forall>cur. exact_net cur ?ps = 0)"
  proof -
    have dist: "distinct (map fst (netByCurrency ?ps))" using net by blast
    have look: "(c, n) \<in> set (netByCurrency ?ps) \<longleftrightarrow> map_of (netByCurrency ?ps) c = Some n" for c n
      using dist by simp
    show ?thesis unfolding Ball_def split_paired_All prod.case look using net absent by auto
  qed
  then have "jbool (jfield ''balanced'' envelope) \<longleftrightarrow> (\<forall>cur. exact_net cur ?ps = 0)"
    unfolding bal by (auto simp: filter_empty_conv)
  moreover have "exact_net (?cur (jfield ''imbalance'' envelope)) ?ps = jint (jfield ''net_minor'' (jfield ''imbalance'' envelope))"
    if "\<not> jbool (jfield ''balanced'' envelope)"
    using imb that net [of "?cur (jfield ''imbalance'' envelope)"] by (auto split: if_splits)
  ultimately show ?thesis by blast
qed

definition posting :: "string \<Rightarrow> int \<Rightarrow> int \<Rightarrow> json" where
  "posting cur debit credit = JObj [(''account_id'', JStr ''a''), (''currency'', JStr cur), (''debit_minor'', JNum debit), (''credit_minor'', JNum credit)]"

definition validation :: "json list \<Rightarrow> bool \<Rightarrow> json \<Rightarrow> json" where
  "validation ps balanced imbalance = JObj
    [(''service'', JStr ''umojaflowos-ledger-gateway''), (''contract_version'', JStr ''v1''),
     (''envelope_type'', JStr ''umojaflowos.ledger.posting_validation.v1''), (''postings'', JArr ps),
     (''balanced'', JBool balanced), (''imbalance'', imbalance)]"

theorem ledger_balance_exact_witness:
  "exact_net ''USD'' (jlist (jfield ''postings'' (validation [posting ''USD'' 500 0, posting ''USD'' 0 500] True JNull))) = 0"
proof -
  let ?v = "validation [posting ''USD'' 500 0, posting ''USD'' 0 500] True JNull"
  have "parseRustLedgerValidation (\<lambda>s. conforms s any_time) ?v = Inr ?v" by code_simp
  moreover have "turnover (jlist (jfield ''postings'' ?v)) < 2 ^ 53" by code_simp
  moreover have "jbool (jfield ''balanced'' ?v)" by code_simp
  ultimately show ?thesis using ledger_balance_exact [of "\<lambda>s. conforms s any_time" any_time ?v ?v] by blast
qed

text \<open>
  above that bound rounding hides an imbalance. The set below nets to one minor unit, claims to be
  balanced, and is accepted.
\<close>

lemma rounding_hides_imbalance:
  "parseRustLedgerValidation (\<lambda>s. conforms s dt)
      (validation [posting ''USD'' 9007199254740991 0, posting ''USD'' 2 0, posting ''USD'' 0 9007199254740991,
         posting ''USD'' 0 1] True JNull) =
    Inr (validation [posting ''USD'' 9007199254740991 0, posting ''USD'' 2 0, posting ''USD'' 0 9007199254740991,
         posting ''USD'' 0 1] True JNull) \<and>
   exact_net ''USD'' [posting ''USD'' 9007199254740991 0, posting ''USD'' 2 0, posting ''USD'' 0 9007199254740991,
         posting ''USD'' 0 1] = 1"
  by (intro conjI; code_simp)

text \<open>
  an unbalanced set must name the offending currency, but any currency whose reported net matches
  passes, also one that is balanced: below only the shilling is off, and the dollar is named.
\<close>

lemma imbalance_names_balanced_currency:
  "parseRustLedgerValidation (\<lambda>s. conforms s dt)
      (validation [posting ''USD'' 5 5, posting ''KES'' 7 0] False (JObj [(''currency'', JStr ''USD''), (''net_minor'', JNum 0)])) =
    Inr (validation [posting ''USD'' 5 5, posting ''KES'' 7 0] False (JObj [(''currency'', JStr ''USD''), (''net_minor'', JNum 0)])) \<and>
   exact_net ''USD'' [posting ''USD'' 5 5, posting ''KES'' 7 0] = 0 \<and> exact_net ''KES'' [posting ''USD'' 5 5, posting ''KES'' 7 0] = 7"
  by (intro conjI; code_simp)

end
