(* ===== verification/Operational_Alerts.thy ===== *)
theory Operational_Alerts
  imports Umoja_Store
begin

text \<open>
  Operational alerts (\<open>server/operationalAlerts.ts\<close>): liquidity buffers, failed payments and
  compliance cases that wait for review. An evaluation reads the recorded rows, notifies the owner
  of what is new within a window, and records every attempt. Hashing, random identifiers and the
  notification service are fields of \<open>alert_world\<close>. Hours are whole numbers, rows that the code
  reads without an order come in the order of the table.
\<close>

record alert_world =
  aw_sha256 :: "string \<Rightarrow> string"
  aw_notifyOwner :: "string \<Rightarrow> string \<Rightarrow> bool"
  aw_rand :: "nat \<Rightarrow> uuid"
  aw_uuid_text :: "uuid \<Rightarrow> string"

section \<open>Texts\<close>

text \<open>\<open>numeric::text\<close> at a scale, and \<open>Date.prototype.toISOString\<close> (proleptic Gregorian calendar).\<close>

definition pad :: "nat \<Rightarrow> int \<Rightarrow> string" where
  "pad w n = replicate (w - length (pos_text n)) CHR ''0'' @ pos_text n"

definition numeric_text :: "nat \<Rightarrow> int \<Rightarrow> string" where
  "numeric_text scale x = (let n = \<bar>x\<bar>; u = 10 ^ scale
     in (if x < 0 then ''-'' else []) @ pos_text (n div u) @ (if scale = 0 then [] else ''.'' @ pad scale (n mod u)))"

definition civil :: "int \<Rightarrow> int \<times> int \<times> int" where
  "civil days = (let z = days + 719468; era = z div 146097; doe = z mod 146097;
       yoe = (doe - doe div 1460 + doe div 36524 - doe div 146096) div 365;
       doy = doe - (365 * yoe + yoe div 4 - yoe div 100); mp = (5 * doy + 2) div 153;
       d = doy - (153 * mp + 2) div 5 + 1; m = (if mp < 10 then mp + 3 else mp - 9)
     in (yoe + era * 400 + (if m \<le> 2 then 1 else 0), m, d))"

definition year_text :: "int \<Rightarrow> string" where
  "year_text y = (if 0 \<le> y \<and> y \<le> 9999 then pad 4 y
     else (if y < 0 then ''-'' else ''+'') @ pad 6 \<bar>y\<bar>)"

definition toISOString :: "instant \<Rightarrow> string" where
  "toISOString t = (case civil (t div 86400000) of (y, m, d) \<Rightarrow> let ms = t mod 86400000
     in year_text y @ ''-'' @ pad 2 m @ ''-'' @ pad 2 d @ ''T'' @ pad 2 (ms div 3600000) @ '':'' @
        pad 2 (ms div 60000 mod 60) @ '':'' @ pad 2 (ms div 1000 mod 60) @ ''.'' @ pad 3 (ms mod 1000) @ ''Z'')"

section \<open>Delivery\<close>

definition payload :: "alert_world \<Rightarrow> string \<Rightarrow> string \<Rightarrow> string" where
  "payload w title content = aw_sha256 w (title @ [CHR 0x0A] @ content)"

definition delivery_policies :: "alert_type \<Rightarrow> corridor option \<Rightarrow> db \<Rightarrow> uuid list" where
  "delivery_policies alertType cor db = map ap_id (filter (\<lambda>p. ap_alert_type p = alertType \<and> ap_enabled p \<and>
     (ap_corridor p = None \<or> (cor \<noteq> None \<and> ap_corridor p = cor))) (alert_policies db))"

fun insert_deliveries :: "notification_delivery list \<Rightarrow> db \<Rightarrow> db result" where
  "insert_deliveries [] db = Inr db"
| "insert_deliveries (d # ds) db = (case insert_delivery d db of Inl er \<Rightarrow> Inl er | Inr db1 \<Rightarrow> insert_deliveries ds db1)"

text \<open>What one alert says: title, content, corridor, and the caller's part of the event.\<close>

record notice =
  no_title :: string
  no_content :: string
  no_corridor :: "corridor option"
  no_metadata :: "(string \<times> json) list"

definition deliver ::
  "alert_world \<Rightarrow> env \<Rightarrow> actor \<Rightarrow> alert_type \<Rightarrow> uuid \<Rightarrow> notice \<Rightarrow> (bool \<times> uuid list) tx" where
  "deliver w e a alertType correlationId n db =
    (let policyIds = delivery_policies alertType (no_corridor n) db
     in if policyIds = [] then Inr ((False, []), db)
        else let delivered = aw_notifyOwner w (no_title n) (no_content n);
                 row = (\<lambda>p. \<lparr>nd_alert_policy_id = p, nd_alert_type = alertType, nd_accepted = delivered,
                    nd_destination = ''project_owner'', nd_correlation_id = correlationId,
                    nd_payload_hash = payload w (no_title n) (no_content n), nd_created_at = pg_now e\<rparr>)
             in case insert_deliveries (map row policyIds) db of
                  Inl er \<Rightarrow> Inl er
                | Inr db1 \<Rightarrow> Inr ((delivered, policyIds),
                    insert_event e a ''operational_alert.delivery_attempted'' ''alert_delivery'' (Some correlationId)
                      (no_metadata n @ [(''alertType'', JStr (alert_type_text alertType)),
                        (''policyIds'', JArr (map jid policyIds)), (''delivered'', JBool delivered)]) db1))"

definition alreadyDelivered :: "alert_type \<Rightarrow> string \<Rightarrow> instant \<Rightarrow> db \<Rightarrow> bool" where
  "alreadyDelivered alertType payloadHash since db =
     list_ex (\<lambda>d. nd_alert_type d = alertType \<and> nd_payload_hash d = payloadHash \<and> since \<le> nd_created_at d)
       (notification_deliveries db)"

text \<open>
  The loop the three evaluations share. \<open>n\<close> counts the random identifiers drawn so far; the
  result is the number of deliveries, the number of suppressed duplicates and the next \<open>n\<close>.
\<close>

fun notify_all ::
  "alert_world \<Rightarrow> env \<Rightarrow> actor \<Rightarrow> alert_type \<Rightarrow> instant \<Rightarrow> nat \<Rightarrow> notice list \<Rightarrow> (nat \<times> nat \<times> nat) tx" where
  "notify_all w e a ty since n [] db = Inr ((0, 0, n), db)"
| "notify_all w e a ty since n (x # xs) db =
    (if alreadyDelivered ty (payload w (no_title x) (no_content x)) since db then
       (case notify_all w e a ty since n xs db of
          Inl er \<Rightarrow> Inl er | Inr ((d, s, k), db') \<Rightarrow> Inr ((d, Suc s, k), db'))
     else case deliver w e a ty (aw_rand w n) x db of
       Inl er \<Rightarrow> Inl er
     | Inr ((_, policyIds), db1) \<Rightarrow>
         (case notify_all w e a ty since (if policyIds = [] then n else Suc n) xs db1 of
            Inl er \<Rightarrow> Inl er
          | Inr ((d, s, k), db') \<Rightarrow> Inr ((if policyIds = [] then d else Suc d, s, k), db')))"

section \<open>Liquidity\<close>

datatype band = Amber | Red

fun band_text :: "band \<Rightarrow> string" where
  "band_text Amber = ''amber''"
| "band_text Red = ''red''"

fun band_upper :: "band \<Rightarrow> string" where
  "band_upper Amber = ''AMBER''"
| "band_upper Red = ''RED''"

record liquidity_breach =
  lb_corridor :: corridor
  lb_currency :: asset
  lb_accountReference :: string
  lb_availableAmount :: string
  lb_requiredMinimum :: string
  lb_band :: band
  lb_policyVersion :: string
  lb_sourceReference :: string

definition hours :: "int \<Rightarrow> int" where
  "hours h = h * 3600000"

definition latest_policy :: "instant \<Rightarrow> corridor \<Rightarrow> db \<Rightarrow> buffer_policy option" where
  "latest_policy now c db = (case sort_key (\<lambda>p. - bp_effective_from p)
       (filter (\<lambda>p. bp_corridor p = c \<and> bp_effective_from p \<le> now) (treasury_buffer_policies db)) of
     [] \<Rightarrow> None | p # _ \<Rightarrow> Some p)"

text \<open>The floor of a percentage, in units of $10^{-18}$, and the band of a position.\<close>

definition buffer_floor :: "buffer_policy \<Rightarrow> int \<Rightarrow> int" where
  "buffer_floor p pct = bp_approved_daily_outflow p * pct"

definition band_of :: "buffer_policy \<Rightarrow> liquidity_position \<Rightarrow> band option" where
  "band_of p x =
    (if lp_available_amount x * 1000000 < buffer_floor p (bp_minimum_buffer_pct p) then Some Red
     else if lp_available_amount x * 1000000 < buffer_floor p (bp_amber_buffer_pct p) then Some Amber
     else None)"

fun band_floor :: "buffer_policy \<Rightarrow> band \<Rightarrow> int" where
  "band_floor p Red = buffer_floor p (bp_minimum_buffer_pct p)"
| "band_floor p Amber = buffer_floor p (bp_amber_buffer_pct p)"

definition fresh_positions :: "instant \<Rightarrow> buffer_policy \<Rightarrow> db \<Rightarrow> liquidity_position list" where
  "fresh_positions freshnessFloor p db = filter (\<lambda>x. lp_corridor x = bp_corridor p \<and> lp_currency x = bp_currency p \<and>
     lp_account_kind x \<in> set (bp_permitted_account_kinds p) \<and> freshnessFloor \<le> lp_reconciled_at x) (liquidity_positions db)"

definition breach_of :: "buffer_policy \<Rightarrow> liquidity_position \<Rightarrow> liquidity_breach list" where
  "breach_of p x = (case band_of p x of
     None \<Rightarrow> []
   | Some b \<Rightarrow> [\<lparr>lb_corridor = bp_corridor p, lb_currency = bp_currency p, lb_accountReference = lp_account_reference x,
       lb_availableAmount = numeric_text 12 (lp_available_amount x), lb_requiredMinimum = numeric_text 18 (band_floor p b),
       lb_band = b, lb_policyVersion = bp_policy_version p, lb_sourceReference = lp_source_reference x\<rparr>])"

definition evaluate_corridor ::
  "instant \<Rightarrow> instant \<Rightarrow> db \<Rightarrow> corridor \<Rightarrow> liquidity_breach list \<times> (corridor \<times> string) list" where
  "evaluate_corridor now freshnessFloor db c =
    (case latest_policy now c db of
       None \<Rightarrow> ([], [(c, ''no_approved_buffer_policy'')])
     | Some p \<Rightarrow>
         if fresh_positions freshnessFloor p db = [] then ([], [(c, ''no_reconciled_position_within_freshness_window'')])
         else (concat (map (breach_of p) (fresh_positions freshnessFloor p db)), []))"

definition corridors :: "corridor list" where
  "corridors = [NIGERIA_NGN, KENYA_KES, SOUTH_AFRICA_ZAR]"

definition liquidity_notice :: "liquidity_breach \<Rightarrow> notice" where
  "liquidity_notice x =
     \<lparr>no_title = ''UmojaFlowOS '' @ corridor_text (lb_corridor x) @ '' liquidity buffer '' @ band_upper (lb_band x),
      no_content = ''Account '' @ lb_accountReference x @ '' holds '' @ lb_availableAmount x @ '' '' @ asset_text (lb_currency x) @
        '', below the '' @ band_text (lb_band x) @ '' floor of '' @ lb_requiredMinimum x @ '' under policy '' @ lb_policyVersion x @
        ''. Reconciled source: '' @ lb_sourceReference x @ ''. This alert initiates no transfer.'',
      no_corridor = Some (lb_corridor x),
      no_metadata = [(''accountReference'', JStr (lb_accountReference x)), (''band'', JStr (band_text (lb_band x))),
        (''policyVersion'', JStr (lb_policyVersion x))]\<rparr>"

record liquidity_evaluation =
  le_evaluatedAt :: instant
  le_breaches :: "liquidity_breach list"
  le_indeterminateCorridors :: "(corridor \<times> string) list"
  le_delivered :: nat
  le_suppressedAsDuplicate :: nat

definition evaluatePostgresLiquidityThresholds ::
  "alert_world \<Rightarrow> env \<Rightarrow> actor \<Rightarrow> instant option \<Rightarrow> int option \<Rightarrow> int option \<Rightarrow> liquidity_evaluation tx" where
  "evaluatePostgresLiquidityThresholds w e a nowOption maxPositionAgeHours windowOption db =
    (let now = case_option (js_now e) id nowOption; maxAgeHours = case_option 24 id maxPositionAgeHours;
         windowHours = case_option 24 id windowOption;
         freshnessFloor = now - hours maxAgeHours; windowStart = now - hours windowHours;
         verdicts = map (evaluate_corridor now freshnessFloor db) corridors;
         breaches = concat (map fst verdicts); indeterminate = concat (map snd verdicts)
     in case notify_all w e a Liquidity_threshold windowStart 0 (map liquidity_notice breaches) db of
          Inl er \<Rightarrow> Inl er
        | Inr ((delivered, suppressed, n), db1) \<Rightarrow>
            Inr (\<lparr>le_evaluatedAt = now, le_breaches = breaches, le_indeterminateCorridors = indeterminate,
                  le_delivered = delivered, le_suppressedAsDuplicate = suppressed\<rparr>,
              insert_event e a ''liquidity_threshold.evaluated'' ''alert_evaluation'' (Some (aw_rand w n))
                [(''evaluatedAt'', JTime now), (''breachCount'', JNum (int (length breaches))),
                 (''indeterminate'', JArr (map (\<lambda>(c, r). JObj [(''corridor'', JStr (corridor_text c)), (''reason'', JStr r)]) indeterminate)),
                 (''delivered'', JNum (int delivered)), (''suppressedAsDuplicate'', JNum (int suppressed))] db1))"

section \<open>Failed payments\<close>

record payment_failure_evaluation =
  pe_evaluatedAt :: instant
  pe_failedOrders :: "(uuid \<times> corridor \<times> string) list"
  pe_delivered :: nat
  pe_suppressedAsDuplicate :: nat

definition failed_orders :: "instant \<Rightarrow> db \<Rightarrow> payment_order list" where
  "failed_orders windowStart db = sort_key (\<lambda>r. - po_updated_at r)
     (filter (\<lambda>r. po_status r = PS_failed \<and> windowStart \<le> po_updated_at r) (payment_orders db))"

definition failure_notice :: "alert_world \<Rightarrow> payment_order \<Rightarrow> notice" where
  "failure_notice w r =
     \<lparr>no_title = ''UmojaFlowOS '' @ corridor_text (po_corridor r) @ '' payment failure'',
      no_content = ''Payment order '' @ aw_uuid_text w (po_id r) @ '' (idempotency key '' @ po_idempotency_key r @
        '') is recorded as failed. Review the recorded provider finality reference and the order'' @ [CHR 0x27] @
        ''s audit trail. This alert retries nothing.'',
      no_corridor = Some (po_corridor r),
      no_metadata = [(''orderId'', jid (po_id r)), (''idempotencyKey'', JStr (po_idempotency_key r))]\<rparr>"

definition evaluatePostgresPaymentFailures ::
  "alert_world \<Rightarrow> env \<Rightarrow> actor \<Rightarrow> instant option \<Rightarrow> int option \<Rightarrow> payment_failure_evaluation tx" where
  "evaluatePostgresPaymentFailures w e a nowOption windowOption db =
    (let now = case_option (js_now e) id nowOption; windowHours = case_option 24 id windowOption;
         windowStart = now - hours windowHours; rows = failed_orders windowStart db
     in case notify_all w e a Payment_failure windowStart 0 (map (failure_notice w) rows) db of
          Inl er \<Rightarrow> Inl er
        | Inr ((delivered, suppressed, n), db1) \<Rightarrow>
            Inr (\<lparr>pe_evaluatedAt = now, pe_failedOrders = map (\<lambda>r. (po_id r, po_corridor r, po_idempotency_key r)) rows,
                  pe_delivered = delivered, pe_suppressedAsDuplicate = suppressed\<rparr>,
              insert_event e a ''payment_failure.evaluated'' ''alert_evaluation'' (Some (aw_rand w n))
                [(''evaluatedAt'', JTime now), (''failedCount'', JNum (int (length rows))),
                 (''delivered'', JNum (int delivered)), (''suppressedAsDuplicate'', JNum (int suppressed))] db1))"

section \<open>Compliance cases\<close>

record compliance_flag_evaluation =
  ce_evaluatedAt :: instant
  ce_openCases :: "(uuid \<times> string \<times> instant) list"
  ce_delivered :: nat
  ce_suppressedAsDuplicate :: nat

definition waiting_cases :: "instant \<Rightarrow> db \<Rightarrow> compliance_case list" where
  "waiting_cases ageFloor db = sort_key cc_opened_at
     (filter (\<lambda>r. cc_status r = CC_open \<and> cc_opened_at r \<le> ageFloor) (compliance_cases db))"

definition flag_notice :: "alert_world \<Rightarrow> compliance_case \<Rightarrow> notice" where
  "flag_notice w r =
     \<lparr>no_title = ''UmojaFlowOS compliance case awaiting review'',
      no_content = ''Case '' @ aw_uuid_text w (cc_id r) @ '' of type '' @ cc_case_type r @ '' has been open since '' @
        toISOString (cc_opened_at r) @ '' and still awaits a compliance-officer disposition. '' @
        ''This alert records no finding and proposes no disposition.'',
      no_corridor = None,
      no_metadata = [(''caseId'', jid (cc_id r)), (''caseType'', JStr (cc_case_type r))]\<rparr>"

definition evaluatePostgresComplianceFlags ::
  "alert_world \<Rightarrow> env \<Rightarrow> actor \<Rightarrow> instant option \<Rightarrow> int option \<Rightarrow> int option \<Rightarrow> compliance_flag_evaluation tx" where
  "evaluatePostgresComplianceFlags w e a nowOption ageOption windowOption db =
    (let now = case_option (js_now e) id nowOption; ageHours = case_option 48 id ageOption;
         windowHours = case_option 24 id windowOption;
         ageFloor = now - hours ageHours; windowStart = now - hours windowHours; rows = waiting_cases ageFloor db
     in case notify_all w e a Compliance_flag windowStart 0 (map (flag_notice w) rows) db of
          Inl er \<Rightarrow> Inl er
        | Inr ((delivered, suppressed, n), db1) \<Rightarrow>
            Inr (\<lparr>ce_evaluatedAt = now, ce_openCases = map (\<lambda>r. (cc_id r, cc_case_type r, cc_opened_at r)) rows,
                  ce_delivered = delivered, ce_suppressedAsDuplicate = suppressed\<rparr>,
              insert_event e a ''compliance_flag.evaluated'' ''alert_evaluation'' (Some (aw_rand w n))
                [(''evaluatedAt'', JTime now), (''openCaseCount'', JNum (int (length rows))), (''ageHours'', JNum ageHours),
                 (''delivered'', JNum (int delivered)), (''suppressedAsDuplicate'', JNum (int suppressed))] db1))"

inductive alerting_step :: "db \<Rightarrow> db \<Rightarrow> bool" where
  liquidity_evaluated: "evaluatePostgresLiquidityThresholds w e a n m h db = Inr (r1, db') \<Longrightarrow> alerting_step db db'"
| failures_evaluated: "evaluatePostgresPaymentFailures w e a n h db = Inr (r2, db') \<Longrightarrow> alerting_step db db'"
| flags_evaluated: "evaluatePostgresComplianceFlags w e a n m h db = Inr (r3, db') \<Longrightarrow> alerting_step db db'"

section \<open>What an evaluation writes\<close>

text \<open>Deliveries and events only, and both are appended.\<close>

definition notified :: "db \<Rightarrow> db \<Rightarrow> bool" where
  "notified db db' \<longleftrightarrow> (\<exists>ds log. prefix (notification_deliveries db) ds \<and> prefix (activity_events db) log \<and>
     db' = db\<lparr>notification_deliveries := ds, activity_events := log\<rparr>)"

lemma notified_refl: "notified db db"
  unfolding notified_def by (intro exI [of _ "notification_deliveries db"] exI [of _ "activity_events db"]) simp

lemma notified_trans: "notified db db1 \<Longrightarrow> notified db1 db2 \<Longrightarrow> notified db db2"
  unfolding notified_def by (clarsimp, intro exI conjI) (auto intro: prefix_order.trans)

lemma notified_event: "notified db (insert_event e a ac ot oi md db)"
  unfolding notified_def insert_event_def
  by (intro exI [of _ "notification_deliveries db"] exI conjI) (rule prefix_order.refl, rule prefixI, rule refl, simp)

lemma notified_tables:
  assumes "notified db db'"
  shows "alert_policies db' = alert_policies db" "liquidity_positions db' = liquidity_positions db"
    "treasury_buffer_policies db' = treasury_buffer_policies db" "payment_orders db' = payment_orders db"
    "compliance_cases db' = compliance_cases db" "prefix (notification_deliveries db) (notification_deliveries db')"
    "prefix (activity_events db) (activity_events db')"
  using assms by (auto simp: notified_def)

lemma insert_delivery_notified:
  "insert_delivery d db = Inr db' \<Longrightarrow> notified db db' \<and> notification_deliveries db' = notification_deliveries db @ [d]"
  unfolding notified_def insert_delivery_def
  by (auto simp: insert_row_def split: if_splits intro!: exI [of _ "notification_deliveries db @ [d]"] exI [of _ "activity_events db"])

lemma insert_deliveries_notified:
  "insert_deliveries ds db = Inr db' \<Longrightarrow> notified db db' \<and> notification_deliveries db' = notification_deliveries db @ ds"
  by (induction ds arbitrary: db) (auto simp: notified_refl split: sum.splits dest!: insert_delivery_notified intro: notified_trans)

lemma deliver_notified:
  assumes "deliver w e a ty c n db = Inr ((acc, ids), db')"
  shows "notified db db' \<and> ids = delivery_policies ty (no_corridor n) db"
    and "ids \<noteq> [] \<Longrightarrow> acc = aw_notifyOwner w (no_title n) (no_content n) \<and>
      notification_deliveries db' = notification_deliveries db @ map (\<lambda>p. \<lparr>nd_alert_policy_id = p, nd_alert_type = ty,
        nd_accepted = acc, nd_destination = ''project_owner'', nd_correlation_id = c,
        nd_payload_hash = payload w (no_title n) (no_content n), nd_created_at = pg_now e\<rparr>) ids"
    and "ids = [] \<Longrightarrow> db' = db"
  using assms unfolding deliver_def Let_def
  by (auto simp: notified_refl split: sum.splits if_splits dest!: insert_deliveries_notified intro: notified_trans notified_event)

lemma notify_all_notified:
  "notify_all w e a ty since n xs db = Inr (r, db') \<Longrightarrow> notified db db'"
proof (induction xs arbitrary: n db r)
  case (Cons x xs)
  show ?case
  proof (cases "alreadyDelivered ty (payload w (no_title x) (no_content x)) since db")
    case True
    with Cons show ?thesis by (auto split: sum.splits)
  next
    case False
    with Cons.prems obtain acc ids db1 where d: "deliver w e a ty (aw_rand w n) x db = Inr ((acc, ids), db1)"
      and "\<exists>r1. notify_all w e a ty since (if ids = [] then n else Suc n) xs db1 = Inr (r1, db')"
      by (auto split: sum.splits)
    with Cons.IH deliver_notified(1) [OF d] show ?thesis by (blast intro: notified_trans)
  qed
qed (simp add: notified_refl)

lemma alerting_step_notified: "alerting_step db db' \<Longrightarrow> notified db db'"
  by (erule alerting_step.cases)
     (auto simp: evaluatePostgresLiquidityThresholds_def evaluatePostgresPaymentFailures_def
       evaluatePostgresComplianceFlags_def Let_def split: sum.splits
       dest!: notify_all_notified intro: notified_trans notified_event)

section \<open>Duplicates\<close>

abbreviation noted :: "alert_world \<Rightarrow> alert_type \<Rightarrow> instant \<Rightarrow> notice \<Rightarrow> db \<Rightarrow> bool" where
  "noted w ty since x db \<equiv> alreadyDelivered ty (payload w (no_title x) (no_content x)) since db"

lemma noted_mono: "notified db db' \<Longrightarrow> alreadyDelivered ty h since db \<Longrightarrow> alreadyDelivered ty h since db'"
  by (drule notified_tables(6)) (auto simp: alreadyDelivered_def list_ex_iff prefix_def)

lemma policies_kept: "notified db db' \<Longrightarrow> delivery_policies ty c db' = delivery_policies ty c db"
  by (simp add: delivery_policies_def notified_tables)

lemma deliver_noted:
  assumes "deliver w e a ty c x db = Inr ((acc, ids), db')" and "ids \<noteq> []" and "since \<le> pg_now e"
  shows "noted w ty since x db'"
  using deliver_notified(2) [OF assms(1,2)] assms(2,3)
  by (cases ids) (auto simp: alreadyDelivered_def list_ex_iff)

text \<open>After a run, everything that has a policy to go to is on record.\<close>

lemma notify_all_noted:
  assumes "notify_all w e a ty since n xs db = Inr (r, db')" and "since \<le> pg_now e"
    and "x \<in> set xs" and "delivery_policies ty (no_corridor x) db \<noteq> []"
  shows "noted w ty since x db'"
  using assms(1,3,4)
proof (induction xs arbitrary: n db r)
  case (Cons y xs)
  show ?case
  proof (cases "noted w ty since y db")
    case True
    with Cons.prems(1) obtain r1 where rest: "notify_all w e a ty since n xs db = Inr (r1, db')"
      by (auto split: sum.splits)
    show ?thesis
    proof (cases "x = y")
      case True
      with \<open>noted w ty since y db\<close> noted_mono [OF notify_all_notified [OF rest]] show ?thesis by simp
    next
      case False
      with Cons.prems(2,3) Cons.IH [OF rest] show ?thesis by simp
    qed
  next
    case False
    with Cons.prems(1) obtain acc ids db1 r1 where d: "deliver w e a ty (aw_rand w n) y db = Inr ((acc, ids), db1)"
      and rest: "notify_all w e a ty since (if ids = [] then n else Suc n) xs db1 = Inr (r1, db')"
      by (auto split: sum.splits)
    note del = deliver_notified(1) [OF d]
    show ?thesis
    proof (cases "x = y")
      case True
      with del Cons.prems(3) have "noted w ty since x db1" using deliver_noted [OF d _ assms(2)] by simp
      then show ?thesis by (rule noted_mono [OF notify_all_notified [OF rest]])
    next
      case False
      moreover have "delivery_policies ty (no_corridor x) db1 \<noteq> []"
        using Cons.prems(3) policies_kept [OF conjunct1 [OF del]] by simp
      ultimately show ?thesis using Cons.prems(2) Cons.IH [OF rest] by simp
    qed
  qed
qed simp

text \<open>A run over notices that are on record, or have no policy, writes nothing.\<close>

lemma notify_all_idle:
  assumes "\<forall>x \<in> set xs. noted w ty since x db \<or> delivery_policies ty (no_corridor x) db = []"
  shows "\<exists>s. notify_all w e a ty since n xs db = Inr ((0, s, n), db)"
  using assms
proof (induction xs)
  case (Cons x xs)
  then obtain s where rest: "notify_all w e a ty since n xs db = Inr ((0, s, n), db)" by auto
  show ?case
  proof (cases "noted w ty since x db")
    case False
    with Cons.prems have "deliver w e a ty (aw_rand w n) x db = Inr ((False, []), db)"
      by (simp add: deliver_def)
    with False rest show ?thesis by simp
  qed (use rest in simp)
qed simp

text \<open>The rows a run adds carry the answer of the notification service.\<close>

lemma notify_all_rows:
  assumes "notify_all w e a ty since n xs db = Inr (r, db')"
    and "d \<in> set (drop (length (notification_deliveries db)) (notification_deliveries db'))"
  shows "\<exists>x \<in> set xs. nd_accepted d = aw_notifyOwner w (no_title x) (no_content x)"
  using assms
proof (induction xs arbitrary: n db r)
  case (Cons y xs)
  show ?case
  proof (cases "noted w ty since y db")
    case True
    with Cons.prems(1) obtain r1 where "notify_all w e a ty since n xs db = Inr (r1, db')"
      by (auto split: sum.splits)
    from Cons.IH [OF this Cons.prems(2)] show ?thesis by simp
  next
    case False
    with Cons.prems(1) obtain acc ids db1 r1 where d: "deliver w e a ty (aw_rand w n) y db = Inr ((acc, ids), db1)"
      and rest: "notify_all w e a ty since (if ids = [] then n else Suc n) xs db1 = Inr (r1, db')"
      by (auto split: sum.splits)
    show ?thesis
    proof (cases "ids = []")
      case True
      then have "db1 = db" by (rule deliver_notified(3) [OF d])
      from Cons.IH [OF rest] Cons.prems(2) show ?thesis unfolding \<open>db1 = db\<close> by simp
    next
      case False
      note new = deliver_notified(2) [OF d False]
      obtain ds where ds: "notification_deliveries db' = notification_deliveries db1 @ ds"
        using notified_tables(6) [OF notify_all_notified [OF rest]] by (auto simp: prefix_def)
      from new Cons.prems(2) have "nd_accepted d = aw_notifyOwner w (no_title y) (no_content y) \<or> d \<in> set ds"
        by (auto simp: ds)
      then show ?thesis using Cons.IH [OF rest] by (auto simp: ds)
    qed
  qed
qed simp

lemma notify_all_counts:
  "notify_all w e a ty since n xs db = Inr ((d, s, k), db') \<Longrightarrow> d + s \<le> length xs"
proof (induction xs arbitrary: n db d s k)
  case (Cons y xs)
  then show ?case by (fastforce split: sum.splits if_splits)
qed simp

end
