(* ===== verification/Alerting_Properties.thy ===== *)
theory Alerting_Properties
  imports Operational_Alerts
begin

text \<open>
  What the operational alerts guarantee: a corridor is never reported healthy without evidence, a
  breach is reported exactly for the positions below their floor, and a repeated evaluation sends
  nothing again. The last property also shows a weakness: an attempt that failed is not retried.
\<close>

section \<open>Reading an evaluation\<close>

lemma liquidity_unfold:
  assumes "evaluatePostgresLiquidityThresholds w e a (Some now) m h db = Inr (r, db')"
  shows "le_breaches r = concat (map fst (map (evaluate_corridor now (now - hours (case_option 24 id m)) db) corridors))"
    and "le_indeterminateCorridors r =
      concat (map snd (map (evaluate_corridor now (now - hours (case_option 24 id m)) db) corridors))"
    and "\<exists>n db1. notify_all w e a Liquidity_threshold (now - hours (case_option 24 id h)) 0
        (map liquidity_notice (le_breaches r)) db = Inr ((le_delivered r, le_suppressedAsDuplicate r, n), db1) \<and>
      notified db1 db' \<and> notification_deliveries db' = notification_deliveries db1"
  using assms
  by (auto simp: evaluatePostgresLiquidityThresholds_def Let_def notified_event split: sum.splits)









text \<open>The second of two evaluations at one instant.\<close>

lemma silent_rerun:
  assumes "evaluatePostgresLiquidityThresholds w e a (Some now) m h db = Inr (r, db')"
    and "now - hours (case_option 24 id h) \<le> pg_now e" and "aw_sha256 w' = aw_sha256 w"
  shows "\<exists>r' db''. evaluatePostgresLiquidityThresholds w' e' a' (Some now) m h db' = Inr (r', db'') \<and>
    le_breaches r' = le_breaches r \<and> le_delivered r' = 0 \<and> notification_deliveries db'' = notification_deliveries db'"
proof -
  let ?since = "now - hours (case_option 24 id h)" and ?fl = "now - hours (case_option 24 id m)"
  let ?xs = "map liquidity_notice (le_breaches r)"
  obtain n db1 where run: "notify_all w e a Liquidity_threshold ?since 0 ?xs db
      = Inr ((le_delivered r, le_suppressedAsDuplicate r, n), db1)" and ev: "notified db1 db'"
    using liquidity_unfold(3) [OF assms(1)] by blast
  have "notified db db'" by (rule notified_trans [OF notify_all_notified [OF run] ev])
  note tabs = notified_tables [OF this] and pols = policies_kept [OF this]
  have same: "evaluate_corridor now fl db' c = evaluate_corridor now fl db c" for fl c
  proof -
    have pol: "latest_policy now c db' = latest_policy now c db" by (simp add: latest_policy_def tabs)
    have fresh: "fresh_positions fl p db' = fresh_positions fl p db" for p by (simp add: fresh_positions_def tabs)
    show ?thesis unfolding evaluate_corridor_def pol fresh ..
  qed
  have hash: "payload w' t c = payload w t c" for t c by (simp add: payload_def assms(3))
  have "noted w' Liquidity_threshold ?since x db' \<or> delivery_policies Liquidity_threshold (no_corridor x) db' = []"
    if "x \<in> set ?xs" for x
    using notify_all_noted [OF run assms(2) that] noted_mono [OF ev] unfolding hash pols by blast
  then have "\<forall>x \<in> set ?xs. noted w' Liquidity_threshold ?since x db' \<or>
      delivery_policies Liquidity_threshold (no_corridor x) db' = []" by blast
  from notify_all_idle [OF this, of e' a' 0]
  obtain s where idle: "notify_all w' e' a' Liquidity_threshold ?since 0 ?xs db' = Inr ((0, s, 0), db')" by blast
  have breaches: "concat (map fst (map (evaluate_corridor now ?fl db') corridors)) = le_breaches r"
    unfolding same liquidity_unfold(1) [OF assms(1)] ..
  show ?thesis
    unfolding evaluatePostgresLiquidityThresholds_def Let_def option.case id_apply breaches idle sum.case prod.case
    by simp
qed

section \<open>A concrete desk\<close>

definition ngn_policy :: buffer_policy where
  "ngn_policy = \<lparr>bp_id = 1, bp_corridor = NIGERIA_NGN, bp_currency = NGN, bp_policy_version = ''v1'',
     bp_approved_daily_outflow = 1000000000000000, bp_minimum_buffer_pct = 200000, bp_target_buffer_pct = 400000,
     bp_amber_buffer_pct = 300000, bp_max_recommendation_pct_of_target = 500000,
     bp_permitted_account_kinds = [''nostro''], bp_effective_from = 0, bp_effective_to = None\<rparr>"

definition ngn_position :: liquidity_position where
  "ngn_position = \<lparr>lp_id = 2, lp_corridor = NIGERIA_NGN, lp_currency = NGN, lp_account_kind = ''nostro'',
     lp_account_reference = ''acc'', lp_available_amount = 250000000000000, lp_reserved_amount = 0,
     lp_source_reference = ''src'', lp_reconciled_at = 100000000, lp_recorded_by = ''op''\<rparr>"

definition liquidity_alert_policy :: alert_policy where
  "liquidity_alert_policy = \<lparr>ap_id = 3, ap_alert_type = Liquidity_threshold, ap_corridor = None, ap_threshold = JNull,
     ap_enabled = True, ap_created_by = ''op'', ap_created_at = 0\<rparr>"

definition desk_state :: db where
  "desk_state = empty_db\<lparr>alert_policies := [liquidity_alert_policy], treasury_buffer_policies := [ngn_policy],
     liquidity_positions := [ngn_position]\<rparr>"

definition desk_world :: "bool \<Rightarrow> alert_world" where
  "desk_world answer = \<lparr>aw_sha256 = id, aw_notifyOwner = (\<lambda>_ _. answer), aw_rand = id, aw_uuid_text = nat_text\<rparr>"

definition treasury_env :: env where
  "treasury_env = \<lparr>js_now = 100000000, pg_now = 100000000, pg_today = 0, new_uuid = 9, node_uuid = 9\<rparr>"

definition desk_officer :: actor where
  "desk_officer = \<lparr>openId = ''officer'', role = Treasury_operator\<rparr>"

section \<open>Properties\<close>



text \<open>
  a second evaluation at the same instant finds the same breaches and sends nothing: no
  delivery is counted and no row is added, whatever the notification service answered and answers,
  as long as the window reaches back to the first run.
\<close>

lemma rerun_sends_nothing:
  assumes "evaluatePostgresLiquidityThresholds w e a (Some now) m h db = Inr (r, db')"
    and "now - hours (case_option 24 id h) \<le> pg_now e" and "aw_sha256 w' = aw_sha256 w"
  shows "\<exists>r' db''. evaluatePostgresLiquidityThresholds w' e' a' (Some now) m h db' = Inr (r', db'') \<and>
    le_breaches r' = le_breaches r \<and> le_delivered r' = 0 \<and> notification_deliveries db'' = notification_deliveries db'"
  using assms by (rule silent_rerun)

lemma rerun_sends_nothing_witness:
  "case evaluatePostgresLiquidityThresholds (desk_world True) treasury_env desk_officer (Some 100000000) None None desk_state of
     Inl er \<Rightarrow> False
   | Inr (r, db') \<Rightarrow> \<exists>r' db''. evaluatePostgresLiquidityThresholds (desk_world True) treasury_env desk_officer (Some 100000000)
       None None db' = Inr (r', db'') \<and> le_delivered r' = 0"
proof -
  have ok: "\<not> isl (evaluatePostgresLiquidityThresholds (desk_world True) treasury_env desk_officer (Some 100000000) None None desk_state)"
    by code_simp
  then obtain r db' where ev: "evaluatePostgresLiquidityThresholds (desk_world True) treasury_env desk_officer
      (Some 100000000) None None desk_state = Inr (r, db')"
    by (cases "evaluatePostgresLiquidityThresholds (desk_world True) treasury_env desk_officer (Some 100000000) None None desk_state") auto
  have "100000000 - hours (case_option 24 id None) \<le> pg_now treasury_env" by code_simp
  from rerun_sends_nothing [OF ev this refl, of treasury_env desk_officer] show ?thesis using ev by auto
qed

text \<open>
  an attempt the notification service refused counts as delivered. When the service refuses
  everything, an evaluation still reports its attempts as deliveries while every row it adds says
  unavailable, and a later evaluation in the window, with a service that accepts again, sends
  nothing: the owner is never told.
\<close>

lemma refused_attempt_suppresses_retry:
  assumes "evaluatePostgresLiquidityThresholds w e a (Some now) m h db = Inr (r, db')"
    and "aw_notifyOwner w = (\<lambda>_ _. False)" and "now - hours (case_option 24 id h) \<le> pg_now e"
  shows "(\<forall>d \<in> set (drop (length (notification_deliveries db)) (notification_deliveries db')). \<not> nd_accepted d) \<and>
    (\<exists>r' db''. evaluatePostgresLiquidityThresholds (w\<lparr>aw_notifyOwner := (\<lambda>_ _. True)\<rparr>) e' a' (Some now) m h db' = Inr (r', db'') \<and>
       le_breaches r' = le_breaches r \<and> le_delivered r' = 0 \<and> notification_deliveries db'' = notification_deliveries db')"
proof
  let ?since = "now - hours (case_option 24 id h)" and ?fl = "now - hours (case_option 24 id m)"
  let ?xs = "map liquidity_notice (le_breaches r)"
  obtain n db1 where run: "notify_all w e a Liquidity_threshold ?since 0 ?xs db
      = Inr ((le_delivered r, le_suppressedAsDuplicate r, n), db1)" and ev: "notified db1 db'"
    "notification_deliveries db' = notification_deliveries db1"
    using liquidity_unfold(3) [OF assms(1)] by blast
  show "\<forall>d \<in> set (drop (length (notification_deliveries db)) (notification_deliveries db')). \<not> nd_accepted d"
    using notify_all_rows [OF run] assms(2) unfolding ev(2) by fastforce
  show "\<exists>r' db''. evaluatePostgresLiquidityThresholds (w\<lparr>aw_notifyOwner := (\<lambda>_ _. True)\<rparr>) e' a' (Some now) m h db' = Inr (r', db'') \<and>
       le_breaches r' = le_breaches r \<and> le_delivered r' = 0 \<and> notification_deliveries db'' = notification_deliveries db'"
    by (rule silent_rerun [OF assms(1,3)]) simp
qed

lemma refused_attempt_suppresses_retry_witness:
  "case evaluatePostgresLiquidityThresholds (desk_world False) treasury_env desk_officer (Some 100000000) None None desk_state of
     Inl er \<Rightarrow> False
   | Inr (r, db') \<Rightarrow> le_delivered r = 1 \<and> length (notification_deliveries db') = 1 \<and>
       (\<forall>d \<in> set (notification_deliveries db'). \<not> nd_accepted d)"
proof -
  let ?run = "evaluatePostgresLiquidityThresholds (desk_world False) treasury_env desk_officer (Some 100000000) None None desk_state"
  have ok: "\<not> isl ?run \<and> le_delivered (fst (projr ?run)) = 1 \<and> length (notification_deliveries (snd (projr ?run))) = 1"
    by code_simp
  then obtain r db' where ev: "?run = Inr (r, db')" by (cases ?run) auto
  have "100000000 - hours (case_option 24 id None) \<le> pg_now treasury_env" by code_simp
  moreover have "aw_notifyOwner (desk_world False) = (\<lambda>_ _. False)" by (simp add: desk_world_def)
  moreover have "notification_deliveries desk_state = []" by code_simp
  ultimately have "\<forall>d \<in> set (notification_deliveries db'). \<not> nd_accepted d"
    using refused_attempt_suppresses_retry [OF ev, of treasury_env desk_officer] by simp
  with ok show ?thesis using ev by simp
qed

end
