(* ===== verification/Readiness_Assurance.thy ===== *)
theory Readiness_Assurance
  imports Umoja_Store "HOL-Library.AList"
begin

text \<open>
  The readiness register of a VASP dossier: reporting legal entities
  (\<open>server/legalEntityRegistry.ts\<close>), sandbox dossiers (\<open>createCbnSandboxDossier\<close> of
  \<open>server/cbnSandbox.ts\<close>) and the six-area assurance register
  (\<open>server/vaspReadinessAssurance.ts\<close>). An area is verified by a person other than the one who
  recorded its evidence, and the areas of a register always add up to 58 points.
\<close>

section \<open>Legal entities and dossiers\<close>

definition registerPostgresLegalEntity :: "env \<Rightarrow> actor \<Rightarrow> string \<Rightarrow> string \<Rightarrow> string \<Rightarrow> legal_entity tx" where
  "registerPostgresLegalEntity e a name jurisdiction identifier db =
    (if role a \<noteq> Admin then Inl (Refused ''Only an administrator may register a reporting legal entity'')
     else let legalName = js_trim name; registrationIdentifier = js_trim identifier
          in if length legalName < 3 then Inl (Refused ''Registered legal name is required'')
             else if length registrationIdentifier < 3 then
               Inl (Refused ''Registrar-issued registration identifier is required'')
             else if list_ex (\<lambda>r. le_jurisdiction r = jurisdiction \<and> le_registration_identifier r = registrationIdentifier)
                 (legal_entities db) then
               Inl (Refused ''This registration identifier is already recorded for the jurisdiction'')
             else if jurisdiction \<notin> set [''Nigeria'', ''Kenya'', ''South Africa''] then Inl (CheckViolation ''legal_entities'')
             else if find_row le_id (new_uuid e) (legal_entities db) \<noteq> None then Inl (UniqueViolation ''legal_entities'')
             else let row = \<lparr>le_id = new_uuid e, le_legal_name = legalName, le_jurisdiction = jurisdiction,
                        le_registration_identifier = registrationIdentifier\<rparr>
                  in Inr (row, insert_event e a ''legal_entity.registered'' ''legal_entity'' (Some (le_id row))
                       [(''jurisdiction'', JStr jurisdiction), (''registrationIdentifier'', JStr registrationIdentifier)]
                       (db\<lparr>legal_entities := insert_row row (legal_entities db)\<rparr>)))"

definition dossier_activity :: "env \<Rightarrow> actor \<Rightarrow> string \<Rightarrow> string \<Rightarrow> uuid \<Rightarrow> (string \<times> json) list \<Rightarrow> db \<Rightarrow> db" where
  "dossier_activity e a action objectType objectId metadata = insert_event e a action objectType (Some objectId)
     (metadata @ [(''source'', JStr ''cbn-sandbox-readiness''), (''authoritative'', JBool False)])"

definition createCbnSandboxDossier ::
  "env \<Rightarrow> actor \<Rightarrow> uuid \<Rightarrow> sandbox_track \<Rightarrow> string \<Rightarrow> string \<Rightarrow> sandbox_dossier tx" where
  "createCbnSandboxDossier e a legalEntityId track productName productSummary db =
    (case find_row le_id legalEntityId (legal_entities db) of
       None \<Rightarrow> Inl (Refused ''A canonical Nigeria legal entity is required for a CBN sandbox dossier'')
     | Some entity \<Rightarrow>
         if le_jurisdiction entity \<noteq> ''Nigeria'' then
           Inl (Refused ''A canonical Nigeria legal entity is required for a CBN sandbox dossier'')
         else if \<not> (3 \<le> length productName \<and> length productName \<le> 255) \<or>
            \<not> (50 \<le> length productSummary \<and> length productSummary \<le> 4000) then Inl (CheckViolation ''cbn_sandbox_dossiers'')
         else if find_row sd_id (new_uuid e) (sandbox_dossiers db) \<noteq> None
            \<or> list_ex (\<lambda>d. sd_legal_entity_id d = legalEntityId \<and> sd_track d = track) (sandbox_dossiers db)
         then Inl (UniqueViolation ''cbn_sandbox_dossiers'')
         else let row = \<lparr>sd_id = new_uuid e, sd_legal_entity_id = legalEntityId, sd_track = track,
                    sd_product_name = productName, sd_product_summary = productSummary, sd_created_by = openId a\<rparr>
              in Inr (row, dossier_activity e a ''cbn_sandbox_dossier.created'' ''cbn_sandbox_dossier'' (sd_id row)
                   [(''track'', JStr (sandbox_track_text track)), (''status'', JStr ''draft''),
                    (''externalSubmission'', JBool False), (''admissionClaimed'', JBool False), (''providerActivation'', JBool False)]
                   (db\<lparr>sandbox_dossiers := insert_row row (sandbox_dossiers db)\<rparr>)))"

section \<open>The register\<close>

definition readinessAssuranceAreas :: "assurance_area list" where
  "readinessAssuranceAreas = [Controlled_live_test, Governance_legal_ownership, Aml_cft_cpf_operations,
     Customer_asset_safeguarding, Cybersecurity_resilience, Consumer_incident_reporting]"

record blueprint =
  maxPoints :: int
  accountableOwnerRole :: string
  requiredEvidence :: string

fun blueprints :: "assurance_area \<Rightarrow> blueprint" where
  "blueprints Controlled_live_test = \<lparr>maxPoints = 7, accountableOwnerRole = ''product_and_risk_owner'',
     requiredEvidence = ''Approved controlled-test plan, deployed test environment evidence, bounded transaction/exposure limits, independent reconciliation and wind-down exercise evidence.''\<rparr>"
| "blueprints Governance_legal_ownership = \<lparr>maxPoints = 8, accountableOwnerRole = ''board_legal_company_secretary'',
     requiredEvidence = ''Applying legal-entity, beneficial-ownership, responsible-officer, policy approval, access review and governance-attestation evidence.''\<rparr>"
| "blueprints Aml_cft_cpf_operations = \<lparr>maxPoints = 14, accountableOwnerRole = ''mlro_compliance_owner'',
     requiredEvidence = ''Approved AML/CFT/CPF programme, risk assessment, screening/monitoring evidence, reviewer training, escalation and record-retention evidence.''\<rparr>"
| "blueprints Customer_asset_safeguarding = \<lparr>maxPoints = 13, accountableOwnerRole = ''custody_treasury_owner'',
     requiredEvidence = ''Custody or wallet architecture, asset segregation, key-management, reconciliation, reserve/redemption and wind-down evidence appropriate to the approved product scope.''\<rparr>"
| "blueprints Cybersecurity_resilience = \<lparr>maxPoints = 10, accountableOwnerRole = ''ciso_platform_sre_owner'',
     requiredEvidence = ''MFA enrolment, secrets and certificate management, vulnerability remediation, penetration test, monitoring, backup/restore and disaster-recovery evidence.''\<rparr>"
| "blueprints Consumer_incident_reporting = \<lparr>maxPoints = 6, accountableOwnerRole = ''consumer_protection_cbn_liaison'',
     requiredEvidence = ''Consumer disclosure/complaint evidence, exercised incident workflow, authorised reporting channel receipt, notification and retention evidence.''\<rparr>"

text \<open>\<open>{ ...metadata, source, externalApproval, licence }\<close>: a key already present keeps its place.\<close>

definition assurance_activity :: "env \<Rightarrow> actor \<Rightarrow> string \<Rightarrow> uuid \<Rightarrow> (string \<times> json) list \<Rightarrow> db \<Rightarrow> db" where
  "assurance_activity e a action objectId metadata = insert_event e a action ''vasp_readiness_assurance_item'' (Some objectId)
     (AList.update ''licence'' (JBool False) (AList.update ''externalApproval'' (JBool False)
       (AList.update ''source'' (JStr ''vasp-readiness-assurance'') metadata)))"

definition requireVaspDossier :: "uuid \<Rightarrow> db \<Rightarrow> unit result" where
  "requireVaspDossier dossierId db =
    (case find_row sd_id dossierId (sandbox_dossiers db) of
       None \<Rightarrow> Inl (Refused ''CBN sandbox dossier does not exist'')
     | Some d \<Rightarrow> if sd_track d \<noteq> Vasp then Inl (Refused ''readiness assurance items are available only for VASP dossiers'')
         else Inr ())"

definition assurance_slot :: "assurance_item \<Rightarrow> uuid \<times> assurance_area" where
  "assurance_slot r = (ri_dossier_id r, ri_area r)"

text \<open>
  The row checks of \<open>vasp_readiness_assurance_items\<close>: URIs are https, digests are lower-case
  hexadecimal, and the evidence columns agree with the status.
\<close>

definition https_uri :: "string option \<Rightarrow> bool" where
  "https_uri x \<longleftrightarrow> (case x of None \<Rightarrow> True | Some s \<Rightarrow> prefix ''https://'' s)"

definition digest_or_null :: "string option \<Rightarrow> bool" where
  "digest_or_null x \<longleftrightarrow> (case x of None \<Rightarrow> True | Some s \<Rightarrow> sha256_text s)"

definition evidence_on_file :: "assurance_item \<Rightarrow> bool" where
  "evidence_on_file r \<longleftrightarrow> ri_evidence_uri r \<noteq> None \<and> ri_evidence_sha256 r \<noteq> None \<and>
     ri_evidence_recorded_by r \<noteq> None \<and> ri_evidence_recorded_at r \<noteq> None"

definition nothing_verified :: "assurance_item \<Rightarrow> bool" where
  "nothing_verified r \<longleftrightarrow> ri_external_verifier r = None \<and> ri_external_attestation_uri r = None \<and>
     ri_external_attestation_sha256 r = None \<and> ri_verified_by r = None \<and> ri_verified_at r = None \<and>
     ri_verification_rationale r = None \<and> ri_rejection_rationale r = None"

definition status_agrees :: "assurance_item \<Rightarrow> bool" where
  "status_agrees r \<longleftrightarrow>
    (case ri_status r of
       RA_open \<Rightarrow> ri_evidence_uri r = None \<and> ri_evidence_sha256 r = None \<and> ri_evidence_recorded_by r = None \<and>
         ri_evidence_recorded_at r = None \<and> nothing_verified r
     | RA_evidence_recorded \<Rightarrow> evidence_on_file r \<and> nothing_verified r
     | RA_externally_verified \<Rightarrow> evidence_on_file r \<and> ri_external_verifier r \<noteq> None \<and>
         ri_external_attestation_uri r \<noteq> None \<and> ri_external_attestation_sha256 r \<noteq> None \<and> ri_verified_by r \<noteq> None \<and>
         ri_verified_at r \<noteq> None \<and> ri_verification_rationale r \<noteq> None \<and> ri_rejection_rationale r = None \<and>
         ri_verified_by r \<noteq> ri_evidence_recorded_by r
     | RA_rejected \<Rightarrow> evidence_on_file r \<and> ri_rejection_rationale r \<noteq> None)"

definition assurance_row_checks :: "assurance_item \<Rightarrow> bool" where
  "assurance_row_checks r \<longleftrightarrow> ri_max_points r \<in> {6, 7, 8, 10, 13, 14} \<and> 30 \<le> length (sql_trim (ri_required_evidence r)) \<and>
     3 \<le> length (sql_trim (ri_accountable_owner_role r)) \<and> https_uri (ri_evidence_uri r) \<and>
     digest_or_null (ri_evidence_sha256 r) \<and> https_uri (ri_external_attestation_uri r) \<and>
     digest_or_null (ri_external_attestation_sha256 r) \<and> status_agrees r"

definition open_item :: "(assurance_area \<Rightarrow> uuid) \<Rightarrow> uuid \<Rightarrow> assurance_area \<Rightarrow> assurance_item" where
  "open_item ids dossierId area =
     \<lparr>ri_id = ids area, ri_dossier_id = dossierId, ri_area = area, ri_max_points = maxPoints (blueprints area),
      ri_required_evidence = requiredEvidence (blueprints area),
      ri_accountable_owner_role = accountableOwnerRole (blueprints area), ri_status = RA_open,
      ri_evidence_uri = None, ri_evidence_sha256 = None, ri_evidence_recorded_by = None, ri_evidence_recorded_at = None,
      ri_external_verifier = None, ri_external_attestation_uri = None, ri_external_attestation_sha256 = None,
      ri_verified_by = None, ri_verified_at = None, ri_verification_rationale = None, ri_rejection_rationale = None\<rparr>"

text \<open>\<open>INSERT ... ON CONFLICT (dossier_id, area) DO NOTHING\<close>.\<close>

definition insert_item :: "assurance_item \<Rightarrow> assurance_item list \<Rightarrow> assurance_item list result" where
  "insert_item r items =
    (if \<not> assurance_row_checks r then Inl (CheckViolation ''vasp_readiness_assurance_items'')
     else if find_row assurance_slot (assurance_slot r) items \<noteq> None then Inr items
     else if find_row ri_id (ri_id r) items \<noteq> None then Inl (UniqueViolation ''vasp_readiness_assurance_items'')
     else Inr (insert_row r items))"

fun insert_items :: "assurance_item list \<Rightarrow> assurance_item list \<Rightarrow> assurance_item list result" where
  "insert_items [] items = Inr items"
| "insert_items (r # rs) items = (case insert_item r items of Inl er \<Rightarrow> Inl er | Inr items' \<Rightarrow> insert_items rs items')"

text \<open>The areas in the order of the enumeration type, for \<open>ORDER BY area\<close>.\<close>

fun area_rank :: "assurance_area \<Rightarrow> nat" where
  "area_rank Controlled_live_test = 0"
| "area_rank Governance_legal_ownership = 1"
| "area_rank Aml_cft_cpf_operations = 2"
| "area_rank Customer_asset_safeguarding = 3"
| "area_rank Cybersecurity_resilience = 4"
| "area_rank Consumer_incident_reporting = 5"

definition listReadinessAssurance :: "uuid \<Rightarrow> db \<Rightarrow> assurance_item list" where
  "listReadinessAssurance dossierId db =
     sort_key (\<lambda>r. area_rank (ri_area r)) (filter (\<lambda>r. ri_dossier_id r = dossierId) (assurance_items db))"

definition initialiseReadinessAssurance ::
  "(assurance_area \<Rightarrow> uuid) \<Rightarrow> env \<Rightarrow> actor \<Rightarrow> uuid \<Rightarrow> assurance_item list tx" where
  "initialiseReadinessAssurance ids e a dossierId db =
    (case requireVaspDossier dossierId db of
       Inl er \<Rightarrow> Inl er
     | Inr _ \<Rightarrow>
         (case insert_items (map (open_item ids dossierId) readinessAssuranceAreas) (assurance_items db) of
            Inl er \<Rightarrow> Inl er
          | Inr items \<Rightarrow>
              let db1 = assurance_activity e a ''vasp_readiness_assurance.initialised'' dossierId
                   [(''areas'', JArr (map (\<lambda>x. JStr (assurance_area_text x)) readinessAssuranceAreas)),
                    (''totalExternalPoints'', JNum 58)] (db\<lparr>assurance_items := items\<rparr>)
              in Inr (listReadinessAssurance dossierId db1, db1)))"

text \<open>An update of the one row of a key, checked against the row constraints.\<close>

definition update_item ::
  "(assurance_item \<Rightarrow> 'k) \<Rightarrow> 'k \<Rightarrow> (assurance_item \<Rightarrow> assurance_item) \<Rightarrow> assurance_item \<Rightarrow> db \<Rightarrow> db result" where
  "update_item key k f current db =
    (if \<not> assurance_row_checks (f current) then Inl (CheckViolation ''vasp_readiness_assurance_items'')
     else Inr (db\<lparr>assurance_items := update_row key k f (assurance_items db)\<rparr>))"

definition with_evidence :: "env \<Rightarrow> actor \<Rightarrow> string \<Rightarrow> string \<Rightarrow> assurance_item \<Rightarrow> assurance_item" where
  "with_evidence e a evidenceUri evidenceSha256 r =
     r\<lparr>ri_status := RA_evidence_recorded, ri_evidence_uri := Some evidenceUri,
       ri_evidence_sha256 := Some evidenceSha256, ri_evidence_recorded_by := Some (openId a),
       ri_evidence_recorded_at := Some (pg_now e), ri_external_verifier := None,
       ri_external_attestation_uri := None, ri_external_attestation_sha256 := None,
       ri_verified_by := None, ri_verified_at := None, ri_verification_rationale := None,
       ri_rejection_rationale := None\<rparr>"

definition recordReadinessAssuranceEvidence ::
  "env \<Rightarrow> actor \<Rightarrow> uuid \<Rightarrow> assurance_area \<Rightarrow> string \<Rightarrow> string \<Rightarrow> (uuid \<times> assurance_status) tx" where
  "recordReadinessAssuranceEvidence e a dossierId area evidenceUri evidenceSha256 db =
    (case requireVaspDossier dossierId db of
       Inl er \<Rightarrow> Inl er
     | Inr _ \<Rightarrow>
         (case find_row assurance_slot (dossierId, area) (assurance_items db) of
            None \<Rightarrow> Inl (Refused ''initialise the readiness assurance register first, or replace only an open/rejected item'')
          | Some item \<Rightarrow>
              if ri_status item \<notin> {RA_open, RA_rejected} then
                Inl (Refused ''initialise the readiness assurance register first, or replace only an open/rejected item'')
              else case update_item assurance_slot (dossierId, area)
                (with_evidence e a evidenceUri evidenceSha256) item db of
                Inl er \<Rightarrow> Inl er
              | Inr db1 \<Rightarrow> Inr ((ri_id item, RA_evidence_recorded),
                  assurance_activity e a ''vasp_readiness_assurance.evidence_recorded'' (ri_id item)
                    [(''dossierId'', jid dossierId), (''area'', JStr (assurance_area_text area)),
                     (''evidenceSha256'', JStr evidenceSha256), (''externallyVerified'', JBool False)] db1)))"

record verification_input =
  vi_dossierId :: uuid
  vi_area :: assurance_area
  vi_externalVerifier :: string
  vi_externalAttestationUri :: string
  vi_externalAttestationSha256 :: string
  vi_rationale :: string

definition with_verification :: "env \<Rightarrow> actor \<Rightarrow> verification_input \<Rightarrow> assurance_item \<Rightarrow> assurance_item" where
  "with_verification e a i r =
     r\<lparr>ri_status := RA_externally_verified, ri_external_verifier := Some (vi_externalVerifier i),
       ri_external_attestation_uri := Some (vi_externalAttestationUri i),
       ri_external_attestation_sha256 := Some (vi_externalAttestationSha256 i),
       ri_verified_by := Some (openId a), ri_verified_at := Some (pg_now e),
       ri_verification_rationale := Some (vi_rationale i), ri_rejection_rationale := None\<rparr>"

definition verifyReadinessAssuranceEvidence ::
  "env \<Rightarrow> actor \<Rightarrow> verification_input \<Rightarrow> (uuid \<times> assurance_status) tx" where
  "verifyReadinessAssuranceEvidence e a i db =
    (case find_row assurance_slot (vi_dossierId i, vi_area i) (assurance_items db) of
       None \<Rightarrow> Inl (Refused ''record evidence before independent verification'')
     | Some item \<Rightarrow>
         if ri_status item \<noteq> RA_evidence_recorded \<or> ri_evidence_recorded_by item \<in> {None, Some []} then
           Inl (Refused ''record evidence before independent verification'')
         else if ri_evidence_recorded_by item = Some (openId a) then
           Inl (Refused ''the evidence submitter cannot independently verify the same readiness item'')
         else case update_item ri_id (ri_id item)
           (with_verification e a i) item db of
           Inl er \<Rightarrow> Inl er
         | Inr db1 \<Rightarrow> Inr ((ri_id item, RA_externally_verified),
             assurance_activity e a ''vasp_readiness_assurance.externally_verified'' (ri_id item)
               [(''dossierId'', jid (vi_dossierId i)), (''area'', JStr (assurance_area_text (vi_area i))),
                (''externalVerifier'', JStr (vi_externalVerifier i)),
                (''attestationSha256'', JStr (vi_externalAttestationSha256 i)),
                (''regulatorApproval'', JBool False), (''licence'', JBool False)] db1))"

definition with_rejection :: "string \<Rightarrow> assurance_item \<Rightarrow> assurance_item" where
  "with_rejection rationale r = r\<lparr>ri_status := RA_rejected, ri_rejection_rationale := Some rationale\<rparr>"

definition rejectReadinessAssuranceEvidence ::
  "env \<Rightarrow> actor \<Rightarrow> uuid \<Rightarrow> assurance_area \<Rightarrow> string \<Rightarrow> (uuid \<times> assurance_status) tx" where
  "rejectReadinessAssuranceEvidence e a dossierId area rationale db =
    (case find_row assurance_slot (dossierId, area) (assurance_items db) of
       None \<Rightarrow> Inl (Refused ''only recorded evidence can be rejected'')
     | Some item \<Rightarrow>
         if ri_status item \<noteq> RA_evidence_recorded then Inl (Refused ''only recorded evidence can be rejected'')
         else case update_item assurance_slot (dossierId, area)
           (with_rejection rationale) item db of
           Inl er \<Rightarrow> Inl er
         | Inr db1 \<Rightarrow> Inr ((ri_id item, RA_rejected),
             assurance_activity e a ''vasp_readiness_assurance.rejected'' (ri_id item)
               [(''dossierId'', jid dossierId), (''area'', JStr (assurance_area_text area)), (''externalApproval'', JBool False)] db1))"

record assessment =
  as_dossierId :: uuid
  as_items :: "assurance_item list"
  as_verifiedPoints :: int
  as_remainingPoints :: int
  as_totalPoints :: int
  as_externalApproval :: bool
  as_licence :: bool
  as_admission :: bool

definition assessReadinessAssurance :: "uuid \<Rightarrow> db \<Rightarrow> assessment" where
  "assessReadinessAssurance dossierId db =
    (let items = listReadinessAssurance dossierId db;
         verified = sum_list (map ri_max_points (filter (\<lambda>r. ri_status r = RA_externally_verified) items));
         total = sum_list (map ri_max_points items)
     in \<lparr>as_dossierId = dossierId, as_items = items, as_verifiedPoints = verified, as_remainingPoints = total - verified, as_totalPoints = total,
         as_externalApproval = False, as_licence = False, as_admission = False\<rparr>)"

section \<open>Steps and invariant\<close>

inductive assurance_step :: "db \<Rightarrow> db \<Rightarrow> bool" where
  entity_registered: "registerPostgresLegalEntity e a n j i db = Inr (r1, db') \<Longrightarrow> assurance_step db db'"
| dossier_created: "createCbnSandboxDossier e a k t n s db = Inr (r2, db') \<Longrightarrow> assurance_step db db'"
| register_initialised: "initialiseReadinessAssurance ids e a k db = Inr (r3, db') \<Longrightarrow> assurance_step db db'"
| evidence_recorded: "recordReadinessAssuranceEvidence e a k ar u s db = Inr (r4, db') \<Longrightarrow> assurance_step db db'"
| evidence_verified: "verifyReadinessAssuranceEvidence e a vi db = Inr (r4, db') \<Longrightarrow> assurance_step db db'"
| evidence_rejected: "rejectReadinessAssuranceEvidence e a k ar rs db = Inr (r4, db') \<Longrightarrow> assurance_step db db'"

definition item_ok :: "assurance_item \<Rightarrow> bool" where
  "item_ok r \<longleftrightarrow> assurance_row_checks r \<and> ri_max_points r = maxPoints (blueprints (ri_area r))"

text \<open>A register is complete: a dossier with one area has all six.\<close>

definition complete_registers :: "assurance_item list \<Rightarrow> bool" where
  "complete_registers items \<longleftrightarrow> (\<forall>r \<in> set items. \<forall>area \<in> set readinessAssuranceAreas.
     (ri_dossier_id r, area) \<in> assurance_slot ` set items)"

definition assurance_inv :: "db \<Rightarrow> bool" where
  "assurance_inv db \<longleftrightarrow> distinct_keys ri_id (assurance_items db) \<and> distinct_keys assurance_slot (assurance_items db) \<and>
     (\<forall>r \<in> set (assurance_items db). item_ok r) \<and> complete_registers (assurance_items db)"

lemma area_listed [simp]: "area \<in> set readinessAssuranceAreas"
  by (cases area) (simp_all add: readinessAssuranceAreas_def)

lemmas status_defs = status_agrees_def evidence_on_file_def nothing_verified_def

lemma open_item_ok: "item_ok (open_item ids k area)"
  by (cases area) (simp_all add: item_ok_def open_item_def assurance_row_checks_def https_uri_def digest_or_null_def
      status_defs sql_trim_def)

lemma assurance_activity_items [simp]: "assurance_items (assurance_activity e a ac k md db) = assurance_items db"
  by (simp add: assurance_activity_def)

lemma insert_item_effect:
  assumes "insert_item r items = Inr items'"
  shows "assurance_slot r \<in> assurance_slot ` set items' \<and> set items' \<subseteq> insert r (set items) \<and> set items \<subseteq> set items' \<and>
    (distinct_keys assurance_slot items \<longrightarrow> distinct_keys assurance_slot items') \<and>
    (distinct_keys ri_id items \<longrightarrow> distinct_keys ri_id items')"
  using assms by (auto simp: insert_item_def table_simps find_row_None split: if_splits)

lemma insert_items_effect:
  assumes "insert_items rs items = Inr items'"
  shows "assurance_slot ` set rs \<subseteq> assurance_slot ` set items' \<and> set items' \<subseteq> set rs \<union> set items \<and> set items \<subseteq> set items' \<and>
    (distinct_keys assurance_slot items \<longrightarrow> distinct_keys assurance_slot items') \<and>
    (distinct_keys ri_id items \<longrightarrow> distinct_keys ri_id items')"
  using assms
proof (induction rs arbitrary: items)
  case (Cons r rs)
  then obtain mid where mid: "insert_item r items = Inr mid" and rest: "insert_items rs mid = Inr items'"
    by (auto split: sum.splits)
  note one = insert_item_effect [OF mid] and more = Cons.IH [OF rest]
  from one more have "assurance_slot r \<in> assurance_slot ` set items'" by blast
  then show ?case using one more by auto
qed simp

lemma initialise_inv:
  assumes inv: "assurance_inv db" and "initialiseReadinessAssurance ids e a k db = Inr (r, db')"
  shows "assurance_inv db'"
proof -
  let ?new = "map (open_item ids k) readinessAssuranceAreas"
  from assms(2) have "insert_items ?new (assurance_items db) = Inr (assurance_items db')"
    unfolding initialiseReadinessAssurance_def Let_def by (clarsimp split: sum.splits)
  note eff = insert_items_effect [OF this]
  have slots: "(k, area) \<in> assurance_slot ` set (assurance_items db')" for area
  proof -
    have "assurance_slot (open_item ids k area) \<in> assurance_slot ` set (assurance_items db')"
      using eff by (auto simp: image_image)
    then show ?thesis by (simp add: assurance_slot_def open_item_def)
  qed
  have mine: "ri_dossier_id r = k" if "r \<in> set ?new" for r
    using that by (auto simp: open_item_def)
  have "complete_registers (assurance_items db')"
    unfolding complete_registers_def
  proof (intro ballI)
    fix r area assume r: "r \<in> set (assurance_items db')"
    show "(ri_dossier_id r, area) \<in> assurance_slot ` set (assurance_items db')"
    proof (cases "r \<in> set ?new")
      case True
      then show ?thesis using mine slots by simp
    next
      case False
      then have "r \<in> set (assurance_items db)" using eff r by blast
      then have "(ri_dossier_id r, area) \<in> assurance_slot ` set (assurance_items db)"
        using inv by (simp add: assurance_inv_def complete_registers_def)
      then show ?thesis using eff by blast
    qed
  qed
  moreover have "item_ok r" if "r \<in> set (assurance_items db')" for r
    using that eff inv open_item_ok by (force simp: assurance_inv_def)
  moreover have "distinct_keys assurance_slot (assurance_items db')" "distinct_keys ri_id (assurance_items db')"
    using eff inv by (simp_all add: assurance_inv_def)
  ultimately show ?thesis by (simp add: assurance_inv_def)
qed

text \<open>An accepted update of one row keeps the invariant.\<close>

definition keeps_place :: "(assurance_item \<Rightarrow> assurance_item) \<Rightarrow> bool" where
  "keeps_place f \<longleftrightarrow> (\<forall>r. ri_dossier_id (f r) = ri_dossier_id r \<and> ri_area (f r) = ri_area r \<and>
     ri_max_points (f r) = ri_max_points r \<and> ri_id (f r) = ri_id r)"

lemma edits_keep_place: "keeps_place (with_evidence e a u s)" "keeps_place (with_verification e a i)"
    "keeps_place (with_rejection rs)"
  by (simp_all add: keeps_place_def with_evidence_def with_verification_def with_rejection_def)

lemma update_item_inv:
  assumes inv: "assurance_inv db" and "update_item key k f item db = Inr db1"
    and keys: "distinct_keys key (assurance_items db)" and item: "find_row key k (assurance_items db) = Some item"
    and keep: "keeps_place f" and key: "\<And>r. key (f r) = key r"
  shows "assurance_inv db1"
proof -
  from assms(2) have new: "assurance_items db1 = update_row key k f (assurance_items db)"
    and ok: "assurance_row_checks (f item)" by (auto simp: update_item_def split: if_splits)
  have slot: "assurance_slot (f r) = assurance_slot r" for r using keep by (simp add: assurance_slot_def keeps_place_def)
  have one: "r = item" if "r \<in> set (assurance_items db)" "key r = k" for r
    by (rule unique_row [OF keys item that])
  have "\<forall>r \<in> set (assurance_items db1). item_ok r"
    using inv ok one keep unfolding new set_update_row assurance_inv_def by (auto simp: item_ok_def keeps_place_def)
  moreover have slots: "assurance_slot ` set (assurance_items db1) = assurance_slot ` set (assurance_items db)"
    unfolding new set_update_row image_image by (rule image_cong) (simp_all add: slot)
  moreover have "complete_registers (assurance_items db1)"
    unfolding complete_registers_def slots
  proof (intro ballI)
    fix r area assume "r \<in> set (assurance_items db1)"
    then obtain r0 where "r0 \<in> set (assurance_items db)" "ri_dossier_id r = ri_dossier_id r0"
      using keep unfolding new set_update_row by (auto simp: keeps_place_def split: if_splits)
    then show "(ri_dossier_id r, area) \<in> assurance_slot ` set (assurance_items db)"
      using inv by (simp add: assurance_inv_def complete_registers_def)
  qed
  moreover have "map assurance_slot (assurance_items db1) = map assurance_slot (assurance_items db)"
    unfolding new update_row_def by (simp add: slot)
  moreover have "map ri_id (assurance_items db1) = map ri_id (assurance_items db)"
    using keep unfolding new update_row_def keeps_place_def by simp
  ultimately show ?thesis using inv by (simp add: assurance_inv_def)
qed

lemma assurance_inv_cong: "assurance_items db' = assurance_items db \<Longrightarrow> assurance_inv db' = assurance_inv db"
  by (simp add: assurance_inv_def)

lemma keeps_slot: "keeps_place f \<Longrightarrow> assurance_slot (f r) = assurance_slot r"
  by (simp add: keeps_place_def assurance_slot_def)

lemma inv_keys: "assurance_inv db \<Longrightarrow> distinct_keys ri_id (assurance_items db)"
    "assurance_inv db \<Longrightarrow> distinct_keys assurance_slot (assurance_items db)"
  by (simp_all add: assurance_inv_def)

lemma record_evidence_inv:
  assumes "assurance_inv db" and "recordReadinessAssuranceEvidence e a k ar u s db = Inr (r, db')"
  shows "assurance_inv db'"
proof -
  have "\<exists>item db1. find_row assurance_slot (k, ar) (assurance_items db) = Some item \<and>
      update_item assurance_slot (k, ar) (with_evidence e a u s) item db = Inr db1 \<and> assurance_items db' = assurance_items db1"
    using assms(2) unfolding recordReadinessAssuranceEvidence_def by (clarsimp split: sum.splits option.splits if_splits)
  with update_item_inv [OF assms(1) _ inv_keys(2) [OF assms(1)] _ edits_keep_place(1)] edits_keep_place(1) [THEN keeps_slot]
  show ?thesis by (metis assurance_inv_cong)
qed

lemma verify_evidence_inv:
  assumes "assurance_inv db" and "verifyReadinessAssuranceEvidence e a vi db = Inr (r, db')"
  shows "assurance_inv db'"
proof -
  have "\<exists>item db1. find_row ri_id (ri_id item) (assurance_items db) = Some item \<and>
      update_item ri_id (ri_id item) (with_verification e a vi) item db = Inr db1 \<and> assurance_items db' = assurance_items db1"
    using assms(2) inv_keys(1) [OF assms(1)] unfolding verifyReadinessAssuranceEvidence_def
    by (clarsimp simp: find_row_Some split: sum.splits option.splits if_splits dest!: find_row_mem) (rule exI, erule conjI, rule exI, erule conjI, rule refl)
  with update_item_inv [OF assms(1) _ inv_keys(1) [OF assms(1)] _ edits_keep_place(2)] edits_keep_place(2) [unfolded keeps_place_def]
  show ?thesis by (metis assurance_inv_cong)
qed

lemma reject_evidence_inv:
  assumes "assurance_inv db" and "rejectReadinessAssuranceEvidence e a k ar rs db = Inr (r, db')"
  shows "assurance_inv db'"
proof -
  have "\<exists>item db1. find_row assurance_slot (k, ar) (assurance_items db) = Some item \<and>
      update_item assurance_slot (k, ar) (with_rejection rs) item db = Inr db1 \<and> assurance_items db' = assurance_items db1"
    using assms(2) unfolding rejectReadinessAssuranceEvidence_def by (clarsimp split: sum.splits option.splits if_splits)
  with update_item_inv [OF assms(1) _ inv_keys(2) [OF assms(1)] _ edits_keep_place(3)] edits_keep_place(3) [THEN keeps_slot]
  show ?thesis by (metis assurance_inv_cong)
qed

lemma entity_registered_frame:
  assumes "registerPostgresLegalEntity e a n j i db = Inr (r, db')"
  shows "prefix (activity_events db) (activity_events db') \<and>
    db'\<lparr>legal_entities := legal_entities db, activity_events := activity_events db\<rparr> = db"
  using assms unfolding registerPostgresLegalEntity_def Let_def insert_event_def
  by (clarsimp split: if_splits)

lemma dossier_created_frame:
  assumes "createCbnSandboxDossier e a k t n s db = Inr (r, db')"
  shows "prefix (activity_events db) (activity_events db') \<and>
    db'\<lparr>sandbox_dossiers := sandbox_dossiers db, activity_events := activity_events db\<rparr> = db"
  using assms unfolding createCbnSandboxDossier_def dossier_activity_def Let_def insert_event_def
  by (clarsimp split: if_splits option.splits)

lemma initialise_frame:
  assumes "initialiseReadinessAssurance ids e a k db = Inr (r, db')"
  shows "prefix (activity_events db) (activity_events db') \<and>
    db'\<lparr>assurance_items := assurance_items db, activity_events := activity_events db\<rparr> = db"
  using assms unfolding initialiseReadinessAssurance_def assurance_activity_def Let_def insert_event_def
  by (clarsimp split: sum.splits)

lemma record_evidence_frame:
  assumes "recordReadinessAssuranceEvidence e a k ar u s db = Inr (r, db')"
  shows "prefix (activity_events db) (activity_events db') \<and>
    db'\<lparr>assurance_items := assurance_items db, activity_events := activity_events db\<rparr> = db"
  using assms unfolding recordReadinessAssuranceEvidence_def assurance_activity_def insert_event_def update_item_def
  by (clarsimp split: if_splits option.splits sum.splits)

lemma verify_evidence_frame:
  assumes "verifyReadinessAssuranceEvidence e a vi db = Inr (r, db')"
  shows "prefix (activity_events db) (activity_events db') \<and>
    db'\<lparr>assurance_items := assurance_items db, activity_events := activity_events db\<rparr> = db"
  using assms unfolding verifyReadinessAssuranceEvidence_def assurance_activity_def insert_event_def update_item_def
  by (clarsimp split: if_splits option.splits sum.splits)

lemma reject_evidence_frame:
  assumes "rejectReadinessAssuranceEvidence e a k ar rs db = Inr (r, db')"
  shows "prefix (activity_events db) (activity_events db') \<and>
    db'\<lparr>assurance_items := assurance_items db, activity_events := activity_events db\<rparr> = db"
  using assms unfolding rejectReadinessAssuranceEvidence_def assurance_activity_def insert_event_def update_item_def
  by (clarsimp split: if_splits option.splits sum.splits)

lemma assurance_step_inv:
  assumes "assurance_inv db" and "assurance_step db db'"
  shows "assurance_inv db'"
  using assms(2)
proof cases
  case entity_registered
  from arg_cong [OF conjunct2 [OF entity_registered_frame [OF this]], of assurance_items] assms(1)
  show ?thesis by (simp add: assurance_inv_def)
next
  case dossier_created
  from arg_cong [OF conjunct2 [OF dossier_created_frame [OF this]], of assurance_items] assms(1)
  show ?thesis by (simp add: assurance_inv_def)
next
  case register_initialised
  then show ?thesis by (rule initialise_inv [OF assms(1)])
next
  case evidence_recorded
  then show ?thesis by (rule record_evidence_inv [OF assms(1)])
next
  case evidence_verified
  then show ?thesis by (rule verify_evidence_inv [OF assms(1)])
next
  case evidence_rejected
  then show ?thesis by (rule reject_evidence_inv [OF assms(1)])
qed

lemma frame_weaken:
  fixes db' :: db
  shows "db'\<lparr>legal_entities := legal_entities db, activity_events := activity_events db\<rparr> = db
     \<or> db'\<lparr>sandbox_dossiers := sandbox_dossiers db, activity_events := activity_events db\<rparr> = db
     \<or> db'\<lparr>assurance_items := assurance_items db, activity_events := activity_events db\<rparr> = db \<Longrightarrow>
   db'\<lparr>legal_entities := legal_entities db, sandbox_dossiers := sandbox_dossiers db,
       assurance_items := assurance_items db, activity_events := activity_events db\<rparr> = db"
  by (cases db; cases db') auto

lemma assurance_step_effect:
  assumes "assurance_step db db'"
  shows "prefix (activity_events db) (activity_events db') \<and>
    db'\<lparr>legal_entities := legal_entities db, sandbox_dossiers := sandbox_dossiers db,
       assurance_items := assurance_items db, activity_events := activity_events db\<rparr> = db"
  using assms
  by cases (blast intro: frame_weaken dest: entity_registered_frame dossier_created_frame initialise_frame
    record_evidence_frame verify_evidence_frame reject_evidence_frame)+

section \<open>A complete register\<close>

lemma register_areas:
  assumes inv: "assurance_inv db" and "r \<in> set (assurance_items db)"
  shows "distinct (map ri_area (filter (\<lambda>x. ri_dossier_id x = ri_dossier_id r) (assurance_items db)))"
    and "ri_area ` set (filter (\<lambda>x. ri_dossier_id x = ri_dossier_id r) (assurance_items db)) = set readinessAssuranceAreas"
proof -
  let ?mine = "filter (\<lambda>x. ri_dossier_id x = ri_dossier_id r) (assurance_items db)"
  have "distinct (map assurance_slot ?mine)"
    using inv by (simp add: assurance_inv_def distinct_map_filter)
  then show "distinct (map ri_area ?mine)"
    by (auto simp: distinct_map inj_on_def assurance_slot_def)
  have "area \<in> ri_area ` set ?mine" for area
  proof -
    have "(ri_dossier_id r, area) \<in> assurance_slot ` set (assurance_items db)"
      using inv assms(2) by (simp add: assurance_inv_def complete_registers_def)
    then show ?thesis by (auto simp: assurance_slot_def)
  qed
  then show "ri_area ` set ?mine = set readinessAssuranceAreas" by auto
qed

lemma register_totals:
  assumes inv: "assurance_inv db" and "r \<in> set (assurance_items db)"
  shows "length (filter (\<lambda>x. ri_dossier_id x = ri_dossier_id r) (assurance_items db)) = 6"
    and "sum_list (map ri_max_points (filter (\<lambda>x. ri_dossier_id x = ri_dossier_id r) (assurance_items db))) = 58"
proof -
  let ?mine = "filter (\<lambda>x. ri_dossier_id x = ri_dossier_id r) (assurance_items db)"
  note areas = register_areas [OF assms]
  have all: "set (map ri_area ?mine) = set readinessAssuranceAreas" using areas(2) by simp
  have six: "distinct readinessAssuranceAreas" "length readinessAssuranceAreas = 6"
    by (simp_all add: readinessAssuranceAreas_def)
  have "length ?mine = card (set (map ri_area ?mine))" using distinct_card [OF areas(1)] by simp
  then show "length ?mine = 6" using all six by (simp add: distinct_card)
  have "map ri_max_points ?mine = map (\<lambda>area. maxPoints (blueprints area)) (map ri_area ?mine)"
    using inv by (auto simp: assurance_inv_def item_ok_def)
  then have "sum_list (map ri_max_points ?mine) = (\<Sum>area \<in> set (map ri_area ?mine). maxPoints (blueprints area))"
    using sum_list_distinct_conv_sum_set [OF areas(1)] by metis
  also have "\<dots> = 58" unfolding all by (simp add: readinessAssuranceAreas_def)
  finally show "sum_list (map ri_max_points ?mine) = 58" .
qed

end
