(* ===== verification/Duties_Monitor.thy ===== *)
theory Duties_Monitor
  imports Readiness_Assurance Compliance_Workflow
begin

text \<open>
  The segregation-of-duties monitor (\<open>server/segregationOfDutiesMonitor.ts\<close> and its file log
  \<open>server/segregationOfDutiesAuditLog.ts\<close>): configuration, election of a leader by an advisory
  lock with bounded retries, the query for violations, the recorded evaluation, and the alert.
  What the round depends on outside the repository (the lock, a failing read, hashing, collation,
  the notification service, the disk, the texts of database errors) is a field of \<open>sod_world\<close>.
\<close>

section \<open>Configuration\<close>

record sod_environment =
  UMOJA_SOD_MONITOR_ENABLED :: "string option"
  UMOJA_SOD_MONITOR_INTERVAL_SECONDS :: "string option"
  UMOJA_SOD_MONITOR_SUBJECT :: "string option"
  UMOJA_SOD_LOCK_RETRY_ATTEMPTS :: "string option"
  UMOJA_SOD_LOCK_RETRY_BACKOFF_MS :: "string option"
  UMOJA_SOD_AUDIT_LOG_PATH :: "string option"

definition strictEnabled :: "string option \<Rightarrow> bool result" where
  "strictEnabled value =
    (if value = None \<or> value = Some '''' \<or> value = Some ''false'' then Inr False
     else if value = Some ''true'' then Inr True
     else Inl (Refused ''UMOJA_SOD_MONITOR_ENABLED must be true or false''))"

text \<open>
  \<open>/^[0-9]+$/\<close> followed by \<open>Number\<close>: \<open>Number\<close> is exact below \<open>2 ^ 53\<close> and monotone, so a value
  out of the safe range is out of the configured range as well.
\<close>

definition bounded_setting :: "int \<Rightarrow> int \<Rightarrow> int \<Rightarrow> string \<Rightarrow> string \<Rightarrow> string option \<Rightarrow> int result" where
  "bounded_setting fallback lo hi not_integer out_of_range value =
    (if value = None \<or> value = Some '''' then Inr fallback
     else if \<not> list_all is_digit (the value) then Inl (Refused not_integer)
     else let n = digits_value (the value)
          in if n < lo \<or> hi < n then Inl (Refused out_of_range) else Inr n)"

definition configuredInterval :: "string option \<Rightarrow> int result" where
  "configuredInterval = bounded_setting 300 60 3600 ''UMOJA_SOD_MONITOR_INTERVAL_SECONDS must be an integer''
     ''UMOJA_SOD_MONITOR_INTERVAL_SECONDS must be between 60 and 3600''"

definition configuredSubject :: "string option \<Rightarrow> string result" where
  "configuredSubject value =
    (case value of
       None \<Rightarrow> Inl (Refused ''UMOJA_SOD_MONITOR_SUBJECT must be a non-empty internal service subject'')
     | Some s \<Rightarrow> let subject = js_trim s
         in if subject = '''' \<or> length subject < 3 \<or> 255 < length subject
            then Inl (Refused ''UMOJA_SOD_MONITOR_SUBJECT must be a non-empty internal service subject'')
            else Inr subject)"

definition configuredLockRetryAttempts :: "string option \<Rightarrow> int result" where
  "configuredLockRetryAttempts = bounded_setting 3 1 5 ''UMOJA_SOD_LOCK_RETRY_ATTEMPTS must be an integer''
     ''UMOJA_SOD_LOCK_RETRY_ATTEMPTS must be between 1 and 5''"

definition configuredLockRetryBackoff :: "string option \<Rightarrow> int result" where
  "configuredLockRetryBackoff = bounded_setting 250 0 5000 ''UMOJA_SOD_LOCK_RETRY_BACKOFF_MS must be an integer''
     ''UMOJA_SOD_LOCK_RETRY_BACKOFF_MS must be between 0 and 5000''"

text \<open>\<open>isAbsolute\<close> on a POSIX host.\<close>

definition configuredPath :: "sod_environment \<Rightarrow> string option result" where
  "configuredPath env =
    (case map_option js_trim (UMOJA_SOD_AUDIT_LOG_PATH env) of
       None \<Rightarrow> Inr None
     | Some value \<Rightarrow> if value = '''' then Inr None
         else if \<not> prefix ''/'' value then Inl (Refused ''UMOJA_SOD_AUDIT_LOG_PATH must be an absolute path'')
         else Inr (Some value))"

text \<open>\<open>startSegregationOfDutiesMonitor\<close> up to the scheduling: \<open>None\<close> when disabled, else the period in milliseconds.\<close>

definition startSegregationOfDutiesMonitor :: "sod_environment \<Rightarrow> int option result" where
  "startSegregationOfDutiesMonitor env =
    (case strictEnabled (UMOJA_SOD_MONITOR_ENABLED env) of
       Inl er \<Rightarrow> Inl er
     | Inr False \<Rightarrow> Inr None
     | Inr True \<Rightarrow>
         (case configuredInterval (UMOJA_SOD_MONITOR_INTERVAL_SECONDS env) of
            Inl er \<Rightarrow> Inl er
          | Inr seconds \<Rightarrow> (case configuredSubject (UMOJA_SOD_MONITOR_SUBJECT env) of
                Inl er \<Rightarrow> Inl er | Inr _ \<Rightarrow> Inr (Some (seconds * 1000)))))"

section \<open>The outside world of a round\<close>

datatype lock_attempt = Acquired | Busy | Failed (failure_code: string) (failure_message: string)

record sod_world =
  sw_try_lock :: "nat \<Rightarrow> lock_attempt"
  sw_read_fault :: "error option"
  sw_rand :: "nat \<Rightarrow> uuid"
  sw_uuid_text :: "uuid \<Rightarrow> string"
  sw_json_sha256 :: "json \<Rightarrow> string"
  sw_sha256 :: "string \<Rightarrow> string"
  sw_collate :: "json \<Rightarrow> nat"
  sw_notifyOwner :: "string \<Rightarrow> string \<Rightarrow> bool"
  sw_disk :: "string \<Rightarrow> string option"
  sw_describe :: "error \<Rightarrow> string"

fun message :: "sod_world \<Rightarrow> error \<Rightarrow> string" where
  "message w (Refused m) = m"
| "message w er = sw_describe w er"

section \<open>Leader election\<close>

definition retryableDatabaseError :: "string \<Rightarrow> bool" where
  "retryableDatabaseError code \<longleftrightarrow> code \<in> set [''08000'', ''08001'', ''08003'', ''08004'', ''08006'', ''08007'', ''08P01'',
     ''57P01'', ''57P02'', ''57P03'']"

definition retry_delay :: "int \<Rightarrow> nat \<Rightarrow> int" where
  "retry_delay backoff attempt = min (backoff * 2 ^ (attempt - 1)) 5000"

text \<open>
  The loop of \<open>acquireLeader\<close>: whether the lock was obtained, or the message thrown; the number of
  attempts made; and the delays waited for.
\<close>

function acquire_loop ::
  "(nat \<Rightarrow> lock_attempt) \<Rightarrow> nat \<Rightarrow> int \<Rightarrow> nat \<Rightarrow> string \<Rightarrow> bool result \<times> nat \<times> int list" where
  "acquire_loop try_lock attempts backoff attempt lastError =
    (if attempts < attempt then (Inl (Refused lastError), 0, [])
     else case try_lock attempt of
       Acquired \<Rightarrow> (Inr True, 1, [])
     | Busy \<Rightarrow> (Inr False, 1, [])
     | Failed code m \<Rightarrow>
         if \<not> retryableDatabaseError code \<or> attempt = attempts then (Inl (Refused m), 1, [])
         else let (r, n, ds) = acquire_loop try_lock attempts backoff (Suc attempt) m
              in (r, Suc n, retry_delay backoff attempt # ds))"
  by pat_completeness auto
termination
  by (relation "measure (\<lambda>(try_lock, attempts, backoff, attempt, lastError). Suc attempts - attempt)") auto

declare acquire_loop.simps [simp del]

definition acquireLeader :: "(nat \<Rightarrow> lock_attempt) \<Rightarrow> sod_environment \<Rightarrow> bool result \<times> nat \<times> int list" where
  "acquireLeader try_lock env =
    (case configuredLockRetryAttempts (UMOJA_SOD_LOCK_RETRY_ATTEMPTS env) of
       Inl er \<Rightarrow> (Inl er, 0, [])
     | Inr attempts \<Rightarrow>
         (case configuredLockRetryBackoff (UMOJA_SOD_LOCK_RETRY_BACKOFF_MS env) of
            Inl er \<Rightarrow> (Inl er, 0, [])
          | Inr backoff \<Rightarrow> acquire_loop try_lock (nat attempts) backoff 1 ''advisory lock acquisition failed''))"

section \<open>The query\<close>

datatype violation_code = Self_verification | Invalid_state | Invalid_dossier_total

fun violation_code_text :: "violation_code \<Rightarrow> string" where
  "violation_code_text Self_verification = ''self_verification''"
| "violation_code_text Invalid_state = ''invalid_state''"
| "violation_code_text Invalid_dossier_total = ''invalid_dossier_total''"

record violation =
  vo_dossierId :: uuid
  vo_itemId :: uuid
  vo_area :: string
  vo_code :: violation_code
  vo_evidenceRecordedBy :: "string option"
  vo_verifiedBy :: "string option"

text \<open>SQL equality of two nullable columns in a condition: a null compares to nothing.\<close>

definition sql_eq :: "'a option \<Rightarrow> 'a option \<Rightarrow> bool" where
  "sql_eq x y \<longleftrightarrow> x \<noteq> None \<and> x = y"

definition item_violation :: "violation_code \<Rightarrow> assurance_item \<Rightarrow> violation" where
  "item_violation code r = \<lparr>vo_dossierId = ri_dossier_id r, vo_itemId = ri_id r, vo_area = assurance_area_text (ri_area r),
     vo_code = code, vo_evidenceRecordedBy = ri_evidence_recorded_by r, vo_verifiedBy = ri_verified_by r\<rparr>"

definition self_verified :: "assurance_item \<Rightarrow> bool" where
  "self_verified r \<longleftrightarrow> ri_status r = RA_externally_verified \<and> sql_eq (ri_verified_by r) (ri_evidence_recorded_by r)"

definition invalid_state :: "assurance_item \<Rightarrow> bool" where
  "invalid_state r \<longleftrightarrow>
    (case ri_status r of
       RA_open \<Rightarrow> ri_evidence_uri r \<noteq> None \<or> ri_evidence_sha256 r \<noteq> None \<or> ri_evidence_recorded_by r \<noteq> None \<or>
         ri_external_verifier r \<noteq> None \<or> ri_verified_by r \<noteq> None \<or> ri_rejection_rationale r \<noteq> None
     | RA_evidence_recorded \<Rightarrow> ri_evidence_uri r = None \<or> ri_evidence_sha256 r = None \<or> ri_evidence_recorded_by r = None \<or>
         ri_external_verifier r \<noteq> None \<or> ri_verified_by r \<noteq> None \<or> ri_rejection_rationale r \<noteq> None
     | RA_externally_verified \<Rightarrow> ri_evidence_uri r = None \<or> ri_evidence_sha256 r = None \<or> ri_evidence_recorded_by r = None \<or>
         ri_external_verifier r = None \<or> ri_external_attestation_uri r = None \<or> ri_external_attestation_sha256 r = None \<or>
         ri_verified_by r = None \<or> ri_verification_rationale r = None \<or> ri_rejection_rationale r \<noteq> None \<or>
         sql_eq (ri_verified_by r) (ri_evidence_recorded_by r)
     | RA_rejected \<Rightarrow> ri_evidence_uri r = None \<or> ri_evidence_sha256 r = None \<or> ri_evidence_recorded_by r = None \<or>
         ri_rejection_rationale r = None)"

definition dossier_rows :: "uuid \<Rightarrow> assurance_item list \<Rightarrow> assurance_item list" where
  "dossier_rows k items = filter (\<lambda>r. ri_dossier_id r = k) items"

definition invalid_total :: "assurance_item list \<Rightarrow> bool" where
  "invalid_total rows \<longleftrightarrow> length rows \<noteq> 6 \<or> length (remdups (map ri_area rows)) \<noteq> 6 \<or> sum_list (map ri_max_points rows) \<noteq> 58"

definition total_violation :: "assurance_item list \<Rightarrow> uuid \<Rightarrow> violation" where
  "total_violation items k = \<lparr>vo_dossierId = k, vo_itemId = Min (ri_id ` set (dossier_rows k items)), vo_area = ''dossier_total'',
     vo_code = Invalid_dossier_total, vo_evidenceRecordedBy = None, vo_verifiedBy = None\<rparr>"

definition queryViolations :: "db \<Rightarrow> violation list" where
  "queryViolations db = (let items = assurance_items db in
     map (item_violation Self_verification) (filter self_verified items) @
     map (item_violation Invalid_state) (filter invalid_state items) @
     map (total_violation items) (filter (\<lambda>k. invalid_total (dossier_rows k items)) (remdups (map ri_dossier_id items))))"

definition canonicalDigest :: "sod_world \<Rightarrow> violation list \<Rightarrow> string" where
  "canonicalDigest w violations = sw_json_sha256 w (JArr (sort_key (sw_collate w) (map (\<lambda>v. JObj
     [(''area'', JStr (vo_area v)), (''code'', JStr (violation_code_text (vo_code v))), (''dossierId'', jid (vo_dossierId v)),
      (''evidenceRecordedBy'', jopt JStr (vo_evidenceRecordedBy v)), (''itemId'', jid (vo_itemId v)),
      (''verifiedBy'', jopt JStr (vo_verifiedBy v))]) violations)))"

section \<open>The evaluation on record\<close>

definition evaluation_checks :: "evaluation_run \<Rightarrow> bool" where
  "evaluation_checks r \<longleftrightarrow> 3 \<le> length (sql_trim (er_query_version r)) \<and>
     (case er_exception_digest r of None \<Rightarrow> True | Some d \<Rightarrow> sha256_text d) \<and>
     (case er_evaluation_state r of
        EV_clean \<Rightarrow> er_exception_count r = 0 \<and> er_exception_digest r \<noteq> None \<and> er_error_summary r = None
      | EV_exceptions_detected \<Rightarrow> 0 < er_exception_count r \<and> er_exception_digest r \<noteq> None \<and> er_error_summary r = None
      | EV_indeterminate \<Rightarrow> er_exception_count r = 0 \<and> er_exception_digest r = None \<and>
          (case er_error_summary r of None \<Rightarrow> False | Some s \<Rightarrow> 8 \<le> length (sql_trim s)))"

definition QUERY_VERSION :: string where
  "QUERY_VERSION = ''sod-readiness-v1''"

definition recordEvaluation ::
  "sod_world \<Rightarrow> env \<Rightarrow> actor \<Rightarrow> uuid \<Rightarrow> evaluation_state \<Rightarrow> violation list \<Rightarrow> string option \<Rightarrow> (uuid \<times> string option) tx" where
  "recordEvaluation w e a correlationId state violations errorSummary db =
    (let digest = if violations \<noteq> [] then Some (canonicalDigest w violations)
           else if state = EV_clean then Some (canonicalDigest w []) else None;
         row = \<lparr>er_correlation_id = correlationId, er_evaluator_subject = openId a, er_evaluator_role = role a,
           er_query_version = QUERY_VERSION, er_evaluation_state = state, er_exception_count = length violations,
           er_exception_digest = digest, er_error_summary = errorSummary\<rparr>
     in if \<not> evaluation_checks row then Inl (CheckViolation ''segregation_of_duties_evaluation_runs'')
        else if find_row er_correlation_id correlationId (evaluation_runs db) \<noteq> None then
          Inl (UniqueViolation ''segregation_of_duties_evaluation_runs'')
        else Inr ((correlationId, digest),
          insert_event e a (''segregation_of_duties.'' @ evaluation_state_text state) ''segregation_of_duties_evaluation'' None
            [(''queryVersion'', JStr QUERY_VERSION), (''exceptionCount'', JNum (int (length violations))),
             (''exceptionDigest'', jopt JStr digest), (''errorSummary'', jopt JStr errorSummary)]
            (db\<lparr>evaluation_runs := insert_row row (evaluation_runs db)\<rparr>)))"

section \<open>The file log\<close>

text \<open>\<open>sw_disk path\<close> is the message of a failing append to \<open>path\<close>, if it fails.\<close>

definition appendSegregationOfDutiesAuditLog ::
  "sod_world \<Rightarrow> sod_environment \<Rightarrow> json \<Rightarrow> json list \<Rightarrow> json list result" where
  "appendSegregationOfDutiesAuditLog w env event log =
    (case configuredPath env of
       Inl er \<Rightarrow> Inl er
     | Inr None \<Rightarrow> Inr log
     | Inr (Some path) \<Rightarrow> (case sw_disk w path of None \<Rightarrow> Inr (log @ [event]) | Some m \<Rightarrow> Inl (Refused m)))"

section \<open>The alert\<close>

definition violation_json :: "violation \<Rightarrow> json" where
  "violation_json v = JObj
     [(''dossierId'', jid (vo_dossierId v)), (''itemId'', jid (vo_itemId v)), (''area'', JStr (vo_area v)),
      (''code'', JStr (violation_code_text (vo_code v))), (''evidenceRecordedBy'', jopt JStr (vo_evidenceRecordedBy v)),
      (''verifiedBy'', jopt JStr (vo_verifiedBy v))]"

definition sod_policy :: "db \<Rightarrow> alert_policy option" where
  "sod_policy db = (case sort_key (\<lambda>p. - ap_created_at p)
       (filter (\<lambda>p. ap_alert_type p = Segregation_of_duties \<and> ap_enabled p) (alert_policies db)) of
     [] \<Rightarrow> None | p # _ \<Rightarrow> Some p)"

definition sod_alert :: "env \<Rightarrow> uuid \<Rightarrow> uuid \<Rightarrow> string \<Rightarrow> violation list \<Rightarrow> compliance_alert" where
  "sod_alert e policyId correlationId digest violations =
     \<lparr>ca_id = new_uuid e, ca_alert_policy_id = policyId, ca_alert_type = Segregation_of_duties, ca_corridor = None,
      ca_severity = Critical, ca_state = CA_open, ca_source_reference = ''sod:'' @ digest,
      ca_evidence = JObj [(''correlationId'', jid correlationId), (''exceptionDigest'', JStr digest),
        (''exceptionCount'', JNum (int (length violations))), (''violations'', JArr (map violation_json violations))],
      ca_detected_at = pg_now e, ca_payment_order_id = None, ca_customer_id = None, ca_counterparty_id = None,
      ca_acknowledged_by = None, ca_acknowledged_at = None, ca_acknowledgement_note = None,
      ca_escalated_case_id = None, ca_escalated_by = None, ca_escalated_at = None,
      ca_dismissed_by = None, ca_dismissed_at = None, ca_dismissal_reason = None\<rparr>"

text \<open>The first transaction: the policy and whether an alert was created, \<open>ON CONFLICT DO NOTHING\<close>.\<close>

definition raise_sod_alert ::
  "env \<Rightarrow> actor \<Rightarrow> uuid \<Rightarrow> string \<Rightarrow> violation list \<Rightarrow> uuid option tx" where
  "raise_sod_alert e a correlationId digest violations db =
    (case sod_policy db of
       None \<Rightarrow> Inr (None, db)
     | Some policy \<Rightarrow>
         let alert = sod_alert e (ap_id policy) correlationId digest violations
         in if alert_row_checks alert \<and> find_row alert_slot (alert_slot alert) (compliance_alerts db) \<noteq> None then Inr (None, db)
            else case insert_compliance_alert alert db of
              Inl er \<Rightarrow> Inl er
            | Inr (inserted, db1) \<Rightarrow> Inr (Some (ap_id policy),
                insert_event e a ''compliance_alert.raised'' ''compliance_alert'' (Some (ca_id inserted))
                  [(''alertType'', JStr ''segregation_of_duties''), (''exceptionDigest'', JStr digest),
                   (''exceptionCount'', JNum (int (length violations)))] db1))"

definition sod_title :: string where
  "sod_title = ''UmojaFlowOS segregation-of-duties exception''"

definition sod_content :: "sod_world \<Rightarrow> uuid \<Rightarrow> string \<Rightarrow> violation list \<Rightarrow> string" where
  "sod_content w correlationId digest violations = ''Detected '' @ nat_text (length violations) @
     '' readiness-assurance segregation/state exception(s). Correlation: '' @ sw_uuid_text w correlationId @
     ''. Evidence digest: '' @ digest @
     ''. Review the protected alert ledger; no readiness state, provider, or payment action was taken.''"

text \<open>The second transaction: the delivery attempt on record.\<close>

definition record_sod_delivery ::
  "sod_world \<Rightarrow> env \<Rightarrow> actor \<Rightarrow> uuid \<Rightarrow> uuid \<Rightarrow> string \<Rightarrow> bool \<Rightarrow> string \<Rightarrow> unit tx" where
  "record_sod_delivery w e a policyId correlationId digest delivered evidenceHash db =
    (case insert_delivery \<lparr>nd_alert_policy_id = policyId, nd_alert_type = Segregation_of_duties, nd_accepted = delivered,
         nd_destination = ''project_owner'', nd_correlation_id = correlationId, nd_payload_hash = evidenceHash,
         nd_created_at = pg_now e\<rparr> db of
       Inl er \<Rightarrow> Inl er
     | Inr db1 \<Rightarrow> Inr ((), insert_event e a ''segregation_of_duties.notification_attempted'' ''alert_delivery'' None
         [(''delivered'', JBool delivered), (''payloadHash'', JStr evidenceHash), (''exceptionDigest'', JStr digest)] db1))"

text \<open>
  A thrown error leaves what was committed before it: the outcome is a result beside the store and
  the file log.
\<close>

definition raiseAndDeliverExceptionAlert ::
  "sod_world \<Rightarrow> sod_environment \<Rightarrow> env \<Rightarrow> actor \<Rightarrow> uuid \<Rightarrow> string \<Rightarrow> violation list \<Rightarrow> db \<Rightarrow> json list \<Rightarrow>
   unit result \<times> db \<times> json list" where
  "raiseAndDeliverExceptionAlert w env e a correlationId digest violations db log =
    (case raise_sod_alert e a correlationId digest violations db of
       Inl er \<Rightarrow> (Inl er, db, log)
     | Inr (None, db1) \<Rightarrow> (Inr (), db1, log)
     | Inr (Some policyId, db1) \<Rightarrow>
         let content = sod_content w correlationId digest violations;
             delivered = sw_notifyOwner w sod_title content;
             evidenceHash = sw_sha256 w (sod_title @ [CHR 0x0A] @ content)
         in case record_sod_delivery w e a policyId correlationId digest delivered evidenceHash db1 of
              Inl er \<Rightarrow> (Inl er, db1, log)
            | Inr (_, db2) \<Rightarrow>
                (case appendSegregationOfDutiesAuditLog w env (JObj [(''event'', JStr ''sod_alert_delivery''),
                     (''occurredAt'', JTime (js_now e)), (''correlationId'', jid correlationId), (''exceptionDigest'', JStr digest),
                     (''deliveryState'', JStr (if delivered then ''accepted'' else ''unavailable''))]) log of
                   Inl er \<Rightarrow> (Inl er, db2, log)
                 | Inr log' \<Rightarrow> (Inr (), db2, log')))"

section \<open>The round\<close>

datatype sod_status = SoD_clean | SoD_exceptions_detected | SoD_leader_unavailable | SoD_indeterminate

record sod_result =
  sr_status :: sod_status
  sr_exceptionCount :: nat
  sr_correlationId :: "uuid option"
  sr_reason :: "string option"

definition indeterminate_round ::
  "sod_world \<Rightarrow> sod_environment \<Rightarrow> env \<Rightarrow> actor \<Rightarrow> error \<Rightarrow> db \<Rightarrow> json list \<Rightarrow> sod_result \<times> db \<times> json list" where
  "indeterminate_round w env e a er db log =
    (let reason = message w er;
         bare = \<lparr>sr_status = SoD_indeterminate, sr_exceptionCount = 0, sr_correlationId = None, sr_reason = Some reason\<rparr>
     in case recordEvaluation w e a (sw_rand w 1) EV_indeterminate [] (Some (take 4000 reason)) db of
          Inl _ \<Rightarrow> (bare, db, log)
        | Inr ((correlationId, _), db1) \<Rightarrow>
            (case appendSegregationOfDutiesAuditLog w env (JObj [(''event'', JStr ''sod_monitor_indeterminate''),
                 (''occurredAt'', JTime (js_now e)), (''correlationId'', jid correlationId),
                 (''evaluationState'', JStr ''indeterminate''), (''exceptionCount'', JNum 0),
                 (''reasonCode'', JStr ''monitor_error'')]) log of
               Inl _ \<Rightarrow> (bare, db1, log)
             | Inr log' \<Rightarrow> (bare\<lparr>sr_correlationId := Some correlationId\<rparr>, db1, log')))"

text \<open>The part of the round after the lock was obtained.\<close>

definition evaluate_round ::
  "sod_world \<Rightarrow> sod_environment \<Rightarrow> env \<Rightarrow> actor \<Rightarrow> db \<Rightarrow> json list \<Rightarrow> sod_result result \<times> db \<times> json list" where
  "evaluate_round w env e a db log =
    (case sw_read_fault w of
       Some er \<Rightarrow> (Inl er, db, log)
     | None \<Rightarrow>
         let violations = queryViolations db;
             state = (if violations \<noteq> [] then EV_exceptions_detected else EV_clean)
         in case recordEvaluation w e a (sw_rand w 0) state violations None db of
              Inl er \<Rightarrow> (Inl er, db, log)
            | Inr ((correlationId, digest), db1) \<Rightarrow>
                (case (if violations \<noteq> [] \<and> digest \<notin> {None, Some ''''}
                       then raiseAndDeliverExceptionAlert w env e a correlationId (the digest) violations db1 log
                       else (Inr (), db1, log)) of
                   (Inl er, db2, log2) \<Rightarrow> (Inl er, db2, log2)
                 | (Inr _, db2, log2) \<Rightarrow>
                     (case appendSegregationOfDutiesAuditLog w env (JObj [(''event'', JStr ''sod_monitor_evaluation''),
                          (''occurredAt'', JTime (js_now e)), (''correlationId'', jid correlationId),
                          (''evaluationState'', JStr (evaluation_state_text state)),
                          (''exceptionCount'', JNum (int (length violations))), (''exceptionDigest'', jopt JStr digest)]) log2 of
                        Inl er \<Rightarrow> (Inl er, db2, log2)
                      | Inr log3 \<Rightarrow>
                          (Inr \<lparr>sr_status = (if violations \<noteq> [] then SoD_exceptions_detected else SoD_clean),
                             sr_exceptionCount = length violations, sr_correlationId = Some correlationId, sr_reason = None\<rparr>,
                           db2, log3))))"

definition runSegregationOfDutiesMonitorRound ::
  "sod_world \<Rightarrow> sod_environment \<Rightarrow> env \<Rightarrow> db \<Rightarrow> json list \<Rightarrow> sod_result result \<times> db \<times> json list" where
  "runSegregationOfDutiesMonitorRound w env e db log =
    (case configuredSubject (UMOJA_SOD_MONITOR_SUBJECT env) of
       Inl er \<Rightarrow> (Inl er, db, log)
     | Inr subject \<Rightarrow>
         let a = \<lparr>openId = subject, role = System_monitor\<rparr>;
             caught = (\<lambda>er db log. case indeterminate_round w env e a er db log of (r, db', log') \<Rightarrow> (Inr r, db', log'))
         in case fst (acquireLeader (sw_try_lock w) env) of
              Inl er \<Rightarrow> caught er db log
            | Inr False \<Rightarrow> (Inr \<lparr>sr_status = SoD_leader_unavailable, sr_exceptionCount = 0, sr_correlationId = None,
                  sr_reason = None\<rparr>, db, log)
            | Inr True \<Rightarrow>
                (case evaluate_round w env e a db log of
                   (Inl er, db', log') \<Rightarrow> caught er db' log'
                 | (Inr r, db', log') \<Rightarrow> (Inr r, db', log')))"

inductive monitor_step :: "db \<Rightarrow> db \<Rightarrow> bool" where
  round: "runSegregationOfDutiesMonitorRound w env e db log = (r, db', log') \<Longrightarrow> monitor_step db db'"

section \<open>Bounds on the election\<close>

lemma acquire_stop: "attempts < attempt \<Longrightarrow> acquire_loop t attempts backoff attempt m = (Inl (Refused m), 0, [])"
  and acquire_got: "attempt \<le> attempts \<Longrightarrow> t attempt = Acquired \<Longrightarrow> acquire_loop t attempts backoff attempt m = (Inr True, 1, [])"
  and acquire_busy: "attempt \<le> attempts \<Longrightarrow> t attempt = Busy \<Longrightarrow> acquire_loop t attempts backoff attempt m = (Inr False, 1, [])"
  and acquire_fail: "attempt \<le> attempts \<Longrightarrow> t attempt = Failed code msg \<Longrightarrow>
     \<not> retryableDatabaseError code \<or> attempt = attempts \<Longrightarrow>
     acquire_loop t attempts backoff attempt m = (Inl (Refused msg), 1, [])"
  and acquire_retry: "attempt < attempts \<Longrightarrow> t attempt = Failed code msg \<Longrightarrow> retryableDatabaseError code \<Longrightarrow>
     acquire_loop t attempts backoff attempt m = (let (r, n, ds) = acquire_loop t attempts backoff (Suc attempt) msg
        in (r, Suc n, retry_delay backoff attempt # ds))"
  by (subst acquire_loop.simps, simp)+

text \<open>The cases of the loop.\<close>

lemma acquire_cases:
  fixes t :: "nat \<Rightarrow> lock_attempt"
  obtains (stop) "attempts < attempt"
  | (got) "attempt \<le> attempts" "t attempt = Acquired"
  | (busy) "attempt \<le> attempts" "t attempt = Busy"
  | (fail) code msg where "attempt \<le> attempts" "t attempt = Failed code msg" "\<not> retryableDatabaseError code \<or> attempt = attempts"
  | (retry) code msg where "attempt < attempts" "t attempt = Failed code msg" "retryableDatabaseError code"
proof (cases "attempts < attempt")
  case False
  then show ?thesis using got busy fail retry by (cases "t attempt") force+
qed (rule stop)

lemma acquire_loop_bounds:
  assumes "acquire_loop t attempts backoff attempt m = (r, n, ds)" and "0 \<le> backoff"
  shows "n \<le> Suc attempts - attempt \<and> length ds \<le> attempts - attempt \<and> (\<forall>d \<in> set ds. 0 \<le> d \<and> d \<le> 5000)"
  using assms
proof (induction "attempts - attempt" arbitrary: attempt m r n ds rule: less_induct)
  case less
  show ?case
  proof (cases rule: acquire_cases [where t = t and attempts = attempts and attempt = attempt])
    case (retry code msg)
    obtain r' n' ds' where rec: "acquire_loop t attempts backoff (Suc attempt) msg = (r', n', ds')"
      by (cases "acquire_loop t attempts backoff (Suc attempt) msg")
    with acquire_retry [where t = t, OF retry, of backoff m] less(2)
    have eqs: "n = Suc n'" "ds = retry_delay backoff attempt # ds'" by simp_all
    have "n' \<le> Suc attempts - Suc attempt \<and> length ds' \<le> attempts - Suc attempt \<and> (\<forall>d \<in> set ds'. 0 \<le> d \<and> d \<le> 5000)"
      by (rule less(1) [OF _ rec less(3)]) (use retry in simp)
    moreover have "0 \<le> retry_delay backoff attempt" "retry_delay backoff attempt \<le> 5000"
      using less(3) by (simp_all add: retry_delay_def)
    ultimately show ?thesis using retry(1) unfolding eqs by auto
  qed (use less(2) in \<open>auto simp: acquire_stop acquire_got acquire_busy acquire_fail\<close>)
qed

definition retried :: "lock_attempt \<Rightarrow> bool" where
  "retried x \<longleftrightarrow> (case x of Failed code m \<Rightarrow> retryableDatabaseError code | _ \<Rightarrow> False)"

definition wins :: "(nat \<Rightarrow> lock_attempt) \<Rightarrow> nat \<Rightarrow> nat \<Rightarrow> bool" where
  "wins t attempts k \<longleftrightarrow> (\<exists>j \<in> {k..attempts}. t j = Acquired \<and> (\<forall>i \<in> {k..<j}. retried (t i)))"

lemma wins_unfold: "wins t attempts k \<longleftrightarrow> k \<le> attempts \<and> (t k = Acquired \<or> retried (t k) \<and> wins t attempts (Suc k))"
proof (cases "k \<le> attempts")
  case True
  have "wins t attempts k" if "retried (t k)" and "wins t attempts (Suc k)"
  proof -
    from that obtain j where j: "j \<in> {Suc k..attempts}" "t j = Acquired" "\<forall>i \<in> {Suc k..<j}. retried (t i)"
      by (auto simp: wins_def)
    then have "retried (t i)" if "i \<in> {k..<j}" for i
      using that \<open>retried (t k)\<close> by (cases "i = k") simp_all
    with j show ?thesis unfolding wins_def by (intro bexI [of _ j]) simp_all
  qed
  moreover have "retried (t k) \<and> wins t attempts (Suc k)" if "wins t attempts k" "t k \<noteq> Acquired"
  proof -
    from that obtain j where j: "j \<in> {k..attempts}" "t j = Acquired" "\<forall>i \<in> {k..<j}. retried (t i)"
      by (auto simp: wins_def)
    with that have "k < j" by (cases "j = k") simp_all
    with j show ?thesis unfolding wins_def by auto
  qed
  moreover have "wins t attempts k" if "t k = Acquired" using that True by (auto simp: wins_def)
  ultimately show ?thesis using True by blast
qed (simp add: wins_def)

lemma acquire_loop_leader: "fst (acquire_loop t attempts backoff attempt m) = Inr True \<longleftrightarrow> wins t attempts attempt"
proof (induction "attempts - attempt" arbitrary: attempt m rule: less_induct)
  case less
  show ?case
  proof (cases rule: acquire_cases [where t = t and attempts = attempts and attempt = attempt])
    case (retry code msg)
    have "fst (acquire_loop t attempts backoff attempt m) = fst (acquire_loop t attempts backoff (Suc attempt) msg)"
      using acquire_retry [where t = t, OF retry, of backoff m] by (simp add: split_beta Let_def)
    moreover have "fst (acquire_loop t attempts backoff (Suc attempt) msg) = Inr True \<longleftrightarrow> wins t attempts (Suc attempt)"
      using retry by (intro less) simp
    ultimately show ?thesis using retry by (simp add: wins_unfold [of t attempts attempt] retried_def)
  next
    case (fail code msg)
    then show ?thesis
      using wins_unfold [of t attempts attempt] wins_unfold [of t attempts "Suc attempts"]
      by (auto simp: acquire_fail retried_def)
  qed (simp_all add: wins_unfold [of t attempts attempt] retried_def acquire_stop acquire_got acquire_busy)
qed

section \<open>The register never violates the rules\<close>

lemma items_never_violate: "item_ok r \<Longrightarrow> \<not> self_verified r \<and> \<not> invalid_state r"
  by (cases "ri_status r")
     (simp_all add: item_ok_def assurance_row_checks_def status_defs self_verified_def invalid_state_def sql_eq_def)

lemma totals_never_violate:
  assumes "assurance_inv db" and "k \<in> ri_dossier_id ` set (assurance_items db)"
  shows "\<not> invalid_total (dossier_rows k (assurance_items db))"
proof -
  from assms(2) obtain r where r: "r \<in> set (assurance_items db)" "k = ri_dossier_id r" by blast
  note tot = register_totals [OF assms(1) r(1), folded r(2)] and areas = register_areas [OF assms(1) r(1), folded r(2)]
  have "length (remdups (map ri_area (filter (\<lambda>x. ri_dossier_id x = k) (assurance_items db)))) = 6"
    unfolding distinct_remdups_id [OF areas(1)] length_map by (rule tot(1))
  with tot show ?thesis by (simp add: invalid_total_def dossier_rows_def)
qed

lemma silent_on_invariant: "assurance_inv db \<Longrightarrow> queryViolations db = []"
  using items_never_violate totals_never_violate
  by (auto simp: queryViolations_def Let_def filter_empty_conv assurance_inv_def)

section \<open>What a round writes\<close>

text \<open>A round appends to the trail and to the evaluations; at most one alert is new.\<close>

definition quiet :: "db \<Rightarrow> db \<Rightarrow> bool" where
  "quiet db db' \<longleftrightarrow> (\<exists>runs log. prefix (activity_events db) log \<and> db' = db\<lparr>evaluation_runs := runs, activity_events := log\<rparr>)"

definition alerted :: "compliance_alert \<Rightarrow> db \<Rightarrow> db \<Rightarrow> bool" where
  "alerted alert db db' \<longleftrightarrow> ca_state alert = CA_open \<and> alert_row_checks alert \<and> ca_escalated_case_id alert = None \<and>
     ca_alert_policy_id alert \<in> ap_id ` set (alert_policies db) \<and> ca_id alert \<notin> ca_id ` set (compliance_alerts db) \<and>
     alert_slot alert \<notin> alert_slot ` set (compliance_alerts db) \<and>
     (\<exists>runs log. prefix (activity_events db) log \<and>
        db' = db\<lparr>compliance_alerts := insert_row alert (compliance_alerts db), evaluation_runs := runs, activity_events := log\<rparr>)"

lemma quiet_refl: "quiet db db"
  unfolding quiet_def by (rule exI [of _ "evaluation_runs db"], rule exI [of _ "activity_events db"]) simp

lemma quiet_trans: "quiet db db1 \<Longrightarrow> quiet db1 db2 \<Longrightarrow> quiet db db2"
  unfolding quiet_def by (clarsimp, intro exI conjI) (auto intro: prefix_order.trans)

lemma quiet_alerted: "quiet db db1 \<Longrightarrow> alerted alert db1 db2 \<Longrightarrow> alerted alert db db2"
  unfolding quiet_def alerted_def by (clarsimp, intro exI conjI) (auto intro: prefix_order.trans)

lemma alerted_quiet: "alerted alert db db1 \<Longrightarrow> quiet db1 db2 \<Longrightarrow> alerted alert db db2"
  unfolding quiet_def alerted_def by (clarsimp, intro exI conjI) (auto intro: prefix_order.trans)

definition monitored :: "db \<Rightarrow> db \<Rightarrow> bool" where
  "monitored db db' \<longleftrightarrow> quiet db db' \<or> (\<exists>alert. alerted alert db db')"

lemma monitored_quiet: "monitored db db1 \<Longrightarrow> quiet db1 db2 \<Longrightarrow> monitored db db2"
  unfolding monitored_def using quiet_trans alerted_quiet by blast

lemma quiet_monitored: "quiet db db1 \<Longrightarrow> monitored db1 db2 \<Longrightarrow> monitored db db2"
  unfolding monitored_def using quiet_trans quiet_alerted by blast

lemma quiet_event: "quiet db (insert_event e a ac ot oi md (db\<lparr>evaluation_runs := runs\<rparr>))"
  unfolding quiet_def insert_event_def by (intro exI conjI) (rule prefixI, rule refl, simp)

lemma recordEvaluation_quiet:
  assumes "recordEvaluation w e a c st vs er db = Inr (r, db')"
  shows "quiet db db'"
proof -
  have "\<exists>ac md runs. db' = insert_event e a ac ''segregation_of_duties_evaluation'' None md (db\<lparr>evaluation_runs := runs\<rparr>)"
    using assms unfolding recordEvaluation_def Let_def by (simp only: split: if_split_asm) blast+
  then show ?thesis by (auto simp: quiet_event)
qed

lemma raise_sod_alert_monitored:
  assumes "raise_sod_alert e a c d vs db = Inr (r, db')"
  shows "(r = None \<and> db' = db) \<or>
    (\<exists>p alert. sod_policy db = Some p \<and> r = Some (ap_id p) \<and> alert = sod_alert e (ap_id p) c d vs \<and> alerted alert db db')"
proof (cases "sod_policy db")
  case None
  with assms show ?thesis by (simp add: raise_sod_alert_def)
next
  case (Some p)
  let ?alert = "sod_alert e (ap_id p) c d vs"
  show ?thesis
  proof (cases "alert_row_checks ?alert \<and> find_row alert_slot (alert_slot ?alert) (compliance_alerts db) \<noteq> None")
    case True
    with assms Some show ?thesis by (simp add: raise_sod_alert_def Let_def)
  next
    case False
    with assms Some obtain db1 where ins: "insert_compliance_alert ?alert db = Inr (?alert, db1)"
      and r: "r = Some (ap_id p)" and db': "\<exists>ev. db' = db1\<lparr>activity_events := activity_events db1 @ [ev]\<rparr>"
      unfolding raise_sod_alert_def Let_def insert_event_def
      by (auto split: sum.splits simp: insert_compliance_alert_def split: if_split_asm)
    from ins have "db1 = db\<lparr>compliance_alerts := insert_row ?alert (compliance_alerts db)\<rparr>" and ok: "alert_row_checks ?alert"
      "ca_alert_policy_id ?alert \<in> ap_id ` set (alert_policies db)" "ca_id ?alert \<notin> ca_id ` set (compliance_alerts db)"
      "alert_slot ?alert \<notin> alert_slot ` set (compliance_alerts db)"
      by (auto simp: insert_compliance_alert_def find_row_None split: if_split_asm dest: find_row_image)
    with db' have "\<exists>runs log. prefix (activity_events db) log \<and>
        db' = db\<lparr>compliance_alerts := insert_row ?alert (compliance_alerts db), evaluation_runs := runs, activity_events := log\<rparr>"
      by (elim exE, intro exI [of _ "evaluation_runs db"] exI [of _ "activity_events db'"] conjI) auto
    with ok Some r show ?thesis
      by (intro disjI2 exI [of _ p] exI [of _ ?alert]) (simp add: alerted_def sod_alert_def)
  qed
qed

text \<open>The delivery table does not admit the type of the alert.\<close>

lemma sod_delivery_refused:
  "record_sod_delivery w e a p c d delivered h db = Inl (CheckViolation ''notification_deliveries'')"
  by (simp add: record_sod_delivery_def insert_delivery_def delivery_alert_types_def)

lemma raiseAndDeliver_eq:
  "raiseAndDeliverExceptionAlert w env e a c d vs db log =
    (case raise_sod_alert e a c d vs db of
       Inl er \<Rightarrow> (Inl er, db, log)
     | Inr (None, db1) \<Rightarrow> (Inr (), db1, log)
     | Inr (Some policyId, db1) \<Rightarrow> (Inl (CheckViolation ''notification_deliveries''), db1, log))"
  by (simp add: raiseAndDeliverExceptionAlert_def sod_delivery_refused Let_def split: sum.split option.split)

lemma raiseAndDeliver_monitored:
  assumes "raiseAndDeliverExceptionAlert w env e a c d vs db log = (r, db', log')"
  shows "monitored db db' \<and> log' = log"
  using assms raise_sod_alert_monitored [of e a c d vs db] quiet_refl [of db]
  unfolding raiseAndDeliver_eq monitored_def by (auto split: sum.splits prod.splits option.splits)

lemma indeterminate_quiet:
  assumes "indeterminate_round w env e a er db log = (r, db', log')"
  shows "quiet db db' \<and> sr_status r = SoD_indeterminate"
  using assms unfolding indeterminate_round_def Let_def
  by (auto split: sum.splits prod.splits intro: quiet_refl dest: recordEvaluation_quiet)

lemma evaluate_monitored:
  assumes "evaluate_round w env e a db log = (r, db', log')"
  shows "monitored db db'"
proof (cases "sw_read_fault w")
  case (Some er)
  with assms show ?thesis by (simp add: evaluate_round_def monitored_def quiet_refl)
next
  case ok: None
  let ?vs = "queryViolations db"
  let ?rec = "recordEvaluation w e a (sw_rand w 0) (if ?vs \<noteq> [] then EV_exceptions_detected else EV_clean) ?vs None db"
  show ?thesis
  proof (cases ?rec)
    case (Inl er)
    with assms ok show ?thesis by (simp add: evaluate_round_def Let_def monitored_def quiet_refl)
  next
    case (Inr x)
    obtain c d db1 where x: "x = ((c, d), db1)" by (cases x) auto
    note q = recordEvaluation_quiet [OF Inr [unfolded x]]
    have "monitored db1 db'"
    proof (cases "?vs \<noteq> [] \<and> d \<notin> {None, Some []}")
      case True
      obtain r1 db2 log2 where del: "raiseAndDeliverExceptionAlert w env e a c (the d) ?vs db1 log = (r1, db2, log2)"
        by (cases "raiseAndDeliverExceptionAlert w env e a c (the d) ?vs db1 log")
      then have "(if ?vs \<noteq> [] \<and> d \<notin> {None, Some []} then raiseAndDeliverExceptionAlert w env e a c (the d) ?vs db1 log
          else (Inr (), db1, log)) = (r1, db2, log2)" using True by (simp only: if_True simp_thms)
      with assms ok Inr x have "db' = db2"
        unfolding evaluate_round_def Let_def by (simp only: option.case sum.case prod.case) (simp split: sum.splits)
      with raiseAndDeliver_monitored [OF del] show ?thesis by simp
    next
      case False
      have "(if ?vs \<noteq> [] \<and> d \<notin> {None, Some []} then raiseAndDeliverExceptionAlert w env e a c (the d) ?vs db1 log
          else (Inr (), db1, log)) = (Inr (), db1, log)" by (rule if_not_P [OF False])
      with assms ok Inr x have "db' = db1"
        unfolding evaluate_round_def Let_def by (simp only: option.case sum.case prod.case) (simp split: sum.splits)
      then show ?thesis by (simp add: monitored_def quiet_refl)
    qed
    with q show ?thesis by (rule quiet_monitored)
  qed
qed

lemma round_monitored:
  assumes "runSegregationOfDutiesMonitorRound w env e db log = (r, db', log')"
  shows "monitored db db'"
proof (cases "configuredSubject (UMOJA_SOD_MONITOR_SUBJECT env)")
  case (Inl er)
  with assms show ?thesis by (simp add: runSegregationOfDutiesMonitorRound_def monitored_def quiet_refl)
next
  case subject: (Inr s)
  let ?a = "\<lparr>openId = s, role = System_monitor\<rparr>"
  show ?thesis
  proof (cases "fst (acquireLeader (sw_try_lock w) env)")
    case (Inl er)
    obtain r1 db1 log1 where "indeterminate_round w env e ?a er db log = (r1, db1, log1)"
      by (cases "indeterminate_round w env e ?a er db log")
    with assms subject Inl indeterminate_quiet [OF this] show ?thesis
      by (simp add: runSegregationOfDutiesMonitorRound_def Let_def monitored_def)
  next
    case (Inr leader)
    show ?thesis
    proof (cases leader)
      case False
      with assms subject Inr show ?thesis
        by (simp add: runSegregationOfDutiesMonitorRound_def Let_def monitored_def quiet_refl)
    next
      case True
      obtain r1 db1 log1 where ev: "evaluate_round w env e ?a db log = (r1, db1, log1)"
        by (cases "evaluate_round w env e ?a db log")
      note m = evaluate_monitored [OF ev]
      show ?thesis
      proof (cases r1)
        case (Inl er)
        obtain r2 db2 log2 where ind: "indeterminate_round w env e ?a er db1 log1 = (r2, db2, log2)"
          by (cases "indeterminate_round w env e ?a er db1 log1")
        with assms subject Inr True ev Inl have "db' = db2"
          by (simp add: runSegregationOfDutiesMonitorRound_def Let_def)
        with m indeterminate_quiet [OF ind] show ?thesis by (simp add: monitored_quiet)
      next
        case (Inr res)
        with assms subject \<open>fst (acquireLeader (sw_try_lock w) env) = Inr leader\<close> True ev have "db' = db1"
          by (simp add: runSegregationOfDutiesMonitorRound_def Let_def)
        with m show ?thesis by simp
      qed
    qed
  qed
qed

lemma monitor_step_monitored: "monitor_step db db' \<Longrightarrow> monitored db db'"
  by (erule monitor_step.cases) (simp add: round_monitored)

lemma monitored_log: "monitored db db' \<Longrightarrow> prefix (activity_events db) (activity_events db')"
  by (auto simp: monitored_def quiet_def alerted_def)

lemma monitored_compliance_inv:
  assumes inv: "compliance_inv db" and "monitored db db'"
  shows "compliance_inv db'"
proof -
  note log = case_ok_mono [OF monitored_log [OF assms(2)]]
  from assms(2) show ?thesis
    unfolding monitored_def
  proof (elim disjE exE)
    assume "quiet db db'"
    with inv log show ?thesis
      by (clarsimp simp: quiet_def compliance_inv_def alert_ok_def filing_ok_def)
  next
    fix alert assume "alerted alert db db'"
    with inv log show ?thesis
      by (clarsimp simp: alerted_def compliance_inv_def alert_ok_def filing_ok_def table_simps)
  qed
qed

end
