(* ===== verification/Assurance_Properties.thy ===== *)
theory Assurance_Properties
  imports Duties_Monitor
begin

text \<open>
  What the readiness register and the segregation-of-duties monitor guarantee: evidence is verified
  exactly by somebody else than its submitter, the election of a leader is bounded, a clean verdict
  is always backed by an evaluation that found nothing, and settings are read back as written. One
  property shows a defect: the notification of a new violation cannot be recorded.
\<close>

section \<open>Reading a round\<close>

lemma evaluate_ok:
  assumes "evaluate_round w env e a db log = (Inr r, db', log')"
  shows "sw_read_fault w = None \<and>
    sr_status r = (if queryViolations db \<noteq> [] then SoD_exceptions_detected else SoD_clean) \<and>
    (\<exists>x. recordEvaluation w e a (sw_rand w 0) (if queryViolations db \<noteq> [] then EV_exceptions_detected else EV_clean)
       (queryViolations db) None db = Inr (x, db'))"
proof (cases "sw_read_fault w")
  case (Some er)
  with assms show ?thesis by (simp add: evaluate_round_def)
next
  case ok: None
  let ?vs = "queryViolations db"
  let ?rec = "recordEvaluation w e a (sw_rand w 0) (if ?vs \<noteq> [] then EV_exceptions_detected else EV_clean) ?vs None db"
  show ?thesis
  proof (cases ?rec)
    case (Inl er)
    with assms ok show ?thesis by (simp add: evaluate_round_def Let_def)
  next
    case (Inr x)
    obtain c d db1 where x: "x = ((c, d), db1)" by (cases x) auto
    obtain r1 db2 log2 where del: "(if ?vs \<noteq> [] \<and> d \<notin> {None, Some []} then
        raiseAndDeliverExceptionAlert w env e a c (the d) ?vs db1 log else (Inr (), db1, log)) = (r1, db2, log2)"
      by (metis prod.exhaust)
    then have quiet: "db2 = db1" if "r1 = Inr ()"
      using that raise_sod_alert_monitored [of e a c "the d" ?vs db1]
      by (auto simp: raiseAndDeliver_eq split: if_splits sum.splits option.splits prod.splits)
    have "r1 = Inr () \<and> db' = db2 \<and> sr_status r = (if ?vs \<noteq> [] then SoD_exceptions_detected else SoD_clean)"
      using assms ok Inr del unfolding evaluate_round_def Let_def x
      by (simp only: option.case sum.case prod.case) (auto split: sum.splits)
    with quiet ok Inr x show ?thesis by simp
  qed
qed

lemma recorded_evaluation:
  assumes "recordEvaluation w e a c st vs er db = Inr (x, db')"
  shows "quiet db db' \<and> (\<exists>run. run \<in> set (evaluation_runs db') \<and> er_correlation_id run = c \<and> er_evaluation_state run = st \<and>
    er_exception_count run = length vs)"
proof -
  have "\<exists>run ac md. er_correlation_id run = c \<and> er_evaluation_state run = st \<and> er_exception_count run = length vs \<and>
      db' = insert_event e a ac ''segregation_of_duties_evaluation'' None md
        (db\<lparr>evaluation_runs := insert_row run (evaluation_runs db)\<rparr>)"
    using assms unfolding recordEvaluation_def Let_def by (simp only: split: if_split_asm) force+
  with recordEvaluation_quiet [OF assms] show ?thesis by (auto simp: set_insert_row)
qed

lemma round_outcome:
  assumes "runSegregationOfDutiesMonitorRound w env e db log = (Inr r, db', log')"
  shows "sr_status r = SoD_indeterminate \<or> (sr_status r = SoD_leader_unavailable \<and> db' = db) \<or>
    (\<exists>s log''. fst (acquireLeader (sw_try_lock w) env) = Inr True \<and>
       evaluate_round w env e \<lparr>openId = s, role = System_monitor\<rparr> db log = (Inr r, db', log''))"
  using assms unfolding runSegregationOfDutiesMonitorRound_def Let_def
  by (auto split: sum.splits prod.splits bool.splits dest: indeterminate_quiet)

lemma quiet_alerts: "quiet db db' \<Longrightarrow> compliance_alerts db' = compliance_alerts db"
  by (auto simp: quiet_def)

lemma round_silent_alerts:
  assumes "runSegregationOfDutiesMonitorRound w env e db log = (res, db', log')"
  shows "compliance_alerts db' = compliance_alerts db \<or> (\<exists>r. res = Inr r \<and> sr_status r = SoD_indeterminate)"
proof (cases res)
  case (Inl er)
  with assms have "db' = db"
    unfolding runSegregationOfDutiesMonitorRound_def Let_def by (auto split: sum.splits prod.splits bool.splits)
  then show ?thesis by simp
next
  case (Inr r)
  have "compliance_alerts db' = compliance_alerts db" if "evaluate_round w env e a db log = (Inr r, db', log'')" for a log''
    using evaluate_ok [OF that] by (blast dest: recordEvaluation_quiet quiet_alerts)
  with round_outcome [OF assms [unfolded Inr]] Inr show ?thesis by auto
qed

section \<open>A concrete register\<close>

definition vasp_item :: assurance_item where
  "vasp_item = (open_item (\<lambda>_. 7) 3 Controlled_live_test)\<lparr>ri_status := RA_evidence_recorded, ri_evidence_uri := Some ''https://e'',
     ri_evidence_sha256 := Some (replicate 64 CHR ''a''), ri_evidence_recorded_by := Some ''alice'',
     ri_evidence_recorded_at := Some 1\<rparr>"

definition register_db :: db where
  "register_db = empty_db\<lparr>assurance_items :=
     vasp_item # map (open_item (\<lambda>ar. 8 + area_rank ar) 3) (remove1 Controlled_live_test readinessAssuranceAreas)\<rparr>"

definition officer_bob :: actor where
  "officer_bob = \<lparr>openId = ''bob'', role = Compliance_officer\<rparr>"

definition register_env :: env where
  "register_env = \<lparr>js_now = 5, pg_now = 5, pg_today = 0, new_uuid = 90, node_uuid = 91\<rparr>"

definition bob_verifies :: verification_input where
  "bob_verifies = \<lparr>vi_dossierId = 3, vi_area = Controlled_live_test, vi_externalVerifier = ''Auditor Ltd'',
     vi_externalAttestationUri = ''https://a'', vi_externalAttestationSha256 = replicate 64 CHR ''b'', vi_rationale = ''checked''\<rparr>"

text \<open>A row that its submitter verified, as no operation writes it, and an enabled policy for it.\<close>

definition tampered_db :: db where
  "tampered_db = empty_db\<lparr>
     assurance_items := [vasp_item\<lparr>ri_status := RA_externally_verified, ri_external_verifier := Some ''x'',
       ri_external_attestation_uri := Some ''https://a'', ri_external_attestation_sha256 := Some (replicate 64 CHR ''b''),
       ri_verified_by := Some ''alice'', ri_verified_at := Some 2, ri_verification_rationale := Some ''self''\<rparr>],
     alert_policies := [\<lparr>ap_id = 60, ap_alert_type = Segregation_of_duties, ap_corridor = None, ap_threshold = JNull,
       ap_enabled = True, ap_created_by = ''owner'', ap_created_at = 0\<rparr>]\<rparr>"

definition calm_world :: sod_world where
  "calm_world = \<lparr>sw_try_lock = (\<lambda>_. Acquired), sw_read_fault = None, sw_rand = (\<lambda>n. 70 + n), sw_uuid_text = nat_text,
     sw_json_sha256 = (\<lambda>_. replicate 64 CHR ''c''), sw_sha256 = (\<lambda>_. replicate 64 CHR ''d''), sw_collate = (\<lambda>_. 0),
     sw_notifyOwner = (\<lambda>_ _. True), sw_disk = (\<lambda>_. None), sw_describe = (\<lambda>_. ''database error'')\<rparr>"

definition monitor_settings :: sod_environment where
  "monitor_settings = \<lparr>UMOJA_SOD_MONITOR_ENABLED = Some ''true'', UMOJA_SOD_MONITOR_INTERVAL_SECONDS = None,
     UMOJA_SOD_MONITOR_SUBJECT = Some ''sod-monitor'', UMOJA_SOD_LOCK_RETRY_ATTEMPTS = None,
     UMOJA_SOD_LOCK_RETRY_BACKOFF_MS = None, UMOJA_SOD_AUDIT_LOG_PATH = None\<rparr>"

section \<open>Properties\<close>

text \<open>
  C21: in a consistent register, evidence is verified exactly when it is on record and waiting, was
  recorded by a known person other than the verifier, and the attestation is an https address with
  a SHA-256 digest. The verified row then names a verifier that differs from the submitter.
\<close>

theorem verification_iff:
  assumes "assurance_inv db"
  shows "((\<exists>r db'. verifyReadinessAssuranceEvidence e a i db = Inr (r, db')) \<longleftrightarrow>
      (\<exists>item s. find_row assurance_slot (vi_dossierId i, vi_area i) (assurance_items db) = Some item \<and>
         ri_status item = RA_evidence_recorded \<and> ri_evidence_recorded_by item = Some s \<and> s \<noteq> [] \<and> s \<noteq> openId a \<and>
         https_uri (Some (vi_externalAttestationUri i)) \<and> digest_or_null (Some (vi_externalAttestationSha256 i)))) \<and>
    (verifyReadinessAssuranceEvidence e a i db = Inr (r, db') \<longrightarrow>
      (\<exists>item. find_row assurance_slot (vi_dossierId i, vi_area i) (assurance_items db') = Some item \<and>
         r = (ri_id item, RA_externally_verified) \<and> ri_status item = RA_externally_verified \<and>
         ri_verified_by item = Some (openId a) \<and> ri_evidence_recorded_by item \<noteq> Some (openId a)))"
proof (cases "find_row assurance_slot (vi_dossierId i, vi_area i) (assurance_items db)")
  case None
  then show ?thesis by (simp add: verifyReadinessAssuranceEvidence_def)
next
  case (Some item)
  let ?good = "\<lambda>s. ri_status item = RA_evidence_recorded \<and> ri_evidence_recorded_by item = Some s \<and> s \<noteq> [] \<and> s \<noteq> openId a"
  have item: "item \<in> set (assurance_items db)" "item_ok item" "distinct_keys ri_id (assurance_items db)"
    using assms find_row_mem [OF Some] by (auto simp: assurance_inv_def)
  have checks: "assurance_row_checks (with_verification e a i item) \<longleftrightarrow>
      https_uri (Some (vi_externalAttestationUri i)) \<and> digest_or_null (Some (vi_externalAttestationSha256 i))" if "?good s" for s
    using item(2) that by (auto simp: item_ok_def assurance_row_checks_def with_verification_def status_defs)
  have same: "find_row assurance_slot (vi_dossierId i, vi_area i) (update_row ri_id (ri_id item) (with_verification e a i) (assurance_items db)) =
      Some (with_verification e a i item)"
    unfolding update_row_def
    by (subst find_row_map) (simp_all add: Some assurance_slot_def with_verification_def)
  show ?thesis
  proof (cases "\<exists>s. ?good s")
    case True
    then obtain s where s: "?good s" by blast
    have eq: "verifyReadinessAssuranceEvidence e a i db = (case update_item ri_id (ri_id item) (with_verification e a i) item db of
        Inl er \<Rightarrow> Inl er
      | Inr db1 \<Rightarrow> Inr ((ri_id item, RA_externally_verified),
             assurance_activity e a ''vasp_readiness_assurance.externally_verified'' (ri_id item)
               [(''dossierId'', jid (vi_dossierId i)), (''area'', JStr (assurance_area_text (vi_area i))),
                (''externalVerifier'', JStr (vi_externalVerifier i)),
                (''attestationSha256'', JStr (vi_externalAttestationSha256 i)),
                (''regulatorApproval'', JBool False), (''licence'', JBool False)] db1))"
      unfolding verifyReadinessAssuranceEvidence_def Some using s by simp
    show ?thesis
      unfolding eq update_item_def checks [OF s] using s Some same
      by (auto simp: with_verification_def)
  next
    case False
    then have "isl (verifyReadinessAssuranceEvidence e a i db)"
      using Some by (cases "ri_evidence_recorded_by item") (auto simp: verifyReadinessAssuranceEvidence_def)
    with False Some show ?thesis by auto
  qed
qed

theorem verification_iff_witness:
  "assurance_inv register_db \<and>
   (\<exists>r db'. verifyReadinessAssuranceEvidence register_env officer_bob bob_verifies
     register_db = Inr (r, db'))"
proof
  show inv: "assurance_inv register_db" by code_simp
  have "find_row assurance_slot (3, Controlled_live_test) (assurance_items register_db) = Some vasp_item" by code_simp
  with verification_iff [OF inv, of register_env officer_bob bob_verifies]
  show "\<exists>r db'. verifyReadinessAssuranceEvidence register_env officer_bob bob_verifies register_db = Inr (r, db')"
    by (simp add: bob_verifies_def vasp_item_def officer_bob_def https_uri_def digest_or_null_def sha256_text_def list_all_iff)
qed


text \<open>
  C22: a round reports clean only as the leader, after a read that succeeded and found no violation,
  and with that evaluation on record. A lost election or any fault gives another verdict.
\<close>

theorem clean_verdict_backed:
  assumes "runSegregationOfDutiesMonitorRound w env e db log = (Inr r, db', log')" and "sr_status r = SoD_clean"
  shows "fst (acquireLeader (sw_try_lock w) env) = Inr True \<and> sw_read_fault w = None \<and> queryViolations db = [] \<and>
    (\<exists>run \<in> set (evaluation_runs db'). er_correlation_id run = sw_rand w 0 \<and> er_evaluation_state run = EV_clean \<and>
       er_exception_count run = 0) \<and> compliance_alerts db' = compliance_alerts db"
proof -
  from round_outcome [OF assms(1)] assms(2) obtain s log'' where lead: "fst (acquireLeader (sw_try_lock w) env) = Inr True"
    and ev: "evaluate_round w env e \<lparr>openId = s, role = System_monitor\<rparr> db log = (Inr r, db', log'')" by auto
  note ok = evaluate_ok [OF ev]
  with assms(2) have none: "queryViolations db = []" by (auto split: if_splits)
  with ok obtain x where "recordEvaluation w e \<lparr>openId = s, role = System_monitor\<rparr> (sw_rand w 0) EV_clean [] None db = Inr (x, db')"
    by auto
  from recorded_evaluation [OF this] lead ok none quiet_alerts show ?thesis by auto
qed

theorem clean_verdict_backed_witness:
  "case runSegregationOfDutiesMonitorRound calm_world monitor_settings register_env empty_db [] of
     (Inr r, db', _) \<Rightarrow> sr_status r = SoD_clean \<and> (\<exists>run \<in> set (evaluation_runs db'). er_evaluation_state run = EV_clean)
   | _ \<Rightarrow> False"
proof -
  have "\<not> isl (fst (runSegregationOfDutiesMonitorRound calm_world monitor_settings register_env empty_db []))" by code_simp
  moreover have "sr_status (projr (fst (runSegregationOfDutiesMonitorRound calm_world monitor_settings register_env empty_db []))) = SoD_clean"
    by code_simp
  moreover obtain res db' log' where run: "runSegregationOfDutiesMonitorRound calm_world monitor_settings register_env empty_db [] = (res, db', log')"
    by (cases "runSegregationOfDutiesMonitorRound calm_world monitor_settings register_env empty_db []")
  ultimately obtain r where r: "res = Inr r" "sr_status r = SoD_clean" by (cases res) simp_all
  from clean_verdict_backed [OF run [unfolded r(1)] r(2)] run r show ?thesis by auto
qed

text \<open>
  C40: the delivery table does not admit the type of this alert, so a round never records a
  notification, and a round that raises a new alert reports itself as indeterminate instead of
  reporting the violations.
\<close>

theorem sod_alert_never_reported:
  assumes "runSegregationOfDutiesMonitorRound w env e db log = (res, db', log')"
  shows "notification_deliveries db' = notification_deliveries db \<and>
    (compliance_alerts db' \<noteq> compliance_alerts db \<longrightarrow> (\<exists>r. res = Inr r \<and> sr_status r = SoD_indeterminate))"
  using round_silent_alerts [OF assms] round_monitored [OF assms] by (auto simp: monitored_def quiet_def alerted_def)

theorem sod_alert_never_reported_witness:
  "case runSegregationOfDutiesMonitorRound calm_world monitor_settings register_env tampered_db [] of
     (Inr r, db', _) \<Rightarrow> queryViolations tampered_db \<noteq> [] \<and> length (compliance_alerts db') = 1 \<and>
       sr_status r = SoD_indeterminate \<and> notification_deliveries db' = []
   | _ \<Rightarrow> False"
proof -
  obtain res db' log' where run: "runSegregationOfDutiesMonitorRound calm_world monitor_settings register_env tampered_db [] = (res, db', log')"
    by (cases "runSegregationOfDutiesMonitorRound calm_world monitor_settings register_env tampered_db []")
  have "length (compliance_alerts (fst (snd (runSegregationOfDutiesMonitorRound calm_world monitor_settings register_env tampered_db [])))) = 1"
    "queryViolations tampered_db \<noteq> []" "compliance_alerts tampered_db = []" "notification_deliveries tampered_db = []"
    by code_simp+
  with sod_alert_never_reported [OF run] run show ?thesis by auto
qed

text \<open>
  the numeric settings of the monitor are read back as they are written, and refused exactly
  outside their ranges.
\<close>

lemma settings_roundtrip:
  "(configuredInterval (Some (pos_text (int k))) = Inr (int k) \<longleftrightarrow> 60 \<le> k \<and> k \<le> 3600) \<and>
   (configuredLockRetryAttempts (Some (pos_text (int k))) = Inr (int k) \<longleftrightarrow> 1 \<le> k \<and> k \<le> 5) \<and>
   (configuredLockRetryBackoff (Some (pos_text (int k))) = Inr (int k) \<longleftrightarrow> k \<le> 5000) \<and>
   (isl (configuredInterval (Some (pos_text (int k)))) \<longleftrightarrow> k < 60 \<or> 3600 < k)"
proof -
  have "pos_text (int k) \<noteq> []" "list_all is_digit (pos_text (int k))" "digits_value (pos_text (int k)) = int k"
    using pos_text_digits [of "int k"] by simp_all
  then show ?thesis
    by (simp add: configuredInterval_def configuredLockRetryAttempts_def configuredLockRetryBackoff_def bounded_setting_def Let_def)
qed

end
