(* ===== verification/Js_Numbers.thy ===== *)
theory Js_Numbers
  imports Umoja_Prelude Complex_Main "HOL-Library.Log_Nat"
begin

text \<open>
  JavaScript numbers as the control plane uses them on amounts: \<open>Number(text)\<close>, rounding to the
  64-bit format after every operation, the shortest decimal text that a driver sends to the
  database, and the rounding of a \<open>NUMERIC\<close> column. A finite number is its rational value; the
  two zeros are one.
\<close>

section \<open>Rounding to the 64-bit format\<close>

datatype js_number = JsNaN | JsInfinite | JsFin (js_value: rat)

fun js_finite :: "js_number \<Rightarrow> bool" where
  "js_finite (JsFin x) = True"
| "js_finite _ = False"

definition round_even :: "rat \<Rightarrow> int" where
  "round_even x = (let f = \<lfloor>x\<rfloor>; r = x - of_int f
     in if r < 1 / 2 then f else if 1 / 2 < r then f + 1 else if even f then f else f + 1)"

text \<open>The exponent \<open>k\<close> with \<open>2 powi k \<le> x < 2 powi (k + 1)\<close> of a positive rational.\<close>

definition ilog2 :: "rat \<Rightarrow> int" where
  "ilog2 x = (let (a, b) = quotient_of x; k = bitlen a - bitlen b
     in if x < 2 powi k then k - 1 else k)"

text \<open>Significands have 53 bits; below \<open>2 powi (-1022)\<close> the spacing stays \<open>2 powi (-1074)\<close>.\<close>

definition ulp_exponent :: "rat \<Rightarrow> int" where
  "ulp_exponent x = max (- 1074) (ilog2 \<bar>x\<bar> - 52)"

definition fl_value :: "rat \<Rightarrow> rat" where
  "fl_value x = (if x = 0 then 0 else let e = ulp_exponent x in of_int (round_even (x / 2 powi e)) * 2 powi e)"

definition fl :: "rat \<Rightarrow> js_number" where
  "fl x = (if 2 ^ 1024 \<le> \<bar>fl_value x\<bar> then JsInfinite else JsFin (fl_value x))"

text \<open>
  Arithmetic on results whose finiteness the code tests before it uses them: an operation with an
  operand that is not finite gives a number that is not finite.
\<close>

fun js_lift :: "(rat \<Rightarrow> rat \<Rightarrow> rat) \<Rightarrow> js_number \<Rightarrow> js_number \<Rightarrow> js_number" where
  "js_lift f (JsFin x) (JsFin y) = fl (f x y)"
| "js_lift f _ _ = JsNaN"

section \<open>Number(text)\<close>

definition decimal_digits :: "string \<Rightarrow> rat" where
  "decimal_digits ds = of_int (digits_value ds)"

text \<open>A decimal literal without sign: digits, a fraction, an exponent.\<close>

definition exponent_value :: "string \<Rightarrow> int option" where
  "exponent_value s =
    (case s of
       [] \<Rightarrow> Some 0
     | c # rest \<Rightarrow>
         if c \<notin> set ''eE'' then None
         else let (neg, ds) = (case rest of
                CHR ''-'' # t \<Rightarrow> (True, t) | CHR ''+'' # t \<Rightarrow> (False, t) | _ \<Rightarrow> (False, rest))
              in if ds = [] \<or> \<not> list_all is_digit ds then None
                 else Some (if neg then - digits_value ds else digits_value ds))"

definition unsigned_decimal :: "string \<Rightarrow> rat option" where
  "unsigned_decimal s =
    (let whole = takeWhile is_digit s; rest = dropWhile is_digit s;
         (frac, tail) = (case rest of CHR ''.'' # t \<Rightarrow> (takeWhile is_digit t, dropWhile is_digit t) | _ \<Rightarrow> ([], rest))
     in if whole = [] \<and> frac = [] then None
        else map_option (\<lambda>e. decimal_digits (whole @ frac) * 10 powi (e - int (length frac))) (exponent_value tail))"

definition digit_of :: "char \<Rightarrow> nat" where
  "digit_of c = (let n = of_char c :: nat
     in if 48 \<le> n \<and> n \<le> 57 then n - 48 else if 97 \<le> n \<and> n \<le> 122 then n - 87 else if 65 \<le> n \<and> n \<le> 90 then n - 55 else 99)"

definition radix_value :: "nat \<Rightarrow> string \<Rightarrow> rat option" where
  "radix_value b ds = (if ds = [] \<or> \<not> list_all (\<lambda>c. digit_of c < b) ds then None
     else Some (of_int (foldl (\<lambda>n c. int b * n + int (digit_of c)) 0 ds)))"

definition unsigned_literal :: "string \<Rightarrow> js_number" where
  "unsigned_literal s = (if s = ''Infinity'' then JsInfinite
     else case unsigned_decimal s of None \<Rightarrow> JsNaN | Some x \<Rightarrow> fl x)"

fun js_negate :: "js_number \<Rightarrow> js_number" where
  "js_negate (JsFin x) = JsFin (- x)"
| "js_negate y = y"

definition js_Number :: "string \<Rightarrow> js_number" where
  "js_Number text =
    (case js_trim text of
       [] \<Rightarrow> JsFin 0
     | CHR ''-'' # s \<Rightarrow> js_negate (unsigned_literal s)
     | CHR ''+'' # s \<Rightarrow> unsigned_literal s
     | CHR ''0'' # c # s \<Rightarrow>
         if c \<in> set ''xX'' then (case radix_value 16 s of None \<Rightarrow> JsNaN | Some x \<Rightarrow> fl x)
         else if c \<in> set ''oO'' then (case radix_value 8 s of None \<Rightarrow> JsNaN | Some x \<Rightarrow> fl x)
         else if c \<in> set ''bB'' then (case radix_value 2 s of None \<Rightarrow> JsNaN | Some x \<Rightarrow> fl x)
         else unsigned_literal (CHR ''0'' # c # s)
     | s \<Rightarrow> unsigned_literal s)"

section \<open>The shortest decimal text\<close>

text \<open>The \<open>n\<close> with \<open>10 powi (n - 1) \<le> x < 10 powi n\<close> of a positive rational.\<close>

definition decimal_point :: "rat \<Rightarrow> int" where
  "decimal_point x = (if 1 \<le> x then int (length (pos_text \<lfloor>x\<rfloor>))
     else 1 - int (length (pos_text (\<lceil>1 / x\<rceil> - 1))))"

text \<open>The digits of \<open>Number::toString\<close>: as few as identify the number, and then the closest.\<close>

definition shortest_digits :: "rat \<Rightarrow> int \<times> nat" where
  "shortest_digits x = (let n = decimal_point x;
       candidate = (\<lambda>k. \<lfloor>x / 10 powi (n - int k) + 1 / 2\<rfloor>)
     in case find (\<lambda>k. fl_value (of_int (candidate k) * 10 powi (n - int k)) = x) [1..<18] of
          None \<Rightarrow> (candidate 17, 17) | Some k \<Rightarrow> (candidate k, k))"

text \<open>The decimal value the text denotes, which is what the database reads.\<close>

definition text_value :: "rat \<Rightarrow> rat" where
  "text_value x = (if x = 0 then 0
     else case shortest_digits \<bar>x\<bar> of (s, k) \<Rightarrow> sgn x * (of_int s * 10 powi (decimal_point \<bar>x\<bar> - int k)))"

definition zeros :: "int \<Rightarrow> string" where
  "zeros n = replicate (nat n) CHR ''0''"

definition js_text :: "rat \<Rightarrow> string" where
  "js_text x = (if x = 0 then ''0''
     else case shortest_digits \<bar>x\<bar> of (s, k) \<Rightarrow>
       let ds = pos_text s; n = decimal_point \<bar>x\<bar> + (int (length ds) - int k); l = int (length ds);
           body = (if l \<le> n \<and> n \<le> 21 then ds @ zeros (n - l)
             else if 0 < n \<and> n \<le> 21 then take (nat n) ds @ ''.'' @ drop (nat n) ds
             else if - 6 < n \<and> n \<le> 0 then ''0.'' @ zeros (- n) @ ds
             else hd ds # (if l = 1 then [] else ''.'' @ tl ds) @ ''e'' @
               (if 0 < n then ''+'' @ int_text (n - 1) else int_text (n - 1)))
       in (if x < 0 then ''-'' else []) @ body)"

section \<open>NUMERIC columns\<close>

definition half_away :: "rat \<Rightarrow> int" where
  "half_away x = (if x < 0 then - \<lfloor>\<bar>x\<bar> + 1 / 2\<rfloor> else \<lfloor>x + 1 / 2\<rfloor>)"

text \<open>A number sent to a column \<open>NUMERIC(precision, scale)\<close>, in units of the last digit.\<close>

definition to_numeric :: "nat \<Rightarrow> nat \<Rightarrow> rat \<Rightarrow> int option" where
  "to_numeric precision scale x = (let u = half_away (text_value x * 10 ^ scale)
     in if 10 ^ precision \<le> \<bar>u\<bar> then None else Some u)"

end
