(* ===== verification/Treasury_Desk.thy ===== *)
theory Treasury_Desk
  imports Operational_Alerts Js_Numbers "HOL-Library.Char_ord" "HOL-Library.List_Lexorder"
begin

text \<open>
  The treasury and reporting desk of \<open>server/postgres.ts\<close>: liquidity positions, market
  observations, rebalancing recommendations and their independent decision, regulatory reports,
  counterparty risk assessments; and the observed spread of a currency pair
  (\<open>computePostgresFxSpread\<close> of \<open>server/operationalAlerts.ts\<close>). Amounts pass through JavaScript
  numbers on the way to the \<open>NUMERIC\<close> columns.
\<close>

section \<open>Observations\<close>

record liquidity_input =
  li_corridor :: corridor
  li_currency :: asset
  li_accountKind :: string
  li_accountReference :: string
  li_availableAmount :: string
  li_reservedAmount :: string
  li_sourceReference :: string
  li_reconciledAt :: instant

definition account_kinds :: "string list" where
  "account_kinds = [''liquidity_pool'', ''nostro'', ''vostro'', ''prefunding'', ''custody_wallet'']"

definition recordPostgresLiquidityPosition :: "env \<Rightarrow> actor \<Rightarrow> liquidity_input \<Rightarrow> uuid tx" where
  "recordPostgresLiquidityPosition e a i db =
    (let available = js_Number (li_availableAmount i); reserved = js_Number (li_reservedAmount i)
     in if \<not> js_finite available \<or> \<not> js_finite reserved \<or> js_value available < 0 \<or> js_value reserved < 0 then
          Inl (Refused ''Liquidity evidence must contain non-negative finite source-backed amounts'')
        else if js_now e < li_reconciledAt i then
          Inl (Refused ''Liquidity reconciliation timestamp cannot be in the future'')
        else case (to_numeric 30 12 (js_value available), to_numeric 30 12 (js_value reserved)) of
          (Some av, Some re) \<Rightarrow>
            if li_accountKind i \<notin> set account_kinds \<or> av < 0 \<or> re < 0 then Inl (CheckViolation ''liquidity_positions'')
            else if find_row lp_id (new_uuid e) (liquidity_positions db) \<noteq> None then Inl (UniqueViolation ''liquidity_positions'')
            else let row = \<lparr>lp_id = new_uuid e, lp_corridor = li_corridor i, lp_currency = li_currency i,
                       lp_account_kind = li_accountKind i, lp_account_reference = li_accountReference i,
                       lp_available_amount = av, lp_reserved_amount = re, lp_source_reference = li_sourceReference i,
                       lp_reconciled_at = li_reconciledAt i, lp_recorded_by = openId a\<rparr>
                 in Inr (lp_id row, insert_event e a ''liquidity_position.recorded'' ''liquidity_position'' (Some (lp_id row))
                      [(''corridor'', JStr (corridor_text (li_corridor i))), (''currency'', JStr (asset_text (li_currency i))),
                       (''accountKind'', JStr (li_accountKind i)), (''accountReference'', JStr (li_accountReference i)),
                       (''sourceReference'', JStr (li_sourceReference i)), (''reconciledAt'', JTime (li_reconciledAt i)),
                       (''transferInitiated'', JBool False)]
                      (db\<lparr>liquidity_positions := insert_row row (liquidity_positions db)\<rparr>))
        | _ \<Rightarrow> Inl (NumericOverflow ''liquidity_positions''))"

record observation_input =
  mi_integrationConnectionId :: uuid
  mi_baseAsset :: asset
  mi_quoteAsset :: asset
  mi_rate :: string
  mi_observedAt :: instant
  mi_sourceReference :: string

definition market_source :: "integration_connection \<Rightarrow> bool" where
  "market_source r \<longleftrightarrow> ic_category r \<in> set [''fx_rate'', ''stablecoin_market_data''] \<and> ic_state r = IN_active"

definition recordPostgresMarketObservation :: "env \<Rightarrow> actor \<Rightarrow> observation_input \<Rightarrow> uuid tx" where
  "recordPostgresMarketObservation e a i db =
    (let rate = js_Number (mi_rate i)
     in if \<not> js_finite rate \<or> js_value rate \<le> 0 \<or> mi_baseAsset i = mi_quoteAsset i then
          Inl (Refused ''Market observation requires a positive source-backed cross-asset rate'')
        else case find_row ic_id (mi_integrationConnectionId i) (integration_connections db) of
          None \<Rightarrow> Inl (Refused ''An active canonical FX or stablecoin market-data integration is required'')
        | Some source \<Rightarrow>
            if \<not> market_source source then
              Inl (Refused ''An active canonical FX or stablecoin market-data integration is required'')
            else case to_numeric 30 12 (js_value rate) of
              None \<Rightarrow> Inl (NumericOverflow ''market_observations'')
            | Some r \<Rightarrow>
                if r \<le> 0 then Inl (CheckViolation ''market_observations'')
                else if find_row mo_id (new_uuid e) (market_observations db) \<noteq> None then Inl (UniqueViolation ''market_observations'')
                else let row = \<lparr>mo_id = new_uuid e, mo_integration_connection_id = mi_integrationConnectionId i,
                           mo_base_asset = mi_baseAsset i, mo_quote_asset = mi_quoteAsset i, mo_rate = r,
                           mo_observed_at = mi_observedAt i, mo_source_reference = mi_sourceReference i\<rparr>
                     in Inr (mo_id row, insert_event e a ''market_observation.recorded'' ''market_observation'' (Some (mo_id row))
                          [(''integrationConnectionId'', jid (mi_integrationConnectionId i)),
                           (''baseAsset'', JStr (asset_text (mi_baseAsset i))), (''quoteAsset'', JStr (asset_text (mi_quoteAsset i))),
                           (''sourceReference'', JStr (mi_sourceReference i)), (''providerExecutionInitiated'', JBool False)]
                          (db\<lparr>market_observations := insert_row row (market_observations db)\<rparr>)))"

section \<open>Rebalancing recommendations\<close>

record recommendation_input =
  ti_bufferPolicyId :: uuid
  ti_reconciledAvailableBalance :: string
  ti_reconciledAt :: instant
  ti_balanceSourceReference :: string
  ti_verifiedNearTermFundingGap :: string
  ti_fundingGapSourceReference :: string
  ti_expiresAt :: instant

text \<open>\<open>Number(p.daily)\<close> and the like: the exact decimal text of a column, rounded.\<close>

definition column_number :: "nat \<Rightarrow> int \<Rightarrow> js_number" where
  "column_number scale x = fl (of_int x / 10 ^ scale)"

record sizing =
  sz_available :: js_number
  sz_gap :: js_number
  sz_daily :: js_number
  sz_minimum :: js_number
  sz_target :: js_number
  sz_cap :: js_number

definition recommendation_sizing :: "buffer_policy \<Rightarrow> recommendation_input \<Rightarrow> sizing" where
  "recommendation_sizing p i =
    (let daily = column_number 12 (bp_approved_daily_outflow p);
         target = js_lift (*) daily (column_number 6 (bp_target_buffer_pct p))
     in \<lparr>sz_available = js_Number (ti_reconciledAvailableBalance i), sz_gap = js_Number (ti_verifiedNearTermFundingGap i),
         sz_daily = daily, sz_minimum = js_lift (*) daily (column_number 6 (bp_minimum_buffer_pct p)), sz_target = target,
         sz_cap = js_lift (*) target (column_number 6 (bp_max_recommendation_pct_of_target p))\<rparr>)"

definition sizing_finite :: "sizing \<Rightarrow> bool" where
  "sizing_finite z \<longleftrightarrow> list_all js_finite [sz_available z, sz_gap z, sz_daily z, sz_minimum z, sz_target z, sz_cap z]"

definition recommendation_amount :: "sizing \<Rightarrow> rat" where
  "recommendation_amount z = max 0 (min (fl_value (js_value (sz_target z) - js_value (sz_available z)))
     (min (js_value (sz_cap z)) (js_value (sz_gap z))))"

text \<open>A number in JSON text.\<close>

definition jnumber :: "rat \<Rightarrow> json" where
  "jnumber x = (if of_int \<lfloor>x\<rfloor> = x then JNum \<lfloor>x\<rfloor> else JFrac (js_text x))"

definition recommendation_evidence :: "buffer_policy \<Rightarrow> recommendation_input \<Rightarrow> (string \<times> json) list" where
  "recommendation_evidence p i =
     [(''bufferPolicyId'', jid (ti_bufferPolicyId i)), (''approvedDailyOutflow'', JStr (numeric_text 12 (bp_approved_daily_outflow p))),
      (''minimumBufferPct'', JStr (numeric_text 6 (bp_minimum_buffer_pct p))),
      (''targetBufferPct'', JStr (numeric_text 6 (bp_target_buffer_pct p))),
      (''maxRecommendationPctOfTarget'', JStr (numeric_text 6 (bp_max_recommendation_pct_of_target p))),
      (''balanceSourceReference'', JStr (ti_balanceSourceReference i)),
      (''fundingGapSourceReference'', JStr (ti_fundingGapSourceReference i)),
      (''formula'', JStr ''min(target - available, target * cap_pct, verified_funding_gap)'')]"

definition recommendation_row ::
  "env \<Rightarrow> actor \<Rightarrow> buffer_policy \<Rightarrow> recommendation_input \<Rightarrow> sizing \<Rightarrow> treasury_recommendation option" where
  "recommendation_row e a p i z =
    (case (to_numeric 30 12 (js_value (sz_available z)), to_numeric 30 12 (js_value (sz_gap z)),
           to_numeric 30 12 (js_value (sz_minimum z)), to_numeric 30 12 (js_value (sz_target z)),
           to_numeric 30 12 (recommendation_amount z)) of
       (Some av, Some gap, Some mi, Some ta, Some am) \<Rightarrow>
         Some \<lparr>tr_id = new_uuid e, tr_buffer_policy_id = bp_id p, tr_corridor = bp_corridor p, tr_currency = bp_currency p,
           tr_reconciled_available_balance = av, tr_reconciled_at = ti_reconciledAt i,
           tr_balance_source_reference = ti_balanceSourceReference i, tr_verified_near_term_funding_gap = gap,
           tr_funding_gap_source_reference = ti_fundingGapSourceReference i, tr_minimum_buffer_amount = mi,
           tr_target_buffer_amount = ta, tr_computed_recommendation_amount = am, tr_status = TR_proposed,
           tr_proposed_by = openId a, tr_proposed_at = pg_now e, tr_decided_by = None, tr_decided_at = None,
           tr_decision_reason = None, tr_expires_at = ti_expiresAt i\<rparr>
     | _ \<Rightarrow> None)"

definition recommendation_checks :: "treasury_recommendation \<Rightarrow> bool" where
  "recommendation_checks r \<longleftrightarrow> 0 \<le> tr_reconciled_available_balance r \<and> 0 \<le> tr_verified_near_term_funding_gap r \<and>
     0 \<le> tr_minimum_buffer_amount r \<and> tr_minimum_buffer_amount r \<le> tr_target_buffer_amount r \<and>
     0 \<le> tr_computed_recommendation_amount r \<and> tr_proposed_at r < tr_expires_at r \<and>
     (tr_status r \<in> {TR_approved, TR_rejected} \<longleftrightarrow>
        tr_decided_by r \<noteq> None \<and> tr_decided_at r \<noteq> None \<and> tr_decision_reason r \<noteq> None)"

definition createPostgresTreasuryRecommendation ::
  "env \<Rightarrow> actor \<Rightarrow> recommendation_input \<Rightarrow> (uuid \<times> string \<times> string \<times> string) tx" where
  "createPostgresTreasuryRecommendation e a i db =
    (case find_row bp_id (ti_bufferPolicyId i) (treasury_buffer_policies db) of
       None \<Rightarrow> Inl (Refused ''Active approved treasury buffer policy is required'')
     | Some p \<Rightarrow>
         if js_now e < bp_effective_from p \<or> (case bp_effective_to p of None \<Rightarrow> False | Some t \<Rightarrow> t \<le> js_now e) then
           Inl (Refused ''Active approved treasury buffer policy is required'')
         else if js_now e < ti_reconciledAt i \<or> 86400000 < js_now e - ti_reconciledAt i then
           Inl (Refused ''Reconciled balance is unavailable or stale; recommendation generation fails closed'')
         else if ti_expiresAt i \<le> js_now e then Inl (Refused ''Recommendation expiry must be in the future'')
         else let z = recommendation_sizing p i
              in if \<not> sizing_finite z \<or> js_value (sz_available z) < 0 \<or> js_value (sz_gap z) < 0 then
                   Inl (Refused ''Invalid reconciled evidence; recommendation generation fails closed'')
                 else case recommendation_row e a p i z of
                   None \<Rightarrow> Inl (NumericOverflow ''treasury_rebalancing_recommendations'')
                 | Some row \<Rightarrow>
                     if \<not> recommendation_checks row then Inl (CheckViolation ''treasury_rebalancing_recommendations'')
                     else if find_row tr_id (new_uuid e) (treasury_recommendations db) \<noteq> None then
                       Inl (UniqueViolation ''treasury_rebalancing_recommendations'')
                     else Inr ((tr_id row, js_text (js_value (sz_minimum z)), js_text (js_value (sz_target z)),
                         js_text (recommendation_amount z)),
                       insert_event e a ''treasury_recommendation.proposed'' ''treasury_rebalancing_recommendation'' (Some (tr_id row))
                         (recommendation_evidence p i @
                           [(''recommendationAmount'', jnumber (recommendation_amount z)), (''executionInitiated'', JBool False)])
                         (db\<lparr>treasury_recommendations := insert_row row (treasury_recommendations db)\<rparr>)))"

definition decidePostgresTreasuryRecommendation ::
  "env \<Rightarrow> actor \<Rightarrow> uuid \<Rightarrow> bool \<Rightarrow> string \<Rightarrow> (uuid \<times> recommendation_status) tx" where
  "decidePostgresTreasuryRecommendation e a recommendationId approve decisionReason db =
    (case find_row tr_id recommendationId (treasury_recommendations db) of
       None \<Rightarrow> Inl (Refused ''Only proposed recommendations may be decided'')
     | Some record \<Rightarrow>
         if tr_status record \<noteq> TR_proposed then Inl (Refused ''Only proposed recommendations may be decided'')
         else if tr_proposed_by record = openId a then
           Inl (Refused ''Independent approval is required; proposer cannot decide recommendation'')
         else if tr_expires_at record \<le> js_now e then Inl (Refused ''Expired recommendation cannot be decided'')
         else let decision = (if approve then TR_approved else TR_rejected)
              in Inr ((recommendationId, decision),
                   insert_event e a (''treasury_recommendation.'' @ recommendation_status_text decision)
                     ''treasury_rebalancing_recommendation'' (Some recommendationId)
                     [(''decisionReason'', JStr decisionReason), (''executionInitiated'', JBool False)]
                     (db\<lparr>treasury_recommendations := update_row tr_id recommendationId
                        (\<lambda>r. r\<lparr>tr_status := decision, tr_decided_by := Some (openId a), tr_decided_at := Some (pg_now e),
                               tr_decision_reason := Some decisionReason\<rparr>) (treasury_recommendations db)\<rparr>)))"

section \<open>Regulatory reports\<close>

record report_input =
  qi_reportId :: uuid
  qi_report_status :: report_status
  qi_statusReason :: string
  qi_artifactUri :: "string option"
  qi_evidenceManifest :: "json option"
  qi_submissionReference :: "string option"

definition json_truthy :: "json \<Rightarrow> bool" where
  "json_truthy j \<longleftrightarrow> j \<notin> {JNull, JBool False, JNum 0, JStr ''''}"

text \<open>\<open>x ?? y\<close> on optional JSON: a JSON null counts as absent.\<close>

definition manifest_or :: "json option \<Rightarrow> json option \<Rightarrow> json option" where
  "manifest_or x y = (case x of None \<Rightarrow> y | Some JNull \<Rightarrow> y | Some v \<Rightarrow> Some v)"

definition text_or :: "string option \<Rightarrow> string option \<Rightarrow> string option" where
  "text_or x y = (case x of None \<Rightarrow> y | Some v \<Rightarrow> Some v)"

definition report_gates :: "regulatory_report \<Rightarrow> bool" where
  "report_gates r \<longleftrightarrow>
     (rr_status r \<in> {RS_under_review, RS_approved, RS_pending_submission, RS_submitted} \<longrightarrow>
        rr_artifact_uri r \<noteq> None \<and> rr_evidence_manifest r \<noteq> None) \<and>
     (rr_status r = RS_submitted \<longrightarrow>
        (case rr_submission_reference r of None \<Rightarrow> False | Some s \<Rightarrow> 0 < length (sql_trim s)))"

definition with_report :: "actor \<Rightarrow> report_input \<Rightarrow> regulatory_report \<Rightarrow> regulatory_report" where
  "with_report a i r = r\<lparr>rr_status := qi_report_status i, rr_artifact_uri := text_or (qi_artifactUri i) (rr_artifact_uri r),
     rr_evidence_manifest := Some (case manifest_or (qi_evidenceManifest i) (rr_evidence_manifest r) of None \<Rightarrow> JNull | Some v \<Rightarrow> v),
     rr_submission_reference := text_or (qi_submissionReference i) (rr_submission_reference r),
     rr_status_reason := Some (qi_statusReason i),
     rr_reviewed_by := (if qi_report_status i = RS_under_review then Some (openId a) else rr_reviewed_by r),
     rr_approved_by := (if qi_report_status i = RS_approved then Some (openId a) else rr_approved_by r)\<rparr>"

text \<open>The requested status is one of the five of the parameter's type.\<close>

definition reportable_states :: "report_status list" where
  "reportable_states = [RS_under_review, RS_approved, RS_pending_submission, RS_submitted, RS_rejected]"

definition transitionPostgresRegulatoryReport :: "env \<Rightarrow> actor \<Rightarrow> report_input \<Rightarrow> (uuid \<times> report_status) tx" where
  "transitionPostgresRegulatoryReport e a i db =
    (case find_row rr_id (qi_reportId i) (regulatory_reports db) of
       None \<Rightarrow> Inl (Refused ''Regulatory report was not found'')
     | Some report \<Rightarrow>
         let artifactUri = text_or (qi_artifactUri i) (rr_artifact_uri report);
             evidenceManifest = manifest_or (qi_evidenceManifest i) (rr_evidence_manifest report);
             artifact_missing = artifactUri \<in> {None, Some ''''};
             manifest_missing = (case evidenceManifest of None \<Rightarrow> True | Some j \<Rightarrow> \<not> json_truthy j)
         in if qi_report_status i \<in> {RS_under_review, RS_approved, RS_pending_submission, RS_submitted} \<and>
               (artifact_missing \<or> manifest_missing) then
              Inl (Refused ''Artifact URI and evidence manifest are required for the requested reporting workflow state'')
            else if qi_report_status i = RS_submitted \<and> qi_submissionReference i \<in> {None, Some ''''} then
              Inl (Refused ''Verified submission reference is required before a report can be marked submitted'')
            else if qi_report_status i = RS_approved \<and> role a \<noteq> Compliance_officer then
              Inl (Refused ''Only a compliance officer may approve a regulatory report'')
            else if \<not> report_gates (with_report a i report) then Inl (CheckViolation ''regulatory_reports'')
            else Inr ((qi_reportId i, qi_report_status i),
              insert_event e a (''regulatory_report.'' @ report_status_text (qi_report_status i)) ''regulatory_report''
                (Some (qi_reportId i))
                [(''statusReason'', JStr (qi_statusReason i)), (''hasArtifact'', JBool (\<not> artifact_missing)),
                 (''hasEvidenceManifest'', JBool (\<not> manifest_missing)),
                 (''submissionReferencePresent'', JBool (qi_submissionReference i \<notin> {None, Some ''''})),
                 (''providerSubmissionInitiated'', JBool False)]
                (db\<lparr>regulatory_reports := update_row rr_id (qi_reportId i) (with_report a i) (regulatory_reports db)\<rparr>)))"

definition createPostgresRegulatoryReport ::
  "env \<Rightarrow> actor \<Rightarrow> string \<Rightarrow> corridor \<Rightarrow> string \<Rightarrow> date \<Rightarrow> date \<Rightarrow> uuid \<Rightarrow> uuid tx" where
  "createPostgresRegulatoryReport e a regulator cor reportType periodStart periodEnd legalEntityId db =
    (if periodEnd < periodStart then Inl (Refused ''Report period end must not precede period start'')
     else if find_row le_id legalEntityId (legal_entities db) = None then Inl (Refused ''Legal entity was not found'')
     else if regulator \<notin> set [''CBN'', ''CBK'', ''SARB''] then Inl (CheckViolation ''regulatory_reports'')
     else if find_row rr_id (new_uuid e) (regulatory_reports db) \<noteq> None then Inl (UniqueViolation ''regulatory_reports'')
     else let row = \<lparr>rr_id = new_uuid e, rr_regulator = regulator, rr_corridor = cor, rr_report_type = reportType,
                rr_period_start = periodStart, rr_period_end = periodEnd, rr_legal_entity_id = legalEntityId,
                rr_status = RS_draft, rr_artifact_uri = None, rr_evidence_manifest = None, rr_submission_reference = None,
                rr_status_reason = None, rr_reviewed_by = None, rr_approved_by = None\<rparr>
          in Inr (rr_id row, insert_event e a ''regulatory_report.drafted'' ''regulatory_report'' (Some (rr_id row))
               [(''regulator'', JStr regulator), (''corridor'', JStr (corridor_text cor)), (''reportType'', JStr reportType)]
               (db\<lparr>regulatory_reports := insert_row row (regulatory_reports db)\<rparr>)))"

section \<open>Counterparty risk\<close>

record assessment_input =
  ki_counterpartyId :: uuid
  ki_riskLevel :: severity
  ki_riskScore :: string
  ki_assessedAt :: instant
  ki_nextReviewAt :: instant

text \<open>Risk factors and evidence manifest are stored as they come and never read back.\<close>

definition createPostgresCounterpartyRiskAssessment :: "env \<Rightarrow> actor \<Rightarrow> assessment_input \<Rightarrow> uuid tx" where
  "createPostgresCounterpartyRiskAssessment e a i db =
    (if ki_nextReviewAt i \<le> ki_assessedAt i then
       Inl (Refused ''Counterparty next review must follow the assessment timestamp'')
     else let score = js_Number (ki_riskScore i)
          in if \<not> js_finite score \<or> js_value score < 0 \<or> 100 < js_value score then
               Inl (Refused ''Counterparty risk score must be between 0 and 100'')
             else if find_row cp_id (ki_counterpartyId i) (counterparties db) = None then
               Inl (Refused ''Counterparty was not found'')
             else case to_numeric 5 2 (js_value score) of
               None \<Rightarrow> Inl (NumericOverflow ''counterparty_risk_assessments'')
             | Some s \<Rightarrow>
                 if s < 0 \<or> 10000 < s then Inl (CheckViolation ''counterparty_risk_assessments'')
                 else if find_row ra_id (new_uuid e) (risk_assessments db) \<noteq> None then
                   Inl (UniqueViolation ''counterparty_risk_assessments'')
                 else let row = \<lparr>ra_id = new_uuid e, ra_counterparty_id = ki_counterpartyId i, ra_risk_level = ki_riskLevel i,
                            ra_risk_score = s, ra_assessed_at = ki_assessedAt i, ra_next_review_at = ki_nextReviewAt i,
                            ra_assessed_by = openId a, ra_review_status = RV_current, ra_escalation_reason = None,
                            ra_escalated_by = None, ra_escalated_at = None\<rparr>
                      in Inr (ra_id row, insert_event e a ''counterparty_risk_assessment.created'' ''counterparty_risk_assessment''
                           (Some (ra_id row))
                           [(''counterpartyId'', jid (ki_counterpartyId i)), (''riskLevel'', JStr (severity_text (ki_riskLevel i))),
                            (''riskScore'', jnumber (js_value score)), (''nextReviewAt'', JTime (ki_nextReviewAt i))]
                           (db\<lparr>risk_assessments := insert_row row (risk_assessments db)\<rparr>)))"

definition escalatePostgresCounterpartyRiskAssessment :: "env \<Rightarrow> actor \<Rightarrow> uuid \<Rightarrow> string \<Rightarrow> uuid tx" where
  "escalatePostgresCounterpartyRiskAssessment e a assessmentId reason db =
    (case find_row ra_id assessmentId (risk_assessments db) of
       None \<Rightarrow> Inl (Refused ''Counterparty risk assessment was not found or is already escalated'')
     | Some r \<Rightarrow>
         if ra_review_status r = RV_escalated then
           Inl (Refused ''Counterparty risk assessment was not found or is already escalated'')
         else Inr (assessmentId,
           insert_event e a ''counterparty_risk_assessment.escalated'' ''counterparty_risk_assessment'' (Some assessmentId)
             [(''reason'', JStr reason)]
             (db\<lparr>risk_assessments := update_row ra_id assessmentId
                (\<lambda>r. r\<lparr>ra_review_status := RV_escalated, ra_escalation_reason := Some reason,
                       ra_escalated_by := Some (openId a), ra_escalated_at := Some (pg_now e)\<rparr>) (risk_assessments db)\<rparr>)))"

definition review_due :: "instant \<Rightarrow> risk_assessment \<Rightarrow> bool" where
  "review_due now r \<longleftrightarrow> ra_review_status r = RV_current \<and> ra_next_review_at r \<le> now"

definition reviewed :: "instant \<Rightarrow> risk_assessment \<Rightarrow> risk_assessment" where
  "reviewed now r = (if review_due now r
     then r\<lparr>ra_review_status := (if ra_next_review_at r < now then RV_overdue else RV_due)\<rparr> else r)"

definition record_review :: "env \<Rightarrow> actor \<Rightarrow> instant \<Rightarrow> risk_assessment \<Rightarrow> db \<Rightarrow> db" where
  "record_review e a now r = insert_event e a (''counterparty_risk_assessment.'' @ review_status_text (ra_review_status r))
     ''counterparty_risk_assessment'' (Some (ra_id r)) [(''evaluatedAt'', JTime now)]"

definition evaluatePostgresCounterpartyRiskReviews :: "env \<Rightarrow> actor \<Rightarrow> instant \<Rightarrow> (nat \<times> nat \<times> nat) tx" where
  "evaluatePostgresCounterpartyRiskReviews e a now db =
    (let rows = map (reviewed now) (filter (review_due now) (risk_assessments db));
         db1 = db\<lparr>risk_assessments := map (reviewed now) (risk_assessments db)\<rparr>
     in Inr ((length rows, length (filter (\<lambda>r. ra_review_status r = RV_due) rows),
              length (filter (\<lambda>r. ra_review_status r = RV_overdue) rows)),
            fold (record_review e a now) rows db1))"

section \<open>Observed spread\<close>

text \<open>\<open>LIKE\<close>: \<open>%\<close> matches any text, \<open>_\<close> any character, a backslash quotes the next character.\<close>

fun sql_like :: "string \<Rightarrow> string \<Rightarrow> bool" where
  "sql_like [] s \<longleftrightarrow> s = []"
| "sql_like (c # p) s \<longleftrightarrow>
    (if c = CHR ''%'' then list_ex (sql_like p) (suffixes s)
     else if c = CHR ''_'' then s \<noteq> [] \<and> sql_like p (tl s)
     else if c = CHR 0x5C then (case p of [] \<Rightarrow> False | d # q \<Rightarrow> s \<noteq> [] \<and> hd s = d \<and> sql_like q (tl s))
     else s \<noteq> [] \<and> hd s = c \<and> sql_like p (tl s))"

record spread_result =
  sp_bid :: rat
  sp_ask :: rat
  sp_mid :: rat
  sp_spreadBasisPoints :: rat
  sp_observationCount :: nat
  sp_sourceReferences :: "string list"
  sp_windowStart :: instant
  sp_windowEnd :: instant

definition spread_rows :: "instant \<Rightarrow> int \<Rightarrow> asset \<Rightarrow> asset \<Rightarrow> string option \<Rightarrow> db \<Rightarrow> market_observation list" where
  "spread_rows windowEnd windowMinutes baseAsset quoteAsset sourcePrefix db =
     filter (\<lambda>m. mo_base_asset m = baseAsset \<and> mo_quote_asset m = quoteAsset \<and>
       windowEnd - windowMinutes * 60000 \<le> mo_observed_at m \<and> mo_observed_at m \<le> windowEnd \<and>
       (case sourcePrefix of None \<Rightarrow> True | Some p \<Rightarrow> sql_like (p @ ''%'') (mo_source_reference m))) (market_observations db)"

text \<open>
  The numbers of a \<open>SpreadResult\<close>; their texts are \<open>js_text\<close> of bid, ask and mid, and the basis
  points with four decimals.
\<close>

definition spread_numbers :: "rat list \<Rightarrow> rat \<times> rat \<times> rat \<times> rat" where
  "spread_numbers rates = (let bid = Min (set rates); ask = Max (set rates);
       mid = fl_value (fl_value (bid + ask) / 2)
     in (bid, ask, mid, fl_value (fl_value (fl_value (ask - bid) / mid) * 10000)))"

definition computePostgresFxSpread ::
  "env \<Rightarrow> asset \<Rightarrow> asset \<Rightarrow> instant option \<Rightarrow> int option \<Rightarrow> string option \<Rightarrow> db \<Rightarrow> spread_result option" where
  "computePostgresFxSpread e baseAsset quoteAsset nowOption windowOption sourcePrefix db =
    (let windowMinutes = case_option 60 id windowOption; windowEnd = case_option (pg_now e) id nowOption;
         rows = spread_rows windowEnd windowMinutes baseAsset quoteAsset sourcePrefix db;
         sources = remdups (map mo_source_reference rows)
     in if length rows < 2 \<or> length sources < 2 then None
        else case spread_numbers (map (\<lambda>m. js_value (column_number 12 (mo_rate m))) rows) of (bid, ask, mid, bps) \<Rightarrow>
          Some \<lparr>sp_bid = bid, sp_ask = ask, sp_mid = mid, sp_spreadBasisPoints = bps, sp_observationCount = length rows,
            sp_sourceReferences = sort sources, sp_windowStart = windowEnd - windowMinutes * 60000, sp_windowEnd = windowEnd\<rparr>)"

section \<open>Steps and invariant\<close>

inductive desk_step :: "db \<Rightarrow> db \<Rightarrow> bool" where
  position_recorded: "recordPostgresLiquidityPosition e a li db = Inr (r1, db') \<Longrightarrow> desk_step db db'"
| observation_recorded: "recordPostgresMarketObservation e a mi db = Inr (r1, db') \<Longrightarrow> desk_step db db'"
| recommendation_proposed: "createPostgresTreasuryRecommendation e a ti db = Inr (r2, db') \<Longrightarrow> desk_step db db'"
| recommendation_decided: "decidePostgresTreasuryRecommendation e a k d s db = Inr (r3, db') \<Longrightarrow> desk_step db db'"
| report_moved: "qi_report_status ri \<in> set reportable_states \<Longrightarrow>
    transitionPostgresRegulatoryReport e a ri db = Inr (r4, db') \<Longrightarrow> desk_step db db'"
| report_drafted: "createPostgresRegulatoryReport e a g c t ps pe k db = Inr (r1, db') \<Longrightarrow> desk_step db db'"
| risk_assessed: "createPostgresCounterpartyRiskAssessment e a ki db = Inr (r1, db') \<Longrightarrow> desk_step db db'"
| risk_escalated: "escalatePostgresCounterpartyRiskAssessment e a k s db = Inr (r1, db') \<Longrightarrow> desk_step db db'"
| reviews_evaluated: "evaluatePostgresCounterpartyRiskReviews e a n db = Inr (r5, db') \<Longrightarrow> desk_step db db'"

section \<open>What a step of the desk writes\<close>

definition desk_frame :: "db \<Rightarrow> db \<Rightarrow> bool" where
  "desk_frame db db' \<longleftrightarrow> (\<exists>lp mo tr rr ra log. prefix (activity_events db) log \<and>
     db' = db\<lparr>liquidity_positions := lp, market_observations := mo, treasury_recommendations := tr,
       regulatory_reports := rr, risk_assessments := ra, activity_events := log\<rparr>)"

lemma desk_frame_eq:
  "desk_frame db db' \<longleftrightarrow> prefix (activity_events db) (activity_events db') \<and>
     db' = db\<lparr>liquidity_positions := liquidity_positions db', market_observations := market_observations db',
       treasury_recommendations := treasury_recommendations db', regulatory_reports := regulatory_reports db',
       risk_assessments := risk_assessments db', activity_events := activity_events db'\<rparr>"
  unfolding desk_frame_def by (rule iffI, clarsimp, blast)

lemma desk_frame_event: "desk_frame db db' \<Longrightarrow> desk_frame db (insert_event e a ac ot oi md db')"
  unfolding desk_frame_def insert_event_def by (clarsimp, intro exI conjI, rule prefix_prefix, assumption, rule refl)

lemma desk_frame_tables:
  "desk_frame db (db\<lparr>liquidity_positions := lp\<rparr>)" "desk_frame db (db\<lparr>market_observations := mo\<rparr>)"
  "desk_frame db (db\<lparr>treasury_recommendations := tr\<rparr>)" "desk_frame db (db\<lparr>regulatory_reports := rr\<rparr>)"
  "desk_frame db (db\<lparr>risk_assessments := ra\<rparr>)"
  by (simp_all add: desk_frame_eq)

lemma desk_frame_fold: "desk_frame db db1 \<Longrightarrow> desk_frame db (fold (record_review e a now) rows db1)"
  by (induction rows arbitrary: db1) (simp_all add: record_review_def desk_frame_event)

lemma record_review_tables:
  "risk_assessments (fold (record_review e a now) rows db1) = risk_assessments db1"
  "treasury_recommendations (fold (record_review e a now) rows db1) = treasury_recommendations db1"
  "regulatory_reports (fold (record_review e a now) rows db1) = regulatory_reports db1"
  "market_observations (fold (record_review e a now) rows db1) = market_observations db1"
  "liquidity_positions (fold (record_review e a now) rows db1) = liquidity_positions db1"
  by (induction rows arbitrary: db1) (simp_all add: record_review_def)

lemma liquidity_effect:
  assumes "recordPostgresLiquidityPosition e a i db = Inr (k, db')"
  shows "desk_frame db db' \<and> market_observations db' = market_observations db \<and>
    treasury_recommendations db' = treasury_recommendations db \<and> regulatory_reports db' = regulatory_reports db"
  using assms unfolding recordPostgresLiquidityPosition_def Let_def
  by (clarsimp simp: desk_frame_event desk_frame_tables split: if_split_asm option.splits)

lemma to_numeric_range: "to_numeric p q x = Some u \<Longrightarrow> u < 10 ^ p"
  by (auto simp: to_numeric_def Let_def split: if_splits)

lemma observation_effect:
  assumes "recordPostgresMarketObservation e a i db = Inr (k, db')"
  shows "desk_frame db db' \<and> treasury_recommendations db' = treasury_recommendations db \<and> regulatory_reports db' = regulatory_reports db
    \<and> (\<exists>r. market_observations db' = insert_row r (market_observations db) \<and> mo_id r \<notin> mo_id ` set (market_observations db) \<and>
          0 < mo_rate r \<and> mo_rate r < 10 ^ 30 \<and> mo_base_asset r \<noteq> mo_quote_asset r)"
  using assms unfolding recordPostgresMarketObservation_def Let_def
  by (clarsimp simp: desk_frame_event desk_frame_tables find_row_None split: if_split_asm option.splits)
     (intro exI conjI, rule refl, simp_all, drule to_numeric_range, simp)

lemma proposal_effect:
  assumes "createPostgresTreasuryRecommendation e a i db = Inr (x, db')"
  shows "desk_frame db db' \<and> market_observations db' = market_observations db \<and> regulatory_reports db' = regulatory_reports db
    \<and> (\<exists>r. treasury_recommendations db' = insert_row r (treasury_recommendations db) \<and>
          tr_id r \<notin> tr_id ` set (treasury_recommendations db) \<and> recommendation_checks r \<and> tr_status r = TR_proposed \<and>
          tr_decided_by r = None)"
proof -
  from assms obtain r p z where
    row: "recommendation_row e a p i z = Some r" and ok: "recommendation_checks r"
      "find_row tr_id (new_uuid e) (treasury_recommendations db) = None"
    and tab: "treasury_recommendations db' = insert_row r (treasury_recommendations db)" and fr: "desk_frame db db'"
      "market_observations db' = market_observations db" "regulatory_reports db' = regulatory_reports db"
    unfolding createPostgresTreasuryRecommendation_def Let_def
    by (clarsimp simp: desk_frame_event desk_frame_tables split: if_split_asm option.splits)
  have "tr_id r = new_uuid e" "tr_status r = TR_proposed" "tr_decided_by r = None"
    using row by (auto simp: recommendation_row_def split: option.splits)
  with ok tab fr show ?thesis by (intro conjI exI [of _ r]) (simp_all add: find_row_None)
qed

definition decided :: "env \<Rightarrow> actor \<Rightarrow> bool \<Rightarrow> string \<Rightarrow> treasury_recommendation \<Rightarrow> treasury_recommendation" where
  "decided e a d s r = r\<lparr>tr_status := (if d then TR_approved else TR_rejected), tr_decided_by := Some (openId a),
     tr_decided_at := Some (pg_now e), tr_decision_reason := Some s\<rparr>"

lemma decision_effect:
  assumes "decidePostgresTreasuryRecommendation e a k d s db = Inr (x, db')"
  shows "desk_frame db db' \<and> market_observations db' = market_observations db \<and> regulatory_reports db' = regulatory_reports db
    \<and> treasury_recommendations db' = update_row tr_id k (decided e a d s) (treasury_recommendations db)
    \<and> (\<exists>r. find_row tr_id k (treasury_recommendations db) = Some r \<and> tr_status r = TR_proposed \<and>
          tr_proposed_by r \<noteq> openId a \<and> js_now e < tr_expires_at r)"
  using assms unfolding decidePostgresTreasuryRecommendation_def Let_def decided_def
  by (clarsimp simp: desk_frame_event desk_frame_tables split: if_split_asm option.splits)

lemma report_move_effect:
  assumes "transitionPostgresRegulatoryReport e a i db = Inr (x, db')"
  shows "desk_frame db db' \<and> market_observations db' = market_observations db
    \<and> treasury_recommendations db' = treasury_recommendations db
    \<and> regulatory_reports db' = update_row rr_id (qi_reportId i) (with_report a i) (regulatory_reports db)
    \<and> (\<exists>r. find_row rr_id (qi_reportId i) (regulatory_reports db) = Some r \<and> report_gates (with_report a i r))"
  using assms unfolding transitionPostgresRegulatoryReport_def Let_def
  by (clarsimp simp: desk_frame_event desk_frame_tables split: if_split_asm option.splits)

lemma report_draft_effect:
  assumes "createPostgresRegulatoryReport e a g c t ps pe k db = Inr (x, db')"
  shows "desk_frame db db' \<and> market_observations db' = market_observations db
    \<and> treasury_recommendations db' = treasury_recommendations db
    \<and> (\<exists>r. regulatory_reports db' = insert_row r (regulatory_reports db) \<and> rr_id r \<notin> rr_id ` set (regulatory_reports db) \<and>
          report_gates r)"
  using assms unfolding createPostgresRegulatoryReport_def Let_def
  by (clarsimp simp: desk_frame_event desk_frame_tables find_row_None split: if_split_asm)
     (intro exI conjI, rule refl, simp_all add: report_gates_def)

lemma risk_effect:
  "createPostgresCounterpartyRiskAssessment e a ki db = Inr (x, db') \<Longrightarrow> desk_frame db db' \<and>
    market_observations db' = market_observations db \<and> treasury_recommendations db' = treasury_recommendations db \<and>
    regulatory_reports db' = regulatory_reports db"
  "escalatePostgresCounterpartyRiskAssessment e a k s db = Inr (x, db') \<Longrightarrow> desk_frame db db' \<and>
    market_observations db' = market_observations db \<and> treasury_recommendations db' = treasury_recommendations db \<and>
    regulatory_reports db' = regulatory_reports db"
  "evaluatePostgresCounterpartyRiskReviews e a n db = Inr (y, db') \<Longrightarrow> desk_frame db db' \<and>
    market_observations db' = market_observations db \<and> treasury_recommendations db' = treasury_recommendations db \<and>
    regulatory_reports db' = regulatory_reports db"
  unfolding createPostgresCounterpartyRiskAssessment_def escalatePostgresCounterpartyRiskAssessment_def
    evaluatePostgresCounterpartyRiskReviews_def Let_def
  by (clarsimp simp: desk_frame_event desk_frame_tables desk_frame_fold record_review_tables split: if_split_asm option.splits)+

lemma desk_step_frame: "desk_step db db' \<Longrightarrow> desk_frame db db'"
  by (erule desk_step.cases)
     (blast dest: liquidity_effect observation_effect proposal_effect decision_effect report_move_effect
       report_draft_effect risk_effect)+

section \<open>Invariant\<close>

definition independent :: "treasury_recommendation \<Rightarrow> bool" where
  "independent r \<longleftrightarrow> recommendation_checks r \<and> (\<forall>s \<in> set_option (tr_decided_by r). s \<noteq> tr_proposed_by r)"

definition desk_inv :: "db \<Rightarrow> bool" where
  "desk_inv db \<longleftrightarrow> distinct_keys mo_id (market_observations db) \<and> distinct_keys tr_id (treasury_recommendations db) \<and>
     distinct_keys rr_id (regulatory_reports db) \<and>
     (\<forall>r \<in> set (market_observations db). 0 < mo_rate r \<and> mo_rate r < 10 ^ 30 \<and> mo_base_asset r \<noteq> mo_quote_asset r) \<and>
     (\<forall>r \<in> set (treasury_recommendations db). independent r) \<and>
     (\<forall>r \<in> set (regulatory_reports db). report_gates r)"

lemma desk_inv_cong:
  "market_observations db' = market_observations db \<Longrightarrow> treasury_recommendations db' = treasury_recommendations db \<Longrightarrow>
   regulatory_reports db' = regulatory_reports db \<Longrightarrow> desk_inv db \<Longrightarrow> desk_inv db'"
  by (simp add: desk_inv_def)

lemma desk_step_inv:
  assumes inv: "desk_inv db" and "desk_step db db'"
  shows "desk_inv db'"
  using assms(2)
proof cases
  case position_recorded
  from liquidity_effect [OF this] show ?thesis using inv by (blast intro: desk_inv_cong)
next
  case observation_recorded
  from observation_effect [OF this] show ?thesis using inv by (auto simp: desk_inv_def table_simps)
next
  case (recommendation_proposed e a ti r2)
  from proposal_effect [OF this] obtain r where
    eff: "market_observations db' = market_observations db" "regulatory_reports db' = regulatory_reports db"
      "treasury_recommendations db' = insert_row r (treasury_recommendations db)"
      "tr_id r \<notin> tr_id ` set (treasury_recommendations db)" "recommendation_checks r" "tr_decided_by r = None" by blast
  with inv eff show ?thesis by (auto simp: desk_inv_def table_simps independent_def)
next
  case (recommendation_decided e a k d s r3)
  from decision_effect [OF this] obtain r where
    eff: "market_observations db' = market_observations db" "regulatory_reports db' = regulatory_reports db"
      "treasury_recommendations db' = update_row tr_id k (decided e a d s) (treasury_recommendations db)"
      "find_row tr_id k (treasury_recommendations db) = Some r" "tr_status r = TR_proposed" "tr_proposed_by r \<noteq> openId a" by blast
  have keys: "distinct_keys tr_id (treasury_recommendations db)" using inv by (simp add: desk_inv_def)
  have "independent (decided e a d s x)" if "x \<in> set (treasury_recommendations db)" "tr_id x = k" for x
  proof -
    have "x = r" by (rule unique_row [OF keys eff(4) that])
    moreover have "independent x" using inv that by (simp add: desk_inv_def)
    ultimately show ?thesis using eff(5,6) by (auto simp: independent_def decided_def recommendation_checks_def)
  qed
  with inv eff show ?thesis
    by (auto simp: desk_inv_def set_update_row map_update_row decided_def)
next
  case (report_moved ri e a r4)
  from report_move_effect [OF report_moved(2)] obtain r where
    eff: "market_observations db' = market_observations db" "treasury_recommendations db' = treasury_recommendations db"
      "regulatory_reports db' = update_row rr_id (qi_reportId ri) (with_report a ri) (regulatory_reports db)"
      "find_row rr_id (qi_reportId ri) (regulatory_reports db) = Some r" "report_gates (with_report a ri r)" by blast
  have keys: "distinct_keys rr_id (regulatory_reports db)" using inv by (simp add: desk_inv_def)
  have "report_gates (with_report a ri x)" if "x \<in> set (regulatory_reports db)" "rr_id x = qi_reportId ri" for x
    using unique_row [OF keys eff(4) that] eff(5) by simp
  with inv eff show ?thesis
    by (auto simp: desk_inv_def set_update_row map_update_row with_report_def)
next
  case report_drafted
  from report_draft_effect [OF this] show ?thesis using inv by (auto simp: desk_inv_def table_simps)
next
  case risk_assessed
  from risk_effect(1) [OF this] show ?thesis using inv by (blast intro: desk_inv_cong)
next
  case risk_escalated
  from risk_effect(2) [OF this] show ?thesis using inv by (blast intro: desk_inv_cong)
next
  case reviews_evaluated
  from risk_effect(3) [OF this] show ?thesis using inv by (blast intro: desk_inv_cong)
qed

end
