(* ===== verification/Js_Rounding.thy ===== *)
theory Js_Rounding
  imports Js_Numbers
begin

text \<open>
  Laws of the 64-bit rounding of positive numbers: it is monotone, it leaves representable numbers
  (those with a 53-bit significand) alone, and its result is representable. Whole numbers below
  \<open>2 ^ 53\<close> are read, written and stored exactly.
\<close>

section \<open>The binary exponent\<close>

lemma bitlen_powi: "0 < a \<Longrightarrow> 2 powi (bitlen a - 1) \<le> (of_int a :: rat) \<and> (of_int a :: rat) < 2 powi (bitlen a)"
proof -
  assume "0 < a"
  then have b: "2 ^ nat (bitlen a - 1) \<le> a" "a < 2 ^ nat (bitlen a)" "0 < bitlen a"
    using bitlen_bounds [of a] bitlen_nonneg [of a] bitlen_eq_zero_iff [of a] by auto
  have "of_int (2 ^ nat (bitlen a - 1)) \<le> (of_int a :: rat)" "(of_int a :: rat) < of_int (2 ^ nat (bitlen a))"
    using b(1,2) by (simp_all only: of_int_le_iff of_int_less_iff)
  then show ?thesis using b(3) by (simp add: power_int_def)
qed

lemma ilog2_bounds:
  assumes "0 < x"
  shows "2 powi (ilog2 x) \<le> x \<and> x < 2 powi (ilog2 x + 1)"
proof -
  obtain a b where q: "quotient_of x = (a, b)" by (cases "quotient_of x")
  have b: "0 < b" and x: "x = of_int a / of_int b" using quotient_of_denom_pos [OF q] quotient_of_div [OF q] by simp_all
  with assms have a: "0 < a" by (simp add: zero_less_divide_iff)
  let ?k = "bitlen a - bitlen b"
  note la = bitlen_powi [OF a] and lb = bitlen_powi [OF b]
  have "x < 2 powi (?k + 1)"
  proof -
    have "of_int a / (of_int b :: rat) < 2 powi (bitlen a) / 2 powi (bitlen b - 1)"
      using la lb a b by (intro frac_less) auto
    also have "\<dots> = 2 powi (?k + 1)" by (simp add: power_int_diff power_int_add field_simps)
    finally show ?thesis unfolding x .
  qed
  moreover have "2 powi (?k - 1) \<le> x"
  proof -
    have "2 powi (?k - 1) = (2 powi (bitlen a - 1) :: rat) / 2 powi (bitlen b)"
      using power_int_diff [of "2 :: rat" "bitlen a - 1" "bitlen b"] by (simp add: algebra_simps)
    also have "\<dots> \<le> of_int a / of_int b" using la lb a b by (intro frac_le) auto
    finally show ?thesis unfolding x .
  qed
  ultimately show ?thesis unfolding ilog2_def q by (simp add: Let_def)
qed

lemma powi_mono2: "i \<le> j \<Longrightarrow> (2 :: rat) powi i \<le> 2 powi j"
  by (simp add: power_int_increasing)

lemma ilog2_le: "0 < x \<Longrightarrow> x < 2 powi k \<Longrightarrow> ilog2 x < k"
  using ilog2_bounds [of x] powi_mono2 [of k "ilog2 x"] by linarith

lemma ilog2_mono: "0 < x \<Longrightarrow> x \<le> y \<Longrightarrow> ilog2 x \<le> ilog2 y"
  using ilog2_le [of x "ilog2 y + 1"] ilog2_bounds [of y] by linarith

lemma ilog2_unique: "0 < x \<Longrightarrow> 2 powi k \<le> x \<Longrightarrow> x < 2 powi (k + 1) \<Longrightarrow> ilog2 x = k"
  using ilog2_le [of x "k + 1"] ilog2_bounds [of x] powi_mono2 [of "ilog2 x + 1" k] by linarith

section \<open>Rounding to an integer\<close>

lemma round_even_of_int [simp]: "round_even (of_int n) = n"
  by (simp add: round_even_def)

lemma round_even_mono: "x \<le> y \<Longrightarrow> round_even x \<le> round_even y"
proof (cases "\<lfloor>x\<rfloor> = \<lfloor>y\<rfloor>")
  case False
  assume "x \<le> y"
  with False have "\<lfloor>x\<rfloor> + 1 \<le> \<lfloor>y\<rfloor>" using floor_mono [of x y] by linarith
  then show ?thesis unfolding round_even_def Let_def by (auto split: if_splits)
qed (auto simp: round_even_def Let_def)

lemma round_even_ge: "of_int n \<le> x \<Longrightarrow> n \<le> round_even x"
  using round_even_mono [of "of_int n" x] by simp

lemma round_even_le: "x \<le> of_int n \<Longrightarrow> round_even x \<le> n"
  using round_even_mono [of x "of_int n"] by simp

section \<open>Representable numbers\<close>

definition representable :: "rat \<Rightarrow> bool" where
  "representable x \<longleftrightarrow> (\<exists>m e. 0 \<le> m \<and> m < 2 ^ 53 \<and> - 1074 \<le> e \<and> x = of_int m * 2 powi e)"

lemma representable_0 [simp]: "representable 0"
  unfolding representable_def by (intro exI [of _ 0]) simp

lemma representable_double: "representable x \<Longrightarrow> representable (2 * x)"
proof -
  assume "representable x"
  then obtain m e where m: "0 \<le> m" "m < 2 ^ 53" "- 1074 \<le> e" "x = of_int m * 2 powi e" by (auto simp: representable_def)
  then have "2 * x = of_int m * 2 powi (e + 1)" by (simp add: power_int_add)
  with m show ?thesis unfolding representable_def by (intro exI [of _ m] exI [of _ "e + 1"]) simp
qed

text \<open>The significand of a positive number before it is rounded.\<close>

lemma scaled_bounds:
  assumes "0 < x"
  shows "x / 2 powi (ulp_exponent x) < 2 ^ 53"
    and "- 1074 < ulp_exponent x \<Longrightarrow> 2 ^ 52 \<le> x / 2 powi (ulp_exponent x)"
proof -
  note b = ilog2_bounds [OF assms]
  have u: "ilog2 x - 52 \<le> ulp_exponent x" using assms by (simp add: ulp_exponent_def)
  have "x < 2 powi (ilog2 x + 1)" using b by simp
  also have "\<dots> \<le> 2 powi (53 + ulp_exponent x)" using u by (intro powi_mono2) simp
  also have "\<dots> = 2 ^ 53 * 2 powi (ulp_exponent x)" by (simp add: power_int_add)
  finally show "x / 2 powi (ulp_exponent x) < 2 ^ 53" by (simp add: divide_less_eq)
  assume "- 1074 < ulp_exponent x"
  with assms have "ilog2 x = 52 + ulp_exponent x" by (auto simp: ulp_exponent_def)
  with b have "2 ^ 52 * 2 powi (ulp_exponent x) \<le> x" by (simp add: power_int_add)
  then show "2 ^ 52 \<le> x / 2 powi (ulp_exponent x)" by (simp add: le_divide_eq)
qed

lemma fl_value_pos: "0 < x \<Longrightarrow> fl_value x = of_int (round_even (x / 2 powi (ulp_exponent x))) * 2 powi (ulp_exponent x)"
  by (simp add: fl_value_def Let_def)

lemma significand_bounds:
  assumes "0 < x"
  shows "0 \<le> round_even (x / 2 powi (ulp_exponent x))" and "round_even (x / 2 powi (ulp_exponent x)) \<le> 2 ^ 53"
  using scaled_bounds(1) [OF assms] assms by (intro round_even_ge round_even_le; simp)+

lemma fl_value_representable:
  assumes "0 \<le> x"
  shows "representable (fl_value x)"
proof (cases "x = 0")
  case False
  let ?u = "ulp_exponent x" and ?m = "round_even (x / 2 powi (ulp_exponent x))"
  from False assms have x: "0 < x" by simp
  have u: "- 1074 \<le> ?u" by (simp add: ulp_exponent_def)
  note eq = fl_value_pos [OF x]
  show ?thesis
  proof (cases "?m = 2 ^ 53")
    case True
    have "(of_int (2 ^ 53) :: rat) * 2 powi ?u = of_int (2 ^ 52) * 2 powi (?u + 1)" by (simp add: power_int_add)
    then have "fl_value x = of_int (2 ^ 52) * 2 powi (?u + 1)" unfolding eq True .
    moreover have "(0 :: int) \<le> 2 ^ 52" "(2 :: int) ^ 52 < 2 ^ 53" "- 1074 \<le> ?u + 1" using u by simp_all
    ultimately show ?thesis unfolding representable_def by blast
  next
    case False
    with significand_bounds [OF x] have "0 \<le> ?m" "?m < 2 ^ 53" by linarith+
    with u eq show ?thesis unfolding representable_def by blast
  qed
qed (simp add: fl_value_def)

lemma fl_value_exact:
  assumes "representable x"
  shows "fl_value x = x"
proof (cases "x = 0")
  case False
  obtain m e where m: "0 \<le> m" "m < 2 ^ 53" "- 1074 \<le> e" "x = of_int m * 2 powi e"
    using assms by (auto simp: representable_def)
  with False have "0 < m" by (cases "m = 0") auto
  then have x: "0 < x" unfolding m(4) by simp
  have "(of_int m :: rat) < 2 ^ 53" using m(2) by (metis of_int_less_iff of_int_numeral of_int_power)
  then have "x < 2 powi (53 + e)" unfolding m(4) by (simp add: power_int_add)
  then have u: "ulp_exponent x \<le> e" using ilog2_le [OF x] m(3) x by (simp add: ulp_exponent_def) force
  let ?n = "m * 2 ^ nat (e - ulp_exponent x)"
  have "x / 2 powi (ulp_exponent x) = of_int m * 2 powi (e - ulp_exponent x)" unfolding m(4) by (simp add: power_int_diff)
  also have "\<dots> = of_int ?n" using u by (simp add: power_int_def)
  finally have n: "x / 2 powi (ulp_exponent x) = of_int ?n" .
  then have "x = of_int ?n * 2 powi (ulp_exponent x)" by (simp add: field_simps)
  then show ?thesis unfolding fl_value_pos [OF x] n round_even_of_int by (rule sym)
qed (simp add: fl_value_def)

lemma fl_value_nonneg: "0 \<le> x \<Longrightarrow> 0 \<le> fl_value x"
  using significand_bounds(1) [of x] fl_value_pos [of x] by (cases "x = 0") (simp_all add: fl_value_def)

lemma fl_value_mono:
  assumes "0 \<le> x" "x \<le> y"
  shows "fl_value x \<le> fl_value y"
proof (cases "x = 0")
  case True
  with assms show ?thesis using fl_value_nonneg [of y] by (simp add: fl_value_def)
next
  case False
  with assms have x: "0 < x" and y: "0 < y" by simp_all
  let ?u = "ulp_exponent x" and ?v = "ulp_exponent y"
  have le: "?u \<le> ?v" using ilog2_mono [OF x assms(2)] x y by (auto simp: ulp_exponent_def)
  show ?thesis
  proof (cases "?u = ?v")
    case True
    have "round_even (x / 2 powi ?v) \<le> round_even (y / 2 powi ?v)"
      using assms by (intro round_even_mono divide_right_mono) simp_all
    then have "of_int (round_even (x / 2 powi ?v)) * 2 powi ?v \<le> (of_int (round_even (y / 2 powi ?v)) * 2 powi ?v :: rat)"
      by (intro mult_right_mono) simp_all
    then show ?thesis using True x y by (simp add: fl_value_pos)
  next
    case False
    with le have lt: "?u + 1 \<le> ?v" by simp
    moreover have "- 1074 \<le> ?u" by (simp add: ulp_exponent_def)
    ultimately have v: "- 1074 < ?v" by simp
    have "fl_value x \<le> of_int (2 ^ 53) * 2 powi ?u"
      unfolding fl_value_pos [OF x] using significand_bounds(2) [OF x] by (intro mult_right_mono) (simp_all only: of_int_le_iff, simp)
    also have "\<dots> = 2 ^ 52 * 2 powi (?u + 1)" by (simp add: power_int_add)
    also have "\<dots> \<le> 2 ^ 52 * 2 powi ?v" using powi_mono2 [OF lt] by simp
    also have "\<dots> \<le> of_int (round_even (y / 2 powi ?v)) * 2 powi ?v"
    proof (rule mult_right_mono)
      have "2 ^ 52 \<le> round_even (y / 2 powi ?v)" using scaled_bounds(2) [OF y v] by (intro round_even_ge) simp
      then have "of_int (2 ^ 52) \<le> (of_int (round_even (y / 2 powi ?v)) :: rat)" by (simp only: of_int_le_iff)
      then show "2 ^ 52 \<le> (of_int (round_even (y / 2 powi ?v)) :: rat)" by simp
    qed simp
    finally show ?thesis by (simp add: fl_value_pos [OF y])
  qed
qed

text \<open>The midpoint that the code computes lies between its ends.\<close>

lemma fl_midpoint:
  assumes "representable b" "representable a" "0 \<le> b" "b \<le> a"
  shows "b \<le> fl_value (fl_value (b + a) / 2)" and "fl_value (fl_value (b + a) / 2) \<le> a"
proof -
  have "2 * b \<le> fl_value (b + a)"
    using fl_value_mono [of "2 * b" "b + a"] fl_value_exact [OF representable_double [OF assms(1)]] assms by simp
  then show "b \<le> fl_value (fl_value (b + a) / 2)"
    using fl_value_mono [of b "fl_value (b + a) / 2"] fl_value_exact [OF assms(1)] assms by simp
  have "fl_value (b + a) \<le> 2 * a"
    using fl_value_mono [of "b + a" "2 * a"] fl_value_exact [OF representable_double [OF assms(2)]] assms by simp
  then show "fl_value (fl_value (b + a) / 2) \<le> a"
    using fl_value_mono [of "fl_value (b + a) / 2" a] fl_value_exact [OF assms(2)] fl_value_nonneg [of "b + a"] assms by simp
qed

section \<open>Whole numbers below \<open>2 ^ 53\<close>\<close>

lemma representable_int: "0 \<le> n \<Longrightarrow> n < 2 ^ 53 \<Longrightarrow> representable (of_int n)"
  unfolding representable_def by (rule exI [of _ n], rule exI [of _ 0]) simp

lemma fl_value_int:
  assumes "0 \<le> n" "fl_value (of_int n) = of_int m" "m < 2 ^ 53"
  shows "n = m"
proof (cases "n < 2 ^ 53")
  case True
  then have "fl_value (of_int n) = of_int n" using assms(1) by (intro fl_value_exact representable_int)
  with assms(2) show ?thesis by simp
next
  case False
  have top: "representable (of_int (2 ^ 53))"
    using representable_double [OF representable_int [of "2 ^ 52"]] by simp
  have "(of_int (2 ^ 53) :: rat) \<le> of_int n" using False by (simp only: of_int_le_iff)
  from fl_value_mono [OF _ this] fl_value_exact [OF top] assms(2) have "(of_int (2 ^ 53) :: rat) \<le> of_int m" by simp
  then have "2 ^ 53 \<le> m" by (simp only: of_int_le_iff)
  with assms(3) show ?thesis by simp
qed

lemma pos_text_length:
  assumes "0 < n"
  shows "n < 10 ^ length (pos_text n)" and "0 < length (pos_text n)" and "10 ^ (length (pos_text n) - 1) \<le> n"
proof -
  have "0 < n \<longrightarrow> n < 10 ^ length (pos_text n) \<and> 0 < length (pos_text n) \<and> 10 ^ (length (pos_text n) - 1) \<le> n"
  proof (induction n rule: pos_text.induct)
    case (1 n)
    show ?case
    proof (cases "n < 10")
      case True
      then have "length (pos_text n) = 1" by (subst pos_text.simps) simp
      with True show ?thesis by simp
    next
      case False
      then have "length (pos_text n) = Suc (length (pos_text (n div 10)))" by (subst pos_text.simps) simp
      moreover from 1 False have IH: "n div 10 < 10 ^ length (pos_text (n div 10))" "0 < length (pos_text (n div 10))"
          "10 ^ (length (pos_text (n div 10)) - 1) \<le> n div 10" by auto
      moreover have "10 * 10 ^ (length (pos_text (n div 10)) - 1) = (10 ^ length (pos_text (n div 10)) :: int)"
        using IH(2) by (simp flip: power_Suc)
      moreover have "10 * (n div 10) \<le> n" "n < 10 * (n div 10) + 10" by presburger+
      ultimately show ?thesis by simp
    qed
  qed
  with assms show "n < 10 ^ length (pos_text n)" "0 < length (pos_text n)" "10 ^ (length (pos_text n) - 1) \<le> n" by simp_all
qed

text \<open>The shortest text of a whole number below \<open>2 ^ 53\<close> denotes that number.\<close>

lemma text_value_int:
  assumes "0 \<le> n" "n < 2 ^ 53"
  shows "text_value (of_int n) = of_int n"
proof (cases "n = 0")
  case False
  with assms have n: "0 < n" by simp
  let ?x = "of_int n :: rat" and ?l = "length (pos_text n)"
  let ?cand = "\<lambda>k. \<lfloor>?x / 10 powi (int ?l - int k) + 1 / 2\<rfloor>"
  let ?P = "\<lambda>k. fl_value (of_int (?cand k) * 10 powi (int ?l - int k)) = ?x"
  have point: "decimal_point ?x = int ?l" using n by (simp add: decimal_point_def)
  have "10 ^ (?l - 1) < (10 :: int) ^ 16" using pos_text_length(3) [OF n] assms(2) by simp
  then have "?l - 1 < 16" by (rule power_less_imp_less_exp [rotated]) simp
  then have l: "?l \<in> set [1..<18]" using pos_text_length(2) [OF n] unfolding set_upt atLeastLessThan_iff by linarith
  have "\<lfloor>1 / 2 :: rat\<rfloor> = 0" by (simp add: floor_eq_iff)
  then have Pl: "?P ?l" using assms by (simp add: fl_value_exact representable_int)
  have "find ?P [1..<18] \<noteq> None" using l Pl by (auto simp: find_None_iff)
  then obtain k where k: "find ?P [1..<18] = Some k" by blast
  then obtain i where i: "i < 17" "k = Suc i" "?P k" "\<forall>j < i. \<not> ?P (Suc j)"
    by (auto simp: find_Some_iff)
  have "k \<le> ?l"
  proof (rule ccontr)
    assume "\<not> k \<le> ?l"
    with i(2) pos_text_length(2) [OF n] have "?l - 1 < i" "Suc (?l - 1) = ?l" by linarith+
    with i(4) Pl show False by metis
  qed
  then have eq: "of_int (?cand k) * 10 powi (int ?l - int k) = (of_int (?cand k * 10 ^ (?l - k)) :: rat)"
    by (simp add: power_int_def nat_diff_distrib)
  have "0 \<le> ?cand k" using n by (simp add: zero_le_floor)
  then have "?cand k * 10 ^ (?l - k) = n"
    by (intro fl_value_int [OF _ _ assms(2)] i(3) [unfolded eq]) simp
  then have "of_int (?cand k) * 10 powi (int ?l - int k) = ?x" unfolding eq by (simp only:)
  then show ?thesis
    unfolding text_value_def shortest_digits_def point Let_def using n k point by (simp add: sgn_if)
qed (simp add: text_value_def)

section \<open>Reading and storing whole numbers\<close>

lemma js_trim_digits: "list_all is_digit s \<Longrightarrow> js_trim s = s"
proof -
  assume all: "list_all is_digit s"
  have space: "\<not> is_js_space c" if "is_digit c" for c using that by (auto simp: is_digit_def is_js_space_def)
  have "dropWhile is_js_space t = t" if "list_all is_digit t" for t
    using that space by (cases t) auto
  with all show ?thesis by (simp add: js_trim_def)
qed

lemma js_Number_digits:
  assumes "list_all is_digit s" "s \<noteq> []"
  shows "js_Number s = fl (of_int (digits_value s))"
proof -
  obtain c t where s: "s = c # t" using assms(2) by (cases s) simp_all
  have c: "is_digit c" "list_all is_digit t" using assms(1) by (simp_all add: s)
  have td: "takeWhile is_digit s = s" "dropWhile is_digit s = []" using assms(1) by (simp_all add: list_all_iff)
  have "unsigned_decimal s = Some (of_int (digits_value s))"
    unfolding unsigned_decimal_def Let_def td using assms(2) by (simp add: exponent_value_def decimal_digits_def)
  moreover have "s \<noteq> ''Infinity''" using c(1) by (auto simp: s is_digit_def)
  ultimately have lit: "unsigned_literal s = fl (of_int (digits_value s))" by (simp add: unsigned_literal_def)
  have "js_Number s = unsigned_literal s"
  proof (cases t)
    case Nil
    with c(1) show ?thesis unfolding s js_Number_def js_trim_digits [OF assms(1), unfolded s] by (auto simp: is_digit_def)
  next
    case (Cons d u)
    with c have "d \<notin> set ''xX''" "d \<notin> set ''oO''" "d \<notin> set ''bB''" by (auto simp: is_digit_def)
    with c(1) Cons show ?thesis unfolding s js_Number_def js_trim_digits [OF assms(1), unfolded s] by (auto simp: is_digit_def)
  qed
  with lit show ?thesis by simp
qed

lemma fl_int:
  assumes "0 \<le> n" "n < 2 ^ 53"
  shows "fl (of_int n) = JsFin (of_int n)"
proof -
  have big: "x < b \<Longrightarrow> 0 \<le> x \<Longrightarrow> b \<le> c \<Longrightarrow> \<not> c \<le> \<bar>x\<bar>" for b c x :: rat by simp
  have "(of_int n :: rat) < of_int (2 ^ 53)" using assms(2) by (simp only: of_int_less_iff)
  then have "(of_int n :: rat) < 2 ^ 53" by simp
  then have "\<not> 2 ^ 1024 \<le> \<bar>of_int n :: rat\<bar>"
    by (rule big) (use assms(1) in simp, rule power_increasing, simp_all)
  then show ?thesis unfolding fl_def fl_value_exact [OF representable_int [OF assms]] by (simp only: if_False)
qed

lemma to_numeric_int:
  assumes "0 \<le> n" "n < 2 ^ 53"
  shows "to_numeric 30 12 (of_int n) = Some (n * 10 ^ 12)"
proof -
  have "half_away (of_int n * 10 ^ 12) = n * 10 ^ 12"
    using assms(1) floor_add_int [of "1 / 2 :: rat" "n * 10 ^ 12"] by (simp add: half_away_def add.commute floor_eq_iff)
  moreover have "\<not> 10 ^ 30 \<le> \<bar>n * 10 ^ 12\<bar>" using assms by simp
  ultimately show ?thesis by (simp add: to_numeric_def text_value_int [OF assms])
qed

lemma js_Number_whole: "0 \<le> n \<Longrightarrow> n < 2 ^ 53 \<Longrightarrow> js_Number (pos_text n) = JsFin (of_int n)"
  using js_Number_digits [of "pos_text n"] pos_text_digits [of n] fl_int [of n] by simp

lemma js_Number_zero: "js_Number ''0'' = JsFin (of_int 0)"
  using js_Number_whole [of 0] by (simp add: pos_text.simps char_of_def)

end
