(* ===== verification/Treasury_Properties.thy ===== *)
theory Treasury_Properties
  imports Treasury_Desk Js_Rounding
begin

text \<open>
  What the treasury desk guarantees: observations come from an active market-data source, a
  recommendation is decided by somebody else than its proposer and moves nothing, and the computed
  midpoint lies between bid and ask although every step is rounded. Two properties show defects:
  amounts lose digits on the way to the database, and a review that is due never becomes overdue.
\<close>

section \<open>Column values as JavaScript numbers\<close>

lemma representable_ends: "representable (10 ^ 18)" "representable (2 powi (- 40))"
proof -
  show "representable (10 ^ 18)"
    unfolding representable_def by (rule exI [of _ 3814697265625], rule exI [of _ 18]) simp
  show "representable (2 powi (- 40))"
    unfolding representable_def by (rule exI [of _ 1], rule exI [of _ "- 40"]) simp
qed

lemma column_rate:
  assumes "0 < n" "n < 10 ^ 30"
  shows "representable (js_value (column_number 12 n)) \<and> 0 < js_value (column_number 12 n)"
proof -
  let ?x = "of_int n / 10 ^ 12 :: rat"
  have "(of_int n :: rat) < of_int (10 ^ 30)" using assms(2) by (simp only: of_int_less_iff)
  then have up: "?x \<le> 10 ^ 18" by simp
  have "(of_int 1 :: rat) \<le> of_int n" using assms(1) by (simp only: of_int_le_iff)
  moreover have "(2 :: rat) powi (- 40) \<le> 1 / 10 ^ 12" by (simp add: power_int_minus)
  ultimately have low: "2 powi (- 40) \<le> ?x" using divide_right_mono [of 1 "of_int n" "10 ^ 12 :: rat"] by simp
  have "0 < (2 :: rat) powi (- 40)" by simp
  with low have pos: "0 \<le> ?x" by simp
  have le: "fl_value ?x \<le> 10 ^ 18"
    using fl_value_mono [OF pos up] fl_value_exact [OF representable_ends(1)] by simp
  have ge: "2 powi (- 40) \<le> fl_value ?x"
    using fl_value_mono [OF _ low] fl_value_exact [OF representable_ends(2)] by simp
  have big: "b < a \<Longrightarrow> a \<le> c \<Longrightarrow> 0 \<le> x \<Longrightarrow> x \<le> b \<Longrightarrow> \<not> c \<le> \<bar>x\<bar>" for a b c x :: rat by simp
  have "\<not> 2 ^ 1024 \<le> \<bar>fl_value ?x\<bar>"
    by (rule big [OF _ _ fl_value_nonneg [OF pos] le, of "2 ^ 60"]) (simp, rule power_increasing, simp_all)
  then have eq: "js_value (column_number 12 n) = fl_value ?x" unfolding column_number_def fl_def by (simp only: if_False js_number.sel)
  have "0 < fl_value ?x" using \<open>0 < 2 powi (- 40)\<close> ge by (rule less_le_trans)
  then show ?thesis unfolding eq using fl_value_representable [OF pos] by (intro conjI)
qed

section \<open>An amount with a fraction\<close>

lemma js_Number_fraction: "js_Number ''4503599627370496.3'' = JsFin (of_int 4503599627370496)"
proof -
  have "ilog2 (45035996273704963 / 10) = 52" by (rule ilog2_unique) simp_all
  moreover have "\<lfloor>45035996273704963 / 10 :: rat\<rfloor> = 4503599627370496" by (simp add: floor_eq_iff)
  ultimately have "fl_value (45035996273704963 / 10) = 4503599627370496"
    by (simp add: fl_value_def ulp_exponent_def round_even_def Let_def)
  then have "fl (45035996273704963 / 10) = JsFin (of_int 4503599627370496)"
    using fl_int [of 4503599627370496] fl_value_exact [OF representable_int [of 4503599627370496]] by (simp add: fl_def)
  then show "js_Number ''4503599627370496.3'' = JsFin (of_int 4503599627370496)"
    by (simp add: js_Number_def js_trim_def is_js_space_def unsigned_literal_def unsigned_decimal_def exponent_value_def
      decimal_digits_def digits_value_def is_digit_def power_int_minus)
qed

section \<open>A concrete desk\<close>

definition rate_source :: integration_connection where
  "rate_source = \<lparr>ic_id = 40, ic_counterparty_id = 5, ic_category = ''fx_rate'', ic_environment = ''sandbox'',
     ic_documentation_url = ''https://docs'', ic_secret_reference = None, ic_state = IN_active,
     ic_last_health_checked_at = None, ic_last_health_result = None\<rparr>"

definition quote_of :: "uuid \<Rightarrow> int \<Rightarrow> string \<Rightarrow> market_observation" where
  "quote_of k rate src = \<lparr>mo_id = k, mo_integration_connection_id = 40, mo_base_asset = USDC, mo_quote_asset = NGN,
     mo_rate = rate, mo_observed_at = 900, mo_source_reference = src\<rparr>"

definition open_recommendation :: treasury_recommendation where
  "open_recommendation = \<lparr>tr_id = 70, tr_buffer_policy_id = 71, tr_corridor = NIGERIA_NGN, tr_currency = NGN,
     tr_reconciled_available_balance = 0, tr_reconciled_at = 0, tr_balance_source_reference = ''b'',
     tr_verified_near_term_funding_gap = 5, tr_funding_gap_source_reference = ''g'', tr_minimum_buffer_amount = 1,
     tr_target_buffer_amount = 2, tr_computed_recommendation_amount = 2, tr_status = TR_proposed, tr_proposed_by = ''op-1'',
     tr_proposed_at = 10, tr_decided_by = None, tr_decided_at = None, tr_decision_reason = None, tr_expires_at = 5000\<rparr>"

definition due_assessment :: risk_assessment where
  "due_assessment = \<lparr>ra_id = 80, ra_counterparty_id = 5, ra_risk_level = High, ra_risk_score = 5000, ra_assessed_at = 0,
     ra_next_review_at = 1000, ra_assessed_by = ''co-1'', ra_review_status = RV_due, ra_escalation_reason = None,
     ra_escalated_by = None, ra_escalated_at = None\<rparr>"

definition market_db :: db where
  "market_db = empty_db\<lparr>integration_connections := [rate_source],
     market_observations := [quote_of 50 1500500000000000 ''feed-a'', quote_of 51 1501250000000000 ''feed-b''],
     treasury_recommendations := [open_recommendation], risk_assessments := [due_assessment]\<rparr>"

definition market_env :: env where
  "market_env = \<lparr>js_now = 1000, pg_now = 1000, pg_today = 0, new_uuid = 95, node_uuid = 96\<rparr>"

definition treasurer :: actor where
  "treasurer = \<lparr>openId = ''op-2'', role = Treasury_operator\<rparr>"

definition new_quote :: observation_input where
  "new_quote = \<lparr>mi_integrationConnectionId = 40, mi_baseAsset = USDC, mi_quoteAsset = NGN, mi_rate = ''1500.5'',
     mi_observedAt = 900, mi_sourceReference = ''feed-c''\<rparr>"

definition large_position :: liquidity_input where
  "large_position = \<lparr>li_corridor = NIGERIA_NGN, li_currency = NGN, li_accountKind = ''nostro'', li_accountReference = ''acc'',
     li_availableAmount = ''4503599627370496.3'', li_reservedAmount = ''0'', li_sourceReference = ''src'',
     li_reconciledAt = 900\<rparr>"

section \<open>Properties\<close>

text \<open>
  the spread of a pair is computed from at least two observations of at least two sources, and
  although sum, half and quotient are each rounded to a double, bid, midpoint and ask come out in
  order and the spread is not negative.
\<close>

lemma fx_spread_ordered:
  assumes "desk_inv db" and "computePostgresFxSpread e base quot nowOption windowOption pre db = Some r"
  shows "0 < sp_bid r \<and> sp_bid r \<le> sp_mid r \<and> sp_mid r \<le> sp_ask r \<and> 0 \<le> sp_spreadBasisPoints r \<and>
    2 \<le> sp_observationCount r \<and> 2 \<le> length (sp_sourceReferences r) \<and> distinct (sp_sourceReferences r)"
proof -
  let ?rows = "spread_rows (case_option (pg_now e) id nowOption) (case_option 60 id windowOption) base quot pre db"
  let ?rates = "map (\<lambda>m. js_value (column_number 12 (mo_rate m))) ?rows"
  let ?b = "Min (set ?rates)" and ?a = "Max (set ?rates)"
  from assms(2) have n: "2 \<le> length ?rows" "2 \<le> length (remdups (map mo_source_reference ?rows))"
    and r: "sp_bid r = ?b" "sp_ask r = ?a" "sp_mid r = fl_value (fl_value (?b + ?a) / 2)"
      "sp_spreadBasisPoints r = fl_value (fl_value (fl_value (?a - ?b) / fl_value (fl_value (?b + ?a) / 2)) * 10000)"
      "sp_observationCount r = length ?rows" "sp_sourceReferences r = sort (remdups (map mo_source_reference ?rows))"
    unfolding computePostgresFxSpread_def Let_def spread_numbers_def by (auto split: if_splits)
  have ok: "representable x \<and> 0 < x" if "x \<in> set ?rates" for x
    using that assms(1) column_rate by (auto simp: spread_rows_def desk_inv_def)
  have ne: "set ?rates \<noteq> {}" using n(1) by auto
  then have mem: "?b \<in> set ?rates" "?a \<in> set ?rates" by (simp_all del: set_map)
  have le: "?b \<le> ?a" using mem by (intro Min_le) simp_all
  note b = ok [OF mem(1)] and a = ok [OF mem(2)]
  have mid: "?b \<le> fl_value (fl_value (?b + ?a) / 2)" "fl_value (fl_value (?b + ?a) / 2) \<le> ?a"
    using fl_midpoint [of ?b ?a] a b le by simp_all
  have "0 \<le> sp_spreadBasisPoints r"
    unfolding r using le b mid(1) by (intro fl_value_nonneg mult_nonneg_nonneg divide_nonneg_nonneg) simp_all
  with mid b n show ?thesis unfolding r(1-3,5,6) by simp
qed

lemma fx_spread_ordered_witness:
  "\<exists>r. computePostgresFxSpread market_env USDC NGN None None None market_db = Some r \<and> sp_bid r \<le> sp_mid r \<and> sp_mid r \<le> sp_ask r"
proof -
  have "desk_inv market_db" by code_simp
  moreover have "computePostgresFxSpread market_env USDC NGN None None None market_db \<noteq> None"
    by (simp add: computePostgresFxSpread_def Let_def spread_rows_def market_db_def quote_of_def market_env_def split: prod.split)
  ultimately show ?thesis using fx_spread_ordered by blast
qed

text \<open>
  a market observation is recorded exactly when its rate is a positive finite number that is
  still positive and in range in the column, the assets differ, the source is an active market-data
  integration and the identifier is new.
\<close>

lemma observation_accepted_iff:
  "\<not> isl (recordPostgresMarketObservation e a i db) \<longleftrightarrow>
    (\<exists>x source r. js_Number (mi_rate i) = JsFin x \<and> 0 < x \<and> mi_baseAsset i \<noteq> mi_quoteAsset i \<and>
       find_row ic_id (mi_integrationConnectionId i) (integration_connections db) = Some source \<and>
       ic_category source \<in> {''fx_rate'', ''stablecoin_market_data''} \<and> ic_state source = IN_active \<and>
       to_numeric 30 12 x = Some r \<and> 0 < r \<and> new_uuid e \<notin> mo_id ` set (market_observations db))"
proof -
  have fin: "js_finite n \<longleftrightarrow> (\<exists>x. n = JsFin x)" for n by (cases n) simp_all
  show ?thesis
    unfolding recordPostgresMarketObservation_def Let_def market_source_def
    by (auto simp: fin find_row_None [of mo_id] not_less not_le split: option.splits if_splits)
qed

text \<open>
  C30: a recommendation is decided exactly when it is still proposed, not expired, and the deciding
  person did not propose it; the decision is written to that row and nothing but the audit trail
  changes otherwise, so no liquidity and no payment moves.
\<close>

theorem decision_iff:
  "((\<exists>x db'. decidePostgresTreasuryRecommendation e a k d s db = Inr (x, db')) \<longleftrightarrow>
      (\<exists>r. find_row tr_id k (treasury_recommendations db) = Some r \<and> tr_status r = TR_proposed \<and>
         tr_proposed_by r \<noteq> openId a \<and> js_now e < tr_expires_at r)) \<and>
   (decidePostgresTreasuryRecommendation e a k d s db = Inr (x, db') \<longrightarrow>
      (\<exists>ev. db' = db\<lparr>treasury_recommendations := update_row tr_id k (decided e a d s) (treasury_recommendations db),
         activity_events := activity_events db @ [ev]\<rparr>))"
proof (intro conjI impI)
  show "(\<exists>x db'. decidePostgresTreasuryRecommendation e a k d s db = Inr (x, db')) \<longleftrightarrow>
      (\<exists>r. find_row tr_id k (treasury_recommendations db) = Some r \<and> tr_status r = TR_proposed \<and>
         tr_proposed_by r \<noteq> openId a \<and> js_now e < tr_expires_at r)"
    unfolding decidePostgresTreasuryRecommendation_def Let_def by (simp add: not_le split: option.split)
  assume "decidePostgresTreasuryRecommendation e a k d s db = Inr (x, db')"
  then show "\<exists>ev. db' = db\<lparr>treasury_recommendations := update_row tr_id k (decided e a d s) (treasury_recommendations db),
         activity_events := activity_events db @ [ev]\<rparr>"
    unfolding decidePostgresTreasuryRecommendation_def Let_def decided_def insert_event_def
    by (clarsimp split: if_split_asm option.splits) (rule exI, rule refl)+
qed

theorem decision_iff_witness:
  "\<exists>x db'. decidePostgresTreasuryRecommendation market_env treasurer 70 True ''ok'' market_db = Inr (x, db')"
  using decision_iff [of market_env treasurer 70 True "''ok''" market_db]
  by (simp add: market_db_def open_recommendation_def find_row_def treasurer_def market_env_def)

text \<open>
  C31: a whole amount below \<open>2 ^ 53\<close> survives the way through a double: the column holds exactly the
  number that the digits denote, and its text begins with the same digits.
\<close>

theorem whole_amount_roundtrip:
  assumes "recordPostgresLiquidityPosition e a i db = Inr (k, db')"
    and "li_availableAmount i = pos_text n" and "0 \<le> n" and "n < 2 ^ 53"
  shows "\<exists>row. row \<in> set (liquidity_positions db') \<and> lp_id row = k \<and> lp_available_amount row = n * 10 ^ 12 \<and>
    numeric_text 12 (lp_available_amount row) = li_availableAmount i @ ''.000000000000''"
proof -
  note num = js_Number_whole [OF assms(3,4)]
  have "pad 12 0 = ''000000000000''" by code_simp
  then have shown: "numeric_text 12 (n * 10 ^ 12) = pos_text n @ ''.000000000000''"
    using assms(3) by (simp add: numeric_text_def Let_def abs_mult)
  have "\<exists>row. row \<in> set (liquidity_positions db') \<and> lp_id row = k \<and> lp_available_amount row = n * 10 ^ 12"
    using assms(1) unfolding recordPostgresLiquidityPosition_def Let_def assms(2) num js_number.sel to_numeric_int [OF assms(3,4)]
    by (clarsimp simp: set_insert_row split: if_split_asm option.splits) force
  with shown show ?thesis unfolding assms(2) by auto
qed

theorem whole_amount_roundtrip_witness:
  "\<exists>k db'. recordPostgresLiquidityPosition market_env treasurer (large_position\<lparr>li_availableAmount := ''1200''\<rparr>) market_db = Inr (k, db') \<and>
    (\<exists>row. row \<in> set (liquidity_positions db') \<and> numeric_text 12 (lp_available_amount row) = ''1200.000000000000'')"
proof -
  let ?i = "large_position\<lparr>li_availableAmount := ''1200''\<rparr>"
  have shown: "pos_text 1200 = ''1200''" by code_simp
  have "js_Number ''1200'' = JsFin (of_int 1200)" using js_Number_whole [of 1200] by (simp add: shown)
  then have "\<exists>k db'. recordPostgresLiquidityPosition market_env treasurer ?i market_db = Inr (k, db')"
    using to_numeric_int [of 1200] to_numeric_int [of 0]
    by (simp add: recordPostgresLiquidityPosition_def Let_def js_Number_zero large_position_def market_env_def market_db_def
      account_kinds_def find_row_def empty_db_def)
  then obtain k db' where ok: "recordPostgresLiquidityPosition market_env treasurer ?i market_db = Inr (k, db')" by blast
  from whole_amount_roundtrip [OF ok, of 1200] ok show ?thesis by (auto simp: shown)
qed

text \<open>
  C39: amounts pass through doubles on their way to a column of twelve decimals, so an exact decimal
  amount is not stored as given: the position below loses all its decimals.
\<close>

theorem position_loses_decimals:
  assumes "recordPostgresLiquidityPosition e a i db = Inr (k, db')"
    and "li_availableAmount i = ''4503599627370496.3''"
  shows "\<exists>row. row \<in> set (liquidity_positions db') \<and> lp_id row = k \<and> lp_available_amount row = 4503599627370496000000000000 \<and>
    lp_available_amount row \<noteq> 4503599627370496300000000000"
proof -
  have num: "to_numeric 30 12 (js_value (js_Number ''4503599627370496.3'')) = Some 4503599627370496000000000000"
    unfolding js_Number_fraction js_number.sel using to_numeric_int [of 4503599627370496] by simp
  show ?thesis
    using assms(1) unfolding recordPostgresLiquidityPosition_def Let_def assms(2) num
    by (clarsimp simp: set_insert_row split: if_split_asm option.splits) force
qed

theorem position_loses_decimals_witness:
  "\<exists>k db'. recordPostgresLiquidityPosition market_env treasurer large_position market_db = Inr (k, db') \<and>
    (\<exists>row. row \<in> set (liquidity_positions db') \<and> lp_available_amount row = 4503599627370496000000000000)"
proof -
  have "\<exists>k db'. recordPostgresLiquidityPosition market_env treasurer large_position market_db = Inr (k, db')"
    using to_numeric_int [of 4503599627370496] to_numeric_int [of 0]
    by (simp add: recordPostgresLiquidityPosition_def Let_def js_Number_zero js_Number_fraction large_position_def market_env_def
      market_db_def account_kinds_def find_row_def empty_db_def)
  then obtain k db' where ok: "recordPostgresLiquidityPosition market_env treasurer large_position market_db = Inr (k, db')" by blast
  from position_loses_decimals [OF ok] ok show ?thesis by (auto simp: large_position_def)
qed

text \<open>
  the evaluation of risk reviews only looks at assessments that are current, so one that was
  found due exactly at its review date stays due in every later evaluation and is never overdue.
\<close>

lemma due_never_overdue:
  assumes "r \<in> set (risk_assessments db)" and "ra_review_status r = RV_due"
    and "evaluatePostgresCounterpartyRiskReviews e a now db = Inr (x, db')"
  shows "r \<in> set (risk_assessments db')"
proof -
  have "risk_assessments db' = map (reviewed now) (risk_assessments db)"
    using assms(3) by (auto simp: evaluatePostgresCounterpartyRiskReviews_def Let_def record_review_tables)
  moreover have "reviewed now r = r" using assms(2) by (simp add: reviewed_def review_due_def)
  ultimately show ?thesis using assms(1) by (metis imageI list.set_map)
qed

lemma due_never_overdue_witness:
  "\<exists>x db'. evaluatePostgresCounterpartyRiskReviews market_env treasurer 999999 market_db = Inr (x, db') \<and>
     due_assessment \<in> set (risk_assessments db') \<and> ra_next_review_at due_assessment < 999999"
proof -
  obtain x db' where ok: "evaluatePostgresCounterpartyRiskReviews market_env treasurer 999999 market_db = Inr (x, db')"
    by (simp add: evaluatePostgresCounterpartyRiskReviews_def Let_def)
  have "due_assessment \<in> set (risk_assessments market_db)" "ra_review_status due_assessment = RV_due"
    "ra_next_review_at due_assessment < 999999"
    by (simp_all add: market_db_def due_assessment_def)
  with due_never_overdue [OF this(1,2) ok] ok show ?thesis by blast
qed

end
