(* ===== verification/Counterparty_Registry.thy ===== *)
theory Counterparty_Registry
  imports Umoja_Store
begin

text \<open>
  Customers, beneficiaries and their screening, counterparties, licence authorisations and
  provider integrations (\<open>server/postgres.ts\<close>, \<open>server/providerHealthCheck.ts\<close>). A
  beneficiary's screening state is the newest evidence of an active screening integration; an
  integration becomes active only through a health check that passed, with a credential that is
  the name of a deployment secret and never a secret.
\<close>

section \<open>Customers and beneficiaries\<close>

definition createPostgresCustomer :: "env \<Rightarrow> actor \<Rightarrow> string \<Rightarrow> string \<Rightarrow> customer tx" where
  "createPostgresCustomer e a legalName registrationIdentifier db =
    (if find_row cu_id (new_uuid e) (customers db) \<noteq> None
        \<or> list_ex (\<lambda>c. cu_legal_name c = legalName \<and> cu_registration_identifier c = registrationIdentifier) (customers db)
     then Inl (UniqueViolation ''customers'')
     else let row = \<lparr>cu_id = new_uuid e, cu_legal_name = legalName, cu_registration_identifier = registrationIdentifier,
                cu_kyc_status = CC_open, cu_archetype = None,
       cu_tier = None, cu_country = None, cu_use_case_narrative = None\<rparr>
          in Inr (row, insert_event e a ''customer.created'' ''customer'' (Some (cu_id row))
               [(''legalName'', JStr legalName), (''registrationIdentifier'', JStr registrationIdentifier),
                (''source'', JStr ''postgres-control-plane'')]
               (db\<lparr>customers := insert_row row (customers db)\<rparr>)))"

definition createPostgresBeneficiary :: "env \<Rightarrow> actor \<Rightarrow> uuid \<Rightarrow> string \<Rightarrow> string \<Rightarrow> string \<Rightarrow> beneficiary tx" where
  "createPostgresBeneficiary e a customerId legalName countryCode bankOrWalletReference db =
    (if find_row cu_id customerId (customers db) = None then
       Inl (Refused ''A canonical customer record is required before creating a beneficiary'')
     else if find_row be_id (new_uuid e) (beneficiaries db) \<noteq> None
        \<or> list_ex (\<lambda>b. be_customer_id b = customerId \<and> be_legal_name b = legalName \<and>
              be_bank_or_wallet_reference b = bankOrWalletReference) (beneficiaries db)
     then Inl (UniqueViolation ''beneficiaries'')
     else let row = \<lparr>be_id = new_uuid e, be_customer_id = customerId, be_legal_name = legalName,
                be_country_code = countryCode, be_bank_or_wallet_reference = bankOrWalletReference,
                be_screening_state = SC_not_run\<rparr>
          in Inr (row, insert_event e a ''beneficiary.created'' ''beneficiary'' (Some (be_id row))
               [(''customerId'', jid customerId), (''countryCode'', JStr countryCode),
                (''source'', JStr ''postgres-control-plane'')]
               (db\<lparr>beneficiaries := insert_row row (beneficiaries db)\<rparr>)))"

section \<open>Screening\<close>

record screening_input =
  si_beneficiaryId :: uuid
  si_integrationConnectionId :: uuid
  si_correlationId :: uuid
  si_screeningState :: screening_state
  si_providerReference :: string
  si_sourceVersion :: string
  si_evidenceSha256 :: string
  si_screenedAt :: instant

text \<open>The newest \<open>screened_at\<close> of a beneficiary's checks.\<close>

definition latest_screened_at :: "uuid \<Rightarrow> screening_check list \<Rightarrow> instant option" where
  "latest_screened_at b checks =
    (case filter (\<lambda>c. sk_beneficiary_id c = b) checks of
       [] \<Rightarrow> None
     | c # cs \<Rightarrow> Some (fold (\<lambda>d m. max m (sk_screened_at d)) cs (sk_screened_at c)))"

definition screening_row :: "env \<Rightarrow> screening_input \<Rightarrow> screening_check" where
  "screening_row e i =
     \<lparr>sk_id = new_uuid e, sk_beneficiary_id = si_beneficiaryId i,
      sk_integration_connection_id = si_integrationConnectionId i, sk_correlation_id = si_correlationId i,
      sk_screening_state = si_screeningState i, sk_provider_reference = si_providerReference i,
      sk_source_version = si_sourceVersion i, sk_evidence_sha256 = si_evidenceSha256 i,
      sk_screened_at = si_screenedAt i\<rparr>"

definition recordPostgresBeneficiaryScreening ::
  "env \<Rightarrow> actor \<Rightarrow> screening_input \<Rightarrow> (uuid \<times> uuid \<times> screening_state) tx" where
  "recordPostgresBeneficiaryScreening e a i db =
    (if find_row be_id (si_beneficiaryId i) (beneficiaries db) = None then
       Inl (Refused ''A canonical beneficiary record is required before recording screening'')
     else if \<not> list_ex (\<lambda>c. ic_id c = si_integrationConnectionId i \<and> ic_state c = IN_active \<and>
            ic_category c \<in> set [''sanctions'', ''kyc_kyb'']) (integration_connections db) then
       Inl (Refused ''An active sanctions or KYC/KYB integration is required before recording beneficiary screening'')
     else if (case latest_screened_at (si_beneficiaryId i) (aml_screening_checks db) of
            None \<Rightarrow> False | Some t \<Rightarrow> si_screenedAt i < t) then
       Inl (Refused ''Stale beneficiary screening evidence cannot replace a newer screening decision'')
     else if \<not> sha256_text (si_evidenceSha256 i) then Inl (CheckViolation ''aml_screening_checks'')
     else if find_row sk_id (new_uuid e) (aml_screening_checks db) \<noteq> None
        \<or> list_ex (\<lambda>c. sk_integration_connection_id c = si_integrationConnectionId i \<and>
              sk_provider_reference c = si_providerReference i) (aml_screening_checks db)
     then Inl (UniqueViolation ''aml_screening_checks'')
     else
       let check = screening_row e i
       in Inr ((sk_id check, si_beneficiaryId i, si_screeningState i),
            insert_event e a ''beneficiary.screening_recorded'' ''beneficiary'' (Some (si_beneficiaryId i))
              [(''screeningCheckId'', jid (sk_id check)), (''integrationConnectionId'', jid (si_integrationConnectionId i)),
               (''correlationId'', jid (si_correlationId i)),
               (''screeningState'', JStr (screening_state_text (si_screeningState i))),
               (''providerReference'', JStr (si_providerReference i)), (''sourceVersion'', JStr (si_sourceVersion i)),
               (''evidenceSha256'', JStr (si_evidenceSha256 i)), (''screenedAt'', JTime (si_screenedAt i)),
               (''source'', JStr ''postgres-control-plane'')]
              (db\<lparr>aml_screening_checks := insert_row check (aml_screening_checks db),
                  beneficiaries := update_row be_id (si_beneficiaryId i)
                    (\<lambda>b. b\<lparr>be_screening_state := si_screeningState i\<rparr>) (beneficiaries db)\<rparr>)))"

section \<open>Counterparties and authorisations\<close>

definition counterparty_types :: "string list" where
  "counterparty_types = [''licensed_psp'', ''correspondent_bank'', ''stablecoin_provider'', ''fx_liquidity_provider'',
     ''custody_provider'', ''kyc_provider'', ''sanctions_provider'', ''chain_analytics_provider'', ''notification_provider'',
     ''regulatory_submission_provider'', ''travel_rule_provider'', ''adverse_media_provider'']"

definition createPostgresCounterparty :: "env \<Rightarrow> actor \<Rightarrow> string \<Rightarrow> string \<Rightarrow> string \<Rightarrow> counterparty tx" where
  "createPostgresCounterparty e a legalName counterpartyType jurisdiction db =
    (if counterpartyType \<notin> set counterparty_types then Inl (CheckViolation ''counterparties'')
     else if find_row cp_id (new_uuid e) (counterparties db) \<noteq> None
        \<or> list_ex (\<lambda>c. cp_legal_name c = legalName \<and> cp_counterparty_type c = counterpartyType \<and>
              cp_jurisdiction c = jurisdiction) (counterparties db)
     then Inl (UniqueViolation ''counterparties'')
     else let row = \<lparr>cp_id = new_uuid e, cp_legal_name = legalName, cp_counterparty_type = counterpartyType,
                cp_jurisdiction = jurisdiction, cp_lp_archetype = None, cp_bank_archetype = None, cp_psp_archetype = None,
                cp_stablecoin_issuer_archetype = None, cp_compliance_vendor_archetype = None\<rparr>
          in Inr (row, insert_event e a ''counterparty.created'' ''counterparty'' (Some (cp_id row))
               [(''legalName'', JStr legalName), (''counterpartyType'', JStr counterpartyType),
                (''jurisdiction'', JStr jurisdiction), (''source'', JStr ''postgres-control-plane'')]
               (db\<lparr>counterparties := insert_row row (counterparties db)\<rparr>)))"

record authorization_input =
  zi_counterpartyId :: uuid
  zi_regulator :: string
  zi_licenceReference :: string
  zi_scopeDescription :: string
  zi_evidenceUri :: string
  zi_validFrom :: date
  zi_validTo :: "date option"
  zi_status :: authorization_status

definition createPostgresCounterpartyAuthorization ::
  "env \<Rightarrow> actor \<Rightarrow> authorization_input \<Rightarrow> counterparty_authorization tx" where
  "createPostgresCounterpartyAuthorization e a i db =
    (if find_row cpa_id (new_uuid e) (counterparty_authorizations db) \<noteq> None
        \<or> list_ex (\<lambda>z. cpa_counterparty_id z = zi_counterpartyId i \<and> cpa_regulator z = zi_regulator i \<and>
              cpa_licence_reference z = zi_licenceReference i) (counterparty_authorizations db)
     then Inl (UniqueViolation ''counterparty_authorizations'')
     else if find_row cp_id (zi_counterpartyId i) (counterparties db) = None then
       Inl (ForeignKeyViolation ''counterparty_authorizations'')
     else let row = \<lparr>cpa_id = new_uuid e, cpa_counterparty_id = zi_counterpartyId i, cpa_regulator = zi_regulator i,
                cpa_licence_reference = zi_licenceReference i, cpa_scope_description = zi_scopeDescription i,
                cpa_evidence_uri = zi_evidenceUri i, cpa_valid_from = zi_validFrom i, cpa_valid_to = zi_validTo i,
                cpa_status = zi_status i, cpa_verified_by = None, cpa_verified_at = None\<rparr>
          in Inr (row, insert_event e a ''counterparty_authorization.created'' ''counterparty_authorization''
               (Some (cpa_id row))
               [(''counterpartyId'', jid (cpa_counterparty_id row)), (''regulator'', JStr (cpa_regulator row)),
                (''licenceReference'', JStr (cpa_licence_reference row)),
                (''status'', JStr (authorization_status_text (cpa_status row))),
                (''source'', JStr ''postgres-control-plane'')]
               (db\<lparr>counterparty_authorizations := insert_row row (counterparty_authorizations db)\<rparr>)))"

fun authorization_transitions :: "authorization_status \<Rightarrow> authorization_status list" where
  "authorization_transitions AU_pending_review = [AU_verified, AU_rejected, AU_suspended]"
| "authorization_transitions AU_verified = [AU_expired, AU_suspended]"
| "authorization_transitions AU_suspended = [AU_pending_review, AU_rejected]"
| "authorization_transitions AU_expired = [AU_pending_review]"
| "authorization_transitions AU_rejected = [AU_pending_review]"

definition transitionPostgresCounterpartyAuthorization ::
  "env \<Rightarrow> actor \<Rightarrow> uuid \<Rightarrow> authorization_status \<Rightarrow> (uuid \<times> authorization_status) tx" where
  "transitionPostgresCounterpartyAuthorization e a authorizationId status db =
    (case find_row cpa_id authorizationId (counterparty_authorizations db) of
       None \<Rightarrow> Inl (Refused ''PostgreSQL counterparty authorization was not found'')
     | Some existing \<Rightarrow>
         if status \<notin> set (authorization_transitions (cpa_status existing)) then
           Inl (Refused ''invalid counterparty authorization lifecycle transition'')
         else Inr ((authorizationId, status),
           insert_event e a ''counterparty_authorization.transitioned'' ''counterparty_authorization'' (Some authorizationId)
             [(''from'', JStr (authorization_status_text (cpa_status existing))),
              (''to'', JStr (authorization_status_text status)), (''source'', JStr ''postgres-control-plane'')]
             (db\<lparr>counterparty_authorizations := update_row cpa_id authorizationId
                (\<lambda>z. z\<lparr>cpa_status := status,
                       cpa_verified_by := (if status = AU_verified then Some (openId a) else cpa_verified_by z),
                       cpa_verified_at := (if status = AU_verified then Some (pg_now e) else cpa_verified_at z)\<rparr>)
                (counterparty_authorizations db)\<rparr>)))"

section \<open>Credential references\<close>

text \<open>The regular expression \<open>/^[A-Z][A-Z0-9_]{2,63}$/\<close>.\<close>

definition SECRET_REFERENCE_PATTERN :: "string \<Rightarrow> bool" where
  "SECRET_REFERENCE_PATTERN s \<longleftrightarrow>
    (case s of
       [] \<Rightarrow> False
     | c # t \<Rightarrow> is_upper c \<and> 2 \<le> length t \<and> length t \<le> 63 \<and> list_all (\<lambda>d. is_upper d \<or> is_digit d \<or> d = CHR ''_'') t)"

text \<open>ASCII lower case, as a case-insensitive expression compares.\<close>

definition ascii_lower :: "char \<Rightarrow> char" where
  "ascii_lower c = (if is_upper c then char_of (of_char c + 32 :: nat) else c)"

definition starts_ci :: "string \<Rightarrow> string \<Rightarrow> bool" where
  "starts_ci p s \<longleftrightarrow> map ascii_lower (take (length p) s) = p"

text \<open>The eight expressions of \<open>CREDENTIAL_SHAPED\<close>, in order.\<close>

definition CREDENTIAL_SHAPED :: "(string \<Rightarrow> bool) list" where
  "CREDENTIAL_SHAPED =
    [starts_ci ''sk_'', starts_ci ''pk_'', starts_ci ''rk_'',
     (\<lambda>s. starts_ci ''bearer'' s \<and> 6 < length s \<and> is_js_space (s ! 6)),
     (\<lambda>s. let b = takeWhile (\<lambda>c. is_alnum c \<or> c \<in> set ''+/'') s; r = drop (length b) s
          in 40 \<le> length b \<and> length r \<le> 2 \<and> list_all (\<lambda>c. c = CHR ''='') r),
     (\<lambda>s. 32 \<le> length s \<and> list_all (\<lambda>c. ascii_lower c \<in> set ''0123456789abcdef'') s),
     prefix ''-----BEGIN '',
     (\<lambda>s. take 2 s = ''ey'' \<and>
        (let b = takeWhile (\<lambda>c. is_alnum c \<or> c \<in> set ''_-'') (drop 2 s)
         in b \<noteq> [] \<and> take 1 (drop (2 + length b) s) = ''.''))]"

definition assertIsSecretReferenceNotSecret :: "string \<Rightarrow> unit result" where
  "assertIsSecretReferenceNotSecret candidate =
    (let v = js_trim candidate
     in if list_ex (\<lambda>pattern. pattern v) CREDENTIAL_SHAPED then
          Inl (Refused ''secret reference looks like a credential value; supply the name of a deployment secret instead'')
        else if \<not> SECRET_REFERENCE_PATTERN v then
          Inl (Refused ''secret reference must be an uppercase deployment secret name, for example PROVIDER_FX_API_KEY'')
        else Inr ())"

section \<open>Provider endpoints\<close>

fun split_on :: "char \<Rightarrow> string \<Rightarrow> string list" where
  "split_on d [] = [[]]"
| "split_on d (c # s) =
    (if c = d then [] # split_on d s
     else (case split_on d s of [] \<Rightarrow> [[c]] | w # ws \<Rightarrow> (c # w) # ws))"

definition dns_label :: "string \<Rightarrow> bool" where
  "dns_label l \<longleftrightarrow> l \<noteq> [] \<and> length l \<le> 63 \<and> (is_lower (hd l) \<or> is_digit (hd l)) \<and>
     (is_lower (last l) \<or> is_digit (last l)) \<and> list_all (\<lambda>c. is_lower c \<or> is_digit c \<or> c = CHR ''-'') l"

text \<open>
  The host expression: at most 253 characters, labels separated by dots, and a last label of two
  to 63 letters.
\<close>

definition dns_host :: "string \<Rightarrow> bool" where
  "dns_host h \<longleftrightarrow> 1 \<le> length h \<and> length h \<le> 253 \<and>
     (let ls = split_on (CHR ''.'') h
      in 2 \<le> length ls \<and> list_all dns_label (butlast ls) \<and>
         2 \<le> length (last ls) \<and> length (last ls) \<le> 63 \<and> list_all is_lower (last ls))"

definition providerEndpointAllowedHosts :: "string option \<Rightarrow> string list result" where
  "providerEndpointAllowedHosts raw =
    (case raw of
       None \<Rightarrow> Inl (Refused ''UMOJA_PROVIDER_ENDPOINT_ALLOWED_HOSTS must list approved provider DNS hosts'')
     | Some r \<Rightarrow>
         if js_trim r = [] then Inl (Refused ''UMOJA_PROVIDER_ENDPOINT_ALLOWED_HOSTS must list approved provider DNS hosts'')
         else let hosts = remdups (filter (\<lambda>h. h \<noteq> []) (map (\<lambda>v. map latin1_lower (js_trim v)) (split_on (CHR '','') r)))
              in if hosts = [] then Inl (Refused ''UMOJA_PROVIDER_ENDPOINT_ALLOWED_HOSTS must list approved provider DNS hosts'')
                 else if \<not> list_all dns_host hosts then
                   Inl (Refused ''UMOJA_PROVIDER_ENDPOINT_ALLOWED_HOSTS contains an invalid DNS host'')
                 else Inr hosts)"

text \<open>
  What the code reads of a parsed URL. The parser and \<open>isIP\<close> belong to the platform; they are
  arguments.
\<close>

record url =
  url_protocol :: string
  url_username :: string
  url_password :: string
  url_hostname :: string
  url_href :: string

definition strip_brackets :: "string \<Rightarrow> string" where
  "strip_brackets h =
    (let h1 = (if take 1 h = ''['' then drop 1 h else h)
     in if h1 \<noteq> [] \<and> last h1 = CHR '']'' then butlast h1 else h1)"

definition normaliseProviderEndpoint ::
  "(string \<Rightarrow> url option) \<Rightarrow> (string \<Rightarrow> nat) \<Rightarrow> string option \<Rightarrow> string \<Rightarrow> string result" where
  "normaliseProviderEndpoint parse_url isIP allowed candidate =
    (case parse_url (js_trim candidate) of
       None \<Rightarrow> Inl (Refused ''provider endpoint must be an absolute URL'')
     | Some u \<Rightarrow>
         if url_protocol u \<noteq> ''https:'' then Inl (Refused ''provider endpoint must use https'')
         else if url_username u \<noteq> [] \<or> url_password u \<noteq> [] then
           Inl (Refused ''provider endpoint must not embed credentials'')
         else let hostname = map latin1_lower (strip_brackets (url_hostname u))
              in if hostname = [] \<or> isIP hostname \<noteq> 0 then
                   Inl (Refused ''provider endpoint must use an approved DNS host, not an IP literal'')
                 else case providerEndpointAllowedHosts allowed of
                   Inl er \<Rightarrow> Inl er
                 | Inr hosts \<Rightarrow>
                     if hostname \<notin> set hosts then
                       Inl (Refused ''provider endpoint host is not approved for credential-bearing probes'')
                     else Inr (url_href u))"

section \<open>Integrations\<close>

definition integration_categories :: "string list" where
  "integration_categories = [''payment_rail'', ''fx_rate'', ''stablecoin_market_data'', ''stablecoin_execution'', ''kyc_kyb'', ''sanctions'',
     ''chain_analytics'', ''notification'', ''regulatory_submission'']"

definition createPostgresIntegrationConnection ::
  "env \<Rightarrow> actor \<Rightarrow> uuid \<Rightarrow> string \<Rightarrow> string \<Rightarrow> string \<Rightarrow> integration_connection tx" where
  "createPostgresIntegrationConnection e a counterpartyId category environment documentationUrl db =
    (if find_row cp_id counterpartyId (counterparties db) = None then
       Inl (Refused ''integration connection requires an existing canonical counterparty record'')
     else if category \<notin> set integration_categories \<or> environment \<notin> set [''sandbox'', ''production''] then
       Inl (CheckViolation ''integration_connections'')
     else if find_row ic_id (new_uuid e) (integration_connections db) \<noteq> None
        \<or> list_ex (\<lambda>c. ic_counterparty_id c = counterpartyId \<and> ic_category c = category \<and> ic_environment c = environment)
             (integration_connections db)
     then Inl (UniqueViolation ''integration_connections'')
     else let row = \<lparr>ic_id = new_uuid e, ic_counterparty_id = counterpartyId, ic_category = category,
                ic_environment = environment, ic_documentation_url = documentationUrl, ic_secret_reference = None,
                ic_state = IN_unconfigured, ic_last_health_checked_at = None, ic_last_health_result = None\<rparr>
          in Inr (row, insert_event e a ''integration_connection.created'' ''integration_connection'' (Some (ic_id row))
               [(''counterpartyId'', jid counterpartyId), (''category'', JStr category), (''environment'', JStr environment),
                (''credentialsSupplied'', JBool False), (''activated'', JBool False)]
               (db\<lparr>integration_connections := insert_row row (integration_connections db)\<rparr>)))"

definition configurePostgresIntegrationCredential ::
  "(string \<Rightarrow> url option) \<Rightarrow> (string \<Rightarrow> nat) \<Rightarrow> string option \<Rightarrow> env \<Rightarrow> actor \<Rightarrow> uuid \<Rightarrow> string \<Rightarrow> string
    \<Rightarrow> (uuid \<times> integration_state) tx" where
  "configurePostgresIntegrationCredential parse_url isIP allowed e a connectionId secretReference endpointUrl db =
    (case assertIsSecretReferenceNotSecret secretReference of
       Inl er \<Rightarrow> Inl er
     | Inr _ \<Rightarrow> (case normaliseProviderEndpoint parse_url isIP allowed endpointUrl of
         Inl er \<Rightarrow> Inl er
       | Inr endpoint \<Rightarrow> (case find_row ic_id connectionId (integration_connections db) of
           None \<Rightarrow> Inl (Refused ''integration connection does not exist'')
         | Some connection \<Rightarrow>
             if ic_state connection = IN_active then
               Inl (Refused ''suspend the integration before changing the credential of an active connection'')
             else Inr ((connectionId, IN_credential_pending),
               insert_event e a ''integration_connection.credential_configured'' ''integration_connection'' (Some connectionId)
                 [(''secretReference'', JStr (js_trim secretReference)),
                  (''previousSecretReference'', jopt JStr (ic_secret_reference connection)),
                  (''endpoint'', JStr endpoint),
                  (''previousState'', JStr (integration_state_text (ic_state connection))),
                  (''state'', JStr (integration_state_text IN_credential_pending)),
                  (''credentialValuePersisted'', JBool False), (''activated'', JBool False)]
                 (db\<lparr>integration_connections := update_row ic_id connectionId
                    (\<lambda>c. c\<lparr>ic_secret_reference := Some (js_trim secretReference), ic_documentation_url := endpoint,
                           ic_state := IN_credential_pending, ic_last_health_checked_at := None,
                           ic_last_health_result := None\<rparr>) (integration_connections db)\<rparr>)))))"

definition health_check_passed :: "health_outcome \<Rightarrow> bool" where
  "health_check_passed h \<longleftrightarrow> ho_reachable h \<and>
     (case ho_httpStatus h of None \<Rightarrow> False | Some st \<Rightarrow> 200 \<le> st \<and> st < 300)"

definition activatePostgresIntegrationConnection ::
  "env \<Rightarrow> actor \<Rightarrow> uuid \<Rightarrow> health_outcome \<Rightarrow> (uuid \<times> integration_state \<times> bool) tx" where
  "activatePostgresIntegrationConnection e a connectionId outcome db =
    (case find_row ic_id connectionId (integration_connections db) of
       None \<Rightarrow> Inl (Refused ''integration connection does not exist'')
     | Some connection \<Rightarrow>
         if ic_secret_reference connection \<in> {None, Some []} then
           Inl (Refused ''configure a credential reference before attempting activation'')
         else
           let passed = health_check_passed outcome; nextState = (if passed then IN_active else IN_failed)
           in Inr ((connectionId, nextState, passed),
             insert_event e a (if passed then ''integration_connection.activated'' else ''integration_connection.activation_refused'')
               ''integration_connection'' (Some connectionId)
               [(''state'', JStr (integration_state_text nextState)), (''healthCheckPassed'', JBool passed),
                (''httpStatus'', jopt JNum (ho_httpStatus outcome)), (''reachable'', JBool (ho_reachable outcome)),
                (''detail'', JStr (ho_detail outcome)), (''endpoint'', JStr (ho_endpoint outcome)),
                (''credentialValuePersisted'', JBool False)]
               (db\<lparr>integration_connections := update_row ic_id connectionId
                  (\<lambda>c. c\<lparr>ic_state := nextState, ic_last_health_checked_at := Some (ho_observedAt outcome),
                         ic_last_health_result := Some outcome\<rparr>) (integration_connections db)\<rparr>)))"

definition suspendPostgresIntegrationConnection ::
  "env \<Rightarrow> actor \<Rightarrow> uuid \<Rightarrow> string \<Rightarrow> (uuid \<times> integration_state) tx" where
  "suspendPostgresIntegrationConnection e a connectionId reason_text db =
    (let reason = js_trim reason_text
     in if length reason < 10 then Inl (Refused ''suspension requires a stated reason'')
        else case find_row ic_id connectionId (integration_connections db) of
          None \<Rightarrow> Inl (Refused ''only an active, failed, or verifying integration can be suspended'')
        | Some connection \<Rightarrow>
            if ic_state connection \<notin> {IN_active, IN_failed, IN_verification_pending} then
              Inl (Refused ''only an active, failed, or verifying integration can be suspended'')
            else Inr ((connectionId, IN_suspended),
              insert_event e a ''integration_connection.suspended'' ''integration_connection'' (Some connectionId)
                [(''reason'', JStr reason), (''state'', JStr (integration_state_text IN_suspended))]
                (db\<lparr>integration_connections := update_row ic_id connectionId (\<lambda>c. c\<lparr>ic_state := IN_suspended\<rparr>)
                   (integration_connections db)\<rparr>)))"

section \<open>The health probe\<close>

text \<open>
  \<open>fetch\<close> is the network: it returns a status or fails with a message. The timeout shows up as
  an abort message. The environment of the process is a function from names to values.
\<close>

datatype fetch_result = Responded int | Fetch_failed string

definition resolveCredential :: "(string \<Rightarrow> string option) \<Rightarrow> string \<Rightarrow> string option" where
  "resolveCredential process_env secretReference =
    (case process_env secretReference of
       None \<Rightarrow> None
     | Some v \<Rightarrow> (let trimmed = js_trim v in if 0 < length trimmed then Some trimmed else None))"

definition outcome :: "instant \<Rightarrow> string \<Rightarrow> bool \<Rightarrow> int option \<Rightarrow> string \<Rightarrow> health_outcome" where
  "outcome now endpoint reachable httpStatus detail =
     \<lparr>ho_reachable = reachable, ho_httpStatus = httpStatus, ho_observedAt = now, ho_detail = detail, ho_endpoint = endpoint\<rparr>"

definition probeProviderEndpoint ::
  "(string \<Rightarrow> string option) \<Rightarrow> (string \<Rightarrow> string \<Rightarrow> fetch_result) \<Rightarrow> instant \<Rightarrow> string \<Rightarrow> string \<Rightarrow> nat option \<Rightarrow> health_outcome" where
  "probeProviderEndpoint process_env fetch now endpoint secretReference timeoutMs =
    (case resolveCredential process_env secretReference of
       None \<Rightarrow> outcome now endpoint False None
         (''deployment secret '' @ secretReference @
          '' is not present in this environment, so no authenticated request could be made'')
     | Some credential \<Rightarrow>
         (case fetch endpoint (''Bearer '' @ credential) of
            Responded st \<Rightarrow>
              if 300 \<le> st \<and> st < 400 then
                outcome now endpoint True (Some st) ''provider redirected the health check; the endpoint is probably incorrect''
              else if st = 401 \<or> st = 403 then
                outcome now endpoint True (Some st) ''provider rejected the supplied credential''
              else if \<not> (200 \<le> st \<and> st \<le> 299) then
                outcome now endpoint True (Some st) (''provider returned '' @ int_text st)
              else outcome now endpoint True (Some st) (''provider responded '' @ int_text st)
          | Fetch_failed reason \<Rightarrow>
              if sublist ''abort'' reason then
                outcome now endpoint False None (''provider did not respond within ''
                  @ nat_text (case timeoutMs of None \<Rightarrow> 8000 | Some t \<Rightarrow> t) @ ''ms'')
              else outcome now endpoint False None (''provider endpoint unreachable: '' @ reason)))"

section \<open>Steps and invariant\<close>

inductive registry_step :: "db \<Rightarrow> db \<Rightarrow> bool" where
  customer_created: "createPostgresCustomer e a n rg db = Inr (r1, db') \<Longrightarrow> registry_step db db'"
| beneficiary_created: "createPostgresBeneficiary e a c n cc w db = Inr (r2, db') \<Longrightarrow> registry_step db db'"
| screening_recorded: "recordPostgresBeneficiaryScreening e a si db = Inr (r3, db') \<Longrightarrow> registry_step db db'"
| counterparty_created: "createPostgresCounterparty e a n t j db = Inr (r4, db') \<Longrightarrow> registry_step db db'"
| authorization_created: "createPostgresCounterpartyAuthorization e a zi db = Inr (r5, db') \<Longrightarrow> registry_step db db'"
| authorization_moved: "transitionPostgresCounterpartyAuthorization e a k zs db = Inr (r6, db') \<Longrightarrow> registry_step db db'"
| integration_created: "createPostgresIntegrationConnection e a c cat en du db = Inr (r7, db') \<Longrightarrow> registry_step db db'"
| credential_configured: "configurePostgresIntegrationCredential pu ip al e a k sr ep db = Inr (r8, db') \<Longrightarrow> registry_step db db'"
| integration_probed: "activatePostgresIntegrationConnection e a k (probeProviderEndpoint pe fe now ep sr tm) db = Inr (r9, db') \<Longrightarrow> registry_step db db'"
| integration_suspended: "suspendPostgresIntegrationConnection e a k rs db = Inr (r8, db') \<Longrightarrow> registry_step db db'"

text \<open>
  The reference kept for an integration is always a deployment secret name, and an active
  integration rests on a stored health check that passed.
\<close>

definition integration_ok :: "integration_connection \<Rightarrow> bool" where
  "integration_ok c \<longleftrightarrow>
     (case ic_secret_reference c of None \<Rightarrow> True
        | Some s \<Rightarrow> SECRET_REFERENCE_PATTERN s \<and> \<not> list_ex (\<lambda>p. p s) CREDENTIAL_SHAPED) \<and>
     (ic_state c = IN_active \<longrightarrow> ic_secret_reference c \<noteq> None \<and>
        (case ic_last_health_result c of None \<Rightarrow> False
           | Some h \<Rightarrow> health_check_passed h \<and> ic_last_health_checked_at c = Some (ho_observedAt h)))"

definition checks_of :: "uuid \<Rightarrow> screening_check list \<Rightarrow> screening_check list" where
  "checks_of b checks = filter (\<lambda>c. sk_beneficiary_id c = b) checks"

definition screening_ok :: "screening_check list \<Rightarrow> beneficiary \<Rightarrow> bool" where
  "screening_ok checks b \<longleftrightarrow>
     (let mine = checks_of (be_id b) checks
      in be_screening_state b = (if mine = [] then SC_not_run else sk_screening_state (last mine)) \<and>
         sorted (map sk_screened_at mine))"

definition registry_inv :: "db \<Rightarrow> bool" where
  "registry_inv db \<longleftrightarrow>
     distinct_keys be_id (beneficiaries db) \<and> distinct_keys ic_id (integration_connections db) \<and>
     distinct_keys cpa_id (counterparty_authorizations db) \<and>
     (\<forall>c \<in> set (integration_connections db). integration_ok c) \<and>
     (\<forall>b \<in> set (beneficiaries db). screening_ok (aml_screening_checks db) b) \<and>
     (\<forall>k \<in> set (aml_screening_checks db). sk_beneficiary_id k \<in> be_id ` set (beneficiaries db))"

lemmas registry_op_defs = createPostgresCustomer_def createPostgresBeneficiary_def
  recordPostgresBeneficiaryScreening_def createPostgresCounterparty_def
  createPostgresCounterpartyAuthorization_def transitionPostgresCounterpartyAuthorization_def
  createPostgresIntegrationConnection_def configurePostgresIntegrationCredential_def
  activatePostgresIntegrationConnection_def suspendPostgresIntegrationConnection_def Let_def

section \<open>Every operation keeps the invariant\<close>

lemma registry_inv_cong:
  "beneficiaries db' = beneficiaries db \<Longrightarrow> integration_connections db' = integration_connections db \<Longrightarrow>
   counterparty_authorizations db' = counterparty_authorizations db \<Longrightarrow>
   aml_screening_checks db' = aml_screening_checks db \<Longrightarrow> registry_inv db' = registry_inv db"
  by (simp add: registry_inv_def)

lemma fold_max_sorted:
  "sorted (map f (c # cs)) \<Longrightarrow> fold (\<lambda>d m. max m (f d)) cs (f c) = (f (last (c # cs)) :: 'a :: linorder)"
  by (induction cs arbitrary: c) (auto simp: max_def)

lemma latest_screened_at_sorted:
  assumes "sorted (map sk_screened_at (checks_of b checks))"
  shows "latest_screened_at b checks =
    (if checks_of b checks = [] then None else Some (sk_screened_at (last (checks_of b checks))))"
proof (cases "checks_of b checks")
  case Nil
  then show ?thesis by (simp add: latest_screened_at_def checks_of_def)
next
  case (Cons c cs)
  then have "latest_screened_at b checks = Some (fold (\<lambda>d m. max m (sk_screened_at d)) cs (sk_screened_at c))"
    by (simp add: latest_screened_at_def checks_of_def)
  also have "fold (\<lambda>d m. max m (sk_screened_at d)) cs (sk_screened_at c) = sk_screened_at (last (c # cs))"
    using assms unfolding Cons by (rule fold_max_sorted)
  finally show ?thesis by (simp add: Cons)
qed

lemma integration_inv_update:
  assumes inv: "registry_inv db"
    and tab: "integration_connections db' = update_row ic_id k f (integration_connections db)"
    and same: "beneficiaries db' = beneficiaries db" "aml_screening_checks db' = aml_screening_checks db"
      "counterparty_authorizations db' = counterparty_authorizations db"
    and f: "\<And>c. ic_id (f c) = ic_id c"
    and ok: "\<And>c. c \<in> set (integration_connections db) \<Longrightarrow> ic_id c = k \<Longrightarrow> integration_ok c \<Longrightarrow> integration_ok (f c)"
  shows "registry_inv db'"
proof -
  have "\<forall>c \<in> set (integration_connections db'). integration_ok c"
    unfolding tab by (rule integration_table.all_rows_upd) (use inv ok in \<open>auto simp: registry_inv_def\<close>)
  then show ?thesis
    using inv by (simp add: registry_inv_def same) (simp add: tab map_update_row f)
qed

lemma configure_inv:
  assumes inv: "registry_inv db" and "configurePostgresIntegrationCredential pu ip al e a k sr ep db = Inr (r, db')"
  shows "registry_inv db'"
proof -
  from assms(2) have sr: "SECRET_REFERENCE_PATTERN (js_trim sr)" "\<not> list_ex (\<lambda>p. p (js_trim sr)) CREDENTIAL_SHAPED"
    by (auto simp: configurePostgresIntegrationCredential_def assertIsSecretReferenceNotSecret_def Let_def
        split: if_splits sum.splits)
  from assms(2) obtain endpoint where
    tab: "integration_connections db' = update_row ic_id k (\<lambda>c. c\<lparr>ic_secret_reference := Some (js_trim sr),
        ic_documentation_url := endpoint, ic_state := IN_credential_pending, ic_last_health_checked_at := None,
        ic_last_health_result := None\<rparr>) (integration_connections db)"
    and same: "beneficiaries db' = beneficiaries db" "aml_screening_checks db' = aml_screening_checks db"
      "counterparty_authorizations db' = counterparty_authorizations db"
    by (auto simp: configurePostgresIntegrationCredential_def split: if_splits sum.splits option.splits)
  show ?thesis
    using inv tab same by (rule integration_inv_update) (use sr in \<open>simp_all add: integration_ok_def\<close>)
qed

lemma activate_inv:
  assumes inv: "registry_inv db" and "activatePostgresIntegrationConnection e a k h db = Inr (r, db')"
  shows "registry_inv db'"
proof -
  from assms(2) obtain c where c: "find_row ic_id k (integration_connections db) = Some c" "ic_secret_reference c \<noteq> None"
    and tab: "integration_connections db' = update_row ic_id k (\<lambda>c. c\<lparr>ic_state := (if health_check_passed h then IN_active else IN_failed),
        ic_last_health_checked_at := Some (ho_observedAt h), ic_last_health_result := Some h\<rparr>) (integration_connections db)"
    and same: "beneficiaries db' = beneficiaries db" "aml_screening_checks db' = aml_screening_checks db"
      "counterparty_authorizations db' = counterparty_authorizations db"
    by (auto simp: activatePostgresIntegrationConnection_def Let_def split: if_splits option.splits)
  have "distinct_keys ic_id (integration_connections db)" using inv by (simp add: registry_inv_def)
  note one = unique_row [OF this c(1)]
  show ?thesis
    using inv tab same
    by (rule integration_inv_update) (use one c(2) in \<open>auto simp: integration_ok_def\<close>)
qed

lemma suspend_inv:
  assumes inv: "registry_inv db" and "suspendPostgresIntegrationConnection e a k rs db = Inr (r, db')"
  shows "registry_inv db'"
proof -
  from assms(2) have
    tab: "integration_connections db' = update_row ic_id k (\<lambda>c. c\<lparr>ic_state := IN_suspended\<rparr>) (integration_connections db)"
    and same: "beneficiaries db' = beneficiaries db" "aml_screening_checks db' = aml_screening_checks db"
      "counterparty_authorizations db' = counterparty_authorizations db"
    by (auto simp: suspendPostgresIntegrationConnection_def Let_def split: if_splits option.splits)
  show ?thesis
    using inv tab same by (rule integration_inv_update) (simp_all add: integration_ok_def)
qed

lemma checks_of_insert:
  "checks_of b (insert_row k checks) = (if sk_beneficiary_id k = b then checks_of b checks @ [k] else checks_of b checks)"
  by (simp add: checks_of_def insert_row_def)

lemma screening_ok_newer:
  assumes ok: "screening_ok checks b" and k: "sk_beneficiary_id k = be_id b"
    and newer: "\<forall>t \<in> set_option (latest_screened_at (be_id b) checks). t \<le> sk_screened_at k"
  shows "screening_ok (insert_row k checks) (b\<lparr>be_screening_state := sk_screening_state k\<rparr>)"
proof -
  let ?mine = "checks_of (be_id b) checks"
  have s: "sorted (map sk_screened_at ?mine)" using ok by (simp add: screening_ok_def Let_def)
  have le: "sk_screened_at c \<le> sk_screened_at k" if "c \<in> set ?mine" for c
  proof -
    from that have ne: "?mine \<noteq> []" by auto
    from that obtain i where i: "i < length ?mine" "c = ?mine ! i" by (auto simp: in_set_conv_nth)
    then have "map sk_screened_at ?mine ! i \<le> map sk_screened_at ?mine ! (length ?mine - 1)"
      using s by (intro sorted_nth_mono) auto
    then have "sk_screened_at c \<le> sk_screened_at (last ?mine)"
      using i ne by (simp add: last_conv_nth)
    also have "\<dots> \<le> sk_screened_at k"
      using newer latest_screened_at_sorted [OF s] that by (auto split: if_splits)
    finally show ?thesis .
  qed
  show ?thesis
    using s le by (simp add: screening_ok_def Let_def checks_of_insert k sorted_append)
qed

lemma record_screening_inv:
  assumes inv: "registry_inv db" and rec: "recordPostgresBeneficiaryScreening e a i db = Inr (r, db')"
  shows "registry_inv db'"
proof -
  let ?k = "screening_row e i"
  have k: "sk_beneficiary_id ?k = si_beneficiaryId i" "sk_screening_state ?k = si_screeningState i"
      "sk_screened_at ?k = si_screenedAt i"
    by (simp_all add: screening_row_def)
  from rec have known: "si_beneficiaryId i \<in> be_id ` set (beneficiaries db)"
    and newer: "\<forall>t \<in> set_option (latest_screened_at (si_beneficiaryId i) (aml_screening_checks db)). t \<le> si_screenedAt i"
    and tabs: "aml_screening_checks db' = insert_row ?k (aml_screening_checks db)"
      "beneficiaries db' = update_row be_id (si_beneficiaryId i) (\<lambda>b. b\<lparr>be_screening_state := si_screeningState i\<rparr>) (beneficiaries db)"
      "integration_connections db' = integration_connections db"
      "counterparty_authorizations db' = counterparty_authorizations db"
    by (auto simp: recordPostgresBeneficiaryScreening_def Let_def split: if_splits option.splits dest: find_row_image)
  have "\<forall>b \<in> set (beneficiaries db'). screening_ok (aml_screening_checks db') b"
    unfolding tabs
  proof (rule beneficiary_table.all_rows_upd)
    fix b assume b: "b \<in> set (beneficiaries db)" "be_id b = si_beneficiaryId i"
    then have "screening_ok (aml_screening_checks db) b" using inv by (simp add: registry_inv_def)
    then show "screening_ok (insert_row ?k (aml_screening_checks db)) (b\<lparr>be_screening_state := si_screeningState i\<rparr>)"
      using screening_ok_newer [of "aml_screening_checks db" b ?k] newer k b(2) by simp
  next
    fix b assume b: "b \<in> set (beneficiaries db)" "be_id b \<noteq> si_beneficiaryId i"
    then show "screening_ok (insert_row ?k (aml_screening_checks db)) b"
      using inv k by (simp add: registry_inv_def screening_ok_def checks_of_insert)
  qed
  moreover have "be_id ` set (beneficiaries db') = be_id ` set (beneficiaries db)"
    unfolding tabs by (rule image_update_row) simp
  ultimately show ?thesis
    using inv known k by (simp add: registry_inv_def tabs(3,4)) (simp add: tabs(1,2) map_update_row table_simps)
qed

lemma createPostgresBeneficiary_inv:
  assumes inv: "registry_inv db" and "createPostgresBeneficiary e a c n cc w db = Inr (r, db')"
  shows "registry_inv db'"
proof -
  from assms(2) have new: "beneficiaries db' = insert_row r (beneficiaries db)" "be_id r \<notin> be_id ` set (beneficiaries db)"
    "be_screening_state r = SC_not_run" "integration_connections db' = integration_connections db"
    "counterparty_authorizations db' = counterparty_authorizations db"
    "aml_screening_checks db' = aml_screening_checks db"
    by (auto simp: createPostgresBeneficiary_def Let_def find_row_None split: if_splits)
  have "sk_beneficiary_id k \<in> be_id ` set (beneficiaries db)" if "k \<in> set (aml_screening_checks db)" for k
    using inv that by (simp add: registry_inv_def)
  then have "checks_of (be_id r) (aml_screening_checks db) = []"
    using new(2) unfolding checks_of_def filter_empty_conv by metis
  then have "screening_ok (aml_screening_checks db) r"
    using new(3) by (simp add: screening_ok_def)
  then show ?thesis
    using inv new by (auto simp: registry_inv_def table_simps)
qed

lemma createPostgresIntegrationConnection_inv:
  assumes inv: "registry_inv db" and "createPostgresIntegrationConnection e a c cat en du db = Inr (r, db')"
  shows "registry_inv db'"
proof -
  from assms(2) have new: "integration_connections db' = insert_row r (integration_connections db)"
    "ic_id r \<notin> ic_id ` set (integration_connections db)" "integration_ok r" "beneficiaries db' = beneficiaries db"
    "counterparty_authorizations db' = counterparty_authorizations db"
    "aml_screening_checks db' = aml_screening_checks db"
    by (auto simp: createPostgresIntegrationConnection_def Let_def find_row_None integration_ok_def split: if_splits)
  then show ?thesis
    using inv by (simp add: registry_inv_def table_simps)
qed

lemma authorization_inv:
  assumes inv: "registry_inv db"
  shows "createPostgresCounterpartyAuthorization e a zi db = Inr (r, db') \<Longrightarrow> registry_inv db'"
    and "transitionPostgresCounterpartyAuthorization e a k zs db = Inr (r', db') \<Longrightarrow> registry_inv db'"
  using inv
  by (auto simp: registry_inv_def createPostgresCounterpartyAuthorization_def Let_def find_row_None table_simps
      transitionPostgresCounterpartyAuthorization_def map_update_row split: if_splits option.splits)

lemma registry_step_inv:
  assumes "registry_inv db" and "registry_step db db'"
  shows "registry_inv db'"
  using assms(2)
proof cases
  case (customer_created e a n rg r)
  then have "registry_inv db' = registry_inv db"
    by (intro registry_inv_cong) (auto simp: createPostgresCustomer_def Let_def split: if_splits)
  with assms(1) show ?thesis by simp
next
  case (counterparty_created e a n t j r)
  then have "registry_inv db' = registry_inv db"
    by (intro registry_inv_cong) (auto simp: createPostgresCounterparty_def Let_def split: if_splits)
  with assms(1) show ?thesis by simp
qed (use assms(1) in \<open>blast intro: createPostgresBeneficiary_inv record_screening_inv authorization_inv
       createPostgresIntegrationConnection_inv configure_inv activate_inv suspend_inv\<close>)+

lemma registry_step_effect:
  assumes "registry_step db db'"
  shows "prefix (activity_events db) (activity_events db') \<and>
    db'\<lparr>customers := customers db, beneficiaries := beneficiaries db, aml_screening_checks := aml_screening_checks db,
       counterparties := counterparties db, counterparty_authorizations := counterparty_authorizations db,
       integration_connections := integration_connections db, activity_events := activity_events db\<rparr> = db"
  using assms
  by cases (auto simp: registry_op_defs insert_event_def split: if_splits option.splits sum.splits)

lemma registry_step_frame:
  assumes "registry_step db db'"
  shows "rate_locks db' = rate_locks db" "payment_orders db' = payment_orders db" "payment_legs db' = payment_legs db"
    "alert_policies db' = alert_policies db" "compliance_alerts db' = compliance_alerts db"
    "compliance_cases db' = compliance_cases db" "sar_str_filings db' = sar_str_filings db"
    "counterparty_onboardings db' = counterparty_onboardings db"
    "onboarding_gate_decisions db' = onboarding_gate_decisions db"
proof -
  note eq = registry_step_effect [OF assms, THEN conjunct2]
  show "rate_locks db' = rate_locks db" using arg_cong [OF eq, of rate_locks] by simp
  show "payment_orders db' = payment_orders db" using arg_cong [OF eq, of payment_orders] by simp
  show "payment_legs db' = payment_legs db" using arg_cong [OF eq, of payment_legs] by simp
  show "alert_policies db' = alert_policies db" using arg_cong [OF eq, of alert_policies] by simp
  show "compliance_alerts db' = compliance_alerts db" using arg_cong [OF eq, of compliance_alerts] by simp
  show "compliance_cases db' = compliance_cases db" using arg_cong [OF eq, of compliance_cases] by simp
  show "sar_str_filings db' = sar_str_filings db" using arg_cong [OF eq, of sar_str_filings] by simp
  show "counterparty_onboardings db' = counterparty_onboardings db" using arg_cong [OF eq, of counterparty_onboardings] by simp
  show "onboarding_gate_decisions db' = onboarding_gate_decisions db" using arg_cong [OF eq, of onboarding_gate_decisions] by simp
qed

end
