(* ===== verification/Registry_Properties.thy ===== *)
theory Registry_Properties
  imports Counterparty_Registry Payment_Workflow
begin

text \<open>
  What the counterparty registry guarantees about credentials and endpoints, and one defect: an
  authorisation can be created as verified without anybody having verified it.
\<close>

section \<open>Concrete values\<close>

definition registry_env :: env where
  "registry_env = \<lparr>js_now = 100, pg_now = 100, pg_today = 10, new_uuid = 50, node_uuid = 51\<rparr>"

definition registrar :: actor where
  "registrar = \<lparr>openId = ''ad-1'', role = Admin\<rparr>"

definition registry_db :: db where
  "registry_db = empty_db\<lparr>
     counterparties := [\<lparr>cp_id = 5, cp_legal_name = ''Bank'', cp_counterparty_type = ''bank'', cp_jurisdiction = ''NG'', cp_lp_archetype = None,
       cp_bank_archetype = None, cp_psp_archetype = None, cp_stablecoin_issuer_archetype = None, cp_compliance_vendor_archetype = None\<rparr>]\<rparr>"

definition self_declared :: authorization_input where
  "self_declared = \<lparr>zi_counterpartyId = 5, zi_regulator = ''CBN'', zi_licenceReference = ''L-1'', zi_scopeDescription = ''S'',
     zi_evidenceUri = ''https://e'', zi_validFrom = 0, zi_validTo = None, zi_status = AU_verified\<rparr>"

section \<open>Properties\<close>

text \<open>
  a credential is configured exactly for an integration that exists and is not active, with the
  name of a deployment secret that does not look like a secret, and with an https address that
  carries no credentials and whose host is a DNS name on the operator's list.
\<close>

lemma credential_configured_iff:
  "\<not> isl (configurePostgresIntegrationCredential parse_url isIP allowed e a k secretReference endpointUrl db) \<longleftrightarrow>
    SECRET_REFERENCE_PATTERN (js_trim secretReference) \<and> \<not> list_ex (\<lambda>p. p (js_trim secretReference)) CREDENTIAL_SHAPED \<and>
    (\<exists>u hosts. parse_url (js_trim endpointUrl) = Some u \<and> url_protocol u = ''https:'' \<and> url_username u = [] \<and> url_password u = [] \<and>
       isIP (map latin1_lower (strip_brackets (url_hostname u))) = 0 \<and> providerEndpointAllowedHosts allowed = Inr hosts \<and>
       map latin1_lower (strip_brackets (url_hostname u)) \<in> set hosts \<and> list_all dns_host hosts) \<and>
    (\<exists>c. find_row ic_id k (integration_connections db) = Some c \<and> ic_state c \<noteq> IN_active)"
proof -
  have hosts: "list_all dns_host hosts \<and> [] \<notin> set hosts" if "providerEndpointAllowedHosts allowed = Inr hosts" for hosts
    using that by (auto simp: providerEndpointAllowedHosts_def Let_def split: option.splits if_splits)
  have secret: "\<not> isl (assertIsSecretReferenceNotSecret secretReference) \<longleftrightarrow>
      SECRET_REFERENCE_PATTERN (js_trim secretReference) \<and> \<not> list_ex (\<lambda>p. p (js_trim secretReference)) CREDENTIAL_SHAPED"
    by (simp add: assertIsSecretReferenceNotSecret_def Let_def)
  have endpoint: "\<not> isl (normaliseProviderEndpoint parse_url isIP allowed endpointUrl) \<longleftrightarrow>
      (\<exists>u hosts. parse_url (js_trim endpointUrl) = Some u \<and> url_protocol u = ''https:'' \<and> url_username u = [] \<and> url_password u = [] \<and>
       isIP (map latin1_lower (strip_brackets (url_hostname u))) = 0 \<and> providerEndpointAllowedHosts allowed = Inr hosts \<and>
       map latin1_lower (strip_brackets (url_hostname u)) \<in> set hosts \<and> list_all dns_host hosts)"
  proof (cases "parse_url (js_trim endpointUrl)")
    case (Some u)
    show ?thesis
      using hosts unfolding normaliseProviderEndpoint_def Some option.case Let_def
      by (cases "providerEndpointAllowedHosts allowed") (simp_all del: map_eq_Cons_conv, metis)
  qed (simp add: normaliseProviderEndpoint_def)
  have "\<not> isl (configurePostgresIntegrationCredential parse_url isIP allowed e a k secretReference endpointUrl db) \<longleftrightarrow>
      \<not> isl (assertIsSecretReferenceNotSecret secretReference) \<and> \<not> isl (normaliseProviderEndpoint parse_url isIP allowed endpointUrl) \<and>
      (\<exists>c. find_row ic_id k (integration_connections db) = Some c \<and> ic_state c \<noteq> IN_active)"
    by (simp add: configurePostgresIntegrationCredential_def split: sum.split option.split)
  then show ?thesis unfolding secret endpoint conj_assoc .
qed

text \<open>
  an authorisation that is created with the status verified is accepted without a verifier, and
  counts as verified at once, so payment legs can rest on a licence nobody checked.
\<close>

lemma created_as_verified:
  assumes "createPostgresCounterpartyAuthorization e a i db = Inr (z, db')" and "zi_status i = AU_verified"
    and "zi_validFrom i \<le> today" and "case zi_validTo i of None \<Rightarrow> True | Some d \<Rightarrow> today \<le> d"
  shows "z \<in> set (counterparty_authorizations db') \<and> currently_verified today (zi_counterpartyId i) z \<and>
    cpa_verified_by z = None \<and> cpa_verified_at z = None"
  using assms
  by (auto simp: createPostgresCounterpartyAuthorization_def Let_def currently_verified_def set_insert_row split: if_splits)

lemma created_as_verified_witness:
  "\<exists>z db'. createPostgresCounterpartyAuthorization registry_env registrar self_declared registry_db = Inr (z, db') \<and>
     currently_verified 10 5 z \<and> cpa_verified_by z = None"
proof -
  have "\<not> isl (createPostgresCounterpartyAuthorization registry_env registrar self_declared registry_db)" by code_simp
  then obtain z db' where ok: "createPostgresCounterpartyAuthorization registry_env registrar self_declared registry_db = Inr (z, db')"
    by (cases "createPostgresCounterpartyAuthorization registry_env registrar self_declared registry_db") auto
  from created_as_verified [OF ok, of 10] ok show ?thesis by (simp add: self_declared_def)
qed

end
