(* ===== verification/Counterparty_Onboarding.thy ===== *)
theory Counterparty_Onboarding
  imports Umoja_Store
begin

text \<open>
  The onboarding lifecycle of a counterparty (\<open>server/counterpartyOnboarding.ts\<close>): legal gate,
  technical gate and a pilot gate that needs two approvals, by different people in different
  roles, before steady state; recertification starts a new cycle. \<open>readOnboarding\<close>, the query
  that renders the result for the client, is not modelled: the operations return the row.
\<close>

fun stageForGate :: "onboarding_gate \<Rightarrow> onboarding_stage" where
  "stageForGate Gate_legal = OB_legal_onboarding"
| "stageForGate Gate_technical = OB_technical_readiness"
| "stageForGate Gate_pilot = OB_pilot"

fun permittedGateRoles :: "onboarding_gate \<Rightarrow> operating_role list" where
  "permittedGateRoles Gate_legal = [Compliance_officer]"
| "permittedGateRoles Gate_technical = [Admin]"
| "permittedGateRoles Gate_pilot = [Compliance_officer, Treasury_operator]"

definition requireDistinctOverlays :: "corridor list \<Rightarrow> unit result" where
  "requireDistinctOverlays overlays =
    (if overlays = [] \<or> 3 < length overlays \<or> \<not> distinct overlays then
       Inl (Refused ''one to three distinct Nigeria, Kenya, or South Africa corridor overlays are required'')
     else Inr ())"

definition createCounterpartyOnboarding ::
  "env \<Rightarrow> actor \<Rightarrow> uuid \<Rightarrow> corridor list \<Rightarrow> string \<Rightarrow> instant \<Rightarrow> counterparty_onboarding tx" where
  "createCounterpartyOnboarding e a counterpartyId overlays legalEvidenceUri dueAt db =
    (case requireDistinctOverlays overlays of
       Inl er \<Rightarrow> Inl er
     | Inr _ \<Rightarrow>
         if dueAt \<le> js_now e then Inl (Refused ''recertification due date must be in the future'')
         else if find_row cp_id counterpartyId (counterparties db) = None then
           Inl (Refused ''a canonical counterparty is required before onboarding'')
         else if find_row ob_counterparty_id counterpartyId (counterparty_onboardings db) \<noteq> None then
           Inl (Refused ''counterparty already has an onboarding lifecycle'')
         else if find_row ob_id (new_uuid e) (counterparty_onboardings db) \<noteq> None then
           Inl (UniqueViolation ''counterparty_onboardings'')
         else let row = \<lparr>ob_id = new_uuid e, ob_counterparty_id = counterpartyId, ob_country_overlays = overlays,
                    ob_stage = OB_legal_onboarding, ob_cycle_number = 1, ob_legal_evidence_uri = legalEvidenceUri,
                    ob_technical_evidence_uri = None, ob_pilot_evidence_uri = None,
                    ob_recertification_due_at = Some dueAt, ob_current_reason = None, ob_created_by = openId a,
                    ob_updated_at = pg_now e\<rparr>
              in Inr (row, insert_event e a ''counterparty_onboarding.created'' ''counterparty_onboarding'' (Some (ob_id row))
                   [(''counterpartyId'', jid counterpartyId),
                    (''countryOverlays'', JArr (map (\<lambda>c. JStr (corridor_text c)) overlays)),
                    (''stage'', JStr ''legal_onboarding''), (''legalEvidenceUri'', JStr legalEvidenceUri)]
                   (db\<lparr>counterparty_onboardings := insert_row row (counterparty_onboardings db)\<rparr>)))"

record gate_input =
  gi_onboardingId :: uuid
  gi_gate :: onboarding_gate
  gi_decision :: gate_decision
  gi_evidenceUri :: string
  gi_rationale :: string

text \<open>The decisions of one gate in one cycle.\<close>

definition gate_decisions :: "uuid \<Rightarrow> int \<Rightarrow> onboarding_gate \<Rightarrow> onboarding_gate_decision list \<Rightarrow> onboarding_gate_decision list" where
  "gate_decisions k cycle g ds =
     filter (\<lambda>d. gd_onboarding_id d = k \<and> gd_cycle_number d = cycle \<and> gd_gate d = g) ds"

text \<open>The checks before a decision is written, in the order of the source.\<close>

definition gate_guard :: "actor \<Rightarrow> gate_input \<Rightarrow> counterparty_onboarding \<Rightarrow> db \<Rightarrow> unit result" where
  "gate_guard a i ob db =
    (if ob_stage ob \<noteq> stageForGate (gi_gate i) then
       Inl (Refused ''onboarding gate does not match the current lifecycle stage'')
     else if gi_gate i = Gate_legal \<and> gi_decision i = Decision_approved \<and>
       \<not> list_ex (\<lambda>z. cpa_counterparty_id z = ob_counterparty_id ob \<and> cpa_status z = AU_verified)
           (counterparty_authorizations db) then
       Inl (Refused ''legal onboarding requires a verified counterparty authorisation'')
     else if gi_gate i = Gate_technical \<and> gi_decision i = Decision_approved \<and>
       \<not> list_ex (\<lambda>c. ic_counterparty_id c = ob_counterparty_id ob \<and> ic_state c = IN_active)
           (integration_connections db) then
       Inl (Refused ''technical readiness requires a verified active integration connection'')
     else if gi_gate i = Gate_pilot \<and>
       list_ex (\<lambda>d. gd_decided_by d = openId a)
         (gate_decisions (gi_onboardingId i) (ob_cycle_number ob) Gate_pilot (onboarding_gate_decisions db)) then
       Inl (Refused ''pilot approval requires an independent second actor'')
     else if list_ex (\<lambda>d. gd_decided_role d = role a)
         (gate_decisions (gi_onboardingId i) (ob_cycle_number ob) (gi_gate i) (onboarding_gate_decisions db)) then
       Inl (Refused ''this role has already decided the selected onboarding gate for this cycle'')
     else Inr ())"

definition gate_row :: "actor \<Rightarrow> gate_input \<Rightarrow> counterparty_onboarding \<Rightarrow> onboarding_gate_decision" where
  "gate_row a i ob =
     \<lparr>gd_onboarding_id = gi_onboardingId i, gd_cycle_number = ob_cycle_number ob, gd_gate = gi_gate i,
      gd_decision = gi_decision i, gd_evidence_uri = gi_evidenceUri i, gd_rationale = gi_rationale i,
      gd_decided_by = openId a, gd_decided_role = role a\<rparr>"

text \<open>The stage after the decision; \<open>ds\<close> are the decisions including the new one.\<close>

definition next_stage :: "gate_input \<Rightarrow> counterparty_onboarding \<Rightarrow> onboarding_gate_decision list \<Rightarrow> onboarding_stage" where
  "next_stage i ob ds =
    (if gi_decision i = Decision_blocked then OB_blocked
     else case gi_gate i of
       Gate_legal \<Rightarrow> OB_technical_readiness
     | Gate_technical \<Rightarrow> OB_pilot
     | Gate_pilot \<Rightarrow>
         if length (filter (\<lambda>d. gd_decision d = Decision_approved)
              (gate_decisions (gi_onboardingId i) (ob_cycle_number ob) Gate_pilot ds)) = 2
         then OB_steady_state else ob_stage ob)"

definition set_gate_evidence :: "onboarding_gate \<Rightarrow> string \<Rightarrow> counterparty_onboarding \<Rightarrow> counterparty_onboarding" where
  "set_gate_evidence g uri ob =
    (case g of
       Gate_technical \<Rightarrow> ob\<lparr>ob_technical_evidence_uri := Some uri\<rparr>
     | Gate_pilot \<Rightarrow> ob\<lparr>ob_pilot_evidence_uri := Some uri\<rparr>
     | Gate_legal \<Rightarrow> ob\<lparr>ob_legal_evidence_uri := uri\<rparr>)"

definition decideCounterpartyOnboardingGate :: "env \<Rightarrow> actor \<Rightarrow> gate_input \<Rightarrow> onboarding_stage tx" where
  "decideCounterpartyOnboardingGate e a i db =
    (if role a \<notin> set (permittedGateRoles (gi_gate i)) then
       Inl (Refused ''this role cannot decide the selected onboarding gate'')
     else case find_row ob_id (gi_onboardingId i) (counterparty_onboardings db) of
       None \<Rightarrow> Inl (Refused ''counterparty onboarding lifecycle was not found'')
     | Some ob \<Rightarrow> (case gate_guard a i ob db of
         Inl er \<Rightarrow> Inl er
       | Inr _ \<Rightarrow>
           (let ds = insert_row (gate_row a i ob) (onboarding_gate_decisions db);
                nextStage = next_stage i ob ds
            in Inr (nextStage,
              insert_event e a ''counterparty_onboarding.gate_decided'' ''counterparty_onboarding'' (Some (gi_onboardingId i))
                [(''gate'', JStr (onboarding_gate_text (gi_gate i))), (''decision'', JStr (gate_decision_text (gi_decision i))),
                 (''from'', JStr (onboarding_stage_text (ob_stage ob))), (''to'', JStr (onboarding_stage_text nextStage)),
                 (''cycleNumber'', JNum (ob_cycle_number ob))]
                (db\<lparr>onboarding_gate_decisions := ds,
                    counterparty_onboardings := update_row ob_id (gi_onboardingId i)
                      (\<lambda>r. (set_gate_evidence (gi_gate i) (gi_evidenceUri i) r)\<lparr>ob_stage := nextStage,
                             ob_current_reason := Some (gi_rationale i), ob_updated_at := pg_now e\<rparr>)
                      (counterparty_onboardings db)\<rparr>)))))"

definition beginCounterpartyRecertification ::
  "env \<Rightarrow> actor \<Rightarrow> uuid \<Rightarrow> string \<Rightarrow> instant \<Rightarrow> unit tx" where
  "beginCounterpartyRecertification e a onboardingId legalEvidenceUri dueAt db =
    (if dueAt \<le> js_now e then Inl (Refused ''next recertification due date must be in the future'')
     else case find_row ob_id onboardingId (counterparty_onboardings db) of
       None \<Rightarrow> Inl (Refused ''counterparty onboarding lifecycle was not found'')
     | Some ob \<Rightarrow>
         if ob_stage ob \<noteq> OB_steady_state then
           Inl (Refused ''only a steady-state counterparty can enter recertification'')
         else if (case ob_recertification_due_at ob of None \<Rightarrow> True | Some t \<Rightarrow> js_now e < t) then
           Inl (Refused ''recertification is not yet due'')
         else if 2147483647 < ob_cycle_number ob + 1 then Inl (NumericOverflow ''counterparty_onboardings'')
         else Inr ((),
           insert_event e a ''counterparty_onboarding.recertification_started'' ''counterparty_onboarding'' (Some onboardingId)
             [(''from'', JStr ''steady_state''), (''to'', JStr ''legal_onboarding''),
              (''priorCycle'', JNum (ob_cycle_number ob)), (''nextCycle'', JNum (ob_cycle_number ob + 1))]
             (db\<lparr>counterparty_onboardings := update_row ob_id onboardingId
                (\<lambda>r. r\<lparr>ob_stage := OB_legal_onboarding, ob_cycle_number := ob_cycle_number r + 1,
                       ob_legal_evidence_uri := legalEvidenceUri, ob_technical_evidence_uri := None,
                       ob_pilot_evidence_uri := None, ob_current_reason := Some ''recertification cycle started'',
                       ob_recertification_due_at := Some dueAt, ob_updated_at := pg_now e\<rparr>)
                (counterparty_onboardings db)\<rparr>)))"

section \<open>Steps and invariant\<close>

inductive onboarding_step :: "db \<Rightarrow> db \<Rightarrow> bool" where
  onboarding_created: "createCounterpartyOnboarding e a c ov u d db = Inr (r1, db') \<Longrightarrow> onboarding_step db db'"
| gate_decided: "decideCounterpartyOnboardingGate e a gi db = Inr (r2, db') \<Longrightarrow> onboarding_step db db'"
| recertification_begun: "beginCounterpartyRecertification e a k u d db = Inr (r3, db') \<Longrightarrow> onboarding_step db db'"

text \<open>The gates of the current cycle that an onboarding has passed, by its stage.\<close>

definition gate_approved :: "uuid \<Rightarrow> int \<Rightarrow> onboarding_gate \<Rightarrow> onboarding_gate_decision list \<Rightarrow> bool" where
  "gate_approved k cycle g ds \<longleftrightarrow> list_ex (\<lambda>d. gd_decision d = Decision_approved) (gate_decisions k cycle g ds)"

text \<open>
  The pilot decisions of a cycle: all approvals, by pairwise different people in pairwise
  different roles that may decide the pilot gate.
\<close>

definition independent_approvals :: "onboarding_gate_decision list \<Rightarrow> bool" where
  "independent_approvals ds \<longleftrightarrow> list_all (\<lambda>d. gd_decision d = Decision_approved \<and>
       gd_decided_role d \<in> set (permittedGateRoles Gate_pilot)) ds \<and>
     distinct (map gd_decided_by ds) \<and> distinct (map gd_decided_role ds)"

definition stage_ok :: "onboarding_gate_decision list \<Rightarrow> counterparty_onboarding \<Rightarrow> bool" where
  "stage_ok ds ob \<longleftrightarrow>
    (let k = ob_id ob; c = ob_cycle_number ob; pilots = gate_decisions k c Gate_pilot ds
     in (case ob_stage ob of
           OB_legal_onboarding \<Rightarrow> gate_decisions k c Gate_legal ds = [] \<and> gate_decisions k c Gate_technical ds = [] \<and> pilots = []
         | OB_technical_readiness \<Rightarrow> gate_approved k c Gate_legal ds \<and> gate_decisions k c Gate_technical ds = [] \<and> pilots = []
         | OB_pilot \<Rightarrow> gate_approved k c Gate_legal ds \<and> gate_approved k c Gate_technical ds \<and>
             independent_approvals pilots \<and> length pilots \<le> 1
         | OB_steady_state \<Rightarrow> gate_approved k c Gate_legal ds \<and> gate_approved k c Gate_technical ds \<and>
             independent_approvals pilots \<and> length pilots = 2
         | OB_recertification_due \<Rightarrow> False
         | OB_blocked \<Rightarrow> list_ex (\<lambda>d. gd_onboarding_id d = k \<and> gd_cycle_number d = c \<and> gd_decision d = Decision_blocked) ds))"

definition onboarding_inv :: "db \<Rightarrow> bool" where
  "onboarding_inv db \<longleftrightarrow>
     distinct_keys ob_id (counterparty_onboardings db) \<and> distinct_keys ob_counterparty_id (counterparty_onboardings db) \<and>
     (\<forall>ob \<in> set (counterparty_onboardings db). stage_ok (onboarding_gate_decisions db) ob \<and>
        0 < ob_cycle_number ob \<and> ob_cycle_number ob \<le> 2147483647) \<and>
     (\<forall>d \<in> set (onboarding_gate_decisions db). \<exists>ob \<in> set (counterparty_onboardings db).
        ob_id ob = gd_onboarding_id d \<and> gd_cycle_number d \<le> ob_cycle_number ob)"

section \<open>Every operation keeps the invariant\<close>

lemma gate_decisions_insert:
  "gate_decisions k c g (insert_row d ds) = gate_decisions k c g ds @
     (if gd_onboarding_id d = k \<and> gd_cycle_number d = c \<and> gd_gate d = g then [d] else [])"
  by (simp add: gate_decisions_def insert_row_def)

lemma stage_ok_other:
  assumes "gd_onboarding_id d \<noteq> ob_id ob"
  shows "stage_ok (insert_row d ds) ob = stage_ok ds ob"
  using assms
  by (cases "ob_stage ob") (simp_all add: stage_ok_def Let_def gate_approved_def gate_decisions_def insert_row_def)

text \<open>Evidence, reason and time stamps do not matter for the stage.\<close>

definition gate_update :: "env \<Rightarrow> gate_input \<Rightarrow> onboarding_stage \<Rightarrow> counterparty_onboarding \<Rightarrow> counterparty_onboarding" where
  "gate_update e i st r = (set_gate_evidence (gi_gate i) (gi_evidenceUri i) r)\<lparr>ob_stage := st,
     ob_current_reason := Some (gi_rationale i), ob_updated_at := pg_now e\<rparr>"

lemma gate_update_sel [simp]:
  "ob_id (gate_update e i st r) = ob_id r" "ob_cycle_number (gate_update e i st r) = ob_cycle_number r"
  "ob_stage (gate_update e i st r) = st" "ob_counterparty_id (gate_update e i st r) = ob_counterparty_id r"
  by (cases "gi_gate i"; simp add: gate_update_def set_gate_evidence_def)+

lemma gate_row_sel [simp]:
  "gd_onboarding_id (gate_row a i ob) = gi_onboardingId i" "gd_cycle_number (gate_row a i ob) = ob_cycle_number ob"
  "gd_gate (gate_row a i ob) = gi_gate i" "gd_decision (gate_row a i ob) = gi_decision i"
  "gd_decided_by (gate_row a i ob) = openId a" "gd_decided_role (gate_row a i ob) = role a"
  by (simp_all add: gate_row_def)

text \<open>A second approval in a role or by a person that has not decided yet.\<close>

lemma independent_approvals_Nil [simp]: "independent_approvals []"
  by (simp add: independent_approvals_def)

lemma independent_approvals_snoc:
  "independent_approvals (ds @ [d]) \<longleftrightarrow> independent_approvals ds \<and> gd_decision d = Decision_approved \<and>
     gd_decided_role d \<in> set (permittedGateRoles Gate_pilot) \<and>
     gd_decided_by d \<notin> gd_decided_by ` set ds \<and> gd_decided_role d \<notin> gd_decided_role ` set ds"
  by (auto simp: independent_approvals_def)

lemma independent_approvals_all_approved:
  "independent_approvals ds \<Longrightarrow> filter (\<lambda>d. gd_decision d = Decision_approved) ds = ds"
  by (auto simp: independent_approvals_def list_all_iff intro: filter_True)

lemma gate_decided_stage_ok:
  assumes ok: "stage_ok ds ob" and id: "ob_id ob = gi_onboardingId i"
    and perm: "role a \<in> set (permittedGateRoles (gi_gate i))"
    and guard: "gate_guard a i ob (db\<lparr>onboarding_gate_decisions := ds\<rparr>) = Inr u"
  defines "ds' \<equiv> insert_row (gate_row a i ob) ds"
  shows "stage_ok ds' (gate_update e i (next_stage i ob ds') ob)"
proof (cases "gi_decision i")
  case Decision_blocked
  then have "next_stage i ob ds' = OB_blocked" by (simp add: next_stage_def)
  then show ?thesis
    using Decision_blocked id by (simp add: stage_ok_def Let_def) (simp add: ds'_def insert_row_def)
next
  case Decision_approved
  have stage: "ob_stage ob = stageForGate (gi_gate i)"
    using guard by (auto simp: gate_guard_def split: if_splits)
  show ?thesis
  proof (cases "gi_gate i")
    case Gate_legal
    then show ?thesis
      using ok stage id Decision_approved
      by (simp add: stage_ok_def Let_def next_stage_def ds'_def gate_decisions_insert gate_approved_def)
  next
    case Gate_technical
    then show ?thesis
      using ok stage id Decision_approved
      by (simp add: stage_ok_def Let_def next_stage_def ds'_def gate_decisions_insert gate_approved_def)
  next
    case Gate_pilot
    let ?ps = "gate_decisions (gi_onboardingId i) (ob_cycle_number ob) Gate_pilot ds"
    have ps: "independent_approvals ?ps" "length ?ps \<le> 1"
      and past: "gate_approved (gi_onboardingId i) (ob_cycle_number ob) Gate_legal ds"
        "gate_approved (gi_onboardingId i) (ob_cycle_number ob) Gate_technical ds"
      using ok stage Gate_pilot id by (simp_all add: stage_ok_def Let_def)
    have "openId a \<notin> gd_decided_by ` set ?ps" "role a \<notin> gd_decided_role ` set ?ps"
      using guard Gate_pilot by (auto simp: gate_guard_def list_ex_iff split: if_splits)
    then have new: "independent_approvals (?ps @ [gate_row a i ob])"
      using ps(1) perm Gate_pilot Decision_approved by (simp add: independent_approvals_snoc)
    have "next_stage i ob ds' = (if length ?ps = 1 then OB_steady_state else OB_pilot)"
      using Decision_approved Gate_pilot stage independent_approvals_all_approved [OF new]
      by (simp add: next_stage_def ds'_def gate_decisions_insert)
    moreover have "length ?ps = 1 \<or> ?ps = []" using ps(2) by (cases ?ps) auto
    ultimately show ?thesis
      using past new id Gate_pilot
      by (auto simp add: stage_ok_def Let_def ds'_def gate_decisions_insert gate_approved_def)
  qed
qed

lemma decide_effect:
  assumes "decideCounterpartyOnboardingGate e a i db = Inr (r, db')"
  obtains ob where "find_row ob_id (gi_onboardingId i) (counterparty_onboardings db) = Some ob"
    "role a \<in> set (permittedGateRoles (gi_gate i))" "gate_guard a i ob db = Inr ()"
    "onboarding_gate_decisions db' = insert_row (gate_row a i ob) (onboarding_gate_decisions db)"
    "r = next_stage i ob (onboarding_gate_decisions db')"
    "counterparty_onboardings db' = update_row ob_id (gi_onboardingId i) (gate_update e i r) (counterparty_onboardings db)"
  using assms
  by (auto simp: decideCounterpartyOnboardingGate_def Let_def gate_update_def [abs_def]
      split: if_splits option.splits sum.splits intro!: that)

lemma decide_inv:
  assumes inv: "onboarding_inv db" and "decideCounterpartyOnboardingGate e a i db = Inr (r, db')"
  shows "onboarding_inv db'"
  using assms(2)
proof (rule decide_effect)
  fix ob
  let ?k = "gi_onboardingId i"
  assume ob: "find_row ob_id ?k (counterparty_onboardings db) = Some ob"
    and perm: "role a \<in> set (permittedGateRoles (gi_gate i))" and guard: "gate_guard a i ob db = Inr ()"
    and ds: "onboarding_gate_decisions db' = insert_row (gate_row a i ob) (onboarding_gate_decisions db)"
    and r: "r = next_stage i ob (onboarding_gate_decisions db')"
    and tab: "counterparty_onboardings db' = update_row ob_id ?k (gate_update e i r) (counterparty_onboardings db)"
  have mem: "ob \<in> set (counterparty_onboardings db)" and id: "ob_id ob = ?k" using find_row_mem [OF ob] by auto
  have dist: "distinct_keys ob_id (counterparty_onboardings db)"
    and ok: "\<And>x. x \<in> set (counterparty_onboardings db) \<Longrightarrow> stage_ok (onboarding_gate_decisions db) x \<and>
        0 < ob_cycle_number x \<and> ob_cycle_number x \<le> 2147483647"
    and own: "\<And>d. d \<in> set (onboarding_gate_decisions db) \<Longrightarrow> \<exists>x \<in> set (counterparty_onboardings db).
        ob_id x = gd_onboarding_id d \<and> gd_cycle_number d \<le> ob_cycle_number x"
    using inv by (auto simp: onboarding_inv_def)
  have rows: "\<forall>x \<in> set (counterparty_onboardings db'). stage_ok (onboarding_gate_decisions db') x \<and>
        0 < ob_cycle_number x \<and> ob_cycle_number x \<le> 2147483647"
    unfolding tab
  proof (rule onboarding_table.all_rows_upd)
    fix x assume x: "x \<in> set (counterparty_onboardings db)" "ob_id x = ?k"
    then have "x = ob" by (rule unique_row [OF dist ob])
    moreover have "stage_ok (onboarding_gate_decisions db') (gate_update e i r ob)"
      unfolding r ds by (rule gate_decided_stage_ok [where db = db]) (use ok [OF mem] id perm guard in simp_all)
    ultimately show "stage_ok (onboarding_gate_decisions db') (gate_update e i r x) \<and>
        0 < ob_cycle_number (gate_update e i r x) \<and> ob_cycle_number (gate_update e i r x) \<le> 2147483647"
      using ok [OF mem] by simp
  next
    fix x assume "x \<in> set (counterparty_onboardings db)" "ob_id x \<noteq> ?k"
    then show "stage_ok (onboarding_gate_decisions db') x \<and> 0 < ob_cycle_number x \<and> ob_cycle_number x \<le> 2147483647"
      using ok by (simp add: ds stage_ok_other)
  qed
  have owner: "\<exists>x \<in> set (counterparty_onboardings db'). ob_id x = gd_onboarding_id d \<and> gd_cycle_number d \<le> ob_cycle_number x"
    if "d \<in> set (onboarding_gate_decisions db')" for d
  proof -
    have "\<exists>x \<in> set (counterparty_onboardings db). ob_id x = gd_onboarding_id d \<and> gd_cycle_number d \<le> ob_cycle_number x"
      using that own mem id by (auto simp: ds table_simps)
    then obtain x where x: "x \<in> set (counterparty_onboardings db)" "ob_id x = gd_onboarding_id d"
      "gd_cycle_number d \<le> ob_cycle_number x" by auto
    have "(if ob_id x = ?k then gate_update e i r x else x) \<in> set (counterparty_onboardings db')"
      unfolding tab set_update_row using x(1) by (rule imageI)
    then show ?thesis by (rule rev_bexI) (use x(2,3) in simp)
  qed
  show ?thesis
    unfolding onboarding_inv_def
    using inv rows owner by (simp add: onboarding_inv_def) (simp add: tab map_update_row)
qed

lemma onboarding_created_inv:
  assumes inv: "onboarding_inv db" and "createCounterpartyOnboarding e a c ov u d db = Inr (r, db')"
  shows "onboarding_inv db'"
proof -
  from assms(2) have new: "counterparty_onboardings db' = insert_row r (counterparty_onboardings db)"
    "ob_id r \<notin> ob_id ` set (counterparty_onboardings db)"
    "ob_counterparty_id r \<notin> ob_counterparty_id ` set (counterparty_onboardings db)"
    "onboarding_gate_decisions db' = onboarding_gate_decisions db" "ob_stage r = OB_legal_onboarding" "ob_cycle_number r = 1"
    by (auto simp: createCounterpartyOnboarding_def Let_def find_row_None split: if_splits sum.splits)
  have "gd_onboarding_id x \<noteq> ob_id r" if "x \<in> set (onboarding_gate_decisions db)" for x
  proof -
    from inv that have "gd_onboarding_id x \<in> ob_id ` set (counterparty_onboardings db)"
      unfolding onboarding_inv_def by (metis imageI)
    with new(2) show ?thesis by metis
  qed
  then have "gate_decisions (ob_id r) y g (onboarding_gate_decisions db) = []" for y g
    by (auto simp: gate_decisions_def filter_empty_conv)
  then have "stage_ok (onboarding_gate_decisions db) r"
    using new(5) by (simp add: stage_ok_def Let_def)
  then show ?thesis
    using inv new by (simp add: onboarding_inv_def table_simps)
qed

lemma recertification_inv:
  assumes inv: "onboarding_inv db" and "beginCounterpartyRecertification e a k u d db = Inr (r, db')"
  shows "onboarding_inv db'"
proof -
  let ?f = "\<lambda>r. r\<lparr>ob_stage := OB_legal_onboarding, ob_cycle_number := ob_cycle_number r + 1,
       ob_legal_evidence_uri := u, ob_technical_evidence_uri := None, ob_pilot_evidence_uri := None,
       ob_current_reason := Some ''recertification cycle started'', ob_recertification_due_at := Some d,
       ob_updated_at := pg_now e\<rparr>"
  from assms(2) obtain ob where ob: "find_row ob_id k (counterparty_onboardings db) = Some ob"
    and cyc: "ob_cycle_number ob + 1 \<le> 2147483647"
    and tab: "counterparty_onboardings db' = update_row ob_id k ?f (counterparty_onboardings db)"
    and ds: "onboarding_gate_decisions db' = onboarding_gate_decisions db"
    by (auto simp: beginCounterpartyRecertification_def split: if_splits option.splits)
  have dist: "distinct_keys ob_id (counterparty_onboardings db)"
    and ok: "\<And>x. x \<in> set (counterparty_onboardings db) \<Longrightarrow> stage_ok (onboarding_gate_decisions db) x \<and>
        0 < ob_cycle_number x \<and> ob_cycle_number x \<le> 2147483647"
    and own: "\<And>d. d \<in> set (onboarding_gate_decisions db) \<Longrightarrow> \<exists>x \<in> set (counterparty_onboardings db).
        ob_id x = gd_onboarding_id d \<and> gd_cycle_number d \<le> ob_cycle_number x"
    using inv by (auto simp: onboarding_inv_def)
  have mem: "ob \<in> set (counterparty_onboardings db)" and id: "ob_id ob = k" using find_row_mem [OF ob] by auto
  have none: "gate_decisions k (ob_cycle_number ob + 1) g (onboarding_gate_decisions db) = []" for g
  proof -
    have "gd_cycle_number x \<le> ob_cycle_number ob" if "x \<in> set (onboarding_gate_decisions db)" "gd_onboarding_id x = k" for x
      using own [OF that(1)] that(2) unique_row [OF dist ob] by auto
    then show ?thesis by (force simp: gate_decisions_def filter_empty_conv)
  qed
  have rows: "\<forall>x \<in> set (counterparty_onboardings db'). stage_ok (onboarding_gate_decisions db') x \<and>
        0 < ob_cycle_number x \<and> ob_cycle_number x \<le> 2147483647"
    unfolding tab ds
  proof (rule onboarding_table.all_rows_upd)
    fix x assume x: "x \<in> set (counterparty_onboardings db)" "ob_id x = k"
    then have "x = ob" by (rule unique_row [OF dist ob])
    then show "stage_ok (onboarding_gate_decisions db) (?f x) \<and> 0 < ob_cycle_number (?f x) \<and> ob_cycle_number (?f x) \<le> 2147483647"
      using ok [OF mem] cyc none id by (simp add: stage_ok_def Let_def)
  qed (use ok in blast)
  have owner: "\<exists>x \<in> set (counterparty_onboardings db'). ob_id x = gd_onboarding_id d \<and> gd_cycle_number d \<le> ob_cycle_number x"
    if "d \<in> set (onboarding_gate_decisions db')" for d
  proof -
    from own that ds obtain x where x: "x \<in> set (counterparty_onboardings db)" "ob_id x = gd_onboarding_id d"
      "gd_cycle_number d \<le> ob_cycle_number x" by auto
    have "(if ob_id x = k then ?f x else x) \<in> set (counterparty_onboardings db')"
      unfolding tab set_update_row using x(1) by (rule imageI)
    then show ?thesis by (rule rev_bexI) (use x(2,3) in simp)
  qed
  show ?thesis
    unfolding onboarding_inv_def
    using inv rows owner by (simp add: onboarding_inv_def) (simp add: tab map_update_row)
qed

lemma onboarding_step_inv: "onboarding_inv db \<Longrightarrow> onboarding_step db db' \<Longrightarrow> onboarding_inv db'"
  by (erule onboarding_step.cases) (blast intro: onboarding_created_inv decide_inv recertification_inv)+

lemma onboarding_step_effect:
  assumes "onboarding_step db db'"
  shows "prefix (activity_events db) (activity_events db') \<and>
    db'\<lparr>counterparty_onboardings := counterparty_onboardings db,
       onboarding_gate_decisions := onboarding_gate_decisions db, activity_events := activity_events db\<rparr> = db"
  using assms
  by cases (auto simp: createCounterpartyOnboarding_def decideCounterpartyOnboardingGate_def
      beginCounterpartyRecertification_def Let_def insert_event_def split: if_splits option.splits sum.splits)

section \<open>Blocked is final, and cycles only grow\<close>

definition onboarding_stage_of :: "db \<Rightarrow> uuid \<Rightarrow> onboarding_stage option" where
  "onboarding_stage_of db k = map_option ob_stage (find_row ob_id k (counterparty_onboardings db))"

fun onboarding_stage_transitions :: "onboarding_stage \<Rightarrow> onboarding_stage list" where
  "onboarding_stage_transitions OB_legal_onboarding = [OB_technical_readiness, OB_blocked]"
| "onboarding_stage_transitions OB_technical_readiness = [OB_pilot, OB_blocked]"
| "onboarding_stage_transitions OB_pilot = [OB_steady_state, OB_blocked]"
| "onboarding_stage_transitions OB_steady_state = [OB_legal_onboarding]"
| "onboarding_stage_transitions OB_recertification_due = []"
| "onboarding_stage_transitions OB_blocked = []"

lemma onboarding_stage_step:
  assumes "onboarding_step db db'" and "onboarding_stage_of db k = Some st"
  shows "\<exists>st'. onboarding_stage_of db' k = Some st' \<and> (st' = st \<or> st' \<in> set (onboarding_stage_transitions st))"
  using assms(1)
proof cases
  case (gate_decided e a i r)
  then show ?thesis
  proof (rule decide_effect)
    fix ob assume ob: "find_row ob_id (gi_onboardingId i) (counterparty_onboardings db) = Some ob"
      and guard: "gate_guard a i ob db = Inr ()"
      and r: "r = next_stage i ob (onboarding_gate_decisions db')"
      and tab: "counterparty_onboardings db' = update_row ob_id (gi_onboardingId i) (gate_update e i r) (counterparty_onboardings db)"
    have "ob_stage ob = stageForGate (gi_gate i)"
      using guard by (auto simp: gate_guard_def split: if_splits)
    then have "r = ob_stage ob \<or> r \<in> set (onboarding_stage_transitions (ob_stage ob))"
      unfolding r next_stage_def by (cases "gi_gate i") auto
    then show ?thesis
      using assms(2) ob by (auto simp: onboarding_stage_of_def tab find_row_update)
  qed
qed (use assms(2) in \<open>auto simp: onboarding_stage_of_def createCounterpartyOnboarding_def
      beginCounterpartyRecertification_def Let_def table_simps split: if_splits option.splits sum.splits\<close>)

end
