(* ===== verification/Phase_Lifecycles.thy ===== *)
theory Phase_Lifecycles
  imports Umoja_Store
begin

text \<open>
  The two phase lifecycles of the platform's own people: operator onboarding
  (\<open>server/operatorOnboardingLifecycle.ts\<close>) and external-auditor engagements
  (\<open>server/auditorEngagementLifecycle.ts\<close>). Each is a straight line of four phases; a step is
  recorded only in its phase, stores its evidence and moves to the next phase, and the last
  phase is renewed any number of times.
\<close>

section \<open>Operator onboarding\<close>

definition operator_activity :: "env \<Rightarrow> actor \<Rightarrow> string \<Rightarrow> uuid \<Rightarrow> (string \<times> json) list \<Rightarrow> db \<Rightarrow> db" where
  "operator_activity e a action objectId metadata = insert_event e a action ''operator_onboarding_record'' (Some objectId) metadata"

definition startOperatorOnboarding :: "env \<Rightarrow> actor \<Rightarrow> string \<Rightarrow> operator_onboarding tx" where
  "startOperatorOnboarding e a subject db =
    (if find_row oo_id (new_uuid e) (operator_onboardings db) \<noteq> None then Inl (UniqueViolation ''operator_onboarding_records'')
     else let row = \<lparr>oo_id = new_uuid e, oo_subject = subject, oo_phase = OP_role_access_request,
                oo_sod_matrix_reviewed = False, oo_sod_matrix_reviewed_by = None, oo_sod_matrix_reviewed_at = None,
                oo_sod_matrix_note = None, oo_lms_cert_reference = None, oo_lms_cert_assigned_at = None,
                oo_shadow_period_supervised_by = None, oo_shadow_period_started_at = None,
                oo_shadow_period_ended_at = None, oo_steady_state_activated_at = None, oo_next_recert_due_at = None,
                oo_created_by = openId a\<rparr>
          in Inr (row, operator_activity e a ''operator_onboarding.started'' (oo_id row) [(''subject'', JStr subject)]
               (db\<lparr>operator_onboardings := insert_row row (operator_onboardings db)\<rparr>)))"

text \<open>
  The shared frame of the four later steps: the row is locked and its phase compared, the update
  is applied, and the returned row is logged.
\<close>

definition operator_step_at ::
  "operator_phase \<Rightarrow> string \<Rightarrow> (operator_onboarding \<Rightarrow> operator_onboarding) \<Rightarrow> string \<Rightarrow> (string \<times> json) list
    \<Rightarrow> env \<Rightarrow> actor \<Rightarrow> uuid \<Rightarrow> operator_onboarding tx" where
  "operator_step_at phase wrong f action metadata e a onboardingId db =
    (case find_row oo_id onboardingId (operator_onboardings db) of
       None \<Rightarrow> Inl (Refused ''operator onboarding record was not found'')
     | Some current \<Rightarrow>
         if oo_phase current \<noteq> phase then Inl (Refused wrong)
         else Inr (f current, operator_activity e a action onboardingId metadata
           (db\<lparr>operator_onboardings := update_row oo_id onboardingId f (operator_onboardings db)\<rparr>)))"

definition recordSodMatrixReview :: "env \<Rightarrow> actor \<Rightarrow> uuid \<Rightarrow> string \<Rightarrow> operator_onboarding tx" where
  "recordSodMatrixReview e a onboardingId note db =
    (if length (js_trim note) < 10 then Inl (Refused ''a SoD matrix review note of at least 10 characters is required'')
     else operator_step_at OP_role_access_request ''SoD matrix review only applies at the role-access-request phase''
       (\<lambda>r. r\<lparr>oo_sod_matrix_reviewed := True, oo_sod_matrix_reviewed_by := Some (openId a),
              oo_sod_matrix_reviewed_at := Some (pg_now e), oo_sod_matrix_note := Some (js_trim note),
              oo_phase := OP_lms_enrolment\<rparr>)
       ''operator_onboarding.sod_matrix_reviewed'' [(''note'', JStr (js_trim note))] e a onboardingId db)"

definition recordLmsEnrolment :: "env \<Rightarrow> actor \<Rightarrow> uuid \<Rightarrow> string \<Rightarrow> operator_onboarding tx" where
  "recordLmsEnrolment e a onboardingId certReference db =
    (if js_trim certReference = [] then Inl (Refused ''a certification reference is required'')
     else operator_step_at OP_lms_enrolment ''LMS enrolment only applies at the lms-enrolment phase''
       (\<lambda>r. r\<lparr>oo_lms_cert_reference := Some (js_trim certReference), oo_lms_cert_assigned_at := Some (pg_now e),
              oo_phase := OP_shadow_period\<rparr>)
       ''operator_onboarding.lms_enrolled'' [(''certReference'', JStr (js_trim certReference))] e a onboardingId db)"

text \<open>\<open>COALESCE(x, y)\<close>.\<close>

definition coalesce :: "'a option \<Rightarrow> 'a option \<Rightarrow> 'a option" where
  "coalesce x y = (case x of None \<Rightarrow> y | Some v \<Rightarrow> Some v)"

definition recordShadowPeriodSupervision :: "env \<Rightarrow> actor \<Rightarrow> uuid \<Rightarrow> string \<Rightarrow> operator_onboarding tx" where
  "recordShadowPeriodSupervision e a onboardingId supervisedBy db =
    (if js_trim supervisedBy = [] then Inl (Refused ''a supervising operator is required'')
     else operator_step_at OP_shadow_period ''shadow-period supervision only applies at the shadow-period phase''
       (\<lambda>r. r\<lparr>oo_shadow_period_supervised_by := Some (js_trim supervisedBy),
              oo_shadow_period_started_at := coalesce (oo_shadow_period_started_at r) (Some (pg_now e)),
              oo_shadow_period_ended_at := Some (pg_now e), oo_phase := OP_steady_state\<rparr>)
       ''operator_onboarding.shadow_period_supervised'' [(''supervisedBy'', JStr (js_trim supervisedBy))] e a onboardingId db)"

definition recordOperatorRecertification :: "env \<Rightarrow> actor \<Rightarrow> uuid \<Rightarrow> instant \<Rightarrow> operator_onboarding tx" where
  "recordOperatorRecertification e a onboardingId nextRecertDueAt db =
     operator_step_at OP_steady_state ''recertification only applies once steady-state has been reached''
       (\<lambda>r. r\<lparr>oo_steady_state_activated_at := coalesce (oo_steady_state_activated_at r) (Some (pg_now e)),
              oo_next_recert_due_at := Some nextRecertDueAt\<rparr>)
       ''operator_onboarding.recertified'' [(''nextRecertDueAt'', JTime nextRecertDueAt)] e a onboardingId db"

section \<open>Auditor engagements\<close>

definition engagement_activity :: "env \<Rightarrow> actor \<Rightarrow> string \<Rightarrow> uuid \<Rightarrow> (string \<times> json) list \<Rightarrow> db \<Rightarrow> db" where
  "engagement_activity e a action objectId metadata = insert_event e a action ''auditor_engagement_record'' (Some objectId) metadata"

definition startAuditorEngagement :: "env \<Rightarrow> actor \<Rightarrow> string \<Rightarrow> string \<Rightarrow> auditor_engagement tx" where
  "startAuditorEngagement e a auditorFirmName engagementReference db =
    (if find_row ae_id (new_uuid e) (auditor_engagements db) \<noteq> None then Inl (UniqueViolation ''auditor_engagement_records'')
     else let row = \<lparr>ae_id = new_uuid e, ae_auditor_firm_name = auditorFirmName,
                ae_engagement_reference = engagementReference, ae_phase = AE_engagement_letter,
                ae_engagement_letter_uri = None, ae_engagement_letter_signed_at = None, ae_scope_note = None,
                ae_auditor_subject = None, ae_access_provisioned_at = None, ae_access_provisioned_by = None,
                ae_fieldwork_note = None, ae_fieldwork_started_at = None, ae_fieldwork_completed_at = None,
                ae_last_annual_review_at = None, ae_next_annual_review_due_at = None, ae_created_by = openId a\<rparr>
          in Inr (row, engagement_activity e a ''auditor_engagement.started'' (ae_id row)
               [(''auditorFirmName'', JStr auditorFirmName), (''engagementReference'', JStr engagementReference)]
               (db\<lparr>auditor_engagements := insert_row row (auditor_engagements db)\<rparr>)))"

definition engagement_step_at ::
  "engagement_phase \<Rightarrow> string \<Rightarrow> (auditor_engagement \<Rightarrow> auditor_engagement) \<Rightarrow> string \<Rightarrow> (string \<times> json) list
    \<Rightarrow> env \<Rightarrow> actor \<Rightarrow> uuid \<Rightarrow> auditor_engagement tx" where
  "engagement_step_at phase wrong f action metadata e a engagementId db =
    (case find_row ae_id engagementId (auditor_engagements db) of
       None \<Rightarrow> Inl (Refused ''auditor engagement record was not found'')
     | Some current \<Rightarrow>
         if ae_phase current \<noteq> phase then Inl (Refused wrong)
         else Inr (f current, engagement_activity e a action engagementId metadata
           (db\<lparr>auditor_engagements := update_row ae_id engagementId f (auditor_engagements db)\<rparr>)))"

definition recordEngagementLetter :: "env \<Rightarrow> actor \<Rightarrow> uuid \<Rightarrow> string \<Rightarrow> string \<Rightarrow> auditor_engagement tx" where
  "recordEngagementLetter e a engagementId engagementLetterUri scopeNote db =
    (if length (js_trim scopeNote) < 10 then Inl (Refused ''a scope note of at least 10 characters is required'')
     else engagement_step_at AE_engagement_letter ''the engagement letter step only applies at the engagement-letter phase''
       (\<lambda>r. r\<lparr>ae_engagement_letter_uri := Some engagementLetterUri, ae_engagement_letter_signed_at := Some (pg_now e),
              ae_scope_note := Some (js_trim scopeNote), ae_phase := AE_access_provisioning\<rparr>)
       ''auditor_engagement.letter_signed'' [(''engagementLetterUri'', JStr engagementLetterUri)] e a engagementId db)"

definition recordAccessProvisioning :: "env \<Rightarrow> actor \<Rightarrow> uuid \<Rightarrow> string \<Rightarrow> auditor_engagement tx" where
  "recordAccessProvisioning e a engagementId auditorSubject db =
    (if js_trim auditorSubject = [] then Inl (Refused ''the provisioned auditor's platform subject is required'')
     else engagement_step_at AE_access_provisioning ''access provisioning only applies at the access-provisioning phase''
       (\<lambda>r. r\<lparr>ae_auditor_subject := Some (js_trim auditorSubject), ae_access_provisioned_at := Some (pg_now e),
              ae_access_provisioned_by := Some (openId a), ae_phase := AE_audit_fieldwork\<rparr>)
       ''auditor_engagement.access_provisioned'' [(''auditorSubject'', JStr (js_trim auditorSubject))] e a engagementId db)"

definition recordAuditFieldwork :: "env \<Rightarrow> actor \<Rightarrow> uuid \<Rightarrow> string \<Rightarrow> auditor_engagement tx" where
  "recordAuditFieldwork e a engagementId fieldworkNote db =
    (if length (js_trim fieldworkNote) < 10 then Inl (Refused ''a fieldwork note of at least 10 characters is required'')
     else engagement_step_at AE_audit_fieldwork ''fieldwork recording only applies at the audit-fieldwork phase''
       (\<lambda>r. r\<lparr>ae_fieldwork_note := Some (js_trim fieldworkNote),
              ae_fieldwork_started_at := coalesce (ae_fieldwork_started_at r) (Some (pg_now e)),
              ae_fieldwork_completed_at := Some (pg_now e), ae_phase := AE_annual_review\<rparr>)
       ''auditor_engagement.fieldwork_recorded'' [(''fieldworkNote'', JStr (js_trim fieldworkNote))] e a engagementId db)"

definition recordAnnualReview :: "env \<Rightarrow> actor \<Rightarrow> uuid \<Rightarrow> instant \<Rightarrow> auditor_engagement tx" where
  "recordAnnualReview e a engagementId nextAnnualReviewDueAt db =
     engagement_step_at AE_annual_review ''annual review only applies once the annual-review phase has been reached''
       (\<lambda>r. r\<lparr>ae_last_annual_review_at := Some (pg_now e), ae_next_annual_review_due_at := Some nextAnnualReviewDueAt\<rparr>)
       ''auditor_engagement.annual_review_recorded'' [(''nextAnnualReviewDueAt'', JTime nextAnnualReviewDueAt)]
       e a engagementId db"

section \<open>Steps and invariant\<close>

inductive operator_step :: "db \<Rightarrow> db \<Rightarrow> bool" where
  operator_started: "startOperatorOnboarding e a s db = Inr (r, db') \<Longrightarrow> operator_step db db'"
| matrix_reviewed: "recordSodMatrixReview e a k s db = Inr (r, db') \<Longrightarrow> operator_step db db'"
| enrolled: "recordLmsEnrolment e a k s db = Inr (r, db') \<Longrightarrow> operator_step db db'"
| supervised: "recordShadowPeriodSupervision e a k s db = Inr (r, db') \<Longrightarrow> operator_step db db'"
| recertified: "recordOperatorRecertification e a k d db = Inr (r, db') \<Longrightarrow> operator_step db db'"

inductive engagement_step :: "db \<Rightarrow> db \<Rightarrow> bool" where
  engagement_started: "startAuditorEngagement e a n f db = Inr (r, db') \<Longrightarrow> engagement_step db db'"
| letter_signed: "recordEngagementLetter e a k u s db = Inr (r, db') \<Longrightarrow> engagement_step db db'"
| access_provisioned: "recordAccessProvisioning e a k s db = Inr (r, db') \<Longrightarrow> engagement_step db db'"
| fieldwork_recorded: "recordAuditFieldwork e a k s db = Inr (r, db') \<Longrightarrow> engagement_step db db'"
| review_held: "recordAnnualReview e a k d db = Inr (r, db') \<Longrightarrow> engagement_step db db'"

text \<open>A text of at least the given length is on file.\<close>

definition on_file :: "nat \<Rightarrow> string option \<Rightarrow> bool" where
  "on_file n x \<longleftrightarrow> (case x of None \<Rightarrow> False | Some s \<Rightarrow> n \<le> length s)"

fun operator_rank :: "operator_phase \<Rightarrow> nat" where
  "operator_rank OP_role_access_request = 0"
| "operator_rank OP_lms_enrolment = 1"
| "operator_rank OP_shadow_period = 2"
| "operator_rank OP_steady_state = 3"

fun engagement_rank :: "engagement_phase \<Rightarrow> nat" where
  "engagement_rank AE_engagement_letter = 0"
| "engagement_rank AE_access_provisioning = 1"
| "engagement_rank AE_audit_fieldwork = 2"
| "engagement_rank AE_annual_review = 3"

text \<open>The evidence of a phase is on file exactly when the phase has been left.\<close>

definition operator_ok :: "operator_onboarding \<Rightarrow> bool" where
  "operator_ok r \<longleftrightarrow> (let n = operator_rank (oo_phase r) in
     oo_sod_matrix_reviewed r = (1 \<le> n) \<and> on_file 10 (oo_sod_matrix_note r) = (1 \<le> n) \<and>
     (oo_sod_matrix_reviewed_by r \<noteq> None) = (1 \<le> n) \<and> on_file 1 (oo_lms_cert_reference r) = (2 \<le> n) \<and>
     on_file 1 (oo_shadow_period_supervised_by r) = (3 \<le> n) \<and>
     oo_shadow_period_started_at r = oo_shadow_period_ended_at r \<and> (oo_shadow_period_ended_at r \<noteq> None) = (3 \<le> n) \<and>
     (oo_next_recert_due_at r \<noteq> None) = (oo_steady_state_activated_at r \<noteq> None) \<and>
     (n < 3 \<longrightarrow> oo_next_recert_due_at r = None))"

definition engagement_ok :: "auditor_engagement \<Rightarrow> bool" where
  "engagement_ok r \<longleftrightarrow> (let n = engagement_rank (ae_phase r) in
     (ae_engagement_letter_uri r \<noteq> None) = (1 \<le> n) \<and> on_file 10 (ae_scope_note r) = (1 \<le> n) \<and>
     on_file 1 (ae_auditor_subject r) = (2 \<le> n) \<and> (ae_access_provisioned_by r \<noteq> None) = (2 \<le> n) \<and>
     on_file 10 (ae_fieldwork_note r) = (3 \<le> n) \<and> ae_fieldwork_started_at r = ae_fieldwork_completed_at r \<and>
     (ae_fieldwork_completed_at r \<noteq> None) = (3 \<le> n) \<and>
     (ae_next_annual_review_due_at r \<noteq> None) = (ae_last_annual_review_at r \<noteq> None) \<and>
     (n < 3 \<longrightarrow> ae_last_annual_review_at r = None))"

definition phases_inv :: "db \<Rightarrow> bool" where
  "phases_inv db \<longleftrightarrow> distinct_keys oo_id (operator_onboardings db) \<and> distinct_keys ae_id (auditor_engagements db) \<and>
     (\<forall>r \<in> set (operator_onboardings db). operator_ok r) \<and> (\<forall>r \<in> set (auditor_engagements db). engagement_ok r)"

lemmas operator_op_defs = startOperatorOnboarding_def recordSodMatrixReview_def recordLmsEnrolment_def
  recordShadowPeriodSupervision_def recordOperatorRecertification_def operator_step_at_def operator_activity_def Let_def

lemmas engagement_op_defs = startAuditorEngagement_def recordEngagementLetter_def recordAccessProvisioning_def
  recordAuditFieldwork_def recordAnnualReview_def engagement_step_at_def engagement_activity_def Let_def

section \<open>What a step does\<close>

text \<open>Every step adds a well-formed first-phase row or moves one row that is in the right phase.\<close>

lemma operator_step_effect:
  assumes "operator_step db db'"
  obtains row where "operator_onboardings db' = insert_row row (operator_onboardings db)"
      "oo_id row \<notin> oo_id ` set (operator_onboardings db)" "operator_ok row"
      "auditor_engagements db' = auditor_engagements db"
  | k current f where "find_row oo_id k (operator_onboardings db) = Some current"
      "operator_onboardings db' = update_row oo_id k f (operator_onboardings db)" "\<And>r. oo_id (f r) = oo_id r"
      "operator_ok current \<Longrightarrow> operator_ok (f current)"
      "operator_rank (oo_phase (f current)) = min 3 (Suc (operator_rank (oo_phase current)))"
      "auditor_engagements db' = auditor_engagements db"
  using assms
proof cases
  case (operator_started e a s r)
  then show ?thesis
    by (intro that(1) [of r]) (auto simp: operator_op_defs find_row_None operator_ok_def on_file_def split: if_splits)
next
  case (matrix_reviewed e a k s r)
  then show ?thesis
    by (intro that(2) [of k "the (find_row oo_id k (operator_onboardings db))"
          "\<lambda>r. r\<lparr>oo_sod_matrix_reviewed := True, oo_sod_matrix_reviewed_by := Some (openId a),
              oo_sod_matrix_reviewed_at := Some (pg_now e), oo_sod_matrix_note := Some (js_trim s), oo_phase := OP_lms_enrolment\<rparr>"])
       (auto simp: operator_op_defs operator_ok_def on_file_def split: if_splits option.splits)
next
  case (enrolled e a k s r)
  then show ?thesis
    by (intro that(2) [of k "the (find_row oo_id k (operator_onboardings db))"
          "\<lambda>r. r\<lparr>oo_lms_cert_reference := Some (js_trim s), oo_lms_cert_assigned_at := Some (pg_now e), oo_phase := OP_shadow_period\<rparr>"])
       (auto simp: operator_op_defs operator_ok_def on_file_def Suc_le_eq split: if_splits option.splits)
next
  case (supervised e a k s r)
  then show ?thesis
    by (intro that(2) [of k "the (find_row oo_id k (operator_onboardings db))"
          "\<lambda>r. r\<lparr>oo_shadow_period_supervised_by := Some (js_trim s),
              oo_shadow_period_started_at := coalesce (oo_shadow_period_started_at r) (Some (pg_now e)),
              oo_shadow_period_ended_at := Some (pg_now e), oo_phase := OP_steady_state\<rparr>"])
       (auto simp: operator_op_defs operator_ok_def on_file_def coalesce_def Suc_le_eq split: if_splits option.splits)
next
  case (recertified e a k d r)
  then show ?thesis
    by (intro that(2) [of k "the (find_row oo_id k (operator_onboardings db))"
          "\<lambda>r. r\<lparr>oo_steady_state_activated_at := coalesce (oo_steady_state_activated_at r) (Some (pg_now e)),
              oo_next_recert_due_at := Some d\<rparr>"])
       (auto simp: operator_op_defs operator_ok_def on_file_def coalesce_def split: if_splits option.splits)
qed

lemma engagement_step_effect:
  assumes "engagement_step db db'"
  obtains row where "auditor_engagements db' = insert_row row (auditor_engagements db)"
      "ae_id row \<notin> ae_id ` set (auditor_engagements db)" "engagement_ok row"
      "operator_onboardings db' = operator_onboardings db"
  | k current f where "find_row ae_id k (auditor_engagements db) = Some current"
      "auditor_engagements db' = update_row ae_id k f (auditor_engagements db)" "\<And>r. ae_id (f r) = ae_id r"
      "engagement_ok current \<Longrightarrow> engagement_ok (f current)"
      "engagement_rank (ae_phase (f current)) = min 3 (Suc (engagement_rank (ae_phase current)))"
      "operator_onboardings db' = operator_onboardings db"
  using assms
proof cases
  case (engagement_started e a n f r)
  then show ?thesis
    by (intro that(1) [of r]) (auto simp: engagement_op_defs find_row_None engagement_ok_def on_file_def split: if_splits)
next
  case (letter_signed e a k u s r)
  then show ?thesis
    by (intro that(2) [of k "the (find_row ae_id k (auditor_engagements db))"
          "\<lambda>r. r\<lparr>ae_engagement_letter_uri := Some u, ae_engagement_letter_signed_at := Some (pg_now e),
              ae_scope_note := Some (js_trim s), ae_phase := AE_access_provisioning\<rparr>"])
       (auto simp: engagement_op_defs engagement_ok_def on_file_def split: if_splits option.splits)
next
  case (access_provisioned e a k s r)
  then show ?thesis
    by (intro that(2) [of k "the (find_row ae_id k (auditor_engagements db))"
          "\<lambda>r. r\<lparr>ae_auditor_subject := Some (js_trim s), ae_access_provisioned_at := Some (pg_now e),
              ae_access_provisioned_by := Some (openId a), ae_phase := AE_audit_fieldwork\<rparr>"])
       (auto simp: engagement_op_defs engagement_ok_def on_file_def Suc_le_eq split: if_splits option.splits)
next
  case (fieldwork_recorded e a k s r)
  then show ?thesis
    by (intro that(2) [of k "the (find_row ae_id k (auditor_engagements db))"
          "\<lambda>r. r\<lparr>ae_fieldwork_note := Some (js_trim s),
              ae_fieldwork_started_at := coalesce (ae_fieldwork_started_at r) (Some (pg_now e)),
              ae_fieldwork_completed_at := Some (pg_now e), ae_phase := AE_annual_review\<rparr>"])
       (auto simp: engagement_op_defs engagement_ok_def on_file_def coalesce_def split: if_splits option.splits)
next
  case (review_held e a k d r)
  then show ?thesis
    by (intro that(2) [of k "the (find_row ae_id k (auditor_engagements db))"
          "\<lambda>r. r\<lparr>ae_last_annual_review_at := Some (pg_now e), ae_next_annual_review_due_at := Some d\<rparr>"])
       (auto simp: engagement_op_defs engagement_ok_def on_file_def split: if_splits option.splits)
qed

lemma phases_step_inv:
  assumes inv: "phases_inv db" and "operator_step db db' \<or> engagement_step db db'"
  shows "phases_inv db'"
  using assms(2)
proof
  assume "operator_step db db'"
  then show ?thesis
  proof (cases rule: operator_step_effect)
    case (1 row)
    then show ?thesis using inv by (auto simp: phases_inv_def table_simps)
  next
    case (2 k current f)
    have "r = current" if "r \<in> set (operator_onboardings db)" "oo_id r = k" for r
      using inv 2(1) that unfolding phases_inv_def by (meson unique_row)
    then show ?thesis using inv 2 by (auto simp: phases_inv_def map_update_row set_update_row)
  qed
next
  assume "engagement_step db db'"
  then show ?thesis
  proof (cases rule: engagement_step_effect)
    case (1 row)
    then show ?thesis using inv by (auto simp: phases_inv_def table_simps)
  next
    case (2 k current f)
    have "r = current" if "r \<in> set (auditor_engagements db)" "ae_id r = k" for r
      using inv 2(1) that unfolding phases_inv_def by (meson unique_row)
    then show ?thesis using inv 2 by (auto simp: phases_inv_def map_update_row set_update_row)
  qed
qed

lemma phases_step_frame:
  assumes "operator_step db db' \<or> engagement_step db db'"
  shows "prefix (activity_events db) (activity_events db') \<and>
    db'\<lparr>operator_onboardings := operator_onboardings db, auditor_engagements := auditor_engagements db,
       activity_events := activity_events db\<rparr> = db"
  using assms
  by (auto elim!: operator_step.cases engagement_step.cases simp: operator_op_defs engagement_op_defs insert_event_def
      split: if_splits option.splits)

section \<open>Phases only move forward\<close>

definition operator_phase_of :: "db \<Rightarrow> uuid \<Rightarrow> operator_phase option" where
  "operator_phase_of db k = map_option oo_phase (find_row oo_id k (operator_onboardings db))"

definition engagement_phase_of :: "db \<Rightarrow> uuid \<Rightarrow> engagement_phase option" where
  "engagement_phase_of db k = map_option ae_phase (find_row ae_id k (auditor_engagements db))"

fun operator_phase_transitions :: "operator_phase \<Rightarrow> operator_phase list" where
  "operator_phase_transitions OP_role_access_request = [OP_lms_enrolment]"
| "operator_phase_transitions OP_lms_enrolment = [OP_shadow_period]"
| "operator_phase_transitions OP_shadow_period = [OP_steady_state]"
| "operator_phase_transitions OP_steady_state = []"

fun engagement_phase_transitions :: "engagement_phase \<Rightarrow> engagement_phase list" where
  "engagement_phase_transitions AE_engagement_letter = [AE_access_provisioning]"
| "engagement_phase_transitions AE_access_provisioning = [AE_audit_fieldwork]"
| "engagement_phase_transitions AE_audit_fieldwork = [AE_annual_review]"
| "engagement_phase_transitions AE_annual_review = []"

lemma operator_rank_step:
  "operator_rank p = min 3 (Suc (operator_rank q)) \<Longrightarrow> p = q \<or> p \<in> set (operator_phase_transitions q)"
  by (cases p; cases q) simp_all

lemma engagement_rank_step:
  "engagement_rank p = min 3 (Suc (engagement_rank q)) \<Longrightarrow> p = q \<or> p \<in> set (engagement_phase_transitions q)"
  by (cases p; cases q) simp_all

lemma operator_phase_step:
  assumes "operator_step db db'" and "operator_phase_of db k = Some p"
  shows "\<exists>p'. operator_phase_of db' k = Some p' \<and> (p' = p \<or> p' \<in> set (operator_phase_transitions p))"
  using assms(1)
proof (cases rule: operator_step_effect)
  case (1 row)
  then show ?thesis using assms(2) by (auto simp: operator_phase_of_def table_simps)
next
  case (2 j current f)
  then show ?thesis
    using assms(2) operator_rank_step [OF 2(5)] by (auto simp: operator_phase_of_def find_row_update)
qed

lemma engagement_phase_step:
  assumes "engagement_step db db'" and "engagement_phase_of db k = Some p"
  shows "\<exists>p'. engagement_phase_of db' k = Some p' \<and> (p' = p \<or> p' \<in> set (engagement_phase_transitions p))"
  using assms(1)
proof (cases rule: engagement_step_effect)
  case (1 row)
  then show ?thesis using assms(2) by (auto simp: engagement_phase_of_def table_simps)
next
  case (2 j current f)
  then show ?thesis
    using assms(2) engagement_rank_step [OF 2(5)] by (auto simp: engagement_phase_of_def find_row_update)
qed

end
