(* ===== verification/Customer_Use_Case.thy ===== *)
theory Customer_Use_Case
  imports Umoja_Store
begin

text \<open>
  The use-case gate of a customer (\<open>server/customerUseCase.ts\<close>): the profile, the declared
  destination counterparties and the decisions of Gate G1. A decision is a human one; the code
  guards that an approval has a narrative and a declared destination behind it.
\<close>

definition customer_activity :: "env \<Rightarrow> actor \<Rightarrow> string \<Rightarrow> uuid \<Rightarrow> (string \<times> json) list \<Rightarrow> db \<Rightarrow> db" where
  "customer_activity e a action objectId metadata = insert_event e a action ''customer'' (Some objectId) metadata"

text \<open>\<open>JSON.stringify\<close> leaves out the members whose value is \<open>undefined\<close>.\<close>

definition jmember :: "string \<Rightarrow> ('a \<Rightarrow> json) \<Rightarrow> 'a option \<Rightarrow> (string \<times> json) list" where
  "jmember k f x = (case x of None \<Rightarrow> [] | Some v \<Rightarrow> [(k, f v)])"

definition sql_coalesce :: "'a option \<Rightarrow> 'a option \<Rightarrow> 'a option" where
  "sql_coalesce x y = (case x of None \<Rightarrow> y | Some v \<Rightarrow> Some v)"

record profile_input =
  pi_customerId :: uuid
  pi_archetype :: "customer_archetype option"
  pi_tier :: "customer_tier option"
  pi_country :: "corridor option"
  pi_useCaseNarrative :: "string option"

definition with_profile :: "profile_input \<Rightarrow> customer \<Rightarrow> customer" where
  "with_profile i r = r\<lparr>cu_archetype := sql_coalesce (pi_archetype i) (cu_archetype r),
     cu_tier := sql_coalesce (pi_tier i) (cu_tier r), cu_country := sql_coalesce (pi_country i) (cu_country r),
     cu_use_case_narrative := sql_coalesce (pi_useCaseNarrative i) (cu_use_case_narrative r)\<rparr>"

definition updatePostgresCustomerProfile :: "env \<Rightarrow> actor \<Rightarrow> profile_input \<Rightarrow> uuid tx" where
  "updatePostgresCustomerProfile e a i db =
    (if find_row cu_id (pi_customerId i) (customers db) = None then Inl (Refused ''customer record was not found'')
     else Inr (pi_customerId i, customer_activity e a ''customer.profile_updated'' (pi_customerId i)
       (jmember ''archetype'' (\<lambda>x. JStr (customer_archetype_text x)) (pi_archetype i) @
        jmember ''tier'' (\<lambda>x. JStr (customer_tier_text x)) (pi_tier i) @
        jmember ''country'' (\<lambda>x. JStr (corridor_text x)) (pi_country i) @
        jmember ''useCaseNarrativeLength'' (\<lambda>x. JNum (int (length (js_trim x)))) (pi_useCaseNarrative i))
       (db\<lparr>customers := update_row cu_id (pi_customerId i) (with_profile i) (customers db)\<rparr>)))"

definition recordCustomerDestinationCounterparty ::
  "env \<Rightarrow> actor \<Rightarrow> uuid \<Rightarrow> string \<Rightarrow> string \<Rightarrow> string option \<Rightarrow> destination_counterparty tx" where
  "recordCustomerDestinationCounterparty e a customerId counterpartyName destinationJurisdiction invoiceReference db =
    (if find_row cu_id customerId (customers db) = None then
       Inl (Refused ''a canonical customer record is required before recording a destination counterparty'')
     else if find_row dc_id (new_uuid e) (destination_counterparties db) \<noteq> None then
       Inl (UniqueViolation ''customer_destination_counterparties'')
     else let row = \<lparr>dc_id = new_uuid e, dc_customer_id = customerId, dc_counterparty_name = counterpartyName,
                dc_destination_jurisdiction = destinationJurisdiction, dc_invoice_reference = invoiceReference,
                dc_created_by = openId a\<rparr>
          in Inr (row, customer_activity e a ''customer.destination_counterparty_added'' customerId
               [(''counterpartyName'', JStr counterpartyName), (''destinationJurisdiction'', JStr destinationJurisdiction)]
               (db\<lparr>destination_counterparties := insert_row row (destination_counterparties db)\<rparr>)))"

definition no_narrative :: "customer \<Rightarrow> bool" where
  "no_narrative r \<longleftrightarrow> (case cu_use_case_narrative r of None \<Rightarrow> True | Some s \<Rightarrow> js_trim s = '''')"

definition has_destination :: "uuid \<Rightarrow> db \<Rightarrow> bool" where
  "has_destination customerId db \<longleftrightarrow> list_ex (\<lambda>d. dc_customer_id d = customerId) (destination_counterparties db)"



definition decideCustomerUseCaseGate :: "env \<Rightarrow> actor \<Rightarrow> uuid \<Rightarrow> gate_decision \<Rightarrow> string \<Rightarrow> use_case_decision tx" where
  "decideCustomerUseCaseGate e a customerId decision rationale db =
    (case find_row cu_id customerId (customers db) of
       None \<Rightarrow> Inl (Refused ''customer record was not found'')
     | Some customer \<Rightarrow>
         if decision = Decision_approved \<and> no_narrative customer then
           Inl (Refused ''a use-case narrative is required before Gate G1 can be approved'')
         else if decision = Decision_approved \<and> \<not> has_destination customerId db then
           Inl (Refused ''at least one destination counterparty is required before Gate G1 can be approved'')
         else if find_row uc_id (new_uuid e) (use_case_decisions db) \<noteq> None then
           Inl (UniqueViolation ''customer_use_case_gate_decisions'')
         else let row = \<lparr>uc_id = new_uuid e, uc_customer_id = customerId, uc_decision = decision, uc_rationale = rationale,
                    uc_decided_by = openId a, uc_decided_role = role a, uc_decided_at = pg_now e\<rparr>
              in Inr (row, customer_activity e a ''customer.use_case_gate_decided'' customerId
                   [(''decision'', JStr (gate_decision_text decision)), (''decidedBy'', JStr (openId a))]
                   (db\<lparr>use_case_decisions := insert_row row (use_case_decisions db)\<rparr>)))"

definition listCustomerUseCaseGateDecisions :: "uuid \<Rightarrow> db \<Rightarrow> use_case_decision list" where
  "listCustomerUseCaseGateDecisions customerId db =
     sort_key (\<lambda>r. - uc_decided_at r) (filter (\<lambda>r. uc_customer_id r = customerId) (use_case_decisions db))"

inductive use_case_step :: "db \<Rightarrow> db \<Rightarrow> bool" where
  profile_updated: "updatePostgresCustomerProfile e a i db = Inr (r1, db') \<Longrightarrow> use_case_step db db'"
| destination_recorded: "recordCustomerDestinationCounterparty e a k n j v db = Inr (r2, db') \<Longrightarrow> use_case_step db db'"
| gate_decided: "decideCustomerUseCaseGate e a k d s db = Inr (r3, db') \<Longrightarrow> use_case_step db db'"

section \<open>Invariant\<close>

definition use_case_inv :: "db \<Rightarrow> bool" where
  "use_case_inv db \<longleftrightarrow> (\<forall>r \<in> set (use_case_decisions db). uc_decision r = Decision_approved \<longrightarrow> has_destination (uc_customer_id r) db)"

lemma use_case_step_effect:
  assumes "use_case_step db db'"
  shows "prefix (activity_events db) (activity_events db') \<and>
    (\<exists>cs ds us log. db' = db\<lparr>customers := cs, destination_counterparties := destination_counterparties db @ ds,
       use_case_decisions := use_case_decisions db @ us, activity_events := log\<rparr> \<and> map cu_id cs = map cu_id (customers db) \<and>
       (\<forall>r \<in> set us. uc_decision r = Decision_approved \<longrightarrow> has_destination (uc_customer_id r) db))"
  using assms
proof cases
  case (profile_updated e a i r)
  let ?cs = "update_row cu_id (pi_customerId i) (with_profile i) (customers db)"
  from profile_updated have "db' = db\<lparr>customers := ?cs, activity_events := activity_events db'\<rparr>"
    and "prefix (activity_events db) (activity_events db')"
    by (auto simp: updatePostgresCustomerProfile_def customer_activity_def insert_event_def split: if_split_asm)
  moreover have "map cu_id ?cs = map cu_id (customers db)" by (simp add: map_key_update_row with_profile_def)
  ultimately show ?thesis
    by (intro conjI exI [of _ ?cs] exI [of _ "[] :: destination_counterparty list"] exI [of _ "[] :: use_case_decision list"]
          exI [of _ "activity_events db'"]) simp_all
next
  case (destination_recorded e a k n j v r)
  then have "db' = db\<lparr>destination_counterparties := destination_counterparties db @ [r], activity_events := activity_events db'\<rparr>"
    and "prefix (activity_events db) (activity_events db')"
    by (auto simp: recordCustomerDestinationCounterparty_def customer_activity_def insert_event_def insert_row_def Let_def
        split: if_split_asm)
  then show ?thesis
    by (intro conjI exI [of _ "customers db"] exI [of _ "[r]"] exI [of _ "[] :: use_case_decision list"]
          exI [of _ "activity_events db'"]) simp_all
next
  case (gate_decided e a k d s r)
  then have "db' = db\<lparr>use_case_decisions := use_case_decisions db @ [r], activity_events := activity_events db'\<rparr>"
    and "prefix (activity_events db) (activity_events db')" and "uc_decision r = Decision_approved \<longrightarrow> has_destination (uc_customer_id r) db"
    by (auto simp: decideCustomerUseCaseGate_def customer_activity_def insert_event_def insert_row_def Let_def
        split: if_split_asm option.splits)
  then show ?thesis
    by (intro conjI exI [of _ "customers db"] exI [of _ "[] :: destination_counterparty list"] exI [of _ "[r]"]
          exI [of _ "activity_events db'"]) simp_all
qed

lemma use_case_step_inv:
  assumes "use_case_inv db" and "use_case_step db db'"
  shows "use_case_inv db'"
proof -
  from use_case_step_effect [OF assms(2)] obtain cs ds us log where
    db': "db' = db\<lparr>customers := cs, destination_counterparties := destination_counterparties db @ ds,
       use_case_decisions := use_case_decisions db @ us, activity_events := log\<rparr>" and
    us: "\<forall>r \<in> set us. uc_decision r = Decision_approved \<longrightarrow> has_destination (uc_customer_id r) db" by blast
  have "has_destination k db'" if "has_destination k db" for k
    using that by (simp add: has_destination_def db')
  with assms(1) us show ?thesis by (auto simp: use_case_inv_def db')
qed

end
