(* ===== verification/Back_Office.thy ===== *)
theory Back_Office
  imports Phase_Lifecycles Readiness_Assurance Treasury_Desk Customer_Use_Case Operational_Alerts
begin

text \<open>
  The components beside the payment path, composed: operator and auditor lifecycles, the readiness
  register, the treasury and reporting desk, the use-case gate and the operational alerts. They
  share the store with the payment path but write disjoint tables; \<open>core_kept\<close> and \<open>office_kept\<close>
  name the two halves.
\<close>

definition core_kept :: "db \<Rightarrow> db \<Rightarrow> bool" where
  "core_kept db db' \<longleftrightarrow> beneficiaries db' = beneficiaries db \<and> integration_connections db' = integration_connections db \<and>
     counterparty_authorizations db' = counterparty_authorizations db \<and> aml_screening_checks db' = aml_screening_checks db \<and>
     rate_locks db' = rate_locks db \<and> payment_orders db' = payment_orders db \<and> payment_legs db' = payment_legs db \<and>
     alert_policies db' = alert_policies db \<and> compliance_alerts db' = compliance_alerts db \<and>
     compliance_cases db' = compliance_cases db \<and> sar_str_filings db' = sar_str_filings db \<and>
     counterparty_onboardings db' = counterparty_onboardings db \<and> onboarding_gate_decisions db' = onboarding_gate_decisions db"

definition phases_kept :: "db \<Rightarrow> db \<Rightarrow> bool" where
  "phases_kept db db' \<longleftrightarrow> operator_onboardings db' = operator_onboardings db \<and> auditor_engagements db' = auditor_engagements db"

definition register_kept :: "db \<Rightarrow> db \<Rightarrow> bool" where
  "register_kept db db' \<longleftrightarrow> assurance_items db' = assurance_items db"

definition desk_kept :: "db \<Rightarrow> db \<Rightarrow> bool" where
  "desk_kept db db' \<longleftrightarrow> market_observations db' = market_observations db \<and>
     treasury_recommendations db' = treasury_recommendations db \<and> regulatory_reports db' = regulatory_reports db"

definition gate_kept :: "db \<Rightarrow> db \<Rightarrow> bool" where
  "gate_kept db db' \<longleftrightarrow> destination_counterparties db' = destination_counterparties db \<and>
     use_case_decisions db' = use_case_decisions db"

definition office_kept :: "db \<Rightarrow> db \<Rightarrow> bool" where
  "office_kept db db' \<longleftrightarrow> phases_kept db db' \<and> register_kept db db' \<and> desk_kept db db' \<and> gate_kept db db'"

lemmas kept_defs = core_kept_def phases_kept_def register_kept_def desk_kept_def gate_kept_def office_kept_def

inductive office_step :: "db \<Rightarrow> db \<Rightarrow> bool" where
  operator_moved: "operator_step db db' \<Longrightarrow> office_step db db'"
| engagement_moved: "engagement_step db db' \<Longrightarrow> office_step db db'"
| register_moved: "assurance_step db db' \<Longrightarrow> office_step db db'"
| desk_moved: "desk_step db db' \<Longrightarrow> office_step db db'"
| use_case_moved: "use_case_step db db' \<Longrightarrow> office_step db db'"
| alerts_evaluated: "alerting_step db db' \<Longrightarrow> office_step db db'"

definition office_inv :: "db \<Rightarrow> bool" where
  "office_inv db \<longleftrightarrow> phases_inv db \<and> assurance_inv db \<and> desk_inv db \<and> use_case_inv db"

section \<open>What each component leaves alone\<close>

lemma phases_keep:
  assumes "operator_step db db' \<or> engagement_step db db'"
  shows "core_kept db db' \<and> register_kept db db' \<and> desk_kept db db' \<and> gate_kept db db'"
proof -
  note eq = conjunct2 [OF phases_step_frame [OF assms]]
  have "db' = db'\<lparr>operator_onboardings := operator_onboardings db, auditor_engagements := auditor_engagements db,
       activity_events := activity_events db\<rparr>\<lparr>operator_onboardings := operator_onboardings db',
       auditor_engagements := auditor_engagements db', activity_events := activity_events db'\<rparr>" by simp
  then have "db' = db\<lparr>operator_onboardings := operator_onboardings db',
       auditor_engagements := auditor_engagements db', activity_events := activity_events db'\<rparr>" unfolding eq .
  then obtain x y log where "db' = db\<lparr>operator_onboardings := x, auditor_engagements := y, activity_events := log\<rparr>" by blast
  then show ?thesis unfolding kept_defs by simp
qed

lemmas phases_keeps = phases_keep [OF disjI1] phases_keep [OF disjI2]

lemma register_keep:
  assumes "assurance_step db db'"
  shows "core_kept db db' \<and> phases_kept db db' \<and> desk_kept db db' \<and> gate_kept db db'"
proof -
  note eq = conjunct2 [OF assurance_step_effect [OF assms]]
  have "db' = db'\<lparr>legal_entities := legal_entities db, sandbox_dossiers := sandbox_dossiers db,
       assurance_items := assurance_items db, activity_events := activity_events db\<rparr>\<lparr>legal_entities := legal_entities db',
       sandbox_dossiers := sandbox_dossiers db', assurance_items := assurance_items db', activity_events := activity_events db'\<rparr>"
    by simp
  then have "db' = db\<lparr>legal_entities := legal_entities db', sandbox_dossiers := sandbox_dossiers db',
       assurance_items := assurance_items db', activity_events := activity_events db'\<rparr>" unfolding eq .
  then obtain x y z log where "db' = db\<lparr>legal_entities := x, sandbox_dossiers := y, assurance_items := z, activity_events := log\<rparr>"
    by blast
  then show ?thesis unfolding kept_defs by simp
qed

lemma desk_keep:
  assumes "desk_step db db'"
  shows "core_kept db db' \<and> phases_kept db db' \<and> register_kept db db' \<and> gate_kept db db'"
  using desk_step_frame [OF assms] unfolding desk_frame_def kept_defs by auto

lemma use_case_keep:
  assumes "use_case_step db db'"
  shows "core_kept db db' \<and> phases_kept db db' \<and> register_kept db db' \<and> desk_kept db db'"
  using use_case_step_effect [OF assms] unfolding kept_defs by auto

lemma alerting_keep: "alerting_step db db' \<Longrightarrow> core_kept db db' \<and> office_kept db db'"
  by (drule alerting_step_notified) (auto simp: notified_def kept_defs)

lemma office_step_core:
  assumes "office_step db db'"
  shows "core_kept db db'"
  using assms by cases (blast dest: phases_keeps register_keep desk_keep use_case_keep alerting_keep)+

lemma office_step_appends:
  assumes "office_step db db'"
  shows "prefix (activity_events db) (activity_events db')"
  using assms
  by cases (blast dest: phases_step_frame [OF disjI1] phases_step_frame [OF disjI2] assurance_step_effect
    desk_frame_eq [THEN iffD1, OF desk_step_frame] use_case_step_effect notified_tables(7) [OF alerting_step_notified])+

section \<open>The invariant\<close>

lemma phases_inv_cong: "phases_kept db db' \<Longrightarrow> phases_inv db \<Longrightarrow> phases_inv db'"
  by (simp add: phases_inv_def phases_kept_def)

lemma register_inv_cong: "register_kept db db' \<Longrightarrow> assurance_inv db \<Longrightarrow> assurance_inv db'"
  by (simp add: assurance_inv_def register_kept_def)

lemma desk_kept_inv: "desk_kept db db' \<Longrightarrow> desk_inv db \<Longrightarrow> desk_inv db'"
  by (simp add: desk_inv_def desk_kept_def)

lemma gate_inv_cong: "gate_kept db db' \<Longrightarrow> use_case_inv db \<Longrightarrow> use_case_inv db'"
  by (simp add: use_case_inv_def has_destination_def gate_kept_def)

lemmas office_congs = phases_inv_cong register_inv_cong desk_kept_inv gate_inv_cong

lemma office_inv_cong: "office_kept db db' \<Longrightarrow> office_inv db \<Longrightarrow> office_inv db'"
  unfolding office_inv_def office_kept_def by (blast intro: office_congs)

lemma office_step_inv:
  assumes inv: "office_inv db" and "office_step db db'"
  shows "office_inv db'"
proof -
  from inv have invs: "phases_inv db" "assurance_inv db" "desk_inv db" "use_case_inv db" by (simp_all add: office_inv_def)
  from assms(2) show ?thesis
  proof cases
    case operator_moved
    then have "operator_step db db' \<or> engagement_step db db'" ..
    with invs phases_step_inv phases_keep show ?thesis unfolding office_inv_def by (blast intro: office_congs)
  next
    case engagement_moved
    then have "operator_step db db' \<or> engagement_step db db'" ..
    with invs phases_step_inv phases_keep show ?thesis unfolding office_inv_def by (blast intro: office_congs)
  next
    case register_moved
    with invs assurance_step_inv register_keep show ?thesis unfolding office_inv_def by (blast intro: office_congs)
  next
    case desk_moved
    with invs desk_step_inv desk_keep show ?thesis unfolding office_inv_def by (blast intro: office_congs)
  next
    case use_case_moved
    with invs use_case_step_inv use_case_keep show ?thesis unfolding office_inv_def by (blast intro: office_congs)
  next
    case alerts_evaluated
    with inv show ?thesis by (blast intro: office_inv_cong dest: alerting_keep)
  qed
qed

section \<open>Phases\<close>

lemma operator_phase_office:
  assumes "office_step db db'" and "operator_phase_of db k = Some p"
  shows "\<exists>p'. operator_phase_of db' k = Some p' \<and> (p' = p \<or> p' \<in> set (operator_phase_transitions p))"
  using assms(1)
proof cases
  case operator_moved
  then show ?thesis using assms(2) by (rule operator_phase_step)
next
  case engagement_moved
  then have "operator_onboardings db' = operator_onboardings db" by (cases rule: engagement_step_effect)
  with assms(2) show ?thesis by (auto simp: operator_phase_of_def)
qed (use assms(2) in \<open>auto simp: operator_phase_of_def office_kept_def phases_kept_def
    dest: register_keep desk_keep use_case_keep alerting_keep\<close>)

lemma engagement_phase_office:
  assumes "office_step db db'" and "engagement_phase_of db k = Some p"
  shows "\<exists>p'. engagement_phase_of db' k = Some p' \<and> (p' = p \<or> p' \<in> set (engagement_phase_transitions p))"
  using assms(1)
proof cases
  case engagement_moved
  then show ?thesis using assms(2) by (rule engagement_phase_step)
next
  case operator_moved
  then have "auditor_engagements db' = auditor_engagements db" by (cases rule: operator_step_effect)
  with assms(2) show ?thesis by (auto simp: engagement_phase_of_def)
qed (use assms(2) in \<open>auto simp: engagement_phase_of_def office_kept_def phases_kept_def
    dest: register_keep desk_keep use_case_keep alerting_keep\<close>)

end
