(* ===== verification/Control_Plane.thy ===== *)
theory Control_Plane
  imports Payment_Workflow Compliance_Workflow Counterparty_Registry Counterparty_Onboarding Duties_Monitor Back_Office
begin

text \<open>
  The control plane as one system: a step is a successful operation of any component, and a run
  is any interleaving of such steps. Each component touches its own tables and appends to the
  audit trail, so its invariant survives the steps of the others. The contracts of the prelude
  (\<open>preserved\<close>, \<open>audited\<close>, \<open>lifecycle\<close>) are discharged here for the whole system.
\<close>

section \<open>Steps\<close>

inductive umoja_step :: "db \<Rightarrow> db \<Rightarrow> bool" where
  payment: "payment_step db db' \<Longrightarrow> umoja_step db db'"
| compliance: "compliance_step db db' \<Longrightarrow> umoja_step db db'"
| registry: "registry_step db db' \<Longrightarrow> umoja_step db db'"
| onboarding: "onboarding_step db db' \<Longrightarrow> umoja_step db db'"
| monitor: "monitor_step db db' \<Longrightarrow> umoja_step db db'"
| office: "office_step db db' \<Longrightarrow> umoja_step db db'"

definition umoja_inv :: "db \<Rightarrow> bool" where
  "umoja_inv db \<longleftrightarrow> payment_inv db \<and> compliance_inv db \<and> registry_inv db \<and> onboarding_inv db \<and> office_inv db"

section \<open>What a component leaves alone\<close>

lemma record_expiry_frame:
  "(fold (record_expiry e a) ls db)\<lparr>activity_events := es\<rparr> = db\<lparr>activity_events := es\<rparr>"
  by (induction ls arbitrary: db) (simp_all add: event_defs insert_event_def)

lemma payment_step_effect:
  assumes "payment_step db db'"
  shows "db'\<lparr>activity_events := activity_events db, rate_locks := rate_locks db, payment_orders := payment_orders db,
       payment_legs := payment_legs db\<rparr> = db"
  using assms
proof cases
  case (rate_locks_expired e a r)
  let ?db1 = "db\<lparr>rate_locks := map (\<lambda>l. if elapsed (pg_now e) l then l\<lparr>rl_status := RL_expired\<rparr> else l) (rate_locks db)\<rparr>"
  let ?es = "activity_events db"
  from rate_locks_expired have "db' = fold (record_expiry e a) (filter (elapsed (pg_now e)) (rate_locks db)) ?db1"
    by (simp add: expirePostgresRateLocks_def Let_def)
  then have "db'\<lparr>activity_events := ?es\<rparr> = ?db1\<lparr>activity_events := ?es\<rparr>"
    by (simp only: record_expiry_frame)
  then have "db'\<lparr>activity_events := ?es\<rparr>\<lparr>rate_locks := rate_locks db, payment_orders := payment_orders db, payment_legs := payment_legs db\<rparr> = db"
    by simp
  then show ?thesis by simp
next
  case (order_created e a i r)
  then show ?thesis
    by (auto simp: createPostgresPaymentOrder_def insert_payment_order_def replay_order_def consume_lock_def
        event_defs insert_event_def Let_def split: if_splits option.splits sum.splits)
qed (auto simp: payment_op_defs insert_event_def split: if_splits option.splits)

lemma compliance_step_effect:
  assumes "compliance_step db db'"
  shows "db'\<lparr>compliance_alerts := compliance_alerts db, activity_events := activity_events db,
       alert_policies := alert_policies db, compliance_cases := compliance_cases db, sar_str_filings := sar_str_filings db\<rparr> = db"
  using assms
proof cases
  case alert
  note eq = alert_step_frame(1) [OF alert]
  have "db'\<lparr>compliance_alerts := compliance_alerts db, activity_events := activity_events db\<rparr>\<lparr>alert_policies := alert_policies db,
       compliance_cases := compliance_cases db, sar_str_filings := sar_str_filings db\<rparr> = db"
    unfolding eq by simp
  then show ?thesis by simp
qed (auto elim!: case_step.cases filing_step.cases simp: compliance_op_defs insert_event_def split: if_splits option.splits)

lemma payment_step_frame:
  assumes "payment_step db db'"
  shows "beneficiaries db' = beneficiaries db" "integration_connections db' = integration_connections db"
    "counterparty_authorizations db' = counterparty_authorizations db" "aml_screening_checks db' = aml_screening_checks db"
    "alert_policies db' = alert_policies db" "compliance_alerts db' = compliance_alerts db"
    "compliance_cases db' = compliance_cases db" "sar_str_filings db' = sar_str_filings db"
    "counterparty_onboardings db' = counterparty_onboardings db" "onboarding_gate_decisions db' = onboarding_gate_decisions db"
  using payment_step_effect [OF assms, THEN arg_cong, of beneficiaries]
    payment_step_effect [OF assms, THEN arg_cong, of integration_connections]
    payment_step_effect [OF assms, THEN arg_cong, of counterparty_authorizations]
    payment_step_effect [OF assms, THEN arg_cong, of aml_screening_checks]
    payment_step_effect [OF assms, THEN arg_cong, of alert_policies]
    payment_step_effect [OF assms, THEN arg_cong, of compliance_alerts]
    payment_step_effect [OF assms, THEN arg_cong, of compliance_cases]
    payment_step_effect [OF assms, THEN arg_cong, of sar_str_filings]
    payment_step_effect [OF assms, THEN arg_cong, of counterparty_onboardings]
    payment_step_effect [OF assms, THEN arg_cong, of onboarding_gate_decisions] by simp_all

lemma compliance_step_frame:
  assumes "compliance_step db db'"
  shows "beneficiaries db' = beneficiaries db" "integration_connections db' = integration_connections db"
    "counterparty_authorizations db' = counterparty_authorizations db" "aml_screening_checks db' = aml_screening_checks db"
    "rate_locks db' = rate_locks db" "payment_orders db' = payment_orders db" "payment_legs db' = payment_legs db"
    "counterparty_onboardings db' = counterparty_onboardings db" "onboarding_gate_decisions db' = onboarding_gate_decisions db"
  using compliance_step_effect [OF assms, THEN arg_cong, of beneficiaries]
    compliance_step_effect [OF assms, THEN arg_cong, of integration_connections]
    compliance_step_effect [OF assms, THEN arg_cong, of counterparty_authorizations]
    compliance_step_effect [OF assms, THEN arg_cong, of aml_screening_checks]
    compliance_step_effect [OF assms, THEN arg_cong, of rate_locks]
    compliance_step_effect [OF assms, THEN arg_cong, of payment_orders]
    compliance_step_effect [OF assms, THEN arg_cong, of payment_legs]
    compliance_step_effect [OF assms, THEN arg_cong, of counterparty_onboardings]
    compliance_step_effect [OF assms, THEN arg_cong, of onboarding_gate_decisions] by simp_all

lemma onboarding_step_frame:
  assumes "onboarding_step db db'"
  shows "beneficiaries db' = beneficiaries db" "integration_connections db' = integration_connections db"
    "counterparty_authorizations db' = counterparty_authorizations db" "aml_screening_checks db' = aml_screening_checks db"
    "rate_locks db' = rate_locks db" "payment_orders db' = payment_orders db" "payment_legs db' = payment_legs db"
    "alert_policies db' = alert_policies db" "compliance_alerts db' = compliance_alerts db"
    "compliance_cases db' = compliance_cases db" "sar_str_filings db' = sar_str_filings db"
  using onboarding_step_effect [OF assms, THEN conjunct2, THEN arg_cong, of beneficiaries]
    onboarding_step_effect [OF assms, THEN conjunct2, THEN arg_cong, of integration_connections]
    onboarding_step_effect [OF assms, THEN conjunct2, THEN arg_cong, of counterparty_authorizations]
    onboarding_step_effect [OF assms, THEN conjunct2, THEN arg_cong, of aml_screening_checks]
    onboarding_step_effect [OF assms, THEN conjunct2, THEN arg_cong, of rate_locks]
    onboarding_step_effect [OF assms, THEN conjunct2, THEN arg_cong, of payment_orders]
    onboarding_step_effect [OF assms, THEN conjunct2, THEN arg_cong, of payment_legs]
    onboarding_step_effect [OF assms, THEN conjunct2, THEN arg_cong, of alert_policies]
    onboarding_step_effect [OF assms, THEN conjunct2, THEN arg_cong, of compliance_alerts]
    onboarding_step_effect [OF assms, THEN conjunct2, THEN arg_cong, of compliance_cases]
    onboarding_step_effect [OF assms, THEN conjunct2, THEN arg_cong, of sar_str_filings] by simp_all

text \<open>The payment path leaves the tables of the back office alone.\<close>

lemma payment_keeps_office:
  assumes "payment_step db db'"
  shows "office_kept db db'"
proof -
  note eq = payment_step_effect [OF assms]
  have "db' = db'\<lparr>activity_events := activity_events db, rate_locks := rate_locks db, payment_orders := payment_orders db,
       payment_legs := payment_legs db\<rparr>\<lparr>activity_events := activity_events db', rate_locks := rate_locks db',
       payment_orders := payment_orders db', payment_legs := payment_legs db'\<rparr>" by simp
  then obtain p q r s where "db' = db\<lparr>activity_events := p, rate_locks := q, payment_orders := r, payment_legs := s\<rparr>"
    unfolding eq by blast
  then show ?thesis unfolding kept_defs by simp
qed

lemma compliance_keeps_office:
  assumes "compliance_step db db'"
  shows "office_kept db db'"
proof -
  note eq = compliance_step_effect [OF assms]
  have "db' = db'\<lparr>compliance_alerts := compliance_alerts db, activity_events := activity_events db,
       alert_policies := alert_policies db, compliance_cases := compliance_cases db, sar_str_filings := sar_str_filings db\<rparr>
       \<lparr>compliance_alerts := compliance_alerts db', activity_events := activity_events db',
       alert_policies := alert_policies db', compliance_cases := compliance_cases db', sar_str_filings := sar_str_filings db'\<rparr>"
    by simp
  then obtain p q r s t where "db' = db\<lparr>compliance_alerts := p, activity_events := q, alert_policies := r,
       compliance_cases := s, sar_str_filings := t\<rparr>" unfolding eq by blast
  then show ?thesis unfolding kept_defs by simp
qed

lemma registry_keeps_office:
  assumes "registry_step db db'"
  shows "office_kept db db'"
proof -
  note eq = conjunct2 [OF registry_step_effect [OF assms]]
  have "db' = db'\<lparr>customers := customers db, beneficiaries := beneficiaries db, aml_screening_checks := aml_screening_checks db,
       counterparties := counterparties db, counterparty_authorizations := counterparty_authorizations db,
       integration_connections := integration_connections db, activity_events := activity_events db\<rparr>
       \<lparr>customers := customers db', beneficiaries := beneficiaries db', aml_screening_checks := aml_screening_checks db',
       counterparties := counterparties db', counterparty_authorizations := counterparty_authorizations db',
       integration_connections := integration_connections db', activity_events := activity_events db'\<rparr>" by simp
  then obtain p q r s t u v where "db' = db\<lparr>customers := p, beneficiaries := q, aml_screening_checks := r,
       counterparties := s, counterparty_authorizations := t, integration_connections := u, activity_events := v\<rparr>"
    unfolding eq by blast
  then show ?thesis unfolding kept_defs by simp
qed

lemma onboarding_keeps_office:
  assumes "onboarding_step db db'"
  shows "office_kept db db'"
proof -
  note eq = conjunct2 [OF onboarding_step_effect [OF assms]]
  have "db' = db'\<lparr>counterparty_onboardings := counterparty_onboardings db,
       onboarding_gate_decisions := onboarding_gate_decisions db, activity_events := activity_events db\<rparr>
       \<lparr>counterparty_onboardings := counterparty_onboardings db',
       onboarding_gate_decisions := onboarding_gate_decisions db', activity_events := activity_events db'\<rparr>" by simp
  then obtain p q r where "db' = db\<lparr>counterparty_onboardings := p, onboarding_gate_decisions := q, activity_events := r\<rparr>"
    unfolding eq by blast
  then show ?thesis unfolding kept_defs by simp
qed

lemma monitor_step_frame:
  assumes "monitor_step db db'"
  shows "beneficiaries db' = beneficiaries db" "integration_connections db' = integration_connections db"
    "counterparty_authorizations db' = counterparty_authorizations db" "aml_screening_checks db' = aml_screening_checks db"
    "rate_locks db' = rate_locks db" "payment_orders db' = payment_orders db" "payment_legs db' = payment_legs db"
    "counterparty_onboardings db' = counterparty_onboardings db" "onboarding_gate_decisions db' = onboarding_gate_decisions db"
    "compliance_cases db' = compliance_cases db" "sar_str_filings db' = sar_str_filings db" "office_kept db db'"
  using monitor_step_monitored [OF assms] by (auto simp: monitored_def quiet_def alerted_def kept_defs)

lemma monitor_alert_state:
  assumes "monitor_step db db'" and "alert_state_of db k = Some st"
  shows "alert_state_of db' k = Some st"
  using monitor_step_monitored [OF assms(1)] assms(2)
  by (auto simp: monitored_def quiet_def alerted_def alert_state_of_def table_simps)

lemma office_step_frame:
  assumes "office_step db db'"
  shows "beneficiaries db' = beneficiaries db" "integration_connections db' = integration_connections db"
    "counterparty_authorizations db' = counterparty_authorizations db" "aml_screening_checks db' = aml_screening_checks db"
    "rate_locks db' = rate_locks db" "payment_orders db' = payment_orders db" "payment_legs db' = payment_legs db"
    "alert_policies db' = alert_policies db" "compliance_alerts db' = compliance_alerts db"
    "compliance_cases db' = compliance_cases db" "sar_str_filings db' = sar_str_filings db"
    "counterparty_onboardings db' = counterparty_onboardings db" "onboarding_gate_decisions db' = onboarding_gate_decisions db"
  using office_step_core [OF assms] by (simp_all add: core_kept_def)

section \<open>The invariant of the system\<close>

lemma compliance_inv_extend:
  assumes "compliance_inv db" and "prefix (activity_events db) (activity_events db')"
    and "alert_policies db' = alert_policies db" "compliance_alerts db' = compliance_alerts db"
      "compliance_cases db' = compliance_cases db" "sar_str_filings db' = sar_str_filings db"
  shows "compliance_inv db'"
  using assms(1) case_ok_mono [OF assms(2)] unfolding compliance_inv_def alert_ok_def filing_ok_def assms(3-6) by blast

lemma onboarding_inv_cong:
  "counterparty_onboardings db' = counterparty_onboardings db \<Longrightarrow>
   onboarding_gate_decisions db' = onboarding_gate_decisions db \<Longrightarrow> onboarding_inv db' = onboarding_inv db"
  by (simp add: onboarding_inv_def)

lemma umoja_step_appends: "umoja_step db db' \<Longrightarrow> prefix (activity_events db) (activity_events db')"
  by (erule umoja_step.cases)
     (auto intro: payment_step_appends compliance_step_appends monitored_log [OF monitor_step_monitored] office_step_appends
       dest: registry_step_effect onboarding_step_effect)

lemma umoja_step_inv:
  assumes inv: "umoja_inv db" and step: "umoja_step db db'"
  shows "umoja_inv db'"
proof -
  note log = umoja_step_appends [OF step]
  from inv have invs: "payment_inv db" "compliance_inv db" "registry_inv db" "onboarding_inv db" "office_inv db"
    by (simp_all add: umoja_inv_def)
  from step show ?thesis
  proof cases
    case payment
    note fr = payment_step_frame [OF payment] and off = office_inv_cong [OF payment_keeps_office [OF payment] invs(5)]
    have "compliance_inv db'" using invs(2) log fr(5-8) by (rule compliance_inv_extend)
    then show ?thesis
      using off invs payment_step_inv [OF invs(1) payment] registry_inv_cong [OF fr(1-4)] onboarding_inv_cong [OF fr(9,10)]
      by (simp add: umoja_inv_def)
  next
    case compliance
    note fr = compliance_step_frame [OF compliance] and off = office_inv_cong [OF compliance_keeps_office [OF compliance] invs(5)]
    show ?thesis
      using off invs compliance_step_inv [OF invs(2) compliance] registry_inv_cong [OF fr(1-4)] payment_inv_cong [OF fr(5-7)]
        onboarding_inv_cong [OF fr(8,9)] by (simp add: umoja_inv_def)
  next
    case registry
    note fr = registry_step_frame [OF registry] and off = office_inv_cong [OF registry_keeps_office [OF registry] invs(5)]
    have "compliance_inv db'" using invs(2) log fr(4-7) by (rule compliance_inv_extend)
    then show ?thesis
      using off invs registry_step_inv [OF invs(3) registry] payment_inv_cong [OF fr(1-3)] onboarding_inv_cong [OF fr(8,9)]
      by (simp add: umoja_inv_def)
  next
    case onboarding
    note fr = onboarding_step_frame [OF onboarding] and off = office_inv_cong [OF onboarding_keeps_office [OF onboarding] invs(5)]
    have "compliance_inv db'" using invs(2) log fr(8-11) by (rule compliance_inv_extend)
    then show ?thesis
      using off invs onboarding_step_inv [OF invs(4) onboarding] registry_inv_cong [OF fr(1-4)] payment_inv_cong [OF fr(5-7)]
      by (simp add: umoja_inv_def)
  next
    case monitor
    note fr = monitor_step_frame [OF monitor]
    show ?thesis
      using office_inv_cong [OF fr(12) invs(5)] invs monitored_compliance_inv [OF invs(2) monitor_step_monitored [OF monitor]]
        registry_inv_cong [OF fr(1-4)] payment_inv_cong [OF fr(5-7)] onboarding_inv_cong [OF fr(8,9)]
      by (simp add: umoja_inv_def)
  next
    case office
    note fr = office_step_frame [OF office]
    have "compliance_inv db'" using invs(2) log fr(8-11) by (rule compliance_inv_extend)
    then show ?thesis
      using invs office_step_inv [OF invs(5) office] registry_inv_cong [OF fr(1-4)] payment_inv_cong [OF fr(5-7)]
        onboarding_inv_cong [OF fr(12,13)] by (simp add: umoja_inv_def)
  qed
qed

lemma empty_db_inv: "umoja_inv empty_db"
  by (simp add: umoja_inv_def payment_inv_def compliance_inv_def registry_inv_def onboarding_inv_def single_use_def empty_db_def
      office_inv_def phases_inv_def assurance_inv_def complete_registers_def desk_inv_def use_case_inv_def)

section \<open>The contracts of the whole system\<close>

interpretation system: preserved umoja_inv umoja_step
  by unfold_locales (rule umoja_step_inv)

interpretation trail: audited activity_events umoja_step
  by unfold_locales (rule umoja_step_appends)

interpretation order_life: lifecycle internalOrderTransitions order_status umoja_step
proof
  fix db db' k st assume "umoja_step db db'" and st: "order_status db k = Some st"
  then show "\<exists>b. order_status db' k = Some b \<and> (b = st \<or> b \<in> set (internalOrderTransitions st))"
    by cases (use st order_status_step compliance_step_frame(6) registry_step_frame(2) onboarding_step_frame(6)
      monitor_step_frame(6) office_step_frame(6) in \<open>fastforce simp: order_status_def\<close>)+
qed

interpretation leg_life: lifecycle allowedInternalLegTransitions leg_status umoja_step
proof
  fix db db' k st assume "umoja_step db db'" and st: "leg_status db k = Some st"
  then show "\<exists>b. leg_status db' k = Some b \<and> (b = st \<or> b \<in> set (allowedInternalLegTransitions st))"
    by cases (use st leg_status_step compliance_step_frame(7) registry_step_frame(3) onboarding_step_frame(7)
      monitor_step_frame(7) office_step_frame(7) in \<open>fastforce simp: leg_status_def\<close>)+
qed

interpretation lock_life: lifecycle rate_lock_transitions lock_status umoja_step
proof
  fix db db' k st assume "umoja_step db db'" and st: "lock_status db k = Some st"
  then show "\<exists>b. lock_status db' k = Some b \<and> (b = st \<or> b \<in> set (rate_lock_transitions st))"
    by cases (use st lock_status_step compliance_step_frame(5) registry_step_frame(1) onboarding_step_frame(5)
      monitor_step_frame(5) office_step_frame(5) in \<open>fastforce simp: lock_status_def\<close>)+
qed

interpretation alert_life: lifecycle ALLOWED_TRANSITIONS alert_state_of umoja_step
proof
  fix db db' k st assume "umoja_step db db'" and st: "alert_state_of db k = Some st"
  then show "\<exists>b. alert_state_of db' k = Some b \<and> (b = st \<or> b \<in> set (ALLOWED_TRANSITIONS st))"
    by cases (use st alert_state_step payment_step_frame(6) registry_step_frame(5) onboarding_step_frame(9)
      monitor_alert_state office_step_frame(9) in \<open>fastforce simp: alert_state_of_def\<close>)+
qed

interpretation case_life: lifecycle ALLOWED_CASE_TRANSITIONS case_status_of umoja_step
proof
  fix db db' k st assume "umoja_step db db'" and st: "case_status_of db k = Some st"
  then show "\<exists>b. case_status_of db' k = Some b \<and> (b = st \<or> b \<in> set (ALLOWED_CASE_TRANSITIONS st))"
    by cases (use st case_status_step payment_step_frame(7) registry_step_frame(6) onboarding_step_frame(10)
      monitor_step_frame(10) office_step_frame(10) in \<open>fastforce simp: case_status_of_def\<close>)+
qed

interpretation filing_life: lifecycle filing_transitions filing_status_of umoja_step
proof
  fix db db' k st assume "umoja_step db db'" and st: "filing_status_of db k = Some st"
  then show "\<exists>b. filing_status_of db' k = Some b \<and> (b = st \<or> b \<in> set (filing_transitions st))"
    by cases (use st filing_status_step payment_step_frame(8) registry_step_frame(7) onboarding_step_frame(11)
      monitor_step_frame(11) office_step_frame(11) in \<open>fastforce simp: filing_status_of_def\<close>)+
qed

interpretation stage_life: lifecycle onboarding_stage_transitions onboarding_stage_of umoja_step
proof
  fix db db' k st assume "umoja_step db db'" and st: "onboarding_stage_of db k = Some st"
  then show "\<exists>b. onboarding_stage_of db' k = Some b \<and> (b = st \<or> b \<in> set (onboarding_stage_transitions st))"
    by cases (use st onboarding_stage_step payment_step_frame(9) registry_step_frame(8) compliance_step_frame(8)
      monitor_step_frame(8) office_step_frame(12) in \<open>fastforce simp: onboarding_stage_of_def\<close>)+
qed

lemma office_phases:
  assumes "office_kept db db'"
  shows "operator_phase_of db' k = operator_phase_of db k" "engagement_phase_of db' k = engagement_phase_of db k"
  using assms by (simp_all add: operator_phase_of_def engagement_phase_of_def office_kept_def phases_kept_def)

lemmas keep_office = payment_keeps_office compliance_keeps_office registry_keeps_office onboarding_keeps_office
  monitor_step_frame(12)

interpretation operator_life: lifecycle operator_phase_transitions operator_phase_of umoja_step
proof
  fix db db' k p assume "umoja_step db db'" and p: "operator_phase_of db k = Some p"
  then show "\<exists>b. operator_phase_of db' k = Some b \<and> (b = p \<or> b \<in> set (operator_phase_transitions p))"
    by cases (use p keep_office [THEN office_phases(1)] in \<open>auto intro: operator_phase_office\<close>)
qed

interpretation engagement_life: lifecycle engagement_phase_transitions engagement_phase_of umoja_step
proof
  fix db db' k p assume "umoja_step db db'" and p: "engagement_phase_of db k = Some p"
  then show "\<exists>b. engagement_phase_of db' k = Some b \<and> (b = p \<or> b \<in> set (engagement_phase_transitions p))"
    by cases (use p keep_office [THEN office_phases(2)] in \<open>auto intro: engagement_phase_office\<close>)
qed

end
