(* ===== verification/Order_Record.thy ===== *)
theory Order_Record
  imports Control_Plane
begin

text \<open>
  What a run can never change about a payment order, and the status it can never reach. The terms
  of an order are a lifecycle without transitions; that nothing is ever approved is an invariant of
  the whole system, because no operation of any component writes a policy decision.
\<close>

section \<open>The terms of an order\<close>

definition terms_of :: "payment_order \<Rightarrow> payment_order" where
  "terms_of ord = ord\<lparr>po_status := PS_draft, po_updated_at := 0\<rparr>"

definition order_terms :: "db \<Rightarrow> uuid \<Rightarrow> payment_order option" where
  "order_terms db k = map_option terms_of (find_row po_id k (payment_orders db))"

lemma order_terms_step:
  assumes "payment_step db db'" and "order_terms db k = Some ord"
  shows "order_terms db' k = Some ord"
  using assms(1)
proof cases
  case (order_created e a i r)
  then show ?thesis using draft_tables(2) [OF order_created] assms(2) by (auto simp: order_terms_def table_simps)
next
  case (order_moved e a j s rs r)
  then have "\<exists>f. payment_orders db' = update_row po_id j f (payment_orders db) \<and>
      (\<forall>x. po_id (f x) = po_id x \<and> terms_of (f x) = terms_of x)"
    by (auto simp: transitionPostgresPaymentOrder_def event_defs terms_of_def split: if_splits option.splits)
  then show ?thesis using assms(2) by (auto simp: order_terms_def table_simps)
qed (use assms(2) in \<open>auto simp: order_terms_def payment_op_defs split: if_splits option.splits\<close>)

interpretation terms_life: lifecycle "\<lambda>_. []" order_terms umoja_step
proof
  fix db db' k ord assume "umoja_step db db'" and ord: "order_terms db k = Some ord"
  then have "order_terms db' k = Some ord"
    by cases (use ord order_terms_step compliance_step_frame(6) registry_step_frame(2) onboarding_step_frame(6)
      monitor_step_frame(6) office_step_frame(6) in \<open>fastforce simp: order_terms_def\<close>)+
  then show "\<exists>b. order_terms db' k = Some b \<and> (b = ord \<or> b \<in> set [])" by simp
qed

section \<open>Nothing is decided\<close>

definition undecided :: "db \<Rightarrow> bool" where
  "undecided db \<longleftrightarrow> (\<forall>ord \<in> set (payment_orders db). po_policy_decision_id ord = None \<and> po_status ord \<noteq> PS_approved) \<and>
     (\<forall>l \<in> set (payment_legs db). pl_status l \<noteq> PS_approved)"

lemma undecided_cong:
  "payment_orders db' = payment_orders db \<Longrightarrow> payment_legs db' = payment_legs db \<Longrightarrow> undecided db' = undecided db"
  by (simp add: undecided_def)

lemma undecided_order_moved:
  assumes "undecided db" and "transitionPostgresPaymentOrder e a k st rs db = Inr (r, db')"
  shows "undecided db'"
proof -
  from assms(2) obtain ord where ord: "find_row po_id k (payment_orders db) = Some ord"
      and st: "st = PS_approved \<longrightarrow> po_policy_decision_id ord \<noteq> None"
      and tabs: "payment_orders db' = update_row po_id k (\<lambda>x. x\<lparr>po_status := st, po_updated_at := pg_now e\<rparr>) (payment_orders db)"
        "payment_legs db' = payment_legs db"
    by (auto simp: transitionPostgresPaymentOrder_def event_defs split: if_splits option.splits)
  have "po_policy_decision_id ord = None" using assms(1) find_row_mem [OF ord] by (auto simp: undecided_def)
  then show ?thesis using assms(1) st unfolding undecided_def tabs by (auto simp: update_row_def)
qed

lemma undecided_leg_moved:
  assumes "undecided db" and "transitionPostgresPaymentLeg e a k st rs db = Inr (r, db')"
  shows "undecided db'"
proof -
  from assms(2) obtain ord j where ord: "find_row po_id j (payment_orders db) = Some ord"
      and st: "st = PS_approved \<longrightarrow> po_status ord = PS_approved"
      and tabs: "payment_legs db' = update_row pl_id k (\<lambda>x. x\<lparr>pl_status := st\<rparr>) (payment_legs db)"
        "payment_orders db' = payment_orders db"
    by (auto simp: transitionPostgresPaymentLeg_def event_defs split: if_splits option.splits)
  have "po_status ord \<noteq> PS_approved" using assms(1) find_row_mem [OF ord] by (auto simp: undecided_def)
  then show ?thesis using assms(1) st unfolding undecided_def tabs by (auto simp: update_row_def)
qed

lemma undecided_payment_step:
  assumes "undecided db" and "payment_step db db'"
  shows "undecided db'"
  using assms(2)
proof cases
  case (order_created e a i r)
  then show ?thesis using draft_tables(1,2) [OF order_created] assms(1) by (auto simp: undecided_def insert_row_def)
next
  case (leg_created e a li r)
  then have "payment_orders db' = payment_orders db" "\<exists>l. payment_legs db' = insert_row l (payment_legs db) \<and> pl_status l = PS_draft"
    by (auto simp: payment_op_defs split: if_splits option.splits)
  then show ?thesis using assms(1) by (auto simp: undecided_def insert_row_def)
next
  case (order_moved e a k st rs r)
  with assms(1) show ?thesis by (rule undecided_order_moved)
next
  case (leg_moved e a k st rs r)
  with assms(1) show ?thesis by (rule undecided_leg_moved)
qed (use assms(1) in \<open>auto simp: undecided_def payment_op_defs split: if_splits option.splits\<close>)

interpretation undecided_system: preserved undecided umoja_step
proof
  fix db db' assume inv: "undecided db" and "umoja_step db db'"
  from this(2) show "undecided db'"
  proof cases
    case payment
    with inv show ?thesis by (rule undecided_payment_step)
  qed (use inv undecided_cong [OF compliance_step_frame(6,7)] undecided_cong [OF registry_step_frame(2,3)]
      undecided_cong [OF onboarding_step_frame(6,7)] undecided_cong [OF monitor_step_frame(6,7)]
      undecided_cong [OF office_step_frame(6,7)] in \<open>simp_all\<close>)
qed

end
