(* ===== verification/Lock_Book.thy ===== *)
theory Lock_Book
  imports Control_Plane
begin

text \<open>
  The contract of rate locks, free of tables and statuses: a book of locks in which a lock is issued
  free, bound once to one order, and finally closed. The control plane implements the book: every
  step of every component is a step of the book, so the laws of the book hold for the store.
\<close>

section \<open>Refinement of runs\<close>

locale refines = preserved inv step
  for inv :: "'s \<Rightarrow> bool" and step :: "'s \<Rightarrow> 's \<Rightarrow> bool" +
  fixes view :: "'s \<Rightarrow> 'a"
    and spec :: "'a \<Rightarrow> 'a \<Rightarrow> bool"
  assumes simulates: "inv s \<Longrightarrow> step s t \<Longrightarrow> spec (view s) (view t)"
begin

lemma run_refines:
  assumes "step\<^sup>*\<^sup>* s t" and "inv s"
  shows "spec\<^sup>*\<^sup>* (view s) (view t)"
  using assms(1)
proof (induction rule: rtranclp_induct)
  case (step t u)
  have "inv t" using step.hyps(1) assms(2) by (rule run_inv)
  with step show ?case by (meson rtranclp.rtrancl_into_rtrancl simulates)
qed simp

end

section \<open>The book\<close>

datatype entry = Free | Bound uuid | Closed "uuid option"

fun owner :: "entry \<Rightarrow> uuid option" where
  "owner Free = None"
| "owner (Bound k) = Some k"
| "owner (Closed w) = w"

definition shut :: "entry \<Rightarrow> entry" where
  "shut x = Closed (owner x)"

inductive book_step :: "(uuid \<rightharpoonup> entry) \<Rightarrow> (uuid \<rightharpoonup> entry) \<Rightarrow> bool" where
  issue: "b k = None \<Longrightarrow> book_step b (b(k \<mapsto> Free))"
| bind: "b k = Some Free \<Longrightarrow> (\<And>j x. b j = Some x \<Longrightarrow> owner x \<noteq> Some w) \<Longrightarrow> book_step b (b(k \<mapsto> Bound w))"
| close: "(\<And>k. b' k = b k \<or> b' k = map_option shut (b k)) \<Longrightarrow> book_step b b'"

text \<open>An order owns at most one lock, and what is owned or closed stays so.\<close>

definition owns :: "(uuid \<rightharpoonup> entry) \<Rightarrow> uuid \<Rightarrow> uuid \<Rightarrow> bool" where
  "owns b w k \<longleftrightarrow> Option.bind (b k) owner = Some w"

lemma owns_iff: "owns b w k \<longleftrightarrow> (\<exists>x. b k = Some x \<and> owner x = Some w)"
  by (simp add: owns_def Option.bind_eq_Some_conv)

lemma owns_step: "book_step b b' \<Longrightarrow> owns b w k \<Longrightarrow> owns b' w k"
proof (induction rule: book_step.induct)
  case (close b' b)
  from close(1) [of k] close(2) show ?case by (auto simp: owns_iff shut_def)
qed (auto simp: owns_iff)

lemma owns_run: "book_step\<^sup>*\<^sup>* b b' \<Longrightarrow> owns b w k \<Longrightarrow> owns b' w k"
  by (induction rule: rtranclp_induct) (auto dest: owns_step)

lemma owns_unique_step:
  assumes "book_step b b'" and one: "\<And>w j k. owns b w j \<Longrightarrow> owns b w k \<Longrightarrow> j = k"
  shows "owns b' w j \<Longrightarrow> owns b' w k \<Longrightarrow> j = k"
  using assms(1)
proof cases
  case (issue i)
  assume "owns b' w j" "owns b' w k"
  with issue one [of w j k] show ?thesis by (auto simp: owns_iff split: if_splits)
next
  case (bind i v)
  assume "owns b' w j" "owns b' w k"
  with bind one [of w j k] show ?thesis by (fastforce simp: owns_iff split: if_splits)
next
  case close
  have "owns b' w i \<Longrightarrow> owns b w i" for i using close [of i] by (auto simp: owns_iff shut_def)
  moreover assume "owns b' w j" "owns b' w k"
  ultimately show ?thesis using one by blast
qed

lemma owns_unique_run:
  assumes "book_step\<^sup>*\<^sup>* Map.empty b"
  shows "owns b w j \<Longrightarrow> owns b w k \<Longrightarrow> j = k"
  using assms
proof (induction arbitrary: w j k rule: rtranclp_induct)
  case base
  then show ?case by (simp add: owns_iff)
next
  case (step y z)
  show ?case by (rule owns_unique_step [OF step(2) _ step(4,5)]) (rule step(3))
qed

section \<open>The store as a book\<close>

definition entry_of :: "rate_lock \<Rightarrow> entry" where
  "entry_of l = (if rl_status l = RL_locked then (case rl_payment_order_id l of None \<Rightarrow> Free | Some k \<Rightarrow> Bound k)
     else Closed (rl_payment_order_id l))"

definition book :: "db \<Rightarrow> uuid \<rightharpoonup> entry" where
  "book db k = map_option entry_of (find_row rl_id k (rate_locks db))"

lemma owner_entry_of [simp]: "owner (entry_of l) = rl_payment_order_id l"
  by (simp add: entry_of_def split: option.split)

lemma book_same: "rate_locks db' = rate_locks db \<Longrightarrow> book_step (book db) (book db')"
  by (rule book_step.close) (simp add: book_def)

lemma book_map:
  assumes "rate_locks db' = map f (rate_locks db)" and "\<And>l. rl_id (f l) = rl_id l"
    and "\<And>l. entry_of (f l) = entry_of l \<or> entry_of (f l) = shut (entry_of l)"
  shows "book_step (book db) (book db')"
proof (rule book_step.close)
  fix k
  show "book db' k = book db k \<or> book db' k = map_option shut (book db k)"
    using assms(2,3) unfolding book_def assms(1) by (cases "find_row rl_id k (rate_locks db)") (auto simp: find_row_map)
qed

lemma book_update:
  assumes "rate_locks db' = update_row rl_id k f (rate_locks db)" and "\<And>l. rl_id (f l) = rl_id l"
    and "\<And>l. entry_of (f l) = entry_of l \<or> entry_of (f l) = shut (entry_of l)"
  shows "book_step (book db) (book db')"
  by (rule book_map [where f = "\<lambda>l. if rl_id l = k then f l else l"])
     (use assms in \<open>simp_all add: update_row_def\<close>)

lemma closed_status: "rl_status l' \<noteq> RL_locked \<Longrightarrow> rl_payment_order_id l' = rl_payment_order_id l \<Longrightarrow> entry_of l' = shut (entry_of l)"
  by (simp add: entry_of_def [of l'] shut_def)

lemma book_draft:
  assumes inv: "payment_inv db" and "createPostgresPaymentOrder e a i db = Inr (r, db')"
  shows "book_step (book db) (book db')"
  using assms(2)
proof (rule createPostgresPaymentOrder_Inr)
  fix lock target
  assume lock: "find_row rl_id (oi_rateLockId i) (rate_locks db) = Some lock" "rl_payment_order_id lock = None"
      "rl_status lock = RL_locked"
    and outcome: "(find_row po_idempotency_key (oi_idempotencyKey i) (payment_orders db) \<noteq> None \<and>
            replay_order i lock db = Inr (r, db')) \<or>
         (find_row po_idempotency_key (oi_idempotencyKey i) (payment_orders db) = None \<and>
            find_row po_id (new_uuid e) (payment_orders db) = None \<and> draft_effect e a i lock db db' \<and>
            r = \<lparr>or_id = new_uuid e, or_status = PS_draft,
              or_targetAmount = po_target_amount (draft_order e a i lock), or_rateLockId = rl_id lock,
              or_lockedRate = rl_locked_rate lock, or_idempotentReplay = False\<rparr>)"
  from outcome show ?thesis
  proof (elim disjE conjE)
    assume "replay_order i lock db = Inr (r, db')"
    then have "db' = db" by (rule replay_order_unchanged)
    then show ?thesis by (simp add: book_same)
  next
    assume fresh: "find_row po_id (new_uuid e) (payment_orders db) = None" and eff: "draft_effect e a i lock db db'"
    have tab: "rate_locks db' = map (\<lambda>l. if rl_id l = rl_id lock \<and> rl_payment_order_id l = None
        then l\<lparr>rl_payment_order_id := Some (new_uuid e)\<rparr> else l) (rate_locks db)"
      using eff by (simp add: draft_effect_def)
    have id: "rl_id lock = oi_rateLockId i" using find_row_mem [OF lock(1)] by simp
    have "book db' = (book db)(rl_id lock \<mapsto> Bound (new_uuid e))"
    proof
      fix k
      show "book db' k = ((book db)(rl_id lock \<mapsto> Bound (new_uuid e))) k"
        using lock id find_row_mem [of rl_id k "rate_locks db"] unfolding book_def tab
        by (cases "find_row rl_id k (rate_locks db)") (auto simp: find_row_map entry_of_def)
    qed
    moreover have "book_step (book db) ((book db)(rl_id lock \<mapsto> Bound (new_uuid e)))"
    proof (rule book_step.bind)
      show "book db (rl_id lock) = Some Free" using lock id by (simp add: book_def entry_of_def)
      fix j x assume "book db j = Some x"
      then obtain l where l: "l \<in> set (rate_locks db)" "x = entry_of l"
        by (auto simp: book_def dest: find_row_mem)
      then have "set_option (rl_payment_order_id l) \<subseteq> po_id ` set (payment_orders db)"
        using inv by (auto simp: payment_inv_def lock_ok_def)
      with fresh l(2) show "owner x \<noteq> Some (new_uuid e)" by (auto simp: find_row_None)
    qed
    ultimately show ?thesis by simp
  qed
qed

lemma payment_book_step:
  assumes inv: "payment_inv db" and "payment_step db db'"
  shows "book_step (book db) (book db')"
  using assms(2)
proof cases
  case (rate_lock_created e a m c x r)
  then have "\<exists>l. rate_locks db' = insert_row l (rate_locks db) \<and> rl_id l \<notin> rl_id ` set (rate_locks db) \<and> entry_of l = Free"
    by (auto simp: createPostgresRateLock_def event_defs Let_def find_row_None entry_of_def split: if_splits option.splits)
  then obtain l where l: "rate_locks db' = insert_row l (rate_locks db)" "find_row rl_id (rl_id l) (rate_locks db) = None"
      "entry_of l = Free"
    by (auto simp: find_row_None)
  have "book db' = (book db)(rl_id l \<mapsto> Free)"
    by (rule ext) (use l in \<open>auto simp: book_def table_simps split: option.splits\<close>)
  moreover have "book_step (book db) ((book db)(rl_id l \<mapsto> Free))"
    by (rule book_step.issue) (simp add: book_def l(2))
  ultimately show ?thesis by simp
next
  case (rate_locks_expired e a r)
  then have "rate_locks db' = map (\<lambda>l. if elapsed (pg_now e) l then l\<lparr>rl_status := RL_expired\<rparr> else l) (rate_locks db)"
    by (auto simp: expirePostgresRateLocks_def Let_def record_expiry_tables)
  then show ?thesis by (rule book_map) (auto intro: closed_status)
next
  case (rate_lock_withdrawn e a k rs r)
  then have "rate_locks db' = update_row rl_id k (\<lambda>l. l\<lparr>rl_status := RL_cancelled\<rparr>) (rate_locks db)"
    by (auto simp: workflow_cancelPostgresRateLock_def event_defs split: if_splits option.splits)
  then show ?thesis by (rule book_update) (auto intro: closed_status)
next
  case (rate_lock_cancelled e a k r)
  then have "rate_locks db' = update_row rl_id k (\<lambda>l. l\<lparr>rl_status := RL_cancelled\<rparr>) (rate_locks db)"
    by (auto simp: postgres_cancelPostgresRateLock_def event_defs split: if_splits option.splits)
  then show ?thesis by (rule book_update) (auto intro: closed_status)
next
  case (order_created e a i r)
  with inv show ?thesis by (rule book_draft)
qed (auto intro!: book_same simp: payment_op_defs split: if_splits option.splits)

lemma umoja_book_step: "umoja_inv db \<Longrightarrow> umoja_step db db' \<Longrightarrow> book_step (book db) (book db')"
  by (erule umoja_step.cases)
     (auto intro: payment_book_step book_same
       dest: compliance_step_frame(5) registry_step_frame(1) onboarding_step_frame(5) monitor_step_frame(5) office_step_frame(5)
       simp: umoja_inv_def)

interpretation lock_book: refines umoja_inv umoja_step book book_step
  by unfold_locales (rule umoja_book_step)

end
