(* ===== verification/Payment_Path.thy ===== *)
theory Payment_Path
  imports Lock_Book Js_Rounding
begin

text \<open>
  One complete run of the control plane from the empty store to a drafted and then cancelled payment
  order: the parties are registered, two provider integrations are configured and activated, the
  beneficiary is screened, a rate is observed and locked, and the order is drafted. It shows that
  the guards of the components can all be met together.
\<close>

section \<open>Environments and actors\<close>

definition at_time :: "instant \<Rightarrow> uuid \<Rightarrow> env" where
  "at_time t k = \<lparr>js_now = t, pg_now = t, pg_today = 0, new_uuid = k, node_uuid = k + 500\<rparr>"

definition operator :: actor where
  "operator = \<lparr>openId = ''op-1'', role = Treasury_operator\<rparr>"

definition provider_url :: "string \<Rightarrow> url option" where
  "provider_url s = Some \<lparr>url_protocol = ''https:'', url_username = [], url_password = [],
     url_hostname = ''api.provider.example'', url_href = s\<rparr>"

definition secrets :: "string \<Rightarrow> string option" where
  "secrets name = (if name = ''PROVIDER_API_KEY'' then Some ''k'' else None)"

definition healthy :: health_outcome where
  "healthy = probeProviderEndpoint secrets (\<lambda>_ _. Responded 200) 5 ''https://api.provider.example/'' ''PROVIDER_API_KEY'' None"

section \<open>The run\<close>

definition after :: "('r \<times> db) result \<Rightarrow> db" where
  "after res = snd (projr res)"

definition "path1 = after (createPostgresCounterparty (at_time 1 101) operator ''Bank'' ''licensed_psp'' ''Nigeria'' empty_db)"
definition "path2 = after (createPostgresCustomer (at_time 2 102) operator ''Acme'' ''RC1'' path1)"
definition "path3 = after (createPostgresBeneficiary (at_time 3 103) operator 102 ''Payee'' ''NG'' ''acct'' path2)"
definition "path4 = after (createPostgresIntegrationConnection (at_time 4 104) operator 101 ''sanctions'' ''sandbox'' ''d'' path3)"
definition "path5 = after (configurePostgresIntegrationCredential provider_url (\<lambda>_. 0) (Some ''api.provider.example'')
   (at_time 5 105) operator 104 ''PROVIDER_API_KEY'' ''https://api.provider.example/'' path4)"
definition "path6 = after (activatePostgresIntegrationConnection (at_time 6 106) operator 104 healthy path5)"

lemma step_after:
  assumes "\<not> isl res" and "\<And>r db'. res = Inr (r, db') \<Longrightarrow> umoja_step db db'"
  shows "umoja_step db (after res)"
  using assms by (cases res) (auto simp: after_def)

lemma path_a: "umoja_step\<^sup>*\<^sup>* empty_db path6"
proof -
  have "umoja_step empty_db path1" unfolding path1_def by (rule step_after, code_simp, rule registry, rule counterparty_created)
  moreover have "umoja_step path1 path2" unfolding path2_def by (rule step_after, code_simp, rule registry, rule customer_created)
  moreover have "umoja_step path2 path3" unfolding path3_def by (rule step_after, code_simp, rule registry, rule beneficiary_created)
  moreover have "umoja_step path3 path4" unfolding path4_def by (rule step_after, code_simp, rule registry, rule integration_created)
  moreover have "umoja_step path4 path5" unfolding path5_def by (rule step_after, code_simp, rule registry, rule credential_configured)
  moreover have "umoja_step path5 path6" unfolding path6_def healthy_def
    by (rule step_after, code_simp, rule registry, rule integration_probed)
  ultimately show ?thesis by (meson rtranclp.rtrancl_into_rtrancl rtranclp.rtrancl_refl)
qed

definition "path7 = after (createPostgresIntegrationConnection (at_time 7 107) operator 101 ''fx_rate'' ''sandbox'' ''d'' path6)"
definition "path8 = after (configurePostgresIntegrationCredential provider_url (\<lambda>_. 0) (Some ''api.provider.example'')
   (at_time 8 108) operator 107 ''PROVIDER_API_KEY'' ''https://api.provider.example/'' path7)"
definition "path9 = after (activatePostgresIntegrationConnection (at_time 9 109) operator 107 healthy path8)"

definition clear_result :: screening_input where
  "clear_result = \<lparr>si_beneficiaryId = 103, si_integrationConnectionId = 104, si_correlationId = 900, si_screeningState = SC_clear,
     si_providerReference = ''ref-1'', si_sourceVersion = ''v1'', si_evidenceSha256 = replicate 64 CHR ''a'', si_screenedAt = 9\<rparr>"

definition "path10 = after (recordPostgresBeneficiaryScreening (at_time 10 110) operator clear_result path9)"

lemma path_b: "umoja_step\<^sup>*\<^sup>* path6 path10"
proof -
  have "umoja_step path6 path7" unfolding path7_def by (rule step_after, code_simp, rule registry, rule integration_created)
  moreover have "umoja_step path7 path8" unfolding path8_def by (rule step_after, code_simp, rule registry, rule credential_configured)
  moreover have "umoja_step path8 path9" unfolding path9_def healthy_def
    by (rule step_after, code_simp, rule registry, rule integration_probed)
  moreover have "umoja_step path9 path10" unfolding path10_def by (rule step_after, code_simp, rule registry, rule screening_recorded)
  ultimately show ?thesis by (meson rtranclp.rtrancl_into_rtrancl rtranclp.rtrancl_refl)
qed

text \<open>What the payment path needs of the prepared store.\<close>

definition prepared :: "db \<Rightarrow> bool" where
  "prepared db \<longleftrightarrow> market_observations db = [] \<and> rate_locks db = [] \<and> payment_orders db = [] \<and>
     map_option market_source (find_row ic_id 107 (integration_connections db)) = Some True \<and>
     find_row be_id 103 (beneficiaries db) = Some \<lparr>be_id = 103, be_customer_id = 102, be_legal_name = ''Payee'',
       be_country_code = ''NG'', be_bank_or_wallet_reference = ''acct'', be_screening_state = SC_clear\<rparr> \<and>
     find_row cu_id 102 (customers db) \<noteq> None"

lemma path10_prepared: "prepared path10"
  by code_simp

lemmas path10_tables = path10_prepared [unfolded prepared_def, THEN conjunct1]
  path10_prepared [unfolded prepared_def, THEN conjunct2, THEN conjunct1]
  path10_prepared [unfolded prepared_def, THEN conjunct2, THEN conjunct2, THEN conjunct1]
  path10_prepared [unfolded prepared_def, THEN conjunct2, THEN conjunct2, THEN conjunct2, THEN conjunct1]
  path10_prepared [unfolded prepared_def, THEN conjunct2, THEN conjunct2, THEN conjunct2, THEN conjunct2, THEN conjunct1]
  path10_prepared [unfolded prepared_def, THEN conjunct2, THEN conjunct2, THEN conjunct2, THEN conjunct2, THEN conjunct2]

section \<open>Rate, lock and order\<close>

definition observed :: observation_input where
  "observed = \<lparr>mi_integrationConnectionId = 107, mi_baseAsset = USDC, mi_quoteAsset = NGN, mi_rate = ''1500'',
     mi_observedAt = 10, mi_sourceReference = ''feed''\<rparr>"

definition "path11 = after (recordPostgresMarketObservation (at_time 11 111) operator observed path10)"
definition "path12 = after (createPostgresRateLock (at_time 12 112) operator 111 NIGERIA_NGN 10000 path11)"

definition wanted :: order_input where
  "wanted = \<lparr>oi_idempotencyKey = ''key-1'', oi_customerId = 102, oi_beneficiaryId = 103, oi_rateLockId = 112, oi_sourceAmount = ''12.5''\<rparr>"

definition path_lock :: rate_lock where
  "path_lock = \<lparr>rl_id = 112, rl_market_observation_id = 111, rl_payment_order_id = None, rl_corridor = NIGERIA_NGN,
     rl_base_asset = USDC, rl_quote_asset = NGN, rl_locked_rate = 1500000000000000, rl_status = RL_locked,
     rl_expires_at = 10000, rl_created_by = ''op-1''\<rparr>"

definition path_order :: payment_order where
  "path_order = \<lparr>po_id = 113, po_idempotency_key = ''key-1'', po_customer_id = 102, po_beneficiary_id = 103,
     po_corridor = NIGERIA_NGN, po_source_currency = USDC, po_source_amount = 12500000000000,
     po_target_currency = NGN, po_target_amount = 18750000000000000, po_status = PS_draft,
     po_policy_decision_id = None, po_provider_finality_reference = None, po_created_by = ''op-1'',
     po_updated_at = 13\<rparr>"

definition "path13 = after (createPostgresPaymentOrder (at_time 13 113) operator wanted path12)"
definition "path14 = after (transitionPostgresPaymentOrder (at_time 14 114) operator 113 PS_cancelled ''customer withdrew'' path13)"

lemma observed_rate: "js_Number ''1500'' = JsFin (of_int 1500)" "to_numeric 30 12 (of_int 1500) = Some 1500000000000000"
proof -
  have "pos_text 1500 = ''1500''" by code_simp
  then show "js_Number ''1500'' = JsFin (of_int 1500)" using js_Number_whole [of 1500] by simp
  show "to_numeric 30 12 (of_int 1500) = Some 1500000000000000" using to_numeric_int [of 1500] by simp
qed

lemma path11_ok:
  "\<not> isl (recordPostgresMarketObservation (at_time 11 111) operator observed path10)"
  "market_observations path11 = [\<lparr>mo_id = 111, mo_integration_connection_id = 107, mo_base_asset = USDC, mo_quote_asset = NGN,
     mo_rate = 1500000000000000, mo_observed_at = 10, mo_source_reference = ''feed''\<rparr>]"
  "rate_locks path11 = []" "payment_orders path11 = []" "beneficiaries path11 = beneficiaries path10" "customers path11 = customers path10"
proof -
  obtain c where c: "find_row ic_id 107 (integration_connections path10) = Some c" "market_source c"
    using path10_tables(4) by (cases "find_row ic_id 107 (integration_connections path10)") auto
  note ev = recordPostgresMarketObservation_def observed_def observed_rate Let_def c path10_tables(1-3) find_row_def [of mo_id]
    at_time_def operator_def insert_row_def
  have "0 < (of_int 1500 :: rat)" by simp
  then show "\<not> isl (recordPostgresMarketObservation (at_time 11 111) operator observed path10)" by (simp add: ev del: of_int_numeral)
  show "market_observations path11 = [\<lparr>mo_id = 111, mo_integration_connection_id = 107, mo_base_asset = USDC, mo_quote_asset = NGN,
     mo_rate = 1500000000000000, mo_observed_at = 10, mo_source_reference = ''feed''\<rparr>]"
    "rate_locks path11 = []" "payment_orders path11 = []" "beneficiaries path11 = beneficiaries path10" "customers path11 = customers path10"
    unfolding path11_def after_def using \<open>0 < of_int 1500\<close> by (simp_all add: ev del: of_int_numeral)
qed

lemma path12_ok:
  "\<not> isl (createPostgresRateLock (at_time 12 112) operator 111 NIGERIA_NGN 10000 path11)"
  "rate_locks path12 = [path_lock]" "payment_orders path12 = []" "beneficiaries path12 = beneficiaries path10"
  "customers path12 = customers path10"
  unfolding path12_def after_def
  by (simp_all add: createPostgresRateLock_def path11_ok(2-6) find_row_def [of mo_id] find_row_def [of rl_id] at_time_def operator_def
      Let_def event_defs insert_row_def path_lock_def)

lemma path13_ok:
  "\<not> isl (createPostgresPaymentOrder (at_time 13 113) operator wanted path12)"
  "payment_orders path13 = [path_order]" "rate_locks path13 = [path_lock\<lparr>rl_payment_order_id := Some 113\<rparr>]"
proof -
  have amounts: "amount_pattern ''12.5''" "numeric_of_text ''12.5'' = 12500000000000"
      "derive_target 12500000000000 1500000000000000 = 1875000000000"
    by (simp_all add: amount_pattern_def numeric_of_text_def digits_value_def is_digit_def derive_target_def pg_round8_def)
  note ev = createPostgresPaymentOrder_def wanted_def amounts path12_ok(2-5) find_row_def [of rl_id] find_row_def [of po_id]
    find_row_def [of po_idempotency_key] path_lock_def path_order_def at_time_def operator_def Let_def path10_tables(5,6)
    assertBeneficiaryScreeningClear_def draft_order_def insert_payment_order_def consume_lock_def fits_numeric_30_12_def
    event_defs insert_row_def
  show "\<not> isl (createPostgresPaymentOrder (at_time 13 113) operator wanted path12)" by (simp add: ev)
  show "payment_orders path13 = [path_order]" "rate_locks path13 = [path_lock\<lparr>rl_payment_order_id := Some 113\<rparr>]"
    unfolding path13_def after_def by (simp_all add: ev)
qed

lemma path14_ok:
  "\<not> isl (transitionPostgresPaymentOrder (at_time 14 114) operator 113 PS_cancelled ''customer withdrew'' path13)"
  "payment_orders path14 = [path_order\<lparr>po_status := PS_cancelled, po_updated_at := 14\<rparr>]"
  unfolding path14_def after_def
  by (simp_all add: transitionPostgresPaymentOrder_def path13_ok(2) find_row_def [of po_id] path_order_def
      providerDependentOrderStates_def js_trim_def is_js_space_def event_defs update_row_def at_time_def)

lemma path_c: "umoja_step\<^sup>*\<^sup>* empty_db path13"
proof -
  have "umoja_step path10 path11" unfolding path11_def
    by (rule step_after, rule path11_ok, rule office, rule desk_moved, rule observation_recorded)
  moreover have "umoja_step path11 path12" unfolding path12_def
    by (rule step_after, rule path12_ok, rule payment, rule rate_lock_created)
  moreover have "umoja_step path12 path13" unfolding path13_def
    by (rule step_after, rule path13_ok, rule payment, rule order_created)
  ultimately show ?thesis using rtranclp_trans [OF path_a path_b] by (meson rtranclp.rtrancl_into_rtrancl)
qed

lemma path_d: "umoja_step path13 path14"
  unfolding path14_def by (rule step_after, rule path14_ok, rule payment, rule order_moved)

end
