(* ===== verification/Office_Path.thy ===== *)
theory Office_Path
  imports Payment_Path
begin

text \<open>
  Two more complete runs: a counterparty taken through its three onboarding gates to steady state,
  and a readiness register opened, filled and verified by a second person.
\<close>

section \<open>Onboarding to steady state\<close>

definition officer :: actor where "officer = \<lparr>openId = ''co-1'', role = Compliance_officer\<rparr>"
definition administrator :: actor where "administrator = \<lparr>openId = ''ad-1'', role = Admin\<rparr>"

definition licence :: authorization_input where
  "licence = \<lparr>zi_counterpartyId = 101, zi_regulator = ''CBN'', zi_licenceReference = ''L-1'', zi_scopeDescription = ''S'',
     zi_evidenceUri = ''https://e'', zi_validFrom = 0, zi_validTo = None, zi_status = AU_pending_review\<rparr>"

definition approval :: "onboarding_gate \<Rightarrow> gate_input" where
  "approval g = \<lparr>gi_onboardingId = 203, gi_gate = g, gi_decision = Decision_approved, gi_evidenceUri = ''https://e'', gi_rationale = ''reviewed''\<rparr>"

definition "gate1 = after (createPostgresCounterpartyAuthorization (at_time 21 201) officer licence path6)"
definition "gate2 = after (transitionPostgresCounterpartyAuthorization (at_time 22 202) officer 201 AU_verified gate1)"
definition "gate3 = after (createCounterpartyOnboarding (at_time 23 203) officer 101 [NIGERIA_NGN] ''https://e'' 90000 gate2)"
definition "gate4 = after (decideCounterpartyOnboardingGate (at_time 24 204) officer (approval Gate_legal) gate3)"
definition "gate5 = after (decideCounterpartyOnboardingGate (at_time 25 205) administrator (approval Gate_technical) gate4)"
definition "gate6 = after (decideCounterpartyOnboardingGate (at_time 26 206) officer (approval Gate_pilot) gate5)"
definition "gate7 = after (decideCounterpartyOnboardingGate (at_time 27 207) operator (approval Gate_pilot) gate6)"

lemma gate_run: "umoja_step\<^sup>*\<^sup>* empty_db gate7"
proof -
  have "umoja_step path6 gate1" unfolding gate1_def by (rule step_after, code_simp, rule registry, rule authorization_created)
  moreover have "umoja_step gate1 gate2" unfolding gate2_def by (rule step_after, code_simp, rule registry, rule authorization_moved)
  moreover have "umoja_step gate2 gate3" unfolding gate3_def by (rule step_after, code_simp, rule onboarding, rule onboarding_created)
  moreover have "umoja_step gate3 gate4" unfolding gate4_def by (rule step_after, code_simp, rule onboarding, rule onboarding_step.gate_decided)
  moreover have "umoja_step gate4 gate5" unfolding gate5_def by (rule step_after, code_simp, rule onboarding, rule onboarding_step.gate_decided)
  moreover have "umoja_step gate5 gate6" unfolding gate6_def by (rule step_after, code_simp, rule onboarding, rule onboarding_step.gate_decided)
  moreover have "umoja_step gate6 gate7" unfolding gate7_def by (rule step_after, code_simp, rule onboarding, rule onboarding_step.gate_decided)
  ultimately show ?thesis using path_a by (meson rtranclp.rtrancl_into_rtrancl)
qed

lemma gate_end: "map ob_stage (counterparty_onboardings gate7) = [OB_steady_state]"
  by code_simp

section \<open>A verified register area\<close>

definition by_bob :: verification_input where
  "by_bob = \<lparr>vi_dossierId = 302, vi_area = Controlled_live_test, vi_externalVerifier = ''Auditor Ltd'',
     vi_externalAttestationUri = ''https://a'', vi_externalAttestationSha256 = replicate 64 CHR ''b'', vi_rationale = ''checked''\<rparr>"

definition "reg1 = after (registerPostgresLegalEntity (at_time 31 301) administrator ''Umoja Ltd'' ''Nigeria'' ''RC-77'' empty_db)"
definition "reg2 = after (createCbnSandboxDossier (at_time 32 302) administrator 301 Vasp ''Wallet'' (replicate 60 CHR ''s'') reg1)"
definition "reg3 = after (initialiseReadinessAssurance (\<lambda>ar. 310 + area_rank ar) (at_time 33 303) administrator 302 reg2)"
definition "reg4 = after (recordReadinessAssuranceEvidence (at_time 34 304) officer 302 Controlled_live_test ''https://e''
   (replicate 64 CHR ''a'') reg3)"
definition "reg5 = after (verifyReadinessAssuranceEvidence (at_time 35 305) administrator by_bob reg4)"

lemma register_run: "umoja_step\<^sup>*\<^sup>* empty_db reg5"
proof -
  have "umoja_step empty_db reg1" unfolding reg1_def by (rule step_after, code_simp, rule office, rule register_moved, rule entity_registered)
  moreover have "umoja_step reg1 reg2" unfolding reg2_def by (rule step_after, code_simp, rule office, rule register_moved, rule dossier_created)
  moreover have "umoja_step reg2 reg3" unfolding reg3_def by (rule step_after, code_simp, rule office, rule register_moved, rule register_initialised)
  moreover have "umoja_step reg3 reg4" unfolding reg4_def by (rule step_after, code_simp, rule office, rule register_moved, rule evidence_recorded)
  moreover have "umoja_step reg4 reg5" unfolding reg5_def by (rule step_after, code_simp, rule office, rule register_moved, rule evidence_verified)
  ultimately show ?thesis by (meson rtranclp.rtrancl_into_rtrancl rtranclp.rtrancl_refl)
qed

lemma register_end: "find_row assurance_slot (302, Controlled_live_test) (assurance_items reg5) \<noteq> None"
  by code_simp

end
