(* ===== verification/Access_Control.thy ===== *)
theory Access_Control
  imports Umoja_Store "HOL-Library.Char_ord" "HOL-Library.List_Lexorder"
begin

text \<open>
  Who may act, and in which role (\<open>server/operatorRoleGrants.ts\<close>, \<open>operatorDirectory.ts\<close>,
  \<open>externalStakeholders.ts\<close>, \<open>operatorAccessRequests.ts\<close>, \<open>postgresRoleResolver.ts\<close>,
  \<open>operatingRoles.ts\<close>, \<open>_core/context.ts\<close>). The tables of the component form a record beside the
  canonical store; an operation maps both. The identity provider is a parameter: an operation that
  calls it after its own commit returns the committed tables together with a result that may be
  an error.
\<close>

section \<open>Tables\<close>

record user_role_assignment =
  ur_id :: uuid
  ur_user_subject :: string
  ur_role :: operating_role
  ur_assigned_by :: string
  ur_assigned_at :: instant
  ur_revoked_at :: "instant option"

datatype assignment_status = AS_assigned | AS_suspended

record operator_role_assignment =
  or_subject :: string
  or_role :: operating_role
  or_assignment_status :: assignment_status
  or_assigned_by :: string
  or_assigned_at :: instant
  or_suspended_at :: "instant option"

record external_assignment =
  xa_id :: uuid
  xa_stakeholder_role :: operating_role
  xa_stakeholder_subject :: string
  xa_counterparty_id :: "uuid option"
  xa_dossier_id :: "uuid option"
  xa_status :: assignment_status
  xa_assigned_by :: string
  xa_assigned_at :: instant
  xa_suspended_at :: "instant option"

datatype stakeholder_category =
    Provider_licensing | Product_entitlement | Technical_endpoint | Callback_configuration | Operating_runbook
  | Application_correspondence | Review_request | Review_response

fun stakeholder_category_text :: "stakeholder_category \<Rightarrow> string" where
  "stakeholder_category_text Provider_licensing = ''provider_licensing''"
| "stakeholder_category_text Product_entitlement = ''product_entitlement''"
| "stakeholder_category_text Technical_endpoint = ''technical_endpoint''"
| "stakeholder_category_text Callback_configuration = ''callback_configuration''"
| "stakeholder_category_text Operating_runbook = ''operating_runbook''"
| "stakeholder_category_text Application_correspondence = ''application_correspondence''"
| "stakeholder_category_text Review_request = ''review_request''"
| "stakeholder_category_text Review_response = ''review_response''"

record external_evidence =
  xe_id :: uuid
  xe_assignment_id :: uuid
  xe_category :: stakeholder_category
  xe_evidence_uri :: string
  xe_evidence_sha256 :: string
  xe_recorded_by :: string
  xe_recorded_at :: instant

record access_request =
  aq_subject :: string
  aq_name :: "string option"
  aq_email :: "string option"
  aq_first_seen_at :: instant
  aq_last_seen_at :: instant
  aq_resolved_at :: "instant option"
  aq_resolved_by :: "string option"

record access_tables =
  user_role_assignments :: "user_role_assignment list"
  operator_role_assignments :: "operator_role_assignment list"
  external_assignments :: "external_assignment list"
  external_evidence_items :: "external_evidence list"
  access_requests :: "access_request list"

definition empty_access :: access_tables where
  "empty_access = \<lparr>user_role_assignments = [], operator_role_assignments = [], external_assignments = [],
     external_evidence_items = [], access_requests = []\<rparr>"

type_synonym 'r atx = "access_tables \<times> db \<Rightarrow> ('r \<times> access_tables \<times> db) result"

section \<open>Roles\<close>

definition legacyOperatingRoles :: "operating_role list" where
  "legacyOperatingRoles = [Admin, Compliance_officer, Treasury_operator, Auditor]"

definition active_grant :: "string \<Rightarrow> user_role_assignment \<Rightarrow> bool" where
  "active_grant subject r \<longleftrightarrow> ur_user_subject r = subject \<and> ur_revoked_at r = None"

text \<open>
  The resolver: an assigned external role first, then the active core role that comes first in the
  order of the role texts.
\<close>

definition resolvePostgresOperatingRole :: "string \<Rightarrow> access_tables \<Rightarrow> operating_role option" where
  "resolvePostgresOperatingRole subject t =
    (let external = map or_role (filter (\<lambda>r. or_subject r = subject \<and> or_assignment_status r = AS_assigned) (operator_role_assignments t));
         grants = map ur_role (filter (active_grant subject) (user_role_assignments t));
         ranked = sort_key role_text external @ sort_key role_text grants
     in case ranked of [] \<Rightarrow> None | r # _ \<Rightarrow> Some r)"

section \<open>Access requests\<close>

definition fresh_request :: "env \<Rightarrow> string \<Rightarrow> string option \<Rightarrow> string option \<Rightarrow> access_request" where
  "fresh_request e subject name email = \<lparr>aq_subject = subject, aq_name = name, aq_email = email,
     aq_first_seen_at = pg_now e, aq_last_seen_at = pg_now e, aq_resolved_at = None, aq_resolved_by = None\<rparr>"

definition recordOperatorAccessAttempt ::
  "env \<Rightarrow> string \<Rightarrow> string option \<Rightarrow> string option \<Rightarrow> access_tables \<Rightarrow> access_tables" where
  "recordOperatorAccessAttempt e subject name email t =
    (case find_row aq_subject subject (access_requests t) of
       None \<Rightarrow> t\<lparr>access_requests := insert_row (fresh_request e subject name email) (access_requests t)\<rparr>
     | Some _ \<Rightarrow> t\<lparr>access_requests := update_row aq_subject subject
         (\<lambda>r. if aq_resolved_at r = None then r\<lparr>aq_name := name, aq_email := email, aq_last_seen_at := pg_now e\<rparr> else r)
         (access_requests t)\<rparr>)"

definition listOperatorAccessRequests :: "access_tables \<Rightarrow> access_request list" where
  "listOperatorAccessRequests t =
     sort_key (\<lambda>r. - aq_last_seen_at r) (filter (\<lambda>r. aq_resolved_at r = None) (access_requests t))"

definition resolveOperatorAccessRequest :: "env \<Rightarrow> actor \<Rightarrow> string \<Rightarrow> access_tables \<Rightarrow> access_tables" where
  "resolveOperatorAccessRequest e a subject t = t\<lparr>access_requests := update_row aq_subject subject
     (\<lambda>r. if aq_resolved_at r = None then r\<lparr>aq_resolved_at := Some (pg_now e), aq_resolved_by := Some (openId a)\<rparr> else r)
     (access_requests t)\<rparr>"

section \<open>Core roles\<close>

definition grant_row :: "env \<Rightarrow> actor \<Rightarrow> string \<Rightarrow> operating_role \<Rightarrow> user_role_assignment" where
  "grant_row e a subject r = \<lparr>ur_id = new_uuid e, ur_user_subject = subject, ur_role = r, ur_assigned_by = openId a,
     ur_assigned_at = pg_now e, ur_revoked_at = None\<rparr>"

definition grantOperatingRole :: "env \<Rightarrow> actor \<Rightarrow> string \<Rightarrow> operating_role \<Rightarrow> (string \<times> operating_role) atx" where
  "grantOperatingRole e a subject r = (\<lambda>(t, db).
    if r \<notin> set legacyOperatingRoles then
      Inl (Refused ''this grant path is for admin, compliance_officer, treasury_operator, or auditor only; external stakeholder roles are assigned through assignExternalStakeholder'')
    else
      let existing = find (\<lambda>x. active_grant subject x \<and> ur_role x = r) (user_role_assignments t);
          finish = (\<lambda>k t1. Inr ((subject, r), resolveOperatorAccessRequest e a subject t1,
            insert_event e a ''operator_role.granted'' ''user_role_assignment'' (Some k)
              [(''subject'', JStr subject), (''role'', JStr (role_text r))] db))
      in case existing of
           Some x \<Rightarrow> finish (ur_id x) t
         | None \<Rightarrow>
             if find_row ur_id (new_uuid e) (user_role_assignments t) \<noteq> None then Inl (UniqueViolation ''user_role_assignments'')
             else finish (new_uuid e) (t\<lparr>user_role_assignments :=
               insert_row (grant_row e a subject r) (user_role_assignments t)\<rparr>))"

text \<open>
  Revocation sets \<open>revoked_at\<close> on active grants. The constraint
  \<open>UNIQUE (user_subject, role, revoked_at)\<close> binds revoked rows only, since NULLs are distinct.
\<close>

definition revoke :: "env \<Rightarrow> (user_role_assignment \<Rightarrow> bool) \<Rightarrow> user_role_assignment list \<Rightarrow> user_role_assignment list" where
  "revoke e P rows = map (\<lambda>r. if P r then r\<lparr>ur_revoked_at := Some (pg_now e)\<rparr> else r) rows"

definition revocation_slot :: "user_role_assignment \<Rightarrow> string \<times> operating_role \<times> instant option" where
  "revocation_slot r = (ur_user_subject r, ur_role r, ur_revoked_at r)"

definition revocations_unique :: "user_role_assignment list \<Rightarrow> bool" where
  "revocations_unique rows \<longleftrightarrow> distinct (map revocation_slot (filter (\<lambda>r. ur_revoked_at r \<noteq> None) rows))"

definition changeOperatorRole :: "env \<Rightarrow> actor \<Rightarrow> string \<Rightarrow> operating_role \<Rightarrow> (string \<times> operating_role) atx" where
  "changeOperatorRole e a subject r = (\<lambda>(t, db).
    let active = filter (active_grant subject) (user_role_assignments t);
        kept = map_option ur_id (find (\<lambda>x. ur_role x = r) active);
        rows = revoke e (\<lambda>x. active_grant subject x \<and> ur_role x \<noteq> r) (user_role_assignments t);
        finish = (\<lambda>k rows'. Inr ((subject, r), t\<lparr>user_role_assignments := rows'\<rparr>,
          insert_event e a ''operator_role.changed'' ''user_role_assignment'' (Some k)
            [(''subject'', JStr subject), (''from'', JArr (map (\<lambda>x. JStr (role_text (ur_role x))) active)),
             (''to'', JStr (role_text r))] db))
    in if \<not> revocations_unique rows then Inl (UniqueViolation ''user_role_assignments'')
       else case kept of
              Some k \<Rightarrow> finish k rows
            | None \<Rightarrow>
                if find_row ur_id (new_uuid e) rows \<noteq> None then Inl (UniqueViolation ''user_role_assignments'')
                else finish (new_uuid e) (insert_row (grant_row e a subject r) rows))"

definition suspend_external :: "env \<Rightarrow> string \<Rightarrow> operator_role_assignment \<Rightarrow> operator_role_assignment" where
  "suspend_external e subject r = (if or_subject r = subject \<and> or_assignment_status r = AS_assigned
     then r\<lparr>or_assignment_status := AS_suspended, or_suspended_at := Some (pg_now e)\<rparr> else r)"

text \<open>
  Deactivation commits the revocations first and then disables the account at the identity
  provider, so a refusal of the provider leaves the revocations in place.
\<close>

definition deactivateOperator ::
  "(uuid \<Rightarrow> bool \<Rightarrow> unit result) \<Rightarrow> env \<Rightarrow> actor \<Rightarrow> uuid \<Rightarrow> string \<Rightarrow> string \<Rightarrow> access_tables \<times> db \<Rightarrow>
     string result \<times> access_tables \<times> db" where
  "deactivateOperator setKeycloakAccountEnabled e a keycloakUserId subject reason = (\<lambda>(t, db).
    if subject = openId a then (Inl (Refused ''an operator cannot deactivate their own account''), t, db)
    else
      let rows = revoke e (active_grant subject) (user_role_assignments t)
      in if \<not> revocations_unique rows then (Inl (UniqueViolation ''user_role_assignments''), t, db)
         else
           let t1 = t\<lparr>user_role_assignments := rows,
                 operator_role_assignments := map (suspend_external e subject) (operator_role_assignments t)\<rparr>;
               db1 = insert_event e a ''operator.deactivated'' ''keycloak_account'' (Some keycloakUserId)
                 [(''subject'', JStr subject), (''reason'', JStr reason),
                  (''revokedCoreGrants'', JNum (int (length (filter (active_grant subject) (user_role_assignments t)))))] db
           in (case setKeycloakAccountEnabled keycloakUserId False of
                 Inl er \<Rightarrow> (Inl er, t1, db1)
               | Inr _ \<Rightarrow> (Inr subject, t1, db1)))"

section \<open>External stakeholders\<close>

definition external_roles :: "operating_role list" where
  "external_roles = [Provider_contact, Cbn_liaison]"

definition stakeholder_activity ::
  "env \<Rightarrow> actor \<Rightarrow> string \<Rightarrow> string \<Rightarrow> uuid \<Rightarrow> (string \<times> json) list \<Rightarrow> db \<Rightarrow> db" where
  "stakeholder_activity e a action objectType objectId metadata = insert_event e a action objectType (Some objectId)
     (metadata @ [(''authoritative'', JBool False), (''providerActivation'', JBool False), (''paymentExecution'', JBool False),
        (''settlement'', JBool False), (''externalSubmission'', JBool False), (''admission'', JBool False), (''licence'', JBool False)])"

definition upsert_external :: "env \<Rightarrow> actor \<Rightarrow> string \<Rightarrow> operating_role \<Rightarrow> operator_role_assignment list \<Rightarrow> operator_role_assignment list" where
  "upsert_external e a subject r rows =
    (case find_row or_subject subject rows of
       None \<Rightarrow> insert_row \<lparr>or_subject = subject, or_role = r, or_assignment_status = AS_assigned, or_assigned_by = openId a,
           or_assigned_at = pg_now e, or_suspended_at = None\<rparr> rows
     | Some _ \<Rightarrow> update_row or_subject subject
         (\<lambda>x. x\<lparr>or_role := r, or_assignment_status := AS_assigned, or_assigned_by := openId a, or_assigned_at := pg_now e,
                or_suspended_at := None\<rparr>) rows)"

text \<open>
  The upsert of the assignment: the conflict target has four columns of which one is always NULL,
  so the insert never meets a conflicting row.
\<close>

definition assignment_row :: "env \<Rightarrow> actor \<Rightarrow> operating_role \<Rightarrow> string \<Rightarrow> uuid option \<Rightarrow> uuid option \<Rightarrow> external_assignment" where
  "assignment_row e a r subject counterpartyId dossierId =
     \<lparr>xa_id = new_uuid e, xa_stakeholder_role = r, xa_stakeholder_subject = subject, xa_counterparty_id = counterpartyId,
      xa_dossier_id = dossierId, xa_status = AS_assigned, xa_assigned_by = openId a, xa_assigned_at = pg_now e,
      xa_suspended_at = None\<rparr>"

definition sql_equal :: "'a option \<Rightarrow> 'a option \<Rightarrow> bool" where
  "sql_equal x y \<longleftrightarrow> x \<noteq> None \<and> x = y"

definition assignment_conflict :: "external_assignment \<Rightarrow> external_assignment \<Rightarrow> bool" where
  "assignment_conflict x y \<longleftrightarrow> xa_stakeholder_role x = xa_stakeholder_role y \<and>
     xa_stakeholder_subject x = xa_stakeholder_subject y \<and>
     sql_equal (xa_counterparty_id x) (xa_counterparty_id y) \<and> sql_equal (xa_dossier_id x) (xa_dossier_id y)"

definition upsert_assignment ::
  "env \<Rightarrow> actor \<Rightarrow> external_assignment \<Rightarrow> external_assignment list \<Rightarrow> (uuid \<times> external_assignment list) result" where
  "upsert_assignment e a row rows =
    (if \<not> ((xa_stakeholder_role row = Provider_contact \<and> xa_counterparty_id row \<noteq> None \<and> xa_dossier_id row = None) \<or>
           (xa_stakeholder_role row = Cbn_liaison \<and> xa_dossier_id row \<noteq> None \<and> xa_counterparty_id row = None)) then
       Inl (CheckViolation ''external_stakeholder_assignments'')
     else case find (assignment_conflict row) rows of
       Some x \<Rightarrow> Inr (xa_id x, update_row xa_id (xa_id x)
         (\<lambda>y. y\<lparr>xa_status := AS_assigned, xa_suspended_at := None, xa_assigned_by := openId a, xa_assigned_at := pg_now e\<rparr>) rows)
     | None \<Rightarrow>
         if find_row xa_id (xa_id row) rows \<noteq> None then Inl (UniqueViolation ''external_stakeholder_assignments'')
         else Inr (xa_id row, insert_row row rows))"

definition assignExternalStakeholder ::
  "env \<Rightarrow> actor \<Rightarrow> operating_role \<Rightarrow> string \<Rightarrow> uuid option \<Rightarrow> uuid option \<Rightarrow> uuid atx" where
  "assignExternalStakeholder e a r subject counterpartyId dossierId = (\<lambda>(t, db).
    if (r = Provider_contact) \<noteq> (counterpartyId \<noteq> None) \<or> (r = Cbn_liaison) \<noteq> (dossierId \<noteq> None) then
      Inl (Refused ''external stakeholder assignment must match its evidence-only subject'')
    else if r \<notin> set external_roles then Inl (CheckViolation ''operator_role_assignments'')
    else if (case counterpartyId of None \<Rightarrow> False | Some k \<Rightarrow> find_row cp_id k (counterparties db) = None) then
      Inl (Refused ''counterparty does not exist'')
    else if (case dossierId of None \<Rightarrow> False | Some k \<Rightarrow> find_row sd_id k (sandbox_dossiers db) = None) then
      Inl (Refused ''CBN sandbox dossier does not exist'')
    else case upsert_assignment e a (assignment_row e a r subject counterpartyId dossierId) (external_assignments t) of
      Inl er \<Rightarrow> Inl er
    | Inr (k, rows) \<Rightarrow> Inr (k,
        resolveOperatorAccessRequest e a subject (t\<lparr>external_assignments := rows,
          operator_role_assignments := upsert_external e a subject r (operator_role_assignments t)\<rparr>),
        stakeholder_activity e a ''external_stakeholder.assigned'' ''external_stakeholder_assignment'' k
          [(''stakeholderRole'', JStr (role_text r)), (''counterpartyAssigned'', JBool (counterpartyId \<noteq> None)),
           (''dossierAssigned'', JBool (dossierId \<noteq> None))] db))"

definition providerEvidenceCategories :: "stakeholder_category list" where
  "providerEvidenceCategories = [Provider_licensing, Product_entitlement, Technical_endpoint, Callback_configuration, Operating_runbook]"

definition cbnEvidenceCategories :: "stakeholder_category list" where
  "cbnEvidenceCategories = [Application_correspondence, Review_request, Review_response]"

text \<open>The result is the new identifier, or nothing for evidence that is already on file.\<close>

definition recordExternalStakeholderEvidence ::
  "env \<Rightarrow> actor \<Rightarrow> uuid \<Rightarrow> stakeholder_category \<Rightarrow> string \<Rightarrow> string \<Rightarrow> uuid option atx" where
  "recordExternalStakeholderEvidence e a assignmentId category evidenceUri evidenceSha256 = (\<lambda>(t, db).
    case find_row xa_id assignmentId (external_assignments t) of
      None \<Rightarrow> Inl (Refused ''active external stakeholder assignment is required'')
    | Some row \<Rightarrow>
        if xa_stakeholder_subject row \<noteq> openId a \<or> xa_stakeholder_role row \<noteq> role a \<or> xa_status row \<noteq> AS_assigned then
          Inl (Refused ''active external stakeholder assignment is required'')
        else if (xa_stakeholder_role row = Provider_contact \<and> category \<notin> set providerEvidenceCategories) \<or>
                (xa_stakeholder_role row = Cbn_liaison \<and> category \<notin> set cbnEvidenceCategories) then
          Inl (Refused ''evidence category is not permitted for this external stakeholder role'')
        else if \<not> prefix ''https://'' evidenceUri \<or> \<not> sha256_text evidenceSha256 then
          Inl (CheckViolation ''external_stakeholder_evidence'')
        else if list_ex (\<lambda>x. xe_assignment_id x = assignmentId \<and> xe_category x = category \<and> xe_evidence_sha256 x = evidenceSha256)
            (external_evidence_items t) then Inr (None, t, db)
        else if find_row xe_id (new_uuid e) (external_evidence_items t) \<noteq> None then
          Inl (UniqueViolation ''external_stakeholder_evidence'')
        else Inr (Some (new_uuid e),
          t\<lparr>external_evidence_items := insert_row \<lparr>xe_id = new_uuid e, xe_assignment_id = assignmentId, xe_category = category,
              xe_evidence_uri = evidenceUri, xe_evidence_sha256 = evidenceSha256, xe_recorded_by = openId a,
              xe_recorded_at = pg_now e\<rparr> (external_evidence_items t)\<rparr>,
          stakeholder_activity e a ''external_stakeholder_evidence.recorded'' ''external_stakeholder_evidence'' (new_uuid e)
            [(''assignmentId'', jid assignmentId), (''stakeholderRole'', JStr (role_text (xa_stakeholder_role row))),
             (''category'', JStr (stakeholder_category_text category)), (''evidenceSupplied'', JBool True),
             (''verified'', JBool False)] db))"

section \<open>The operator directory\<close>

record keycloak_account =
  ka_keycloakUserId :: uuid
  ka_subject :: string
  ka_name :: string
  ka_email :: string
  ka_enabled :: bool

record directory_entry =
  de_account :: keycloak_account
  de_role :: "operating_role option"
  de_roleStatus :: "assignment_status option"
  de_assignedBy :: "string option"
  de_assignedAt :: "instant option"

record assignment_view =
  av_role :: operating_role
  av_status :: assignment_status
  av_assignedBy :: string
  av_assignedAt :: instant

text \<open>Later entries of the map overwrite earlier ones: core grants, newest first, then external roles.\<close>

definition roleBySubject :: "access_tables \<Rightarrow> string \<rightharpoonup> assignment_view" where
  "roleBySubject t =
    (let grants = sort_key (\<lambda>r. - ur_assigned_at r) (filter (\<lambda>r. ur_revoked_at r = None) (user_role_assignments t));
         m = fold (\<lambda>r f. f(ur_user_subject r \<mapsto> \<lparr>av_role = ur_role r, av_status = AS_assigned, av_assignedBy = ur_assigned_by r,
               av_assignedAt = ur_assigned_at r\<rparr>)) grants Map.empty
     in fold (\<lambda>r f. f(or_subject r \<mapsto> \<lparr>av_role = or_role r, av_status = or_assignment_status r, av_assignedBy = or_assigned_by r,
               av_assignedAt = or_assigned_at r\<rparr>)) (operator_role_assignments t) m)"

definition listOperators :: "keycloak_account list \<Rightarrow> access_tables \<Rightarrow> directory_entry list" where
  "listOperators accounts t = map (\<lambda>account.
     let assignment = roleBySubject t (ka_subject account)
     in \<lparr>de_account = account, de_role = map_option av_role assignment, de_roleStatus = map_option av_status assignment,
         de_assignedBy = map_option av_assignedBy assignment, de_assignedAt = map_option av_assignedAt assignment\<rparr>) accounts"

section \<open>The request context\<close>

record identity =
  id_openId :: string
  id_name :: "string option"
  id_email :: "string option"

record request_context =
  cx_user :: "actor option"
  cx_pendingIdentity :: "identity option"

text \<open>
  A session wins over a bearer token; an authenticated identity without a role becomes a pending
  identity and leaves an access request behind.
\<close>

definition createContext ::
  "env \<Rightarrow> identity option result \<Rightarrow> identity option \<Rightarrow> access_tables \<Rightarrow> request_context \<times> access_tables" where
  "createContext e session federated t =
    (let user = (case session of Inr (Some u) \<Rightarrow> Some u | _ \<Rightarrow> federated)
     in case user of
          None \<Rightarrow> (\<lparr>cx_user = None, cx_pendingIdentity = None\<rparr>, t)
        | Some u \<Rightarrow> (case resolvePostgresOperatingRole (id_openId u) t of
            Some r \<Rightarrow> (\<lparr>cx_user = Some \<lparr>openId = id_openId u, role = r\<rparr>, cx_pendingIdentity = None\<rparr>, t)
          | None \<Rightarrow> (\<lparr>cx_user = None, cx_pendingIdentity = Some u\<rparr>,
              recordOperatorAccessAttempt e (id_openId u) (id_name u) (id_email u) t)))"

section \<open>Steps and invariant\<close>

text \<open>
  A step is one successful operation. \<open>changeOperatorRole\<close> takes a core role by its type; a
  deactivation is a step whenever it committed, whatever the identity provider answered.
\<close>

inductive access_step :: "access_tables \<times> db \<Rightarrow> access_tables \<times> db \<Rightarrow> bool" where
  role_granted: "grantOperatingRole e a s r x = Inr (r1, y) \<Longrightarrow> access_step x y"
| role_changed: "changeOperatorRole e a s r x = Inr (r1, y) \<Longrightarrow> r \<in> set legacyOperatingRoles \<Longrightarrow> access_step x y"
| operator_deactivated: "deactivateOperator kc e a k s rs x = (r2, y) \<Longrightarrow> access_step x y"
| stakeholder_assigned: "assignExternalStakeholder e a r s c d x = Inr (r3, y) \<Longrightarrow> access_step x y"
| stakeholder_evidence: "recordExternalStakeholderEvidence e a k c u h x = Inr (r4, y) \<Longrightarrow> access_step x y"
| context_created: "createContext e ses fed t = (cx, t') \<Longrightarrow> access_step (t, db) (t', db)"

definition grant_slot :: "user_role_assignment \<Rightarrow> string \<times> operating_role" where
  "grant_slot r = (ur_user_subject r, ur_role r)"

definition assignment_ok :: "external_assignment \<Rightarrow> bool" where
  "assignment_ok x \<longleftrightarrow> (xa_stakeholder_role x = Provider_contact \<and> xa_counterparty_id x \<noteq> None \<and> xa_dossier_id x = None) \<or>
     (xa_stakeholder_role x = Cbn_liaison \<and> xa_dossier_id x \<noteq> None \<and> xa_counterparty_id x = None)"

definition access_inv :: "access_tables \<Rightarrow> bool" where
  "access_inv t \<longleftrightarrow>
     distinct_keys ur_id (user_role_assignments t) \<and>
     distinct_keys grant_slot (filter (\<lambda>r. ur_revoked_at r = None) (user_role_assignments t)) \<and>
     (\<forall>r \<in> set (user_role_assignments t). ur_role r \<in> set legacyOperatingRoles) \<and>
     distinct_keys or_subject (operator_role_assignments t) \<and>
     (\<forall>r \<in> set (operator_role_assignments t). or_role r \<in> set external_roles) \<and>
     distinct_keys xa_id (external_assignments t) \<and> (\<forall>x \<in> set (external_assignments t). assignment_ok x) \<and>
     distinct_keys aq_subject (access_requests t) \<and>
     (\<forall>r \<in> set (access_requests t). (aq_resolved_at r = None) = (aq_resolved_by r = None))"

section \<open>Every operation keeps the invariant\<close>

lemma revoke_keys: "map ur_id (revoke e P rows) = map ur_id rows"
  by (simp add: revoke_def comp_def cong: if_cong)

lemma revoke_active:
  "filter (\<lambda>r. ur_revoked_at r = None) (revoke e P rows) = filter (\<lambda>r. ur_revoked_at r = None \<and> \<not> P r) rows"
  by (induction rows) (auto simp: revoke_def)

lemma revoke_roles: "\<forall>r \<in> set rows. Q (ur_role r) \<Longrightarrow> \<forall>r \<in> set (revoke e P rows). Q (ur_role r)"
  by (auto simp: revoke_def)

lemma revoke_member: "x \<in> set (revoke e P rows) \<Longrightarrow> ur_revoked_at x = None \<Longrightarrow> x \<in> set rows \<and> \<not> P x"
  by (auto simp: revoke_def split: if_splits)

lemma revoke_inv:
  assumes "access_inv t"
  shows "access_inv (t\<lparr>user_role_assignments := revoke e P (user_role_assignments t)\<rparr>)"
proof -
  have "distinct_keys grant_slot (filter (\<lambda>r. ur_revoked_at r = None \<and> \<not> P r) (user_role_assignments t))"
    using assms distinct_map_filter [of grant_slot "filter (\<lambda>r. ur_revoked_at r = None) (user_role_assignments t)" "\<lambda>r. \<not> P r"]
    by (simp add: access_inv_def conj_commute)
  then show ?thesis
    using assms revoke_roles [of "user_role_assignments t" "\<lambda>r. r \<in> set legacyOperatingRoles" e P]
    by (simp add: access_inv_def revoke_keys revoke_active)
qed

lemma insert_grant_inv:
  assumes "access_inv t" and "r \<in> set legacyOperatingRoles" and "find_row ur_id (new_uuid e) (user_role_assignments t) = None"
    and "\<not> list_ex (\<lambda>x. active_grant s x \<and> ur_role x = r) (user_role_assignments t)"
  shows "access_inv (t\<lparr>user_role_assignments := insert_row (grant_row e a s r) (user_role_assignments t)\<rparr>)"
  using assms unfolding access_inv_def
  by (auto simp: insert_row_def grant_row_def grant_slot_def active_grant_def list_ex_iff find_row_None)

definition request_ok :: "access_request \<Rightarrow> bool" where
  "request_ok r \<longleftrightarrow> (aq_resolved_at r = None) = (aq_resolved_by r = None)"

lemma requests_inv:
  assumes "access_inv t" and "distinct_keys aq_subject rs" and "\<forall>r \<in> set rs. request_ok r"
  shows "access_inv (t\<lparr>access_requests := rs\<rparr>)"
  using assms by (simp add: access_inv_def request_ok_def)

lemma inv_requests:
  assumes "access_inv t"
  shows "distinct_keys aq_subject (access_requests t)" and "\<forall>r \<in> set (access_requests t). request_ok r"
  using assms by (simp_all add: access_inv_def request_ok_def)

lemma update_requests_inv:
  assumes "access_inv t" and "\<And>r. aq_subject (f r) = aq_subject r" and "\<And>r. request_ok r \<Longrightarrow> request_ok (f r)"
  shows "access_inv (t\<lparr>access_requests := update_row aq_subject s f (access_requests t)\<rparr>)"
  by (rule requests_inv) (use assms inv_requests [OF assms(1)] in \<open>auto simp: map_key_update_row set_update_row\<close>)

lemma resolve_request_inv: "access_inv t \<Longrightarrow> access_inv (resolveOperatorAccessRequest e a s t)"
  unfolding resolveOperatorAccessRequest_def by (erule update_requests_inv) (simp_all add: request_ok_def)

lemma attempt_inv: "access_inv t \<Longrightarrow> access_inv (recordOperatorAccessAttempt e s n m t)"
proof (cases "find_row aq_subject s (access_requests t)")
  case None
  assume inv: "access_inv t"
  have "access_inv (t\<lparr>access_requests := insert_row (fresh_request e s n m) (access_requests t)\<rparr>)"
    by (rule requests_inv)
       (use inv None inv_requests [OF inv] in \<open>auto simp: insert_row_def fresh_request_def request_ok_def find_row_None\<close>)
  then show ?thesis by (simp add: recordOperatorAccessAttempt_def None)
next
  case (Some r)
  assume inv: "access_inv t"
  show ?thesis unfolding recordOperatorAccessAttempt_def Some option.case
    using inv by (rule update_requests_inv) (simp_all add: request_ok_def)
qed

lemma grant_inv:
  assumes inv: "access_inv t" and "grantOperatingRole e a s r (t, db) = Inr (x, t', db')"
  shows "access_inv t'"
proof (cases "find (\<lambda>x. active_grant s x \<and> ur_role x = r) (user_role_assignments t)")
  case (Some g)
  then have "t' = resolveOperatorAccessRequest e a s t"
    using assms(2) by (simp add: grantOperatingRole_def Let_def split: if_splits)
  then show ?thesis using resolve_request_inv [OF inv] by simp
next
  case None
  then have "\<not> list_ex (\<lambda>x. active_grant s x \<and> ur_role x = r) (user_role_assignments t)"
    by (simp add: find_None_iff list_ex_iff)
  moreover have "t' = resolveOperatorAccessRequest e a s (t\<lparr>user_role_assignments :=
      insert_row (grant_row e a s r) (user_role_assignments t)\<rparr>)" and "r \<in> set legacyOperatingRoles"
      and "find_row ur_id (new_uuid e) (user_role_assignments t) = None"
    using assms(2) None by (simp_all add: grantOperatingRole_def Let_def split: if_splits)
  ultimately show ?thesis using insert_grant_inv [OF inv] resolve_request_inv by simp
qed

text \<open>The rows a change of role leaves behind.\<close>

lemma change_effect:
  assumes "changeOperatorRole e a s r (t, db) = Inr (x, t', db')"
  defines "rows \<equiv> revoke e (\<lambda>x. active_grant s x \<and> ur_role x \<noteq> r) (user_role_assignments t)"
  shows "(list_ex (\<lambda>x. active_grant s x \<and> ur_role x = r) (user_role_assignments t) \<and>
          t' = t\<lparr>user_role_assignments := rows\<rparr>) \<or>
    (\<not> list_ex (\<lambda>x. active_grant s x \<and> ur_role x = r) (user_role_assignments t) \<and> find_row ur_id (new_uuid e) rows = None \<and>
          t' = t\<lparr>user_role_assignments := insert_row (grant_row e a s r) rows\<rparr>)"
proof -
  have "find (\<lambda>x. ur_role x = r) (filter (active_grant s) (user_role_assignments t)) = None \<longleftrightarrow>
      \<not> list_ex (\<lambda>x. active_grant s x \<and> ur_role x = r) (user_role_assignments t)"
    by (auto simp: find_None_iff list_ex_iff)
  then show ?thesis
    using assms(1) unfolding changeOperatorRole_def Let_def rows_def by (auto split: if_splits option.splits)
qed

lemma change_inv:
  assumes inv: "access_inv t" and change: "changeOperatorRole e a s r (t, db) = Inr (x, t', db')"
    and "r \<in> set legacyOperatingRoles"
  shows "access_inv t'"
proof -
  let ?P = "\<lambda>x. active_grant s x \<and> ur_role x \<noteq> r"
  let ?t = "t\<lparr>user_role_assignments := revoke e ?P (user_role_assignments t)\<rparr>"
  have inv': "access_inv ?t" using inv by (rule revoke_inv)
  from change_effect [OF change] show ?thesis
  proof (elim disjE conjE)
    assume "t' = ?t"
    then show ?thesis using inv' by simp
  next
    assume none: "\<not> list_ex (\<lambda>x. active_grant s x \<and> ur_role x = r) (user_role_assignments t)"
      and fresh: "find_row ur_id (new_uuid e) (revoke e ?P (user_role_assignments t)) = None"
      and t': "t' = t\<lparr>user_role_assignments := insert_row (grant_row e a s r) (revoke e ?P (user_role_assignments t))\<rparr>"
    have "\<not> list_ex (\<lambda>x. active_grant s x \<and> ur_role x = r) (user_role_assignments ?t)"
      using none revoke_member [of _ e ?P "user_role_assignments t"] by (auto simp: list_ex_iff active_grant_def)
    with inv' assms(3) fresh have "access_inv (?t\<lparr>user_role_assignments := insert_row (grant_row e a s r) (user_role_assignments ?t)\<rparr>)"
      by (intro insert_grant_inv) simp_all
    then show ?thesis unfolding t' by simp
  qed
qed

lemma suspend_external_sel [simp]:
  "or_subject (suspend_external e s r) = or_subject r" "or_role (suspend_external e s r) = or_role r"
  by (simp_all add: suspend_external_def)

lemma deactivate_effect:
  assumes "deactivateOperator kc e a k s reason (t, db) = (res, t', db')"
  shows "(t' = t \<and> db' = db) \<or>
    (s \<noteq> openId a \<and> t' = t\<lparr>user_role_assignments := revoke e (active_grant s) (user_role_assignments t),
       operator_role_assignments := map (suspend_external e s) (operator_role_assignments t)\<rparr> \<and>
     (\<exists>ev. activity_events db' = activity_events db @ [ev] \<and> db' = db\<lparr>activity_events := activity_events db'\<rparr>) \<and>
     res = (case kc k False of Inl er \<Rightarrow> Inl er | Inr _ \<Rightarrow> Inr s))"
proof (cases "s = openId a \<or> \<not> revocations_unique (revoke e (active_grant s) (user_role_assignments t))")
  case True
  then show ?thesis using assms by (simp add: deactivateOperator_def Let_def split: if_splits)
next
  case False
  then show ?thesis
    using assms by (cases "kc k False") (simp_all add: deactivateOperator_def Let_def insert_event_def, (elim conjE, hypsubst, simp)+)
qed

lemma deactivate_inv:
  assumes inv: "access_inv t" and "deactivateOperator kc e a k s reason (t, db) = (res, t', db')"
  shows "access_inv t'"
  using deactivate_effect [OF assms(2)]
proof (elim disjE conjE)
  assume t': "t' = t\<lparr>user_role_assignments := revoke e (active_grant s) (user_role_assignments t),
       operator_role_assignments := map (suspend_external e s) (operator_role_assignments t)\<rparr>"
  have "map (or_subject \<circ> suspend_external e s) rows = map or_subject rows" for rows by (simp add: comp_def)
  then show ?thesis using revoke_inv [OF inv, of e "active_grant s"] unfolding t' access_inv_def by (auto simp: comp_def)
qed (use inv in simp)

lemma upsert_external_inv:
  assumes "distinct_keys or_subject rows" and "\<forall>x \<in> set rows. or_role x \<in> set external_roles" and "r \<in> set external_roles"
  shows "distinct_keys or_subject (upsert_external e a s r rows) \<and>
    (\<forall>x \<in> set (upsert_external e a s r rows). or_role x \<in> set external_roles)"
proof (cases "find_row or_subject s rows")
  case None
  have "s \<notin> or_subject ` set rows" using None by (simp add: find_row_None)
  then show ?thesis using assms by (simp add: upsert_external_def None insert_row_def)
next
  case (Some x)
  then show ?thesis using assms by (auto simp: upsert_external_def map_key_update_row set_update_row)
qed

lemma assignment_never_conflicts:
  assumes "upsert_assignment e a row rows = Inr (k, rows')"
  shows "assignment_ok row \<and> k = xa_id row \<and> rows' = insert_row row rows \<and> find_row xa_id (xa_id row) rows = None"
proof -
  have "\<not> assignment_conflict row x" if "assignment_ok row" for x
    using that by (auto simp: assignment_ok_def assignment_conflict_def sql_equal_def)
  then have "find (assignment_conflict row) rows = None" if "assignment_ok row"
    using that by (simp add: find_None_iff)
  then show ?thesis
    using assms unfolding upsert_assignment_def assignment_ok_def [symmetric] by (auto split: if_splits)
qed

lemma assign_effect:
  assumes "assignExternalStakeholder e a r s c d (t, db) = Inr (k, t', db')"
  defines "row \<equiv> assignment_row e a r s c d"
  shows "r \<in> set external_roles \<and> assignment_ok row \<and> k = new_uuid e \<and>
    find_row xa_id k (external_assignments t) = None \<and>
    t' = resolveOperatorAccessRequest e a s (t\<lparr>external_assignments := insert_row row (external_assignments t),
       operator_role_assignments := upsert_external e a s r (operator_role_assignments t)\<rparr>)"
proof -
  from assms(1) obtain rows where up: "upsert_assignment e a row (external_assignments t) = Inr (k, rows)"
    and r: "r \<in> set external_roles"
    and t': "t' = resolveOperatorAccessRequest e a s (t\<lparr>external_assignments := rows,
       operator_role_assignments := upsert_external e a s r (operator_role_assignments t)\<rparr>)"
    unfolding assignExternalStakeholder_def row_def by (auto split: if_splits sum.splits)
  have "xa_id row = new_uuid e" by (simp add: row_def assignment_row_def)
  then show ?thesis using assignment_never_conflicts [OF up] r t' by simp
qed

lemma assign_inv:
  assumes inv: "access_inv t" and "assignExternalStakeholder e a r s c d (t, db) = Inr (k, t', db')"
  shows "access_inv t'"
proof -
  note eff = assign_effect [OF assms(2)]
  have "xa_id (assignment_row e a r s c d) = new_uuid e" by (simp add: assignment_row_def)
  then have "access_inv (t\<lparr>external_assignments := insert_row (assignment_row e a r s c d) (external_assignments t),
       operator_role_assignments := upsert_external e a s r (operator_role_assignments t)\<rparr>)"
    using inv eff upsert_external_inv [of "operator_role_assignments t" r e a s] unfolding access_inv_def
    by (auto simp: insert_row_def find_row_None)
  then show ?thesis using eff resolve_request_inv by simp
qed

lemma evidence_tables:
  assumes "recordExternalStakeholderEvidence e a k c u h (t, db) = Inr (x, t', db')"
  shows "t' = t\<lparr>external_evidence_items := external_evidence_items t'\<rparr>"
  using assms unfolding recordExternalStakeholderEvidence_def
  by (auto split: if_splits option.splits)

lemma context_tables:
  assumes "createContext e ses fed t = (cx, t')"
  shows "t' = t \<or> (\<exists>s n m. t' = recordOperatorAccessAttempt e s n m t)"
  using assms unfolding createContext_def Let_def by (auto split: option.splits sum.splits)

lemma access_step_inv:
  assumes "access_step x y" and "access_inv (fst x)"
  shows "access_inv (fst y)"
  using assms
proof (induction rule: access_step.induct)
  case (role_granted e a s r x r1 y)
  then show ?case by (cases x; cases y) (auto intro: grant_inv)
next
  case (role_changed e a s r x r1 y)
  then show ?case by (cases x; cases y) (auto intro: change_inv)
next
  case (operator_deactivated kc e a k s rs x r2 y)
  then show ?case by (cases x; cases y) (auto intro: deactivate_inv)
next
  case (stakeholder_assigned e a r s c d x r3 y)
  then show ?case by (cases x; cases y) (auto intro: assign_inv)
next
  case (stakeholder_evidence e a k c u h x r4 y)
  then obtain t db t' db' where xy: "x = (t, db)" "y = (t', db')" by (cases x; cases y)
  with stakeholder_evidence evidence_tables have "t' = t\<lparr>external_evidence_items := external_evidence_items t'\<rparr>" by blast
  moreover have "access_inv (t\<lparr>external_evidence_items := es\<rparr>)" for es using stakeholder_evidence(2) xy by (simp add: access_inv_def)
  ultimately show ?case using xy by (metis fst_conv)
next
  case (context_created e ses fed t cx t' db)
  then show ?case using context_tables [OF context_created(1)] attempt_inv by auto
qed

lemma access_step_quiet:
  assumes "access_step x y"
  shows "\<exists>log. snd y = (snd x)\<lparr>activity_events := activity_events (snd x) @ log\<rparr>"
  using assms
proof (induction rule: access_step.induct)
  case (operator_deactivated kc e a k s rs x r2 y)
  then show ?case by (cases x; cases y) (auto dest!: deactivate_effect intro: exI [of _ "[]"])
next
  case (context_created e ses fed t cx t' db)
  then show ?case by (intro exI [of _ "[]"]) simp
qed (auto simp: grantOperatingRole_def changeOperatorRole_def assignExternalStakeholder_def recordExternalStakeholderEvidence_def
      stakeholder_activity_def insert_event_def Let_def intro: exI [of _ "[]"] split: if_splits option.splits sum.splits prod.splits)

section \<open>Contracts of the component\<close>

interpretation access_system: preserved "\<lambda>x. access_inv (fst x)" access_step
  by unfold_locales (rule access_step_inv)

interpretation access_trail: audited "\<lambda>x. activity_events (snd x)" access_step
proof
  show "prefix (activity_events (snd x)) (activity_events (snd y))" if "access_step x y" for x y
    using access_step_quiet [OF that] by auto
qed

end
