(* ===== verification/Api_Router.thy ===== *)
theory Api_Router
  imports Access_Control Counterparty_Registry
begin

text \<open>
  The transport layer: the procedure gates of \<open>server/_core/trpc.ts\<close>, the route table of
  \<open>server/routers.ts\<close> and \<open>server/_core/systemRouter.ts\<close> (name, gate and kind of each route; the
  input schemas are not modelled), the console's own gate
  (\<open>client/src/lib/roleCapabilities.ts\<close>, \<open>consoleActionVisibility.ts\<close>) with the routes its composers
  call, and the handler \<open>onboardOperator\<close>, which calls three operations that commit one by one.
\<close>

section \<open>Procedure gates\<close>

datatype procedure =
    Public_procedure | Protected_procedure | Admin_only_procedure | Compliance_procedure | Compliance_only_procedure
  | Treasury_procedure | Compliance_or_treasury_procedure | Auditor_read_procedure | Assurance_verifier_procedure
  | Provider_contact_only_procedure | Cbn_liaison_only_procedure

fun procedureForRoles :: "procedure \<Rightarrow> operating_role list" where
  "procedureForRoles Admin_only_procedure = [Admin]"
| "procedureForRoles Compliance_procedure = [Admin, Compliance_officer]"
| "procedureForRoles Compliance_only_procedure = [Compliance_officer]"
| "procedureForRoles Treasury_procedure = [Admin, Treasury_operator]"
| "procedureForRoles Compliance_or_treasury_procedure = [Admin, Compliance_officer, Treasury_operator]"
| "procedureForRoles Auditor_read_procedure = [Admin, Compliance_officer, Treasury_operator, Auditor]"
| "procedureForRoles Assurance_verifier_procedure = [Admin, Auditor]"
| "procedureForRoles Provider_contact_only_procedure = [Provider_contact]"
| "procedureForRoles Cbn_liaison_only_procedure = [Cbn_liaison]"
| "procedureForRoles Public_procedure = []"
| "procedureForRoles Protected_procedure = []"

definition requireUser :: "request_context \<Rightarrow> actor result" where
  "requireUser ctx = (case cx_user ctx of
     None \<Rightarrow> Inl (Refused ''Please login (10001)'')
   | Some u \<Rightarrow> Inr u)"

definition requireRole :: "operating_role list \<Rightarrow> request_context \<Rightarrow> actor result" where
  "requireRole roles ctx = (case cx_user ctx of
     None \<Rightarrow> Inl (Refused ''You do not have required permission (10002)'')
   | Some u \<Rightarrow> if role u \<in> set roles then Inr u else Inl (Refused ''You do not have required permission (10002)''))"

definition gate :: "procedure \<Rightarrow> request_context \<Rightarrow> actor option result" where
  "gate p ctx = (case p of
     Public_procedure \<Rightarrow> Inr (cx_user ctx)
   | Protected_procedure \<Rightarrow> map_sum id Some (requireUser ctx)
   | _ \<Rightarrow> map_sum id Some (requireRole (procedureForRoles p) ctx))"

definition legacyActor :: "actor \<Rightarrow> actor result" where
  "legacyActor u = (if role u \<notin> set legacyOperatingRoles then
     Inl (Refused ''External stakeholder roles cannot access this internal operational procedure.'') else Inr u)"

section \<open>Routes\<close>

datatype route_kind = Query | Mutation

record route_entry =
  rt_name :: string
  rt_procedure :: procedure
  rt_kind :: route_kind

type_synonym route = route_entry

definition route :: "string \<Rightarrow> procedure \<Rightarrow> route_kind \<Rightarrow> route" where
  "route n p k = \<lparr>rt_name = n, rt_procedure = p, rt_kind = k\<rparr>"

definition systemRouter :: "route list" where
  "systemRouter =
    [route ''system.health'' Public_procedure Query,
     route ''system.notifyOwner'' Admin_only_procedure Mutation]"

definition auth_routes :: "route list" where
  "auth_routes =
    [route ''auth.me'' Public_procedure Query,
     route ''auth.pendingAccessStatus'' Public_procedure Query]"

definition readiness_routes :: "route list" where
  "readiness_routes =
    [route ''postgres.readiness'' Auditor_read_procedure Query,
     route ''postgres.dashboardSnapshot'' Auditor_read_procedure Query,
     route ''postgres.cutoverReadiness'' Auditor_read_procedure Query,
     route ''postgres.cbnSandboxDossiers'' Auditor_read_procedure Query,
     route ''postgres.vaspRegulatoryProfiles'' Auditor_read_procedure Query,
     route ''postgres.vaspTravelRuleAssessments'' Auditor_read_procedure Query,
     route ''postgres.vaspSupervisoryReadiness'' Auditor_read_procedure Query,
     route ''postgres.createImtoReadinessProfile'' Admin_only_procedure Mutation,
     route ''postgres.recordImtoReadinessEvidence'' Compliance_procedure Mutation,
     route ''postgres.assessImtoReadiness'' Compliance_procedure Mutation,
     route ''postgres.createVaspRegulatoryProfile'' Admin_only_procedure Mutation,
     route ''postgres.initialiseReadinessAssurance'' Admin_only_procedure Mutation,
     route ''postgres.readinessAssurance'' Auditor_read_procedure Query,
     route ''postgres.assessReadinessAssurance'' Auditor_read_procedure Query,
     route ''postgres.recordReadinessAssuranceEvidence'' Compliance_procedure Mutation,
     route ''postgres.verifyReadinessAssuranceEvidence'' Assurance_verifier_procedure Mutation,
     route ''postgres.rejectReadinessAssuranceEvidence'' Assurance_verifier_procedure Mutation,
     route ''postgres.recordVaspSupervisoryEvidence'' Compliance_procedure Mutation,
     route ''postgres.recordVaspTravelRuleEvidence'' Compliance_procedure Mutation,
     route ''postgres.assessVaspTravelRuleRoute'' Compliance_procedure Mutation,
     route ''postgres.createVaspOffshoreCounterpartyProfile'' Admin_only_procedure Mutation,
     route ''postgres.recordVaspOffshoreCounterpartyEvidence'' Compliance_procedure Mutation,
     route ''postgres.assessVaspOffshoreCounterpartyProfile'' Compliance_procedure Mutation,
     route ''postgres.cbnSandboxReadiness'' Auditor_read_procedure Query,
     route ''postgres.cbnSandboxLatestEvidenceAssessment'' Auditor_read_procedure Query,
     route ''postgres.createCbnSandboxDossier'' Admin_only_procedure Mutation,
     route ''postgres.recordCbnSandboxEvidence'' Compliance_procedure Mutation,
     route ''postgres.assessCbnSandboxEvidenceCompleteness'' Compliance_procedure Mutation,
     route ''postgres.createCbnSandboxTestPlan'' Admin_only_procedure Mutation,
     route ''postgres.recordCbnSandboxConsumerRecord'' Compliance_procedure Mutation,
     route ''postgres.recordCbnSandboxIncident'' Compliance_procedure Mutation,
     route ''postgres.createCbnSandboxReportingPack'' Compliance_procedure Mutation]"

definition access_routes :: "route list" where
  "access_routes =
    [route ''postgres.assignExternalStakeholder'' Admin_only_procedure Mutation,
     route ''postgres.operatorAccessRequests'' Admin_only_procedure Query,
     route ''postgres.operators'' Admin_only_procedure Query,
     route ''postgres.changeOperatorRole'' Admin_only_procedure Mutation,
     route ''postgres.deactivateOperator'' Admin_only_procedure Mutation,
     route ''postgres.operatorOnboardingRecords'' Admin_only_procedure Query,
     route ''postgres.startOperatorOnboarding'' Admin_only_procedure Mutation,
     route ''postgres.recordSodMatrixReview'' Admin_only_procedure Mutation,
     route ''postgres.recordLmsEnrolment'' Compliance_procedure Mutation,
     route ''postgres.recordShadowPeriodSupervision'' Admin_only_procedure Mutation,
     route ''postgres.recordOperatorRecertification'' Compliance_procedure Mutation,
     route ''postgres.auditorEngagements'' Admin_only_procedure Query,
     route ''postgres.startAuditorEngagement'' Admin_only_procedure Mutation,
     route ''postgres.recordEngagementLetter'' Admin_only_procedure Mutation,
     route ''postgres.recordAccessProvisioning'' Admin_only_procedure Mutation,
     route ''postgres.recordAuditFieldwork'' Admin_only_procedure Mutation,
     route ''postgres.recordAnnualReview'' Admin_only_procedure Mutation,
     route ''postgres.grantOperatingRole'' Admin_only_procedure Mutation,
     route ''postgres.operatorAccountCreationAvailable'' Admin_only_procedure Query,
     route ''postgres.onboardOperator'' Admin_only_procedure Mutation,
     route ''postgres.providerContactAssignments'' Provider_contact_only_procedure Query,
     route ''postgres.cbnLiaisonAssignments'' Cbn_liaison_only_procedure Query,
     route ''postgres.recordProviderContactEvidence'' Provider_contact_only_procedure Mutation,
     route ''postgres.recordCbnLiaisonEvidence'' Cbn_liaison_only_procedure Mutation]"

definition registry_routes :: "route list" where
  "registry_routes =
    [route ''postgres.counterparties'' Auditor_read_procedure Query,
     route ''postgres.counterpartyOnboardings'' Auditor_read_procedure Query,
     route ''postgres.createCounterpartyOnboarding'' Admin_only_procedure Mutation,
     route ''postgres.decideCounterpartyOnboardingGate'' Compliance_only_procedure Mutation,
     route ''postgres.decideTechnicalOnboardingGate'' Admin_only_procedure Mutation,
     route ''postgres.decideTreasuryPilotOnboardingGate'' Treasury_procedure Mutation,
     route ''postgres.beginCounterpartyRecertification'' Compliance_procedure Mutation,
     route ''postgres.customers'' Auditor_read_procedure Query,
     route ''postgres.customerWorkspace'' Auditor_read_procedure Query,
     route ''postgres.beneficiaries'' Auditor_read_procedure Query,
     route ''postgres.createCustomer'' Compliance_procedure Mutation,
     route ''postgres.updateCustomerProfile'' Compliance_procedure Mutation,
     route ''postgres.recordCustomerDestinationCounterparty'' Compliance_procedure Mutation,
     route ''postgres.decideCustomerUseCaseGate'' Compliance_procedure Mutation,
     route ''postgres.createBeneficiary'' Compliance_procedure Mutation,
     route ''postgres.recordBeneficiaryScreening'' Compliance_procedure Mutation,
     route ''postgres.counterpartyAuthorizations'' Auditor_read_procedure Query,
     route ''postgres.transitionCounterpartyAuthorization'' Admin_only_procedure Mutation,
     route ''postgres.legalEntities'' Auditor_read_procedure Query,
     route ''postgres.integrationConnections'' Auditor_read_procedure Query,
     route ''postgres.corridorPolicies'' Auditor_read_procedure Query,
     route ''postgres.rateLocks'' Auditor_read_procedure Query,
     route ''postgres.evaluateLiquidityThresholds'' Treasury_procedure Mutation,
     route ''postgres.evaluatePaymentFailures'' Treasury_procedure Mutation,
     route ''postgres.evaluateComplianceFlags'' Compliance_procedure Mutation,
     route ''postgres.complianceAlerts'' Auditor_read_procedure Query,
     route ''postgres.raiseComplianceAlert'' Compliance_procedure Mutation,
     route ''postgres.acknowledgeComplianceAlert'' Compliance_procedure Mutation,
     route ''postgres.escalateComplianceAlert'' Compliance_procedure Mutation,
     route ''postgres.dismissComplianceAlert'' Compliance_procedure Mutation,
     route ''postgres.fxSpread'' Auditor_read_procedure Query,
     route ''postgres.alertPolicies'' Auditor_read_procedure Query]"

definition integration_routes :: "route list" where
  "integration_routes =
    [route ''postgres.createIntegrationConnection'' Admin_only_procedure Mutation,
     route ''postgres.integrationCredentialStatus'' Admin_only_procedure Query,
     route ''postgres.integrationCredentialAuditTrail'' Admin_only_procedure Query,
     route ''postgres.serviceStatus'' Auditor_read_procedure Query,
     route ''postgres.serviceHealthHistory'' Auditor_read_procedure Query,
     route ''postgres.serviceAvailabilitySummary'' Auditor_read_procedure Query,
     route ''postgres.serviceHealthSlo'' Auditor_read_procedure Query,
     route ''postgres.captureServiceHealthSample'' Admin_only_procedure Mutation,
     route ''postgres.configureIntegrationCredential'' Admin_only_procedure Mutation,
     route ''postgres.activateIntegrationConnection'' Admin_only_procedure Mutation,
     route ''postgres.suspendIntegrationConnection'' Admin_only_procedure Mutation,
     route ''postgres.createCorridorPolicy'' Compliance_procedure Mutation]"

definition payment_routes :: "route list" where
  "payment_routes =
    [route ''postgres.paymentOrders'' Auditor_read_procedure Query,
     route ''postgres.paymentLegs'' Auditor_read_procedure Query,
     route ''postgres.expireRateLocks'' Treasury_procedure Mutation,
     route ''postgres.createPaymentOrder'' Treasury_procedure Mutation,
     route ''postgres.createPaymentLeg'' Treasury_procedure Mutation,
     route ''postgres.transitionPaymentOrder'' Treasury_procedure Mutation,
     route ''postgres.transitionPaymentLeg'' Treasury_procedure Mutation,
     route ''postgres.createRateLock'' Treasury_procedure Mutation,
     route ''postgres.cancelRateLock'' Treasury_procedure Mutation,
     route ''postgres.createRegulatoryDeadline'' Compliance_procedure Mutation,
     route ''postgres.evaluateRegulatoryDeadlines'' Admin_only_procedure Mutation,
     route ''postgres.createAlertPolicy'' Admin_only_procedure Mutation]"

definition oversight_routes :: "route list" where
  "oversight_routes =
    [route ''postgres.liquidityPositions'' Auditor_read_procedure Query,
     route ''postgres.marketObservations'' Auditor_read_procedure Query,
     route ''postgres.counterpartyRiskAssessments'' Auditor_read_procedure Query,
     route ''postgres.kycDocuments'' Auditor_read_procedure Query,
     route ''postgres.createKycDocumentUploadIntent'' Compliance_procedure Mutation,
     route ''postgres.finalizeKycDocumentUpload'' Compliance_procedure Mutation,
     route ''postgres.updateKycDocumentReview'' Compliance_procedure Mutation,
     route ''postgres.complianceCases'' Auditor_read_procedure Query,
     route ''postgres.sarStrFilings'' Auditor_read_procedure Query,
     route ''postgres.regulatoryReports'' Auditor_read_procedure Query,
     route ''postgres.regulatoryDeadlines'' Auditor_read_procedure Query,
     route ''postgres.notificationDeliveries'' Auditor_read_procedure Query,
     route ''postgres.documentAnalysisJobs'' Auditor_read_procedure Query,
     route ''postgres.documentAnalysisEvidence'' Auditor_read_procedure Query,
     route ''postgres.reviewerDecisions'' Auditor_read_procedure Query,
     route ''postgres.activeVerificationConsents'' Auditor_read_procedure Query,
     route ''postgres.analysisReadyDocuments'' Auditor_read_procedure Query,
     route ''postgres.createVerificationConsent'' Compliance_procedure Mutation,
     route ''postgres.createDocumentAnalysisJob'' Compliance_procedure Mutation,
     route ''postgres.persistDocumentAnalysisEvidence'' Compliance_procedure Mutation,
     route ''postgres.createReviewerDecision'' Compliance_procedure Mutation,
     route ''postgres.disposeComplianceCase'' Compliance_procedure Mutation,
     route ''postgres.createComplianceCase'' Compliance_procedure Mutation,
     route ''postgres.createSarStrFiling'' Compliance_only_procedure Mutation,
     route ''postgres.transitionSarStrFiling'' Compliance_only_procedure Mutation,
     route ''postgres.registerLegalEntity'' Admin_only_procedure Mutation,
     route ''postgres.createRegulatoryReport'' Compliance_procedure Mutation,
     route ''postgres.transitionRegulatoryReport'' Compliance_procedure Mutation,
     route ''postgres.recordLiquidityPosition'' Treasury_procedure Mutation,
     route ''postgres.recordMarketObservation'' Treasury_procedure Mutation,
     route ''postgres.treasuryRecommendations'' Auditor_read_procedure Query,
     route ''postgres.treasuryBufferPolicies'' Auditor_read_procedure Query,
     route ''postgres.createTreasuryRecommendation'' Treasury_procedure Mutation,
     route ''postgres.decideTreasuryRecommendation'' Treasury_procedure Mutation,
     route ''postgres.createCounterpartyRiskAssessment'' Compliance_procedure Mutation,
     route ''postgres.escalateCounterpartyRiskAssessment'' Admin_only_procedure Mutation]"

definition partner_routes :: "route list" where
  "partner_routes =
    [route ''postgres.createCounterparty'' Admin_only_procedure Mutation,
     route ''postgres.liquidityProviders'' Auditor_read_procedure Query,
     route ''postgres.liquidityProviderWorkspace'' Auditor_read_procedure Query,
     route ''postgres.updateCounterpartyLpArchetype'' Compliance_procedure Mutation,
     route ''postgres.recordCounterpartyEvidenceItem'' Compliance_procedure Mutation,
     route ''postgres.decideFinancialSoundnessGate'' Treasury_procedure Mutation,
     route ''postgres.bankingPartners'' Auditor_read_procedure Query,
     route ''postgres.bankingPartnerWorkspace'' Auditor_read_procedure Query,
     route ''postgres.updateCounterpartyBankArchetype'' Compliance_procedure Mutation,
     route ''postgres.recordBankEvidenceItem'' Compliance_procedure Mutation,
     route ''postgres.decideCryptoPostureGate'' Compliance_procedure Mutation,
     route ''postgres.payoutPsps'' Auditor_read_procedure Query,
     route ''postgres.payoutPspWorkspace'' Auditor_read_procedure Query,
     route ''postgres.updateCounterpartyPspArchetype'' Compliance_procedure Mutation,
     route ''postgres.recordPspEvidenceItem'' Compliance_procedure Mutation,
     route ''postgres.decidePspLicenceRailGate'' Compliance_procedure Mutation,
     route ''postgres.decidePspSettlementCutoffGate'' Treasury_procedure Mutation,
     route ''postgres.decidePspBoundedLiveGate'' Compliance_procedure Mutation,
     route ''postgres.decidePspFailoverGate'' Admin_only_procedure Mutation,
     route ''postgres.stablecoinIssuers'' Auditor_read_procedure Query,
     route ''postgres.stablecoinIssuerWorkspace'' Auditor_read_procedure Query,
     route ''postgres.updateCounterpartyStablecoinIssuerArchetype'' Compliance_procedure Mutation,
     route ''postgres.recordStablecoinIssuerEvidenceItem'' Compliance_procedure Mutation,
     route ''postgres.decideStablecoinIssuerLicenceReservePostureGate'' Compliance_or_treasury_procedure Mutation,
     route ''postgres.decideStablecoinIssuerMintRedeemGate'' Treasury_procedure Mutation,
     route ''postgres.decideStablecoinIssuerChainReadinessGate'' Admin_only_procedure Mutation,
     route ''postgres.decideStablecoinIssuerOperatingPostureGate'' Compliance_or_treasury_procedure Mutation,
     route ''postgres.complianceVendors'' Auditor_read_procedure Query,
     route ''postgres.complianceVendorWorkspace'' Auditor_read_procedure Query,
     route ''postgres.updateCounterpartyComplianceVendorArchetype'' Compliance_procedure Mutation,
     route ''postgres.recordComplianceVendorEvidenceItem'' Compliance_procedure Mutation,
     route ''postgres.decideComplianceVendorSecurityPostureGate'' Compliance_procedure Mutation,
     route ''postgres.decideComplianceVendorCoverageFeasibilityGate'' Compliance_procedure Mutation,
     route ''postgres.decideComplianceVendorFalsePositiveCeilingGate'' Compliance_procedure Mutation,
     route ''postgres.decideComplianceVendorAnnualReviewGate'' Compliance_procedure Mutation,
     route ''postgres.createCounterpartyAuthorization'' Admin_only_procedure Mutation]"

definition contract_routes :: "route list" where
  "contract_routes =
    [route ''contracts.parseGoPaymentOrderValidated'' Compliance_procedure Mutation,
     route ''contracts.parseRustPolicyDecision'' Compliance_procedure Mutation,
     route ''contracts.parsePythonBronzeManifest'' Compliance_procedure Mutation,
     route ''contracts.parseGoAuditTrail'' Compliance_procedure Mutation,
     route ''contracts.parseRustMonitoringResult'' Compliance_procedure Mutation,
     route ''contracts.parseRustCounterpartyRisk'' Compliance_procedure Mutation,
     route ''contracts.parsePythonAssembledReport'' Compliance_procedure Mutation,
     route ''contracts.parsePythonStablecoinExposure'' Compliance_procedure Mutation,
     route ''contracts.parseRustLedgerValidation'' Compliance_procedure Mutation,
     route ''contracts.parseRustLedgerReconciliation'' Compliance_procedure Mutation,
     route ''contracts.serviceConfiguration'' Auditor_read_procedure Query,
     route ''contracts.evaluateMonitoringViaService'' Compliance_procedure Mutation,
     route ''contracts.assessCounterpartyRiskViaService'' Compliance_procedure Mutation,
     route ''contracts.validateLedgerPostingsViaService'' Compliance_procedure Mutation,
     route ''contracts.reconcileLedgerProjectionViaService'' Compliance_procedure Mutation]"

definition appRouter :: "route list" where
  "appRouter = systemRouter @ auth_routes @ readiness_routes @ access_routes @ registry_routes @ integration_routes @
     payment_routes @ oversight_routes @ partner_routes @ contract_routes"

text \<open>A call: the route is looked up by its path, its gate decides, and only then the handler runs.\<close>

definition call :: "string \<Rightarrow> request_context \<Rightarrow> (actor option \<Rightarrow> 'r tx) \<Rightarrow> 'r tx" where
  "call path ctx handler db = (case find (\<lambda>r. rt_name r = path) appRouter of
     None \<Rightarrow> Inl (Refused ''No procedure found on path'')
   | Some r \<Rightarrow> (case gate (rt_procedure r) ctx of Inl er \<Rightarrow> Inl er | Inr u \<Rightarrow> handler u db))"

definition admits :: "route \<Rightarrow> operating_role option \<Rightarrow> bool" where
  "admits r who \<longleftrightarrow> \<not> isl (gate (rt_procedure r)
     \<lparr>cx_user = map_option (\<lambda>x. \<lparr>openId = [], role = x\<rparr>) who, cx_pendingIdentity = None\<rparr>)"

section \<open>The console\<close>

datatype console_action =
    CA_counterparty | CA_integration | CA_alert | CA_policy | CA_case | CA_kyc_document | CA_sar_str | CA_report | CA_deadline
  | CA_customer | CA_beneficiary | CA_liquidity | CA_market | CA_rate_lock | CA_payment | CA_payment_leg | CA_evaluate_deadlines
  | CA_authorization | CA_consent | CA_analysis

definition canPerformConsoleAction :: "operating_role option \<Rightarrow> console_action \<Rightarrow> bool" where
  "canPerformConsoleAction who action = (case who of
     None \<Rightarrow> False
   | Some r \<Rightarrow>
       if r = Auditor \<or> r = Provider_contact \<or> r = Cbn_liaison then False
       else if r = Admin then True
       else if r = Compliance_officer then action \<in> set [CA_policy, CA_case, CA_kyc_document, CA_sar_str, CA_report, CA_deadline]
       else action \<in> set [CA_customer, CA_beneficiary, CA_liquidity, CA_market, CA_rate_lock, CA_payment, CA_payment_leg])"

definition canOpenConsoleComposer :: "operating_role option \<Rightarrow> console_action \<Rightarrow> bool" where
  "canOpenConsoleComposer who action =
    (if action = CA_authorization then who = Some Admin
     else if action = CA_sar_str then who = Some Compliance_officer
     else if action = CA_consent \<or> action = CA_analysis then who = Some Compliance_officer
     else canPerformConsoleAction who action)"

datatype console_module =
    CM_registry | CM_integrations | CM_governance | CM_treasury | CM_markets | CM_payments | CM_compliance | CM_reports | CM_alerts

fun consoleModuleActions :: "console_module \<Rightarrow> (string \<times> console_action) list" where
  "consoleModuleActions CM_registry = [(''Record'', CA_counterparty), (''Licence'', CA_authorization)]"
| "consoleModuleActions CM_integrations = [(''New connection'', CA_integration)]"
| "consoleModuleActions CM_governance = [(''New policy'', CA_policy)]"
| "consoleModuleActions CM_treasury = [(''New position'', CA_liquidity)]"
| "consoleModuleActions CM_markets = [(''Observe'', CA_market), (''Lock'', CA_rate_lock)]"
| "consoleModuleActions CM_payments = [(''Draft'', CA_payment), (''Leg'', CA_payment_leg)]"
| "consoleModuleActions CM_compliance = [(''New case'', CA_case), (''KYC evidence'', CA_kyc_document), (''Consent'', CA_consent),
     (''Analyse'', CA_analysis), (''SAR/STR'', CA_sar_str)]"
| "consoleModuleActions CM_reports = [(''Report'', CA_report), (''Deadline'', CA_deadline)]"
| "consoleModuleActions CM_alerts = [(''Policy'', CA_alert), (''Evaluate'', CA_evaluate_deadlines)]"

definition visibleConsoleModuleActions :: "operating_role option \<Rightarrow> console_module \<Rightarrow> string list" where
  "visibleConsoleModuleActions who m = map fst (filter (\<lambda>(_, action). canOpenConsoleComposer who action) (consoleModuleActions m))"

text \<open>The mutations a composer of the home page submits (\<open>client/src/pages/Home.tsx\<close>).\<close>

fun composer_routes :: "console_action \<Rightarrow> string list" where
  "composer_routes CA_counterparty = [''postgres.createCounterparty'']"
| "composer_routes CA_authorization = [''postgres.createCounterpartyAuthorization'']"
| "composer_routes CA_integration = [''postgres.createIntegrationConnection'']"
| "composer_routes CA_policy = [''postgres.createCorridorPolicy'']"
| "composer_routes CA_liquidity = [''postgres.recordLiquidityPosition'']"
| "composer_routes CA_case = [''postgres.createComplianceCase'']"
| "composer_routes CA_kyc_document = [''postgres.createKycDocumentUploadIntent'', ''postgres.finalizeKycDocumentUpload'']"
| "composer_routes CA_consent = [''postgres.createVerificationConsent'']"
| "composer_routes CA_analysis = [''postgres.createDocumentAnalysisJob'']"
| "composer_routes CA_sar_str = [''postgres.createSarStrFiling'']"
| "composer_routes CA_report = [''postgres.createRegulatoryReport'']"
| "composer_routes CA_deadline = [''postgres.createRegulatoryDeadline'']"
| "composer_routes CA_alert = [''postgres.createAlertPolicy'']"
| "composer_routes _ = []"

section \<open>Onboarding an operator\<close>

text \<open>
  The account of the identity provider and the random registration identifier are parameters; the
  customer and the role are two transactions, so the second can fail after the first committed.
\<close>

definition onboardOperator ::
  "(string \<Rightarrow> string \<Rightarrow> (string \<times> string) result) \<Rightarrow> string \<Rightarrow> env \<Rightarrow> env \<Rightarrow> actor \<Rightarrow> string \<Rightarrow> string \<Rightarrow> operating_role \<Rightarrow>
     uuid option \<Rightarrow> uuid option \<Rightarrow> access_tables \<times> db \<Rightarrow> (string \<times> string \<times> uuid) result \<times> access_tables \<times> db" where
  "onboardOperator createOperatorAccount hex e1 e2 a name email r counterpartyId dossierId = (\<lambda>(t, db).
    case createOperatorAccount name email of
      Inl er \<Rightarrow> (Inl er, t, db)
    | Inr (subject, initialPassword) \<Rightarrow>
        (case createPostgresCustomer e1 a name (''OPERATOR-'' @ hex) db of
           Inl er \<Rightarrow> (Inl er, t, db)
         | Inr (customer, db1) \<Rightarrow>
             if r \<in> set legacyOperatingRoles then
               (case grantOperatingRole e2 a subject r (t, db1) of
                  Inl er \<Rightarrow> (Inl er, t, db1)
                | Inr (_, t2, db2) \<Rightarrow> (Inr (subject, initialPassword, cu_id customer), t2, db2))
             else
               (case assignExternalStakeholder e2 a r subject counterpartyId dossierId (t, db1) of
                  Inl er \<Rightarrow> (Inl er, t, db1)
                | Inr (_, t2, db2) \<Rightarrow> (Inr (subject, initialPassword, cu_id customer), t2, db2))))"

end
