(* ===== verification/Access_Properties.thy ===== *)
theory Access_Properties
  imports Access_Control
begin

text \<open>
  What the role tables decide: who has which role after a grant, a change, a deactivation and an
  external assignment, and where the operator directory and the access queue disagree with it.
\<close>

section \<open>A sample\<close>

text \<open>
  One operator with a core role and a suspended external role, one with a core role, and a resolved
  access request of each.
\<close>

definition sample_clock :: env where
  "sample_clock = \<lparr>js_now = 100, pg_now = 100, pg_today = 10, new_uuid = 50, node_uuid = 51\<rparr>"

definition sample_admin :: actor where
  "sample_admin = \<lparr>openId = ''adm'', role = Admin\<rparr>"

definition sample_request :: "string \<Rightarrow> access_request" where
  "sample_request s = \<lparr>aq_subject = s, aq_name = None, aq_email = None, aq_first_seen_at = 1, aq_last_seen_at = 2,
     aq_resolved_at = Some 3, aq_resolved_by = Some ''adm''\<rparr>"

definition sample_external :: operator_role_assignment where
  "sample_external = \<lparr>or_subject = ''x'', or_role = Provider_contact, or_assignment_status = AS_suspended, or_assigned_by = ''adm'',
     or_assigned_at = 3, or_suspended_at = Some 4\<rparr>"

definition sample_access :: access_tables where
  "sample_access = empty_access\<lparr>
     user_role_assignments :=
       [\<lparr>ur_id = 1, ur_user_subject = ''x'', ur_role = Auditor, ur_assigned_by = ''adm'', ur_assigned_at = 5, ur_revoked_at = None\<rparr>,
        \<lparr>ur_id = 2, ur_user_subject = ''y'', ur_role = Treasury_operator, ur_assigned_by = ''adm'', ur_assigned_at = 5, ur_revoked_at = None\<rparr>],
     operator_role_assignments := [sample_external],
     access_requests := [sample_request ''x'', sample_request ''y'', sample_request ''z'']\<rparr>"

lemma sample_access_inv: "access_inv sample_access"
  by code_simp

section \<open>The resolver\<close>

definition assigned_externals :: "string \<Rightarrow> access_tables \<Rightarrow> operating_role list" where
  "assigned_externals s t = map or_role (filter (\<lambda>r. or_subject r = s \<and> or_assignment_status r = AS_assigned) (operator_role_assignments t))"

definition active_roles :: "string \<Rightarrow> access_tables \<Rightarrow> operating_role list" where
  "active_roles s t = map ur_role (filter (active_grant s) (user_role_assignments t))"

lemma resolve_eq:
  "resolvePostgresOperatingRole s t = (case sort_key role_text (assigned_externals s t) @ sort_key role_text (active_roles s t) of
     [] \<Rightarrow> None | r # _ \<Rightarrow> Some r)"
  by (simp add: resolvePostgresOperatingRole_def Let_def assigned_externals_def active_roles_def)

lemma sort_key_nil: "sort_key k rs = [] \<longleftrightarrow> rs = []"
  using length_sort [of k rs] by (cases rs; cases "sort_key k rs") simp_all

lemma resolve_None: "resolvePostgresOperatingRole s t = None \<longleftrightarrow> assigned_externals s t = [] \<and> active_roles s t = []"
proof -
  have "(case xs @ ys of [] \<Rightarrow> None | r # _ \<Rightarrow> Some r) = None \<longleftrightarrow> xs = [] \<and> ys = []" for xs ys :: "operating_role list"
    by (cases xs; cases ys) simp_all
  then show ?thesis unfolding resolve_eq by (simp only: sort_key_nil)
qed

lemma resolve_core: "assigned_externals s t = [] \<Longrightarrow> active_roles s t = [r] \<Longrightarrow> resolvePostgresOperatingRole s t = Some r"
  by (simp add: resolve_eq)

lemma resolve_external:
  assumes "assigned_externals s t \<noteq> []" and "assigned_externals s t' = assigned_externals s t"
  shows "resolvePostgresOperatingRole s t' = resolvePostgresOperatingRole s t"
proof -
  obtain r rs where "sort_key role_text (assigned_externals s t) = r # rs"
    using assms(1) sort_key_nil [of role_text "assigned_externals s t"] by (cases "sort_key role_text (assigned_externals s t)") simp_all
  then show ?thesis using assms(2) by (simp add: resolve_eq)
qed

lemma resolve_cong:
  "assigned_externals s t' = assigned_externals s t \<Longrightarrow> active_roles s t' = active_roles s t \<Longrightarrow>
   resolvePostgresOperatingRole s t' = resolvePostgresOperatingRole s t"
  by (simp add: resolve_eq)

lemma active_grant_open: "active_grant s r \<Longrightarrow> ur_revoked_at r = None"
  by (simp add: active_grant_def)

lemma revoke_grants: "filter (active_grant s) (revoke e P rows) = filter (\<lambda>r. active_grant s r \<and> \<not> P r) rows"
  by (induction rows) (auto simp: revoke_def active_grant_def)

lemma distinct_same_slot: "distinct (map f xs) \<Longrightarrow> (\<And>x. x \<in> set xs \<Longrightarrow> f x = c) \<Longrightarrow> length xs \<le> 1"
proof (cases xs)
  case (Cons x ys)
  assume "distinct (map f xs)" and "\<And>x. x \<in> set xs \<Longrightarrow> f x = c"
  then show ?thesis using Cons by (cases ys) auto
qed simp

section \<open>Deactivation\<close>

lemma suspend_filter:
  "filter (\<lambda>r. or_subject r = s' \<and> or_assignment_status r = AS_assigned) (map (suspend_external e s) rows) =
     (if s' = s then [] else filter (\<lambda>r. or_subject r = s' \<and> or_assignment_status r = AS_assigned) rows)"
  by (induction rows) (auto simp: suspend_external_def)

text \<open>
  A deactivation that commits takes every role away from the operator, core and external, and from
  nobody else, whatever the identity provider answers afterwards.
\<close>

lemma deactivation_removes_roles:
  assumes "deactivateOperator kc e a k s reason (t, db) = (res, t', db')" and "db' \<noteq> db"
  shows "resolvePostgresOperatingRole s t' = None \<and>
    (\<forall>s'. s' \<noteq> s \<longrightarrow> resolvePostgresOperatingRole s' t' = resolvePostgresOperatingRole s' t) \<and>
    (\<forall>e' u fed. id_openId u = s \<longrightarrow> cx_user (fst (createContext e' (Inr (Some u)) fed t')) = None) \<and>
    res = (case kc k False of Inl er \<Rightarrow> Inl er | Inr _ \<Rightarrow> Inr s)"
proof -
  from deactivate_effect [OF assms(1)] assms(2) have t': "t' = t\<lparr>user_role_assignments := revoke e (active_grant s) (user_role_assignments t),
       operator_role_assignments := map (suspend_external e s) (operator_role_assignments t)\<rparr>"
    and res: "res = (case kc k False of Inl er \<Rightarrow> Inl er | Inr _ \<Rightarrow> Inr s)" by blast+
  have none: "resolvePostgresOperatingRole s t' = None"
    by (simp add: resolve_None assigned_externals_def active_roles_def t' suspend_filter revoke_grants)
  have "filter (\<lambda>r. active_grant s' r \<and> \<not> active_grant s r) rows = filter (active_grant s') rows" if "s' \<noteq> s" for s' rows
    using that by (intro filter_cong) (auto simp: active_grant_def)
  then have "resolvePostgresOperatingRole s' t' = resolvePostgresOperatingRole s' t" if "s' \<noteq> s" for s'
    using that by (intro resolve_cong) (simp_all add: assigned_externals_def active_roles_def t' suspend_filter revoke_grants)
  then show ?thesis using none res by (simp add: createContext_def)
qed

section \<open>Change of role\<close>

text \<open>
  A change of role leaves the subject with exactly that one active core role and touches nobody
  else. It decides what the subject may do, unless an external role is assigned: then the external
  role stays in force although the operation reports the new one.
\<close>

lemma role_change_takes_effect:
  assumes inv: "access_inv t" and change: "changeOperatorRole e a s r (t, db) = Inr (x, t', db')"
  shows "x = (s, r) \<and> active_roles s t' = [r] \<and>
    resolvePostgresOperatingRole s t' = (if assigned_externals s t = [] then Some r else resolvePostgresOperatingRole s t) \<and>
    (\<forall>s'. s' \<noteq> s \<longrightarrow> resolvePostgresOperatingRole s' t' = resolvePostgresOperatingRole s' t)"
proof -
  let ?P = "\<lambda>x. active_grant s x \<and> ur_role x \<noteq> r" and ?rows = "user_role_assignments t"
  have x: "x = (s, r)" using change by (auto simp: changeOperatorRole_def Let_def split: if_splits option.splits)
  have ext: "assigned_externals s' t' = assigned_externals s' t" for s'
    using change_effect [OF change] by (auto simp: assigned_externals_def)
  have same: "filter (\<lambda>y. active_grant s y \<and> \<not> ?P y) ?rows = filter (\<lambda>y. active_grant s y \<and> ur_role y = r) ?rows"
    by (rule filter_cong) auto
  have "distinct (map grant_slot (filter (\<lambda>y. ur_revoked_at y = None) ?rows))" using inv by (simp add: access_inv_def)
  then have "distinct (map grant_slot (filter (\<lambda>y. active_grant s y \<and> ur_role y = r) (filter (\<lambda>y. ur_revoked_at y = None) ?rows)))"
    by (rule distinct_map_filter)
  moreover have "filter (\<lambda>y. active_grant s y \<and> ur_role y = r) (filter (\<lambda>y. ur_revoked_at y = None) ?rows) =
      filter (\<lambda>y. active_grant s y \<and> ur_role y = r) ?rows"
    unfolding filter_filter by (rule filter_cong) (auto simp: active_grant_def)
  ultimately have one: "length (filter (\<lambda>y. active_grant s y \<and> ur_role y = r) ?rows) \<le> 1"
    by (intro distinct_same_slot [of grant_slot _ "(s, r)"]) (auto simp: grant_slot_def active_grant_def)
  have roles: "active_roles s t' = [r]"
    using change_effect [OF change]
  proof (elim disjE conjE)
    assume t': "t' = t\<lparr>user_role_assignments := revoke e ?P ?rows\<rparr>"
      and "list_ex (\<lambda>x. active_grant s x \<and> ur_role x = r) ?rows"
    then have "filter (\<lambda>y. active_grant s y \<and> ur_role y = r) ?rows \<noteq> []" by (auto simp: list_ex_iff filter_empty_conv)
    with one obtain y where y: "filter (\<lambda>y. active_grant s y \<and> ur_role y = r) ?rows = [y]"
      by (cases "filter (\<lambda>y. active_grant s y \<and> ur_role y = r) ?rows") auto
    then have "ur_role y = r" using filter_eq_ConsD [OF y] by auto
    then show ?thesis using y by (simp add: active_roles_def t' revoke_grants flip: same)
  next
    assume t': "t' = t\<lparr>user_role_assignments := insert_row (grant_row e a s r) (revoke e ?P ?rows)\<rparr>"
      and "\<not> list_ex (\<lambda>x. active_grant s x \<and> ur_role x = r) ?rows"
    then have "filter (\<lambda>y. active_grant s y \<and> ur_role y = r) ?rows = []" by (auto simp: list_ex_iff filter_empty_conv)
    moreover have "active_grant s (grant_row e a s r)" by (simp add: active_grant_def grant_row_def)
    ultimately show ?thesis by (simp add: active_roles_def t' insert_row_def revoke_grants flip: same) (simp add: grant_row_def)
  qed
  have other: "active_roles s' t' = active_roles s' t" if "s' \<noteq> s" for s'
  proof -
    have "filter (\<lambda>y. active_grant s' y \<and> \<not> ?P y) ?rows = filter (active_grant s') ?rows"
      using that by (intro filter_cong) (auto simp: active_grant_def)
    moreover have "\<not> active_grant s' (grant_row e a s r)" using that by (simp add: active_grant_def grant_row_def)
    ultimately show ?thesis
      using change_effect [OF change] by (auto simp: active_roles_def insert_row_def revoke_grants)
  qed
  have "resolvePostgresOperatingRole s t' = (if assigned_externals s t = [] then Some r else resolvePostgresOperatingRole s t)"
    using resolve_core [of s t' r] resolve_external [of s t t'] ext [of s] roles by simp
  moreover have "resolvePostgresOperatingRole s' t' = resolvePostgresOperatingRole s' t" if "s' \<noteq> s" for s'
    using ext other [OF that] by (rule resolve_cong)
  ultimately show ?thesis using x roles by blast
qed

lemma role_change_takes_effect_witness:
  "\<exists>t' db'. changeOperatorRole sample_clock sample_admin ''x'' Compliance_officer (sample_access, empty_db) =
      Inr ((''x'', Compliance_officer), t', db') \<and> resolvePostgresOperatingRole ''x'' t' = Some Compliance_officer \<and>
      resolvePostgresOperatingRole ''y'' t' = Some Treasury_operator"
proof -
  let ?r = "changeOperatorRole sample_clock sample_admin ''x'' Compliance_officer (sample_access, empty_db)"
  have "isl ?r = False" by code_simp
  then obtain x t' db' where r: "?r = Inr (x, t', db')" by (cases ?r) auto
  have "assigned_externals ''x'' sample_access = []" and y: "resolvePostgresOperatingRole ''y'' sample_access = Some Treasury_operator"
    by code_simp+
  then show ?thesis using role_change_takes_effect [OF sample_access_inv r] r by simp
qed

section \<open>Directory and queue\<close>

lemma fold_view:
  assumes "distinct_keys key rows" and "r \<in> set rows"
  shows "fold (\<lambda>r f. f(key r \<mapsto> v r)) rows m (key r) = Some (v r)"
  using assms
proof (induction rows arbitrary: m)
  case (Cons x xs)
  have skip: "fold (\<lambda>r f. f(key r \<mapsto> v r)) ys m' k = m' k" if "k \<notin> key ` set ys" for ys m' k
    using that by (induction ys arbitrary: m') auto
  show ?case
  proof (cases "r = x")
    case True
    then show ?thesis using Cons.prems(1) skip [of "key x" xs] by (simp del: fun_upd_apply) simp
  next
    case False
    then show ?thesis using Cons.prems Cons.IH [of "m(key x \<mapsto> v x)"] by (simp del: fun_upd_apply)
  qed
qed simp

text \<open>
  An operator whose external role was suspended and who holds an active core role acts in that
  core role, while the operator directory shows the suspended external role.
\<close>

lemma directory_hides_active_role:
  assumes "access_inv t" and "x \<in> set (operator_role_assignments t)" "or_assignment_status x = AS_suspended"
    and "active_roles (or_subject x) t = [r]" and "ka_subject acc = or_subject x"
  shows "resolvePostgresOperatingRole (or_subject x) t = Some r \<and>
    (\<exists>entry. listOperators [acc] t = [entry] \<and> de_role entry = Some (or_role x) \<and> de_roleStatus entry = Some AS_suspended \<and>
       de_role entry \<noteq> Some r)"
proof -
  have keys: "distinct_keys or_subject (operator_role_assignments t)" using assms(1) by (simp add: access_inv_def)
  have "y = x" if "y \<in> set (operator_role_assignments t)" "or_subject y = or_subject x" for y
    using keys that assms(2) by (metis distinct_map inj_onD)
  then have "or_assignment_status y \<noteq> AS_assigned" if "y \<in> set (operator_role_assignments t)" "or_subject y = or_subject x" for y
    using that assms(3) by (metis assignment_status.distinct(1))
  then have "assigned_externals (or_subject x) t = []" by (simp add: assigned_externals_def filter_empty_conv)
  then have "resolvePostgresOperatingRole (or_subject x) t = Some r" using assms(4) by (rule resolve_core)
  moreover have "roleBySubject t (or_subject x) = Some \<lparr>av_role = or_role x, av_status = AS_suspended,
      av_assignedBy = or_assigned_by x, av_assignedAt = or_assigned_at x\<rparr>"
    unfolding roleBySubject_def Let_def assms(3) [symmetric] by (rule fold_view [OF keys assms(2)])
  moreover have "or_role x \<noteq> r"
  proof -
    have "r \<in> ur_role ` set (user_role_assignments t)" using assms(4) by (auto simp: active_roles_def map_eq_Cons_conv dest!: filter_eq_ConsD)
    then have "r \<in> set legacyOperatingRoles" using assms(1) by (auto simp: access_inv_def)
    moreover have "or_role x \<in> set external_roles" using assms(1,2) by (auto simp: access_inv_def)
    ultimately show ?thesis by (auto simp: legacyOperatingRoles_def external_roles_def)
  qed
  ultimately show ?thesis using assms(5) by (simp add: listOperators_def Let_def)
qed

lemma directory_hides_active_role_witness:
  "\<exists>entry. listOperators [\<lparr>ka_keycloakUserId = 9, ka_subject = ''x'', ka_name = [], ka_email = [], ka_enabled = True\<rparr>] sample_access = [entry] \<and>
     de_role entry = Some Provider_contact \<and> resolvePostgresOperatingRole ''x'' sample_access = Some Auditor"
proof -
  have "sample_external \<in> set (operator_role_assignments sample_access)" "or_assignment_status sample_external = AS_suspended"
    "or_subject sample_external = ''x''" "or_role sample_external = Provider_contact"
    by (simp_all add: sample_access_def sample_external_def)
  moreover have "active_roles ''x'' sample_access = [Auditor]" by code_simp
  ultimately show ?thesis
    using directory_hides_active_role [OF sample_access_inv, of sample_external Auditor
      "\<lparr>ka_keycloakUserId = 9, ka_subject = ''x'', ka_name = [], ka_email = [], ka_enabled = True\<rparr>"] by auto
qed

text \<open>
  A subject whose access request was resolved once never returns to the queue: after a
  deactivation a new sign-in is a pending identity, but the list the administrator sees does not
  change.
\<close>

lemma returning_subject_not_listed:
  assumes "find_row aq_subject (id_openId u) (access_requests t) = Some r" and "aq_resolved_at r \<noteq> None"
    and "distinct_keys aq_subject (access_requests t)" and "resolvePostgresOperatingRole (id_openId u) t = None"
  shows "\<exists>t'. createContext e (Inr (Some u)) fed t = (\<lparr>cx_user = None, cx_pendingIdentity = Some u\<rparr>, t') \<and>
    listOperatorAccessRequests t' = listOperatorAccessRequests t \<and>
    id_openId u \<notin> aq_subject ` set (listOperatorAccessRequests t)"
proof -
  have only: "x = r" if "x \<in> set (access_requests t)" "aq_subject x = id_openId u" for x
    using unique_row [OF assms(3,1) that] .
  have "update_row aq_subject (id_openId u) (\<lambda>r. if aq_resolved_at r = None then f r else r) (access_requests t) = access_requests t" for f
    unfolding update_row_def by (rule map_idI) (use only assms(2) in auto)
  then have "recordOperatorAccessAttempt e (id_openId u) (id_name u) (id_email u) t = t"
    unfolding recordOperatorAccessAttempt_def assms(1) by simp
  moreover have "id_openId u \<notin> aq_subject ` set (listOperatorAccessRequests t)"
    using only assms(2) by (auto simp: listOperatorAccessRequests_def)
  ultimately show ?thesis using assms(4) by (simp add: createContext_def)
qed

lemma returning_subject_not_listed_witness:
  "\<exists>t'. createContext sample_clock (Inr (Some \<lparr>id_openId = ''z'', id_name = None, id_email = None\<rparr>)) None sample_access =
      (\<lparr>cx_user = None, cx_pendingIdentity = Some \<lparr>id_openId = ''z'', id_name = None, id_email = None\<rparr>\<rparr>, t') \<and>
    listOperatorAccessRequests t' = []"
proof -
  have "find_row aq_subject ''z'' (access_requests sample_access) = Some (sample_request ''z'')"
    "aq_resolved_at (sample_request ''z'') \<noteq> None"
    "distinct_keys aq_subject (access_requests sample_access)"
    "resolvePostgresOperatingRole ''z'' sample_access = None" "listOperatorAccessRequests sample_access = []"
    by code_simp+
  then show ?thesis
    using returning_subject_not_listed [of "\<lparr>id_openId = ''z'', id_name = None, id_email = None\<rparr>" sample_access
      "sample_request ''z''" sample_clock None] by auto
qed

section \<open>External stakeholders\<close>

text \<open>
  Assigning a stakeholder again to the same counterparty or dossier never updates the earlier
  assignment: each call adds a row, because the conflict target of the upsert contains a NULL.
\<close>

lemma reassignment_duplicates:
  assumes "assignExternalStakeholder e a r s c d (t, db) = Inr (k, t', db')"
    and "assignExternalStakeholder e' a' r s c d (t', db') = Inr (k', t'', db'')"
  shows "k' \<noteq> k \<and> length (filter (\<lambda>x. xa_stakeholder_subject x = s \<and> xa_stakeholder_role x = r \<and> xa_counterparty_id x = c \<and>
      xa_dossier_id x = d \<and> xa_status x = AS_assigned) (external_assignments t'')) \<ge> 2"
proof -
  note one = assign_effect [OF assms(1)] and two = assign_effect [OF assms(2)]
  have rows': "external_assignments t' = insert_row (assignment_row e a r s c d) (external_assignments t)"
    using one by (simp add: resolveOperatorAccessRequest_def)
  have "external_assignments t'' = insert_row (assignment_row e' a' r s c d) (external_assignments t')"
    using two by (simp add: resolveOperatorAccessRequest_def)
  moreover have "k' \<noteq> k" using one two rows' by (auto simp: find_row_None insert_row_def assignment_row_def)
  ultimately show ?thesis using rows' by (simp add: insert_row_def assignment_row_def)
qed

end
