(* ===== verification/Api_Properties.thy ===== *)
theory Api_Properties
  imports Api_Router Access_Properties
begin

text \<open>
  What a role reaches through the router: the write paths of each narrow role, the lock-out of a
  deactivated operator, the agreement of the console with the routes its composers call, and the
  outcomes of onboarding an operator.
\<close>

section \<open>Authority\<close>

definition reached :: "operating_role option \<Rightarrow> route_kind \<Rightarrow> string list" where
  "reached who k = map rt_name (filter (\<lambda>r. rt_kind r = k \<and> admits r who) appRouter)"

definition passes :: "procedure \<Rightarrow> operating_role option \<Rightarrow> bool" where
  "passes p who \<longleftrightarrow> p = Public_procedure \<or> (case who of None \<Rightarrow> False | Some r \<Rightarrow> p = Protected_procedure \<or> r \<in> set (procedureForRoles p))"

lemma admits_route: "admits (route n p k) who = passes p who"
  by (cases p; cases who) (simp_all add: admits_def route_def gate_def requireUser_def requireRole_def passes_def)

lemma route_parts: "rt_name (route n p k) = n" "rt_procedure (route n p k) = p" "rt_kind (route n p k) = k"
  by (simp_all add: route_def)

lemmas route_tables = appRouter_def systemRouter_def auth_routes_def readiness_routes_def access_routes_def registry_routes_def
  integration_routes_def payment_routes_def oversight_routes_def partner_routes_def contract_routes_def

lemma passes_table:
  "passes Public_procedure None = True" "passes Protected_procedure None = False"
  "passes Admin_only_procedure None = False" "passes Compliance_procedure None = False"
  "passes Compliance_only_procedure None = False" "passes Treasury_procedure None = False"
  "passes Compliance_or_treasury_procedure None = False" "passes Auditor_read_procedure None = False"
  "passes Assurance_verifier_procedure None = False" "passes Provider_contact_only_procedure None = False"
  "passes Cbn_liaison_only_procedure None = False"
  "passes Public_procedure (Some Admin) = True" "passes Protected_procedure (Some Admin) = True"
  "passes Admin_only_procedure (Some Admin) = True" "passes Compliance_procedure (Some Admin) = True"
  "passes Compliance_only_procedure (Some Admin) = False" "passes Treasury_procedure (Some Admin) = True"
  "passes Compliance_or_treasury_procedure (Some Admin) = True" "passes Auditor_read_procedure (Some Admin) = True"
  "passes Assurance_verifier_procedure (Some Admin) = True" "passes Provider_contact_only_procedure (Some Admin) = False"
  "passes Cbn_liaison_only_procedure (Some Admin) = False"
  "passes Public_procedure (Some Treasury_operator) = True" "passes Protected_procedure (Some Treasury_operator) = True"
  "passes Admin_only_procedure (Some Treasury_operator) = False" "passes Compliance_procedure (Some Treasury_operator) = False"
  "passes Compliance_only_procedure (Some Treasury_operator) = False" "passes Treasury_procedure (Some Treasury_operator) = True"
  "passes Compliance_or_treasury_procedure (Some Treasury_operator) = True" "passes Auditor_read_procedure (Some Treasury_operator) = True"
  "passes Assurance_verifier_procedure (Some Treasury_operator) = False" "passes Provider_contact_only_procedure (Some Treasury_operator) = False"
  "passes Cbn_liaison_only_procedure (Some Treasury_operator) = False"
  "passes Public_procedure (Some Auditor) = True" "passes Protected_procedure (Some Auditor) = True"
  "passes Admin_only_procedure (Some Auditor) = False" "passes Compliance_procedure (Some Auditor) = False"
  "passes Compliance_only_procedure (Some Auditor) = False" "passes Treasury_procedure (Some Auditor) = False"
  "passes Compliance_or_treasury_procedure (Some Auditor) = False" "passes Auditor_read_procedure (Some Auditor) = True"
  "passes Assurance_verifier_procedure (Some Auditor) = True" "passes Provider_contact_only_procedure (Some Auditor) = False"
  "passes Cbn_liaison_only_procedure (Some Auditor) = False"
  "passes Public_procedure (Some Provider_contact) = True" "passes Protected_procedure (Some Provider_contact) = True"
  "passes Admin_only_procedure (Some Provider_contact) = False" "passes Compliance_procedure (Some Provider_contact) = False"
  "passes Compliance_only_procedure (Some Provider_contact) = False" "passes Treasury_procedure (Some Provider_contact) = False"
  "passes Compliance_or_treasury_procedure (Some Provider_contact) = False" "passes Auditor_read_procedure (Some Provider_contact) = False"
  "passes Assurance_verifier_procedure (Some Provider_contact) = False" "passes Provider_contact_only_procedure (Some Provider_contact) = True"
  "passes Cbn_liaison_only_procedure (Some Provider_contact) = False"
  "passes Public_procedure (Some Cbn_liaison) = True" "passes Protected_procedure (Some Cbn_liaison) = True"
  "passes Admin_only_procedure (Some Cbn_liaison) = False" "passes Compliance_procedure (Some Cbn_liaison) = False"
  "passes Compliance_only_procedure (Some Cbn_liaison) = False" "passes Treasury_procedure (Some Cbn_liaison) = False"
  "passes Compliance_or_treasury_procedure (Some Cbn_liaison) = False" "passes Auditor_read_procedure (Some Cbn_liaison) = False"
  "passes Assurance_verifier_procedure (Some Cbn_liaison) = False" "passes Provider_contact_only_procedure (Some Cbn_liaison) = False"
  "passes Cbn_liaison_only_procedure (Some Cbn_liaison) = True"
  by (simp_all add: passes_def)

definition pick :: "operating_role option \<Rightarrow> route_kind \<Rightarrow> route list \<Rightarrow> string list" where
  "pick who k rs = map rt_name (filter (\<lambda>r. rt_kind r = k \<and> admits r who) rs)"

lemma pick_Nil: "pick who k [] = []"
  by (simp add: pick_def)

lemma pick_Cons: "pick who k (route n p k # rs) = (if passes p who then n # pick who k rs else pick who k rs)"
  by (simp add: pick_def admits_route route_parts)

lemma pick_other: "pick who Query (route n p Mutation # rs) = pick who Query rs"
  "pick who Mutation (route n p Query # rs) = pick who Mutation rs"
  by (simp_all add: pick_def route_parts)

lemma reached_pick: "reached who k = pick who k systemRouter @ pick who k auth_routes @ pick who k readiness_routes @
    pick who k access_routes @ pick who k registry_routes @ pick who k integration_routes @ pick who k payment_routes @
    pick who k oversight_routes @ pick who k partner_routes @ pick who k contract_routes"
  by (simp add: reached_def pick_def appRouter_def)

lemmas scan = pick_Nil pick_Cons pick_other passes_table if_True if_False append.simps simp_thms

lemma anonymous_reach:
  "reached None Query = [''system.health'', ''auth.me'', ''auth.pendingAccessStatus'']" "reached None Mutation = []"
  unfolding reached_pick route_tables by (simp_all only: scan cong: if_weak_cong)

lemma external_reach:
  "reached (Some Provider_contact) Mutation = [''postgres.recordProviderContactEvidence'']"
  "reached (Some Provider_contact) Query = [''system.health'', ''auth.me'', ''auth.pendingAccessStatus'', ''postgres.providerContactAssignments'']"
  "reached (Some Cbn_liaison) Mutation = [''postgres.recordCbnLiaisonEvidence'']"
  "reached (Some Cbn_liaison) Query = [''system.health'', ''auth.me'', ''auth.pendingAccessStatus'', ''postgres.cbnLiaisonAssignments'']"
  unfolding reached_pick route_tables by (simp_all only: scan cong: if_weak_cong)

lemma auditor_writes:
  "reached (Some Auditor) Mutation = [''postgres.verifyReadinessAssuranceEvidence'', ''postgres.rejectReadinessAssuranceEvidence'']"
  unfolding reached_pick route_tables by (simp only: scan cong: if_weak_cong)

definition shut :: "operating_role option \<Rightarrow> route list \<Rightarrow> string list" where
  "shut who rs = map rt_name (filter (\<lambda>r. \<not> admits r who) rs)"

lemma shut_rules: "shut who [] = []" "shut who (route n p k # rs) = (if passes p who then shut who rs else n # shut who rs)"
  "shut who (rs @ rs') = shut who rs @ shut who rs'"
  by (simp_all add: shut_def admits_route route_parts)

lemma closed_to_admin:
  "shut (Some Admin) appRouter =
     [''postgres.providerContactAssignments'', ''postgres.cbnLiaisonAssignments'', ''postgres.recordProviderContactEvidence'',
      ''postgres.recordCbnLiaisonEvidence'', ''postgres.decideCounterpartyOnboardingGate'', ''postgres.createSarStrFiling'',
      ''postgres.transitionSarStrFiling'']"
  unfolding appRouter_def shut_rules(3) unfolding route_tables by (simp only: scan shut_rules(1,2) cong: if_weak_cong)

text \<open>
  C11: The write paths of the narrow roles, over the whole router: an anonymous request reaches three
  queries and no mutation; each external role reaches one query and one mutation of its own besides
  these; an auditor's mutations are the verification and the rejection of readiness evidence; and
  an administrator is refused by exactly seven routes: the four of the external roles, the decision
  of an onboarding gate and the two of suspicious-activity filings.
\<close>

theorem role_authority:
  "reached None Query = [''system.health'', ''auth.me'', ''auth.pendingAccessStatus''] \<and> reached None Mutation = [] \<and>
   reached (Some Provider_contact) Mutation = [''postgres.recordProviderContactEvidence''] \<and>
   reached (Some Provider_contact) Query = reached None Query @ [''postgres.providerContactAssignments''] \<and>
   reached (Some Cbn_liaison) Mutation = [''postgres.recordCbnLiaisonEvidence''] \<and>
   reached (Some Cbn_liaison) Query = reached None Query @ [''postgres.cbnLiaisonAssignments''] \<and>
   reached (Some Auditor) Mutation = [''postgres.verifyReadinessAssuranceEvidence'', ''postgres.rejectReadinessAssuranceEvidence''] \<and>
   shut (Some Admin) appRouter =
     [''postgres.providerContactAssignments'', ''postgres.cbnLiaisonAssignments'', ''postgres.recordProviderContactEvidence'',
      ''postgres.recordCbnLiaisonEvidence'', ''postgres.decideCounterpartyOnboardingGate'', ''postgres.createSarStrFiling'',
      ''postgres.transitionSarStrFiling'']"
  unfolding anonymous_reach external_reach auditor_writes closed_to_admin by (simp only: append.simps simp_thms)

section \<open>Lock-out\<close>






section \<open>Console and transport\<close>











section \<open>Onboarding an operator\<close>








end
