(* ===== verification/Multi_Rail.thy ===== *)
theory Multi_Rail
  imports Umoja_Prelude
begin

text \<open>
  The failover coordinator of payment rails (\<open>server/multiRailFailover.ts\<close>) and the
  normalisation of a provider status (\<open>server/yellowcardAdapter.ts\<close>). A rail is a parameter: each call of
  it is answered with a submission or with a rejected promise (\<open>None\<close>; the rejection of the second
  rail propagates, with a text of our own here since the provider's is not known). An execution suspends at
  every \<open>await\<close>, so the code between two awaits is one function here and a run of the coordinator is
  an interleaving of these steps over the shared map of records.
\<close>

section \<open>Data\<close>

datatype rail_status = RS_submitted | RS_pending | RS_settled | RS_failed | RS_held | RS_unknown

record intent =
  in_id :: string
  in_idempotencyKey :: string

record submission =
  sb_status :: rail_status
  sb_providerRef :: "string option"
  sb_safeToRetry :: "bool option"

type_synonym rail_record = "string \<times> submission"
type_synonym rail_records = "string \<rightharpoonup> rail_record"

text \<open>The points at which \<open>execute\<close> is suspended, with the local variable that is live there.\<close>

datatype phase =
    Awaiting_submit
  | Awaiting_query
  | Awaiting_secondary submission
  | Returned rail_record
  | Threw error

record execution =
  ex_intent :: intent
  ex_primary :: string
  ex_secondary :: string
  ex_phase :: phase

definition UnknownOutcome :: error where
  "UnknownOutcome = Refused ''provider outcome unknown; fallback prohibited''"

section \<open>One execution\<close>

definition accepted :: "rail_status \<Rightarrow> bool" where
  "accepted s \<longleftrightarrow> s \<in> set [RS_submitted, RS_pending, RS_settled]"

definition fallback_allowed :: "submission \<Rightarrow> bool" where
  "fallback_allowed s \<longleftrightarrow> sb_safeToRetry s = Some True \<and> sb_status s \<in> set [RS_failed, RS_held]"

definition coordinator_record :: "intent \<Rightarrow> string \<Rightarrow> submission \<Rightarrow> rail_records \<Rightarrow> rail_record \<times> rail_records" where
  "coordinator_record i rail s records = (case records (in_idempotencyKey i) of
     Some prior \<Rightarrow> (prior, records)
   | None \<Rightarrow> ((rail, s), records(in_idempotencyKey i \<mapsto> (rail, s))))"

definition begin_execute :: "intent \<Rightarrow> string \<Rightarrow> string \<Rightarrow> rail_records \<Rightarrow> execution" where
  "begin_execute i primary secondary records = \<lparr>ex_intent = i, ex_primary = primary, ex_secondary = secondary,
     ex_phase =
       (if in_id i = [] \<or> in_idempotencyKey i = [] then Threw (Refused ''intent and idempotency key required'')
        else case records (in_idempotencyKey i) of Some cached \<Rightarrow> Returned cached | None \<Rightarrow> Awaiting_submit)\<rparr>"

definition classify :: "submission \<Rightarrow> execution \<Rightarrow> rail_records \<Rightarrow> execution \<times> rail_records" where
  "classify first ex records =
    (if accepted (sb_status first) then
       let (r, records') = coordinator_record (ex_intent ex) (ex_primary ex) first records
       in (ex\<lparr>ex_phase := Returned r\<rparr>, records')
     else if \<not> fallback_allowed first then (ex\<lparr>ex_phase := Threw UnknownOutcome\<rparr>, records)
     else (ex\<lparr>ex_phase := Awaiting_secondary first\<rparr>, records))"

definition resume :: "submission option \<Rightarrow> execution \<Rightarrow> rail_records \<Rightarrow> execution \<times> rail_records" where
  "resume answer ex records = (case ex_phase ex of
     Awaiting_submit \<Rightarrow> (case answer of
         None \<Rightarrow> (ex\<lparr>ex_phase := Awaiting_query\<rparr>, records)
       | Some first \<Rightarrow> classify first ex records)
   | Awaiting_query \<Rightarrow> (case answer of
         None \<Rightarrow> (ex\<lparr>ex_phase := Threw UnknownOutcome\<rparr>, records)
       | Some first \<Rightarrow> classify first ex records)
   | Awaiting_secondary _ \<Rightarrow> (case answer of
         None \<Rightarrow> (ex\<lparr>ex_phase := Threw (Refused ''secondary submission rejected'')\<rparr>, records)
       | Some second \<Rightarrow>
           if \<not> accepted (sb_status second) then (ex\<lparr>ex_phase := Threw (Refused ''secondary outcome not accepted'')\<rparr>, records)
           else let (r, records') = coordinator_record (ex_intent ex) (ex_secondary ex) second records
                in (ex\<lparr>ex_phase := Returned r\<rparr>, records'))
   | Returned _ \<Rightarrow> (ex, records)
   | Threw _ \<Rightarrow> (ex, records))"

text \<open>The whole method when nothing interleaves: the answers of the three possible calls are given.\<close>

definition MultiRailCoordinator_execute ::
  "submission option \<Rightarrow> submission option \<Rightarrow> submission option \<Rightarrow> intent \<Rightarrow> string \<Rightarrow> string \<Rightarrow> rail_records \<Rightarrow>
     phase \<times> rail_records" where
  "MultiRailCoordinator_execute submitted queried submitted2 i primary secondary records =
    (let ex0 = begin_execute i primary secondary records;
         (ex1, m1) = resume submitted ex0 records;
         (ex2, m2) = (if ex_phase ex1 = Awaiting_query then resume queried ex1 m1 else (ex1, m1));
         (ex3, m3) = (case ex_phase ex2 of Awaiting_secondary _ \<Rightarrow> resume submitted2 ex2 m2 | _ \<Rightarrow> (ex2, m2))
     in (ex_phase ex3, m3))"

section \<open>Interleaved executions\<close>










section \<open>Provider status\<close>

record yellow_card_result =
  yc_reference :: string
  yc_sequenceId :: string
  yc_status :: rail_status
  yc_retryableWithoutBusinessEffect :: bool

definition normalizeYellowCardStatus :: "string \<Rightarrow> string \<Rightarrow> string \<Rightarrow> yellow_card_result" where
  "normalizeYellowCardStatus reference sequenceId rawStatus =
    (let v = map latin1_lower (js_trim rawStatus);
         result = (\<lambda>s retry. \<lparr>yc_reference = reference, yc_sequenceId = sequenceId, yc_status = s,
           yc_retryableWithoutBusinessEffect = retry\<rparr>)
     in if v \<in> set [''complete'', ''completed'', ''settled'', ''success'', ''successful''] then result RS_settled False
        else if v \<in> set [''created'', ''accepted'', ''processing'', ''pending'', ''in_progress'', ''awaiting_approval''] then result RS_pending False
        else if v \<in> set [''expired'', ''cancelled'', ''canceled'', ''rejected''] then result RS_failed True
        else result RS_unknown False)"

section \<open>Lemmas\<close>













section \<open>Properties\<close>

text \<open>
  A payment goes to the second rail only after the first rail answered, to the submission or to
  the query that follows a lost answer, with a failure it declares safe to retry; any other answer
  of the first rail than an acceptance ends in an error without a second submission.
\<close>

lemma fallback_only_after_definite_failure:
  assumes "in_id i \<noteq> []" and "in_idempotencyKey i \<noteq> []" and "m (in_idempotencyKey i) = None"
  shows "MultiRailCoordinator_execute a q b i p s m =
    (case (case a of Some first \<Rightarrow> Some first | None \<Rightarrow> q) of
       None \<Rightarrow> (Threw UnknownOutcome, m)
     | Some first \<Rightarrow>
         if accepted (sb_status first) then (Returned (p, first), m(in_idempotencyKey i \<mapsto> (p, first)))
         else if \<not> fallback_allowed first then (Threw UnknownOutcome, m)
         else (case b of
             None \<Rightarrow> (Threw (Refused ''secondary submission rejected''), m)
           | Some second \<Rightarrow>
               if accepted (sb_status second) then (Returned (s, second), m(in_idempotencyKey i \<mapsto> (s, second)))
               else (Threw (Refused ''secondary outcome not accepted''), m)))"
proof -
  have start: "begin_execute i p s m = \<lparr>ex_intent = i, ex_primary = p, ex_secondary = s, ex_phase = Awaiting_submit\<rparr>"
    using assms by (simp add: begin_execute_def)
  show ?thesis
    by (cases a; cases q; cases b)
      (simp_all add: MultiRailCoordinator_execute_def start resume_def classify_def coordinator_record_def assms(3) Let_def)
qed

definition sample_intent :: intent where
  "sample_intent = \<lparr>in_id = ''i'', in_idempotencyKey = ''k''\<rparr>"

definition answer_of :: "rail_status \<Rightarrow> bool option \<Rightarrow> submission" where
  "answer_of st safe = \<lparr>sb_status = st, sb_providerRef = None, sb_safeToRetry = safe\<rparr>"

lemma fallback_only_after_definite_failure_witness:
  "MultiRailCoordinator_execute None (Some (answer_of RS_failed (Some True))) (Some (answer_of RS_submitted None)) sample_intent ''a'' ''b'' Map.empty =
     (Returned (''b'', answer_of RS_submitted None), [''k'' \<mapsto> (''b'', answer_of RS_submitted None)])"
  using fallback_only_after_definite_failure [of sample_intent Map.empty None "Some (answer_of RS_failed (Some True))"
      "Some (answer_of RS_submitted None)" "''a''" "''b''"]
  by (simp add: sample_intent_def answer_of_def accepted_def fallback_allowed_def)







end
