(* ===== verification/Service_Bridge.thy ===== *)
theory Service_Bridge
  imports Service_Contracts Counterparty_Registry
begin

text \<open>
  The bridge to the Go, Rust and Python services (\<open>server/serviceBridge.ts\<close>): endpoint resolution,
  one contract-validated call, and the typed calls built on it. The URL parser, the validator of
  the zod package and the network are arguments; an answer of the network is a response with its
  status and, when the body is JSON, its value, or an abort, or a failure.
\<close>

section \<open>Endpoints\<close>

datatype service_name = Payment_engine | Risk_compliance_core | Reporting_analytics | Ledger_gateway

fun ENDPOINT_ENV :: "service_name \<Rightarrow> string" where
  "ENDPOINT_ENV Payment_engine = ''UMOJA_PAYMENT_ENGINE_URL''"
| "ENDPOINT_ENV Risk_compliance_core = ''UMOJA_RISK_CORE_URL''"
| "ENDPOINT_ENV Reporting_analytics = ''UMOJA_REPORTING_URL''"
| "ENDPOINT_ENV Ledger_gateway = ''UMOJA_LEDGER_GATEWAY_URL''"

record service_url = url +
  url_origin :: string
  url_pathname :: string

definition strip_slash :: "string \<Rightarrow> string" where
  "strip_slash p = (if p \<noteq> [] \<and> last p = CHR ''/'' then butlast p else p)"

definition loopback_host :: "string \<Rightarrow> bool" where
  "loopback_host h \<longleftrightarrow> h = ''127.0.0.1'' \<or> h = ''localhost'' \<or> h = ''::1''"

definition resolveServiceEndpoint ::
  "(string \<Rightarrow> service_url option) \<Rightarrow> service_name \<Rightarrow> (string \<rightharpoonup> string) \<Rightarrow> string option result" where
  "resolveServiceEndpoint parse_url service env =
    (case env (ENDPOINT_ENV service) of
       None \<Rightarrow> Inr None
     | Some raw \<Rightarrow>
         if js_trim raw = [] then Inr None
         else case parse_url (js_trim raw) of
           None \<Rightarrow> Inl (Refused (ENDPOINT_ENV service @ '' is not a valid absolute URL''))
         | Some u \<Rightarrow>
             if url_protocol u \<noteq> ''http:'' \<and> url_protocol u \<noteq> ''https:'' then
               Inl (Refused (ENDPOINT_ENV service @ '' must use http on loopback or https elsewhere''))
             else if url_protocol u = ''http:'' \<and> \<not> loopback_host (url_hostname u) then
               Inl (Refused (ENDPOINT_ENV service @ '' uses plain HTTP to a non-loopback host; TLS is required off-host''))
             else if url_username u \<noteq> [] \<or> url_password u \<noteq> [] then
               Inl (Refused (ENDPOINT_ENV service @ '' must not embed credentials in the URL''))
             else Inr (Some (url_origin u @ strip_slash (url_pathname u))))"

section \<open>Calls\<close>

datatype http_answer = Response nat "json option" | Aborted | Network_failure string

datatype bridge_outcome =
    Bridge_ok service_name json
  | Bridge_not_configured service_name string
  | Bridge_unavailable service_name string

fun error_message :: "error \<Rightarrow> string" where
  "error_message (Refused m) = m"
| "error_message (UniqueViolation m) = m"
| "error_message (ForeignKeyViolation m) = m"
| "error_message (CheckViolation m) = m"
| "error_message (NumericOverflow m) = m"

definition response_ok :: "nat \<Rightarrow> bool" where
  "response_ok status \<longleftrightarrow> 200 \<le> status \<and> status \<le> 299"

definition callService ::
  "(string \<Rightarrow> service_url option) \<Rightarrow> (string \<Rightarrow> json \<Rightarrow> http_answer) \<Rightarrow> nat \<Rightarrow> (string \<rightharpoonup> string) \<Rightarrow> service_name \<Rightarrow> string \<Rightarrow> json \<Rightarrow>
     (json \<Rightarrow> json result) \<Rightarrow> bridge_outcome" where
  "callService parse_url fetch timeoutMs env service path body validate =
    (case resolveServiceEndpoint parse_url service env of
       Inl er \<Rightarrow> Bridge_unavailable service (error_message er)
     | Inr None \<Rightarrow> Bridge_not_configured service (ENDPOINT_ENV service @ '' is not set; this service is disabled'')
     | Inr (Some endpoint) \<Rightarrow>
         (case fetch (endpoint @ path) body of
            Aborted \<Rightarrow> Bridge_unavailable service (''service did not respond within '' @ nat_text timeoutMs @ ''ms'')
          | Network_failure m \<Rightarrow> Bridge_unavailable service (''service could not be reached: '' @ m)
          | Response status decoded \<Rightarrow>
              if \<not> response_ok status then Bridge_unavailable service (''service returned HTTP '' @ nat_text status)
              else (case decoded of
                  None \<Rightarrow> Bridge_unavailable service ''service returned a non-JSON body''
                | Some v \<Rightarrow> (case validate v of
                    Inr res \<Rightarrow> Bridge_ok service res
                  | Inl er \<Rightarrow> Bridge_unavailable service (''contract violation: '' @ error_message er)))))"

section \<open>Typed calls\<close>














definition describeServiceConfiguration ::
  "(string \<Rightarrow> service_url option) \<Rightarrow> (string \<rightharpoonup> string) \<Rightarrow> (service_name \<times> bool \<times> string) list" where
  "describeServiceConfiguration parse_url env = map (\<lambda>service.
     case resolveServiceEndpoint parse_url service env of
       Inr None \<Rightarrow> (service, False, ENDPOINT_ENV service @ '' is not set'')
     | Inr (Some endpoint) \<Rightarrow> (service, True, ''configured at '' @ endpoint)
     | Inl er \<Rightarrow> (service, False, error_message er))
     [Payment_engine, Risk_compliance_core, Reporting_analytics, Ledger_gateway]"

section \<open>Lemmas\<close>

lemma endpoint_rules:
  assumes "resolveServiceEndpoint parse_url service env = Inr (Some endpoint)"
  shows "\<exists>raw u. env (ENDPOINT_ENV service) = Some raw \<and> parse_url (js_trim raw) = Some u \<and>
    (url_protocol u = ''https:'' \<or> url_protocol u = ''http:'' \<and> loopback_host (url_hostname u)) \<and>
    url_username u = [] \<and> url_password u = [] \<and> endpoint = url_origin u @ strip_slash (url_pathname u)"
  using assms by (auto simp: resolveServiceEndpoint_def split: option.splits if_splits)

lemma call_ok_iff:
  "callService parse_url fetch ms env service path body validate = Bridge_ok s res \<longleftrightarrow>
     s = service \<and> (\<exists>endpoint status v. resolveServiceEndpoint parse_url service env = Inr (Some endpoint) \<and>
       fetch (endpoint @ path) body = Response status (Some v) \<and> response_ok status \<and> validate v = Inr res)"
  by (auto simp: callService_def split: sum.splits option.splits http_answer.splits if_splits)


section \<open>Properties\<close>

text \<open>
  A bridge call succeeds exactly when the endpoint is configured, the service answered with a
  success status and a JSON body, and the contract parser accepts that body; every other case is
  an outcome with a reason. The endpoint called is HTTPS or on the loopback interface and carries no
  credentials.
\<close>

lemma bridge_ok_iff:
  "(callService parse_url fetch ms env service path body validate = Bridge_ok s res \<longleftrightarrow>
     s = service \<and> (\<exists>endpoint status v. resolveServiceEndpoint parse_url service env = Inr (Some endpoint) \<and>
       fetch (endpoint @ path) body = Response status (Some v) \<and> 200 \<le> status \<and> status \<le> 299 \<and> validate v = Inr res)) \<and>
   (callService parse_url fetch ms env service path body validate = Bridge_not_configured s why \<longrightarrow>
     s = service \<and> (\<forall>raw. env (ENDPOINT_ENV service) = Some raw \<longrightarrow> js_trim raw = [])) \<and>
   (resolveServiceEndpoint parse_url service env = Inr (Some endpoint) \<longrightarrow>
     (\<exists>raw u. env (ENDPOINT_ENV service) = Some raw \<and> parse_url (js_trim raw) = Some u \<and>
       (url_protocol u = ''https:'' \<or> url_protocol u = ''http:'' \<and> loopback_host (url_hostname u)) \<and>
       url_username u = [] \<and> url_password u = []))"
proof -
  have "s = service \<and> (\<forall>raw. env (ENDPOINT_ENV service) = Some raw \<longrightarrow> js_trim raw = [])"
    if "callService parse_url fetch ms env service path body validate = Bridge_not_configured s why"
    using that by (auto simp: callService_def resolveServiceEndpoint_def split: sum.splits option.splits http_answer.splits if_splits)
  then show ?thesis using call_ok_iff [of parse_url fetch ms env service path body validate s res]
      endpoint_rules [of parse_url service env endpoint] unfolding response_ok_def by blast
qed

definition sample_service_url :: service_url where
  "sample_service_url = \<lparr>url_protocol = ''https:'', url_username = [], url_password = [], url_hostname = ''risk.internal'',
     url_href = ''https://risk.internal/'', url_origin = ''https://risk.internal'', url_pathname = ''/''\<rparr>"

definition sample_service_env :: "string \<rightharpoonup> string" where
  "sample_service_env = (\<lambda>_. Some ''https://risk.internal/'')"

lemma bridge_ok_iff_witness:
  "callService (\<lambda>_. Some sample_service_url) (\<lambda>_ _. Response 200 (Some JNull)) 5000 sample_service_env Risk_compliance_core ''/v1'' JNull Inr =
     Bridge_ok Risk_compliance_core JNull"
proof -
  have "resolveServiceEndpoint (\<lambda>_. Some sample_service_url) Risk_compliance_core sample_service_env = Inr (Some ''https://risk.internal'')"
    by code_simp
  then show ?thesis
    using bridge_ok_iff [of "\<lambda>_. Some sample_service_url" "\<lambda>_ _. Response 200 (Some JNull)" 5000 sample_service_env Risk_compliance_core
      "''/v1''" JNull Inr Risk_compliance_core JNull] by simp
qed




end
