(* ===== verification/Service_Health.thy ===== *)
theory Service_Health
  imports Service_Bridge Js_Rounding Umoja_Store "HOL-Library.Char_ord" "HOL-Library.List_Lexorder"
begin

text \<open>
  Health of the services: collection (\<open>server/serviceHealth.ts\<close>), recorded samples and
  availability (\<open>server/serviceHealthHistory.ts\<close>), the service level verdict
  (\<open>server/serviceHealthSlo.ts\<close>) and one round of the monitor (\<open>server/serviceHealthMonitor.ts\<close>). The
  network, the URL parser, the metrics validator (nothing, or the text of the first issue), the date
  parser and the leader lock are arguments.
\<close>

section \<open>Collection\<close>

datatype language = Go | Rust | Python

fun language_text :: "language \<Rightarrow> string" where
  "language_text Go = ''go''"
| "language_text Rust = ''rust''"
| "language_text Python = ''python''"

fun service_text :: "service_name \<Rightarrow> string" where
  "service_text Payment_engine = ''payment-engine''"
| "service_text Risk_compliance_core = ''risk-compliance-core''"
| "service_text Reporting_analytics = ''reporting-analytics''"
| "service_text Ledger_gateway = ''ledger-gateway''"

definition MONITORED_SERVICES :: "service_name list" where
  "MONITORED_SERVICES = [Payment_engine, Risk_compliance_core, Reporting_analytics, Ledger_gateway]"

fun SERVICE_LANGUAGE :: "service_name \<Rightarrow> language" where
  "SERVICE_LANGUAGE Payment_engine = Go"
| "SERVICE_LANGUAGE Risk_compliance_core = Rust"
| "SERVICE_LANGUAGE Ledger_gateway = Rust"
| "SERVICE_LANGUAGE Reporting_analytics = Python"

definition HEALTH_TIMEOUT_MS :: nat where
  "HEALTH_TIMEOUT_MS = 3000"

text \<open>What the schema of the metrics documents: four fields, anything else passes through.\<close>

definition metricsSchema :: "json \<Rightarrow> bool" where
  "metricsSchema v \<longleftrightarrow> (case v of JObj _ \<Rightarrow>
       conforms (ZString 1) (\<lambda>_ _. False) (jfield ''service'' v) \<and>
       conforms (ZEnum [''go'', ''rust'', ''python'']) (\<lambda>_ _. False) (jfield ''language'' v) \<and>
       conforms (ZInt (Some 0)) (\<lambda>_ _. False) (jfield ''uptime_seconds'' v) \<and>
       conforms (ZString 1) (\<lambda>_ _. False) (jfield ''observed_at'' v)
     | _ \<Rightarrow> False)"

datatype service_status =
    Status_not_configured service_name string
  | Status_unreachable service_name string "nat option"
  | Status_healthy service_name nat int string "(string \<times> json) list" "(string \<times> json) list"

fun status_service :: "service_status \<Rightarrow> service_name" where
  "status_service (Status_not_configured s _) = s"
| "status_service (Status_unreachable s _ _) = s"
| "status_service (Status_healthy s _ _ _ _ _) = s"

definition finite_number :: "json \<Rightarrow> bool" where
  "finite_number v = (case v of JNum n \<Rightarrow> js_finite (fl (of_int n)) | JFrac s \<Rightarrow> js_finite (js_Number s) | _ \<Rightarrow> False)"

fun posture_value :: "json \<Rightarrow> bool" where
  "posture_value (JStr _) = True"
| "posture_value (JTime _) = True"
| "posture_value _ = False"

fun json_fields :: "json \<Rightarrow> (string \<times> json) list" where
  "json_fields (JObj fs) = fs"
| "json_fields _ = []"

definition reported :: "(json \<Rightarrow> bool) \<Rightarrow> json \<Rightarrow> (string \<times> json) list" where
  "reported P v = filter (\<lambda>(k, x). k \<notin> set [''service'', ''language'', ''observed_at''] \<and> P x) (json_fields v)"

definition collectServiceStatus ::
  "(string \<Rightarrow> service_url option) \<Rightarrow> (json \<Rightarrow> string option) \<Rightarrow> (string \<Rightarrow> http_answer \<times> nat) \<Rightarrow> (string \<rightharpoonup> string) \<Rightarrow> service_name \<Rightarrow>
     service_status" where
  "collectServiceStatus parse_url safeParse fetch env service =
    (case resolveServiceEndpoint parse_url service env of
       Inl er \<Rightarrow> Status_unreachable service (error_message er) None
     | Inr None \<Rightarrow> Status_not_configured service ''no endpoint is configured for this service, so it is disabled''
     | Inr (Some endpoint) \<Rightarrow>
         (let (answer, latencyMs) = fetch (endpoint @ ''/v1/metrics'')
          in case answer of
            Aborted \<Rightarrow> Status_unreachable service (''service did not respond within '' @ nat_text HEALTH_TIMEOUT_MS @ ''ms'') (Some latencyMs)
          | Network_failure m \<Rightarrow> Status_unreachable service (''service could not be reached: '' @ m) (Some latencyMs)
          | Response status decoded \<Rightarrow>
              if \<not> response_ok status then Status_unreachable service (''service returned HTTP '' @ nat_text status) (Some latencyMs)
              else (case decoded of
                None \<Rightarrow> Status_unreachable service ''service returned a non-JSON body'' (Some latencyMs)
              | Some v \<Rightarrow> (case safeParse v of
                  Some issue \<Rightarrow> Status_unreachable service (''metrics did not match the expected shape: '' @ issue) (Some latencyMs)
                | None \<Rightarrow>
                    if jstr (jfield ''language'' v) \<noteq> language_text (SERVICE_LANGUAGE service) then
                      Status_unreachable service (''endpoint reports itself as '' @ jstr (jfield ''language'' v) @ '', but '' @
                        service_text service @ '' is implemented in '' @ language_text (SERVICE_LANGUAGE service) @
                        ''; the endpoint is misconfigured'') (Some latencyMs)
                    else Status_healthy service latencyMs (jint (jfield ''uptime_seconds'' v)) (jstr (jfield ''observed_at'' v))
                      (reported finite_number v) (reported posture_value v)))))"

definition collectAllServiceStatuses ::
  "(string \<Rightarrow> service_url option) \<Rightarrow> (json \<Rightarrow> string option) \<Rightarrow> (string \<Rightarrow> http_answer \<times> nat) \<Rightarrow> (string \<rightharpoonup> string) \<Rightarrow> service_status list" where
  "collectAllServiceStatuses parse_url safeParse fetch env = map (collectServiceStatus parse_url safeParse fetch env) MONITORED_SERVICES"

section \<open>Samples\<close>

datatype sample_status = SS_healthy | SS_unreachable | SS_not_configured

record health_sample =
  hs_id :: uuid
  hs_service :: service_name
  hs_language :: language
  hs_status :: sample_status
  hs_latency_ms :: "int option"
  hs_uptime_seconds :: "int option"
  hs_counters :: "(string \<times> json) list"
  hs_posture :: "(string \<times> json) list"
  hs_reason :: "string option"
  hs_collected_at :: instant
  hs_service_observed_at :: "instant option"

fun sample_of :: "(string \<Rightarrow> instant option) \<Rightarrow> uuid \<Rightarrow> instant \<Rightarrow> service_status \<Rightarrow> health_sample result" where
  "sample_of date k collectedAt (Status_not_configured s why) =
     Inr \<lparr>hs_id = k, hs_service = s, hs_language = SERVICE_LANGUAGE s, hs_status = SS_not_configured, hs_latency_ms = None,
       hs_uptime_seconds = None, hs_counters = [], hs_posture = [], hs_reason = Some why, hs_collected_at = collectedAt,
       hs_service_observed_at = None\<rparr>"
| "sample_of date k collectedAt (Status_unreachable s why lat) =
     Inr \<lparr>hs_id = k, hs_service = s, hs_language = SERVICE_LANGUAGE s, hs_status = SS_unreachable, hs_latency_ms = None,
       hs_uptime_seconds = None, hs_counters = [], hs_posture = [], hs_reason = Some why, hs_collected_at = collectedAt,
       hs_service_observed_at = None\<rparr>"
| "sample_of date k collectedAt (Status_healthy s lat up obs counters posture) =
    (if obs \<noteq> [] \<and> date obs = None then Inl (Refused ''invalid input syntax for type timestamp with time zone'')
     else Inr \<lparr>hs_id = k, hs_service = s, hs_language = SERVICE_LANGUAGE s, hs_status = SS_healthy, hs_latency_ms = Some (int lat),
       hs_uptime_seconds = Some up, hs_counters = counters, hs_posture = posture, hs_reason = None, hs_collected_at = collectedAt,
       hs_service_observed_at = (if obs = [] then None else date obs)\<rparr>)"

definition insert_sample :: "health_sample \<Rightarrow> health_sample list \<Rightarrow> health_sample list result" where
  "insert_sample r table =
    (if find_row hs_id (hs_id r) table \<noteq> None then Inl (UniqueViolation ''service_health_samples'')
     else if (case hs_latency_ms r of None \<Rightarrow> False | Some l \<Rightarrow> 2147483647 < l) then Inl (NumericOverflow ''latency_ms'')
     else if hs_status r = SS_healthy \<and> hs_latency_ms r = None then Inl (CheckViolation ''service_health_samples_latency_coherent'')
     else if hs_status r \<noteq> SS_healthy \<and> (case hs_reason r of None \<Rightarrow> True | Some why \<Rightarrow> sql_trim why = []) then
       Inl (CheckViolation ''service_health_samples_reason_present'')
     else Inr (insert_row r table))"

text \<open>One transaction: the first failing row takes the whole round back.\<close>

fun insert_samples ::
  "(string \<Rightarrow> instant option) \<Rightarrow> (nat \<Rightarrow> uuid) \<Rightarrow> instant \<Rightarrow> nat \<Rightarrow> service_status list \<Rightarrow> health_sample list \<Rightarrow>
     (nat \<times> health_sample list) result" where
  "insert_samples date ids collectedAt written [] table = Inr (written, table)"
| "insert_samples date ids collectedAt written (s # ss) table =
    (case sample_of date (ids written) collectedAt s of
       Inl er \<Rightarrow> Inl er
     | Inr r \<Rightarrow> (case insert_sample r table of
         Inl er \<Rightarrow> Inl er
       | Inr table' \<Rightarrow> insert_samples date ids collectedAt (written + 1) ss table'))"

definition recordServiceHealthSamples ::
  "(string \<Rightarrow> instant option) \<Rightarrow> (nat \<Rightarrow> uuid) \<Rightarrow> service_status list \<Rightarrow> instant \<Rightarrow> health_sample list \<Rightarrow>
     (nat \<times> health_sample list) result" where
  "recordServiceHealthSamples date ids statuses collectedAt table =
    (if statuses = [] then Inr (0, table) else insert_samples date ids collectedAt 0 statuses table)"

section \<open>History and availability\<close>

definition clamp :: "int \<Rightarrow> int \<Rightarrow> int \<Rightarrow> int" where
  "clamp lo hi x = min (max x lo) hi"

definition window :: "instant \<Rightarrow> int \<Rightarrow> health_sample list \<Rightarrow> health_sample list" where
  "window now minutes table = filter (\<lambda>r. now - minutes * 60000 \<le> hs_collected_at r) table"

definition listServiceHealthHistory ::
  "instant \<Rightarrow> int option \<Rightarrow> service_name option \<Rightarrow> int option \<Rightarrow> health_sample list \<Rightarrow> health_sample list" where
  "listServiceHealthHistory now sinceMinutes service limit table =
    (let minutes = clamp 1 (60 * 24 * 30) (case_option 60 id sinceMinutes);
         n = clamp 1 20000 (case_option 2000 id limit);
         rows = filter (\<lambda>r. service = None \<or> service = Some (hs_service r)) (window now minutes table)
     in take (nat n) (sort_key hs_collected_at (sort_key (\<lambda>r. service_text (hs_service r)) rows)))"






section \<open>Service level\<close>







section \<open>The monitor\<close>

datatype monitor_outcome = Collected nat | Leader_unavailable | Monitor_failed string

definition health_strictEnabled :: "string option \<Rightarrow> bool result" where
  "health_strictEnabled value =
    (if value = None \<or> value = Some [] \<or> value = Some ''false'' then Inr False
     else if value = Some ''true'' then Inr True
     else Inl (Refused ''UMOJA_SERVICE_HEALTH_MONITOR_ENABLED must be true or false''))"

definition health_configuredInterval :: "string option \<Rightarrow> int result" where
  "health_configuredInterval value =
    (if value = None \<or> value = Some [] then Inr 300
     else if \<not> list_all is_digit (the value) then Inl (Refused ''UMOJA_SERVICE_HEALTH_MONITOR_INTERVAL_SECONDS must be an integer'')
     else let n = digits_value (the value)
          in if n < 60 \<or> 3600 < n then Inl (Refused ''UMOJA_SERVICE_HEALTH_MONITOR_INTERVAL_SECONDS must be between 60 and 3600'')
             else Inr n)"

definition runServiceHealthMonitorRound ::
  "bool result \<Rightarrow> service_status list result \<Rightarrow> (string \<Rightarrow> instant option) \<Rightarrow> (nat \<Rightarrow> uuid) \<Rightarrow> instant \<Rightarrow> health_sample list \<Rightarrow>
     monitor_outcome \<times> health_sample list" where
  "runServiceHealthMonitorRound leader collect date ids now table =
    (case leader of
       Inl er \<Rightarrow> (Monitor_failed (error_message er), table)
     | Inr False \<Rightarrow> (Leader_unavailable, table)
     | Inr True \<Rightarrow> (case collect of
         Inl er \<Rightarrow> (Monitor_failed (error_message er), table)
       | Inr services \<Rightarrow> (case recordServiceHealthSamples date ids services now table of
           Inl er \<Rightarrow> (Monitor_failed (error_message er), table)
         | Inr (written, table') \<Rightarrow> (Collected written, table'))))"

section \<open>Lemmas\<close>

lemma healthy_iff:
  "collectServiceStatus parse_url safeParse fetch env s = Status_healthy s' lat up obs cs ps \<longleftrightarrow>
     s' = s \<and> (\<exists>endpoint status v. resolveServiceEndpoint parse_url s env = Inr (Some endpoint) \<and>
       fetch (endpoint @ ''/v1/metrics'') = (Response status (Some v), lat) \<and> response_ok status \<and> safeParse v = None \<and>
       jstr (jfield ''language'' v) = language_text (SERVICE_LANGUAGE s) \<and> up = jint (jfield ''uptime_seconds'' v) \<and>
       obs = jstr (jfield ''observed_at'' v) \<and> cs = reported finite_number v \<and> ps = reported posture_value v)"
  by (auto simp: collectServiceStatus_def Let_def split: sum.splits option.splits prod.splits http_answer.splits if_splits)

lemma status_of_service [simp]: "status_service (collectServiceStatus parse_url safeParse fetch env s) = s"
  by (simp add: collectServiceStatus_def Let_def split: sum.splits option.splits prod.splits http_answer.splits)

lemma sample_of_service: "sample_of date k tm st = Inr r \<Longrightarrow> hs_service r = status_service st \<and> hs_collected_at r = tm"
  by (cases st) (auto split: if_splits)

lemma insert_samples_rows:
  "insert_samples date ids tm w ss table = Inr (n, table') \<Longrightarrow>
     n = w + length ss \<and> (\<exists>rows. table' = table @ rows \<and>
       list_all2 (\<lambda>s r. \<exists>k. sample_of date k tm s = Inr r \<and> (hs_status r \<noteq> SS_healthy \<longrightarrow> (\<exists>why. hs_reason r = Some why \<and> sql_trim why \<noteq> []))) ss rows)"
proof (induction ss arbitrary: w table)
  case (Cons s ss)
  then obtain r where r: "sample_of date (ids w) tm s = Inr r" by (cases "sample_of date (ids w) tm s") auto
  then obtain t1 where t1: "insert_sample r table = Inr t1" using Cons.prems by (cases "insert_sample r table") auto
  then have rest: "insert_samples date ids tm (w + 1) ss t1 = Inr (n, table')" using Cons.prems r by simp
  have t1': "t1 = table @ [r]" and ok: "hs_status r \<noteq> SS_healthy \<longrightarrow> (\<exists>why. hs_reason r = Some why \<and> sql_trim why \<noteq> [])"
    using t1 by (auto simp: insert_sample_def insert_row_def split: if_splits option.splits)
  obtain rows where n: "n = w + 1 + length ss" and tab: "table' = t1 @ rows"
    and all: "list_all2 (\<lambda>s r. \<exists>k. sample_of date k tm s = Inr r \<and> (hs_status r \<noteq> SS_healthy \<longrightarrow> (\<exists>why. hs_reason r = Some why \<and> sql_trim why \<noteq> []))) ss rows"
    using Cons.IH [OF rest] by blast
  have "table' = table @ (r # rows)" using tab t1' by simp
  moreover have "list_all2 (\<lambda>s r. \<exists>k. sample_of date k tm s = Inr r \<and> (hs_status r \<noteq> SS_healthy \<longrightarrow> (\<exists>why. hs_reason r = Some why \<and> sql_trim why \<noteq> []))) (s # ss) (r # rows)"
    using all r ok by auto
  ultimately show ?case using n by auto
qed simp

lemma list_all2_keys: "list_all2 P xs ys \<Longrightarrow> (\<And>x y. P x y \<Longrightarrow> f y = g x) \<Longrightarrow> map f ys = map g xs"
  by (induction xs ys rule: list_all2_induct) auto

lemma list_all2_source: "list_all2 P xs ys \<Longrightarrow> y \<in> set ys \<Longrightarrow> \<exists>x \<in> set xs. P x y"
  by (induction xs ys rule: list_all2_induct) auto

lemma healthy_sample:
  "sample_of date k tm st = Inr r \<Longrightarrow> hs_status r = SS_healthy \<Longrightarrow>
     \<exists>s lat up obs cs ps. st = Status_healthy s lat up obs cs ps \<and> hs_latency_ms r = Some (int lat) \<and> hs_counters r = cs"
  by (cases st) (auto split: if_splits)

lemma unhealthy_sample:
  "sample_of date k tm st = Inr r \<Longrightarrow> hs_status r \<noteq> SS_healthy \<Longrightarrow> hs_latency_ms r = None \<and> hs_counters r = [] \<and> hs_posture r = []"
  by (cases st) (auto split: if_splits)

section \<open>Properties\<close>

definition faithful_sample ::
  "(string \<Rightarrow> service_url option) \<Rightarrow> (json \<Rightarrow> string option) \<Rightarrow> (string \<Rightarrow> http_answer \<times> nat) \<Rightarrow> (string \<rightharpoonup> string) \<Rightarrow> health_sample \<Rightarrow> bool" where
  "faithful_sample parse_url safeParse fetch env r \<longleftrightarrow>
    (if hs_status r = SS_healthy then
       (\<exists>endpoint status v lat. resolveServiceEndpoint parse_url (hs_service r) env = Inr (Some endpoint) \<and>
          fetch (endpoint @ ''/v1/metrics'') = (Response status (Some v), lat) \<and> 200 \<le> status \<and> status \<le> 299 \<and> safeParse v = None \<and>
          jstr (jfield ''language'' v) = language_text (SERVICE_LANGUAGE (hs_service r)) \<and> hs_latency_ms r = Some (int lat) \<and>
          set (hs_counters r) \<subseteq> set (json_fields v))
     else hs_latency_ms r = None \<and> hs_counters r = [] \<and> (\<exists>why. hs_reason r = Some why \<and> sql_trim why \<noteq> []))"

lemma collected_sample:
  assumes k: "sample_of date k tm (collectServiceStatus parse_url safeParse fetch env s) = Inr r"
    and reason: "hs_status r \<noteq> SS_healthy \<longrightarrow> (\<exists>why. hs_reason r = Some why \<and> sql_trim why \<noteq> [])"
  shows "faithful_sample parse_url safeParse fetch env r"
proof (cases "hs_status r = SS_healthy")
  case True
  from healthy_sample [OF k True] obtain s' lat up obs cs ps
    where h: "collectServiceStatus parse_url safeParse fetch env s = Status_healthy s' lat up obs cs ps"
      "hs_latency_ms r = Some (int lat)" "hs_counters r = cs" by blast
  from h(1) obtain endpoint status v where "resolveServiceEndpoint parse_url s env = Inr (Some endpoint)"
    "fetch (endpoint @ ''/v1/metrics'') = (Response status (Some v), lat)" "response_ok status" "safeParse v = None"
    "jstr (jfield ''language'' v) = language_text (SERVICE_LANGUAGE s)" "cs = reported finite_number v"
    unfolding healthy_iff by blast
  moreover have "hs_service r = s" using sample_of_service [OF k] by simp
  moreover have "set (reported finite_number v) \<subseteq> set (json_fields v)" by (auto simp: reported_def)
  ultimately show ?thesis using True h(2,3) by (auto simp: faithful_sample_def response_ok_def)
next
  case False
  then show ?thesis using unhealthy_sample [OF k False] reason by (simp add: faithful_sample_def)
qed

text \<open>
  C24: A monitor round that holds the lock either records nothing or exactly one sample per
  monitored service, in order and with one common time. A sample is healthy only if that service
  answered in this round with a success status, metrics that validate and its own language, and then
  every counter was in the answer; a sample of any other status has no latency, no counter and a
  reason that is not blank.
\<close>

theorem round_records_observations:
  assumes "runServiceHealthMonitorRound (Inr True) (Inr (collectAllServiceStatuses parse_url safeParse fetch env)) date ids now table = (out, table')"
  shows "(table' = table \<and> (\<exists>why. out = Monitor_failed why)) \<or>
    (out = Collected 4 \<and> (\<exists>rows. table' = table @ rows \<and> map hs_service rows = MONITORED_SERVICES \<and>
      (\<forall>r \<in> set rows. hs_collected_at r = now \<and> faithful_sample parse_url safeParse fetch env r)))"
proof -
  let ?ss = "collectAllServiceStatuses parse_url safeParse fetch env"
  have len: "length ?ss = 4" by (simp add: collectAllServiceStatuses_def MONITORED_SERVICES_def)
  then have ne: "?ss \<noteq> []" by auto
  show ?thesis
  proof (cases "recordServiceHealthSamples date ids ?ss now table")
    case (Inl er)
    then show ?thesis using assms by (auto simp: runServiceHealthMonitorRound_def)
  next
    case (Inr p)
    obtain n tab where p: "p = (n, tab)" by (cases p)
    then have ins: "insert_samples date ids now 0 ?ss table = Inr (n, tab)" using Inr ne by (simp add: recordServiceHealthSamples_def)
    have out: "out = Collected n" "table' = tab" using assms Inr p by (simp_all add: runServiceHealthMonitorRound_def)
    obtain rows where n: "n = length ?ss" and tab: "tab = table @ rows"
      and all: "list_all2 (\<lambda>s r. \<exists>k. sample_of date k now s = Inr r \<and>
        (hs_status r \<noteq> SS_healthy \<longrightarrow> (\<exists>why. hs_reason r = Some why \<and> sql_trim why \<noteq> []))) ?ss rows"
      using insert_samples_rows [OF ins] by auto
    have "map hs_service rows = map status_service ?ss" using all by (rule list_all2_keys) (auto dest: sample_of_service)
    then have services: "map hs_service rows = MONITORED_SERVICES" by (simp add: collectAllServiceStatuses_def comp_def)
    have row: "hs_collected_at r = now \<and> faithful_sample parse_url safeParse fetch env r" if "r \<in> set rows" for r
    proof -
      from that obtain s where "s \<in> set ?ss" and s: "\<exists>k. sample_of date k now s = Inr r \<and>
          (hs_status r \<noteq> SS_healthy \<longrightarrow> (\<exists>why. hs_reason r = Some why \<and> sql_trim why \<noteq> []))"
        using list_all2_source [OF all] by blast
      then obtain m where "s = collectServiceStatus parse_url safeParse fetch env m" by (auto simp: collectAllServiceStatuses_def)
      then show ?thesis using s collected_sample sample_of_service by blast
    qed
    show ?thesis using out n len tab services row by auto
  qed
qed

definition quiet_fetch :: "string \<Rightarrow> http_answer \<times> nat" where
  "quiet_fetch = (\<lambda>_. (Network_failure ''refused'', 3))"

theorem round_records_observations_witness:
  "\<exists>rows. runServiceHealthMonitorRound (Inr True) (Inr (collectAllServiceStatuses (\<lambda>_. Some sample_service_url) (\<lambda>_. None) quiet_fetch
      sample_service_env)) (\<lambda>_. None) id 7 [] = (Collected 4, rows) \<and> map hs_service rows = MONITORED_SERVICES \<and>
      (\<forall>r \<in> set rows. hs_latency_ms r = None)"
proof -
  let ?run = "runServiceHealthMonitorRound (Inr True) (Inr (collectAllServiceStatuses (\<lambda>_. Some sample_service_url) (\<lambda>_. None) quiet_fetch
      sample_service_env)) (\<lambda>_. None) id 7 []"
  have "fst ?run = Collected 4" by code_simp
  then have eq: "?run = (Collected 4, snd ?run)" by (metis prod.collapse)
  moreover have "list_all (\<lambda>r. hs_status r \<noteq> SS_healthy) (snd ?run)" by code_simp
  ultimately show ?thesis
    using round_records_observations [OF eq] eq by (auto simp: list_all_iff faithful_sample_def intro!: exI [of _ "snd ?run"])
qed




end
