(* ===== verification/Control_Evidence.thy ===== *)
theory Control_Evidence
  imports Counterparty_Onboarding Service_Bridge
begin

text \<open>
  The outbox of control evidence: the triggers of \<open>database/postgresql/0014_control_evidence_outbox.sql\<close> on
  the onboarding tables and the drain of \<open>server/lakehouseControlEvidence.ts\<close>. The hash function, the
  text of a UUID, the catalogue service and the clock are arguments.
\<close>

section \<open>The outbox\<close>

datatype evidence_event = EE_created | EE_gate_decided | EE_recertification_started

datatype delivery_state = DS_pending | DS_delivered

record outbox_row =
  oe_id :: uuid
  oe_event_type :: evidence_event
  oe_correlation_sha256 :: string
  oe_observed_at :: instant
  oe_outcome :: string
  oe_corridor :: "corridor option"
  oe_delivery_state :: delivery_state
  oe_delivery_attempts :: nat
  oe_last_delivery_error :: "string option"
  oe_delivered_at :: "instant option"
  oe_created_at :: instant

record evidence_world =
  ew_sha256 :: "string \<Rightarrow> string"
  ew_uuid_text :: "uuid \<Rightarrow> string"

definition enqueue :: "uuid \<Rightarrow> instant \<Rightarrow> evidence_event \<Rightarrow> string \<Rightarrow> instant \<Rightarrow> string \<Rightarrow> outbox_row list \<Rightarrow> outbox_row list" where
  "enqueue k now ev correlation observedAt result rows =
    (if list_ex (\<lambda>r. oe_event_type r = ev \<and> oe_correlation_sha256 r = correlation) rows then rows
     else insert_row \<lparr>oe_id = k, oe_event_type = ev, oe_correlation_sha256 = correlation, oe_observed_at = observedAt,
       oe_outcome = result, oe_corridor = None, oe_delivery_state = DS_pending, oe_delivery_attempts = 0,
       oe_last_delivery_error = None, oe_delivered_at = None, oe_created_at = now\<rparr> rows)"

definition created_correlation :: "evidence_world \<Rightarrow> counterparty_onboarding \<Rightarrow> string" where
  "created_correlation w ob = ew_sha256 w (ew_uuid_text w (ob_id ob))"

definition gate_correlation :: "evidence_world \<Rightarrow> onboarding_gate_decision \<Rightarrow> string" where
  "gate_correlation w d = ew_sha256 w (ew_uuid_text w (gd_onboarding_id d) @ '':'' @ int_text (gd_cycle_number d) @ '':'' @
     onboarding_gate_text (gd_gate d) @ '':'' @ gate_decision_text (gd_decision d))"

definition recertification_correlation :: "evidence_world \<Rightarrow> counterparty_onboarding \<Rightarrow> string" where
  "recertification_correlation w ob = ew_sha256 w (ew_uuid_text w (ob_id ob) @ '':'' @ int_text (ob_cycle_number ob))"

text \<open>The three row triggers. \<open>k\<close> is the identifier the insert would draw.\<close>

definition enqueue_counterparty_onboarding_created_evidence ::
  "evidence_world \<Rightarrow> env \<Rightarrow> uuid \<Rightarrow> counterparty_onboarding \<Rightarrow> outbox_row list \<Rightarrow> outbox_row list" where
  "enqueue_counterparty_onboarding_created_evidence w e k ob =
     enqueue k (pg_now e) EE_created (created_correlation w ob) (pg_now e) ''created''"

definition enqueue_counterparty_onboarding_gate_evidence ::
  "evidence_world \<Rightarrow> env \<Rightarrow> uuid \<Rightarrow> onboarding_gate_decision \<Rightarrow> outbox_row list \<Rightarrow> outbox_row list" where
  "enqueue_counterparty_onboarding_gate_evidence w e k d =
     enqueue k (pg_now e) EE_gate_decided (gate_correlation w d) (pg_now e) (gate_decision_text (gd_decision d))"

definition enqueue_counterparty_recertification_evidence ::
  "evidence_world \<Rightarrow> env \<Rightarrow> uuid \<Rightarrow> counterparty_onboarding \<Rightarrow> counterparty_onboarding \<Rightarrow> outbox_row list \<Rightarrow> outbox_row list" where
  "enqueue_counterparty_recertification_evidence w e k old new rows =
    (if ob_cycle_number old < ob_cycle_number new then
       enqueue k (pg_now e) EE_recertification_started (recertification_correlation w new) (ob_updated_at new) ''recertification_started'' rows
     else rows)"

text \<open>
  The onboarding operations with their triggers, in one transaction. Each operation inserts at most
  one row into a table with an insert trigger or updates at most one row.
\<close>

type_synonym 'r etx = "outbox_row list \<times> db \<Rightarrow> ('r \<times> outbox_row list \<times> db) result"

definition onboarding_created_with_evidence ::
  "evidence_world \<Rightarrow> env \<Rightarrow> actor \<Rightarrow> uuid \<Rightarrow> uuid \<Rightarrow> corridor list \<Rightarrow> string \<Rightarrow> instant \<Rightarrow> counterparty_onboarding etx" where
  "onboarding_created_with_evidence w e a k counterpartyId overlays uri dueAt = (\<lambda>(rows, db).
     case createCounterpartyOnboarding e a counterpartyId overlays uri dueAt db of
       Inl er \<Rightarrow> Inl er
     | Inr (ob, db') \<Rightarrow> Inr (ob, enqueue_counterparty_onboarding_created_evidence w e k ob rows, db'))"

definition gate_decided_with_evidence :: "evidence_world \<Rightarrow> env \<Rightarrow> actor \<Rightarrow> uuid \<Rightarrow> gate_input \<Rightarrow> onboarding_stage etx" where
  "gate_decided_with_evidence w e a k i = (\<lambda>(rows, db).
     case decideCounterpartyOnboardingGate e a i db of
       Inl er \<Rightarrow> Inl er
     | Inr (stage, db') \<Rightarrow> Inr (stage, enqueue_counterparty_onboarding_gate_evidence w e k (last (onboarding_gate_decisions db')) rows, db'))"

definition recertification_with_evidence ::
  "evidence_world \<Rightarrow> env \<Rightarrow> actor \<Rightarrow> uuid \<Rightarrow> uuid \<Rightarrow> string \<Rightarrow> instant \<Rightarrow> unit etx" where
  "recertification_with_evidence w e a k onboardingId uri dueAt = (\<lambda>(rows, db).
     case beginCounterpartyRecertification e a onboardingId uri dueAt db of
       Inl er \<Rightarrow> Inl er
     | Inr (u, db') \<Rightarrow> Inr (u,
         (case (find_row ob_id onboardingId (counterparty_onboardings db), find_row ob_id onboardingId (counterparty_onboardings db')) of
            (Some old, Some new) \<Rightarrow> enqueue_counterparty_recertification_evidence w e k old new rows
          | _ \<Rightarrow> rows), db'))"

section \<open>The drain\<close>

datatype dispatch_configuration = Not_configured | Invalid_configuration | Dispatch service_url string

definition dispatchConfiguration :: "(string \<Rightarrow> service_url option) \<Rightarrow> string option \<Rightarrow> string option \<Rightarrow> dispatch_configuration" where
  "dispatchConfiguration parse_url endpointValue token =
    (case (endpointValue, token) of
       (Some v, Some t) \<Rightarrow>
         if v = [] \<or> t = [] then Not_configured
         else (case parse_url v of
             None \<Rightarrow> Invalid_configuration
           | Some u \<Rightarrow>
               if url_username u \<noteq> [] \<or> url_password u \<noteq> [] \<or>
                  (url_protocol u \<noteq> ''https:'' \<and> \<not> (url_protocol u = ''http:'' \<and> loopback_host (url_hostname u)))
               then Invalid_configuration else Dispatch u t)
     | _ \<Rightarrow> Not_configured)"

text \<open>Every \<open>http(s)://\<close> followed by text is replaced, then the message is cut.\<close>

definition url_start :: "string \<Rightarrow> nat option" where
  "url_start s = (if prefix ''http://'' s then Some 7 else if prefix ''https://'' s then Some 8 else None)"

function redact :: "string \<Rightarrow> string" where
  "redact [] = []"
| "redact (c # cs) =
    (case url_start (c # cs) of
       Some n \<Rightarrow>
         (let rest = drop n (c # cs)
          in if rest = [] \<or> is_js_space (hd rest) then c # redact cs
             else ''[endpoint]'' @ redact (dropWhile (\<lambda>x. \<not> is_js_space x) rest))
     | None \<Rightarrow> c # redact cs)"
  by pat_completeness auto

lemma dropWhile_drop_shorter: "0 < n \<Longrightarrow> length (dropWhile P (drop n (c # cs))) < Suc (length cs)"
  using length_dropWhile_le [of P "drop n (c # cs)"] by (cases n) (auto intro: le_less_trans)

termination redact
proof (relation "measure length")
  fix c :: char and cs :: string and n rest
  assume "url_start (c # cs) = Some n" and "rest = drop n (c # cs)"
  moreover from this have "0 < n" by (auto simp: url_start_def split: if_splits)
  ultimately show "(dropWhile (\<lambda>x. \<not> is_js_space x) rest, c # cs) \<in> measure length"
    using dropWhile_drop_shorter [of n "\<lambda>x. \<not> is_js_space x" c cs] by simp
qed auto

definition shortError :: "string \<Rightarrow> string" where
  "shortError message = take 300 (redact message)"

definition open_row :: "string option \<Rightarrow> outbox_row \<Rightarrow> bool" where
  "open_row scope r \<longleftrightarrow> oe_delivery_state r = DS_pending \<and> (case scope of None \<Rightarrow> True | Some c \<Rightarrow> oe_correlation_sha256 r = c)"

definition next_pending :: "string option \<Rightarrow> uuid list \<Rightarrow> outbox_row list \<Rightarrow> outbox_row option" where
  "next_pending scope attempted rows =
    (case sort_key oe_created_at (filter (\<lambda>r. open_row scope r \<and> oe_id r \<notin> set attempted) rows) of [] \<Rightarrow> None | r # _ \<Rightarrow> Some r)"

text \<open>The catalogue answers a row with a response or fails with a message.\<close>

definition delivery_failure :: "http_answer \<Rightarrow> string option" where
  "delivery_failure answer = (case answer of
     Response status _ \<Rightarrow> if response_ok status then None else Some (''catalog delivery returned status '' @ nat_text status)
   | Aborted \<Rightarrow> Some ''The operation was aborted due to timeout''
   | Network_failure m \<Rightarrow> Some m)"

definition attempted_row :: "instant \<Rightarrow> http_answer \<Rightarrow> outbox_row \<Rightarrow> outbox_row" where
  "attempted_row now answer r = (case delivery_failure answer of
     None \<Rightarrow> r\<lparr>oe_delivery_state := DS_delivered, oe_delivery_attempts := oe_delivery_attempts r + 1, oe_last_delivery_error := None,
        oe_delivered_at := Some now\<rparr>
   | Some m \<Rightarrow> r\<lparr>oe_delivery_attempts := oe_delivery_attempts r + 1, oe_last_delivery_error := Some (shortError m)\<rparr>)"

record drain_counts =
  dc_delivered :: nat
  dc_pending :: nat
  dc_failed :: nat

fun drain_loop ::
  "(outbox_row \<Rightarrow> http_answer) \<Rightarrow> instant \<Rightarrow> string option \<Rightarrow> nat \<Rightarrow> uuid list \<Rightarrow> drain_counts \<Rightarrow> outbox_row list \<Rightarrow>
     drain_counts \<times> outbox_row list" where
  "drain_loop post now scope 0 attempted c rows = (c, rows)"
| "drain_loop post now scope (Suc n) attempted c rows =
    (case next_pending scope attempted rows of
       None \<Rightarrow> (c, rows)
     | Some r \<Rightarrow>
         drain_loop post now scope n (attempted @ [oe_id r])
           (if delivery_failure (post r) = None then c\<lparr>dc_pending := dc_pending c + 1, dc_delivered := dc_delivered c + 1\<rparr>
            else c\<lparr>dc_pending := dc_pending c + 1, dc_failed := dc_failed c + 1\<rparr>)
           (update_row oe_id (oe_id r) (attempted_row now (post r)) rows))"

definition drain_bound :: "int \<Rightarrow> nat" where
  "drain_bound limit = nat (max 1 (min limit 100))"

definition drainLakehouseControlEvidence ::
  "dispatch_configuration \<Rightarrow> (outbox_row \<Rightarrow> http_answer) \<Rightarrow> instant \<Rightarrow> int \<Rightarrow> string option \<Rightarrow> outbox_row list \<Rightarrow>
     (string \<times> drain_counts) \<times> outbox_row list" where
  "drainLakehouseControlEvidence configuration post now limit correlation rows =
    (let zero = \<lparr>dc_delivered = 0, dc_pending = 0, dc_failed = 0\<rparr>
     in case configuration of
          Not_configured \<Rightarrow> ((''not_configured'', zero), rows)
        | Invalid_configuration \<Rightarrow> ((''invalid_configuration'', zero), rows)
        | Dispatch _ _ \<Rightarrow>
            (let (c, rows') = drain_loop post now correlation (drain_bound limit) [] zero rows
             in ((''completed'', c), rows')))"

section \<open>Steps and invariant\<close>

text \<open>A step is an onboarding operation with its trigger, a drain, or an operation on other tables.\<close>

inductive evidence_step :: "evidence_world \<Rightarrow> outbox_row list \<times> db \<Rightarrow> outbox_row list \<times> db \<Rightarrow> bool" for w where
  evidence_created: "onboarding_created_with_evidence w e a k c ov u d x = Inr (r1, y) \<Longrightarrow> k \<notin> oe_id ` set (fst x) \<Longrightarrow> evidence_step w x y"
| evidence_gate: "gate_decided_with_evidence w e a k i x = Inr (r2, y) \<Longrightarrow> k \<notin> oe_id ` set (fst x) \<Longrightarrow> evidence_step w x y"
| evidence_recertified: "recertification_with_evidence w e a k ob u d x = Inr (r3, y) \<Longrightarrow> k \<notin> oe_id ` set (fst x) \<Longrightarrow> evidence_step w x y"
| evidence_drained: "drainLakehouseControlEvidence cfg post now limit scope rows = (res, rows') \<Longrightarrow> evidence_step w (rows, db) (rows', db)"
| evidence_elsewhere: "counterparty_onboardings db' = counterparty_onboardings db \<Longrightarrow> onboarding_gate_decisions db' = onboarding_gate_decisions db \<Longrightarrow>
    evidence_step w (rows, db) (rows, db')"

definition evidence_slot :: "outbox_row \<Rightarrow> evidence_event \<times> string" where
  "evidence_slot r = (oe_event_type r, oe_correlation_sha256 r)"

definition evidence_inv :: "evidence_world \<Rightarrow> outbox_row list \<times> db \<Rightarrow> bool" where
  "evidence_inv w x \<longleftrightarrow> distinct_keys oe_id (fst x) \<and> distinct_keys evidence_slot (fst x) \<and>
     (\<forall>r \<in> set (fst x). (oe_delivery_state r = DS_delivered) = (oe_delivered_at r \<noteq> None) \<and>
        (oe_delivery_state r = DS_delivered \<longrightarrow> 0 < oe_delivery_attempts r)) \<and>
     (\<forall>ob \<in> set (counterparty_onboardings (snd x)). (EE_created, created_correlation w ob) \<in> evidence_slot ` set (fst x)) \<and>
     (\<forall>d \<in> set (onboarding_gate_decisions (snd x)). (EE_gate_decided, gate_correlation w d) \<in> evidence_slot ` set (fst x))"

section \<open>Enqueueing\<close>

lemma enqueue_slots: "evidence_slot ` set (enqueue k now ev c t oc rows) = insert (ev, c) (evidence_slot ` set rows)"
  by (force simp: enqueue_def insert_row_def evidence_slot_def list_ex_iff image_iff)

lemma enqueue_keeps: "set rows \<subseteq> set (enqueue k now ev c t oc rows)"
  by (auto simp: enqueue_def insert_row_def)

definition rows_ok :: "outbox_row list \<Rightarrow> bool" where
  "rows_ok rows \<longleftrightarrow> distinct_keys oe_id rows \<and> distinct_keys evidence_slot rows \<and>
     (\<forall>r \<in> set rows. (oe_delivery_state r = DS_delivered) = (oe_delivered_at r \<noteq> None) \<and>
        (oe_delivery_state r = DS_delivered \<longrightarrow> 0 < oe_delivery_attempts r))"

lemma evidence_inv_split:
  "evidence_inv w (rows, db) \<longleftrightarrow> rows_ok rows \<and>
     (\<forall>ob \<in> set (counterparty_onboardings db). (EE_created, created_correlation w ob) \<in> evidence_slot ` set rows) \<and>
     (\<forall>d \<in> set (onboarding_gate_decisions db). (EE_gate_decided, gate_correlation w d) \<in> evidence_slot ` set rows)"
  by (auto simp: evidence_inv_def rows_ok_def)

lemma enqueue_ok:
  assumes "rows_ok rows" and "k \<notin> oe_id ` set rows"
  shows "rows_ok (enqueue k now ev c t oc rows)"
proof (cases "list_ex (\<lambda>r. oe_event_type r = ev \<and> oe_correlation_sha256 r = c) rows")
  case False
  then have "(ev, c) \<notin> evidence_slot ` set rows" by (auto simp: list_ex_iff evidence_slot_def)
  then show ?thesis using assms False by (auto simp: rows_ok_def enqueue_def insert_row_def evidence_slot_def)
qed (use assms in \<open>simp add: enqueue_def\<close>)

section \<open>Draining\<close>

lemma attempted_row_fields [simp]:
  "oe_id (attempted_row now x r) = oe_id r" "evidence_slot (attempted_row now x r) = evidence_slot r"
  "oe_correlation_sha256 (attempted_row now x r) = oe_correlation_sha256 r"
  by (auto simp: attempted_row_def evidence_slot_def split: option.split)

lemma next_pending_Some:
  assumes "next_pending scope att rows = Some r"
  shows "r \<in> set rows \<and> open_row scope r \<and> oe_id r \<notin> set att"
proof -
  let ?xs = "filter (\<lambda>r. open_row scope r \<and> oe_id r \<notin> set att) rows"
  obtain ys where "sort_key oe_created_at ?xs = r # ys"
    using assms by (cases "sort_key oe_created_at ?xs") (simp_all add: next_pending_def)
  then have "r \<in> set (sort_key oe_created_at ?xs)" by simp
  then show ?thesis unfolding set_sort by simp
qed

lemma next_pending_None:
  assumes "next_pending scope att rows = None"
  shows "filter (\<lambda>r. open_row scope r \<and> oe_id r \<notin> set att) rows = []"
proof -
  let ?xs = "filter (\<lambda>r. open_row scope r \<and> oe_id r \<notin> set att) rows"
  have "sort_key oe_created_at ?xs = []" using assms by (cases "sort_key oe_created_at ?xs") (simp_all add: next_pending_def)
  then have "set ?xs = {}" using set_sort [of oe_created_at ?xs] by simp
  then show ?thesis unfolding set_empty .
qed

text \<open>What one drain does to the rows: it attempts the rows of \<open>att\<close> once each.\<close>

definition attempts_once :: "(outbox_row \<Rightarrow> http_answer) \<Rightarrow> instant \<Rightarrow> uuid set \<Rightarrow> outbox_row list \<Rightarrow> outbox_row list" where
  "attempts_once post now att rows = map (\<lambda>r. if oe_id r \<in> att then attempted_row now (post r) r else r) rows"

lemma left_after_attempt:
  assumes same: "\<And>x. oe_id (f x) = oe_id x"
    and "distinct_keys oe_id rows" and "r \<in> set rows" and "open_row scope r" and "oe_id r \<notin> set att"
  shows "Suc (length (filter (\<lambda>x. open_row scope x \<and> oe_id x \<notin> set (att @ [oe_id r])) (update_row oe_id (oe_id r) f rows))) =
    length (filter (\<lambda>x. open_row scope x \<and> oe_id x \<notin> set att) rows)"
  using assms(2-)
proof (induction rows)
  case (Cons y ys)
  show ?case
  proof (cases "y = r")
    case True
    then have "oe_id r \<notin> oe_id ` set ys" using Cons.prems(1) by simp
    then have others: "\<forall>x \<in> set ys. oe_id x \<noteq> oe_id r" by (metis image_eqI)
    then have "update_row oe_id (oe_id r) f ys = ys" by (simp add: update_row_def map_idI)
    moreover have "filter (\<lambda>x. open_row scope x \<and> oe_id x \<notin> set (att @ [oe_id r])) ys = filter (\<lambda>x. open_row scope x \<and> oe_id x \<notin> set att) ys"
      using others by (intro filter_cong) auto
    ultimately show ?thesis using True Cons.prems same by (simp add: update_row_def)
  next
    case False
    then have "r \<in> set ys" "oe_id y \<noteq> oe_id r" using Cons.prems by auto
    then show ?thesis using Cons by (simp add: update_row_def)
  qed
qed simp

lemma drain_loop_effect:
  assumes "distinct_keys oe_id rows" and "drain_loop post now scope n att c rows = (c', rows')"
  shows "\<exists>new. distinct new \<and> set new \<inter> set att = {} \<and> set new \<subseteq> oe_id ` set (filter (open_row scope) rows) \<and>
    length new = min n (length (filter (\<lambda>r. open_row scope r \<and> oe_id r \<notin> set att) rows)) \<and>
    dc_pending c' = dc_pending c + length new \<and>
    dc_delivered c' + dc_failed c' = dc_delivered c + dc_failed c + length new \<and>
    rows' = attempts_once post now (set new) rows"
  using assms
proof (induction n arbitrary: att c rows)
  case 0
  then show ?case by (intro exI [of _ "[]"]) (auto simp: attempts_once_def)
next
  case (Suc n)
  show ?case
  proof (cases "next_pending scope att rows")
    case None
    then show ?thesis using Suc.prems next_pending_None [OF None] by (intro exI [of _ "[]"]) (auto simp: attempts_once_def)
  next
    case (Some r)
    let ?f = "attempted_row now (post r)" and ?rows = "update_row oe_id (oe_id r) (attempted_row now (post r)) rows"
    let ?c = "if delivery_failure (post r) = None then c\<lparr>dc_pending := dc_pending c + 1, dc_delivered := dc_delivered c + 1\<rparr>
            else c\<lparr>dc_pending := dc_pending c + 1, dc_failed := dc_failed c + 1\<rparr>"
    note r = next_pending_Some [OF Some]
    have keys: "distinct_keys oe_id ?rows" using Suc.prems(1) by (simp add: map_key_update_row)
    have run: "drain_loop post now scope n (att @ [oe_id r]) ?c ?rows = (c', rows')" using Suc.prems(2) Some by simp
    obtain new where new: "distinct new" "set new \<inter> set (att @ [oe_id r]) = {}" "set new \<subseteq> oe_id ` set (filter (open_row scope) ?rows)"
      "length new = min n (length (filter (\<lambda>r'. open_row scope r' \<and> oe_id r' \<notin> set (att @ [oe_id r])) ?rows))"
      "dc_pending c' = dc_pending ?c + length new" "dc_delivered c' + dc_failed c' = dc_delivered ?c + dc_failed ?c + length new"
      "rows' = attempts_once post now (set new) ?rows"
      using Suc.IH [OF keys run] by blast
    have count: "Suc (length (filter (\<lambda>x. open_row scope x \<and> oe_id x \<notin> set (att @ [oe_id r])) ?rows)) =
        length (filter (\<lambda>x. open_row scope x \<and> oe_id x \<notin> set att) rows)"
      using left_after_attempt [OF _ Suc.prems(1), of ?f r scope att] r by simp
    have only: "x = r" if "x \<in> set rows" "oe_id x = oe_id r" for x
      using Suc.prems(1) r that by (metis distinct_map inj_onD)
    have "rows' = attempts_once post now (set (oe_id r # new)) rows"
      unfolding new(7) attempts_once_def update_row_def map_map comp_def using new(2) only by (intro map_cong) auto
    moreover have "set (oe_id r # new) \<subseteq> oe_id ` set (filter (open_row scope) rows)"
    proof -
      have "oe_id ` set (filter (open_row scope) ?rows) \<subseteq> oe_id ` set (filter (open_row scope) rows) \<union> {oe_id r}"
        by (auto simp: update_row_def)
      then show ?thesis using new(2,3) r by auto
    qed
    ultimately show ?thesis using new count r by (intro exI [of _ "oe_id r # new"]) auto
  qed
qed

lemma attempts_once_ok:
  assumes "rows_ok rows"
  shows "rows_ok (attempts_once post now att rows) \<and> evidence_slot ` set (attempts_once post now att rows) = evidence_slot ` set rows"
proof -
  have "map oe_id (attempts_once post now att rows) = map oe_id rows" "map evidence_slot (attempts_once post now att rows) = map evidence_slot rows"
    by (auto simp: attempts_once_def)
  moreover from this(2) have "evidence_slot ` set (attempts_once post now att rows) = evidence_slot ` set rows" by (metis set_map)
  moreover have "(oe_delivery_state y = DS_delivered) = (oe_delivered_at y \<noteq> None) \<and> (oe_delivery_state y = DS_delivered \<longrightarrow> 0 < oe_delivery_attempts y)"
    if "y \<in> set (attempts_once post now att rows)" for y
    using that assms by (auto simp: attempts_once_def rows_ok_def attempted_row_def split: option.splits if_splits)
  ultimately show ?thesis using assms by (simp add: rows_ok_def)
qed

section \<open>Every step keeps the invariant\<close>

lemma drain_rows:
  assumes "rows_ok rows" and "drainLakehouseControlEvidence cfg post now limit scope rows = (res, rows')"
  shows "rows_ok rows' \<and> evidence_slot ` set rows' = evidence_slot ` set rows"
proof (cases cfg)
  case (Dispatch u t)
  have keys: "distinct_keys oe_id rows" using assms(1) by (simp add: rows_ok_def)
  obtain c r where run: "drain_loop post now scope (drain_bound limit) [] \<lparr>dc_delivered = 0, dc_pending = 0, dc_failed = 0\<rparr> rows = (c, r)"
    by (cases "drain_loop post now scope (drain_bound limit) [] \<lparr>dc_delivered = 0, dc_pending = 0, dc_failed = 0\<rparr> rows")
  obtain new where "r = attempts_once post now (set new) rows" using drain_loop_effect [OF keys run] by blast
  moreover have "rows' = r" using assms(2) run Dispatch by (simp add: drainLakehouseControlEvidence_def)
  ultimately show ?thesis using attempts_once_ok [OF assms(1)] by simp
qed (use assms in \<open>simp_all add: drainLakehouseControlEvidence_def\<close>)

lemma created_rows:
  "createCounterpartyOnboarding e a c ov u d db = Inr (ob, db') \<Longrightarrow>
     counterparty_onboardings db' = insert_row ob (counterparty_onboardings db) \<and>
     onboarding_gate_decisions db' = onboarding_gate_decisions db"
  by (auto simp: createCounterpartyOnboarding_def Let_def insert_event_def split: sum.splits if_splits)

lemma gate_rows:
  assumes "decideCounterpartyOnboardingGate e a i db = Inr (st, db')"
  shows "\<exists>ob. find_row ob_id (gi_onboardingId i) (counterparty_onboardings db) = Some ob \<and> gate_guard a i ob db = Inr () \<and>
    st = next_stage i ob (onboarding_gate_decisions db') \<and>
    onboarding_gate_decisions db' = insert_row (gate_row a i ob) (onboarding_gate_decisions db) \<and>
    map ob_id (counterparty_onboardings db') = map ob_id (counterparty_onboardings db)"
proof -
  from assms obtain ob where ob: "find_row ob_id (gi_onboardingId i) (counterparty_onboardings db) = Some ob"
    and guard: "gate_guard a i ob db = Inr ()"
    by (auto simp: decideCounterpartyOnboardingGate_def split: if_splits option.splits sum.splits)
  have "map ob_id (update_row ob_id k (\<lambda>r. (set_gate_evidence g u r)\<lparr>ob_stage := s, ob_current_reason := x, ob_updated_at := t\<rparr>) rows) =
      map ob_id rows" for k g u s x t rows
    by (intro map_key_update_row) (auto simp: set_gate_evidence_def split: onboarding_gate.split)
  then show ?thesis using assms ob guard
    by (auto simp: decideCounterpartyOnboardingGate_def Let_def insert_event_def split: if_splits)
qed

lemma recertification_rows:
  "beginCounterpartyRecertification e a k u d db = Inr (x, db') \<Longrightarrow>
     map ob_id (counterparty_onboardings db') = map ob_id (counterparty_onboardings db) \<and>
     onboarding_gate_decisions db' = onboarding_gate_decisions db"
  by (auto simp: beginCounterpartyRecertification_def insert_event_def map_key_update_row split: if_splits option.splits)

lemma created_by_id:
  assumes "map ob_id xs = map ob_id ys"
  shows "(\<forall>ob \<in> set xs. (EE_created, created_correlation w ob) \<in> S) \<longleftrightarrow> (\<forall>ob \<in> set ys. (EE_created, created_correlation w ob) \<in> S)"
proof -
  have "(\<forall>ob \<in> set zs. (EE_created, created_correlation w ob) \<in> S) \<longleftrightarrow>
      (\<forall>k \<in> set (map ob_id zs). (EE_created, ew_sha256 w (ew_uuid_text w k)) \<in> S)" for zs
    by (simp add: created_correlation_def)
  then show ?thesis using assms by metis
qed

lemma evidence_step_inv:
  assumes "evidence_step w x y" and "evidence_inv w x"
  shows "evidence_inv w y \<and> evidence_slot ` set (fst x) \<subseteq> evidence_slot ` set (fst y)"
  using assms
proof (induction rule: evidence_step.induct)
  case (evidence_created e a k c ov u d x r1 y)
  obtain rows db where x: "x = (rows, db)" by (cases x)
  from evidence_created(1) obtain db' where run: "createCounterpartyOnboarding e a c ov u d db = Inr (r1, db')"
    and y: "y = (enqueue_counterparty_onboarding_created_evidence w e k r1 rows, db')"
    by (auto simp: onboarding_created_with_evidence_def x split: sum.splits)
  show ?case using evidence_created(2,3) created_rows [OF run]
    unfolding x y evidence_inv_split enqueue_counterparty_onboarding_created_evidence_def
    by (auto simp: enqueue_slots insert_row_def intro: enqueue_ok)
next
  case (evidence_gate e a k i x r2 y)
  obtain rows db where x: "x = (rows, db)" by (cases x)
  from evidence_gate(1) obtain db' where run: "decideCounterpartyOnboardingGate e a i db = Inr (r2, db')"
    and y: "y = (enqueue_counterparty_onboarding_gate_evidence w e k (last (onboarding_gate_decisions db')) rows, db')"
    by (auto simp: gate_decided_with_evidence_def x split: sum.splits)
  obtain d where ds: "onboarding_gate_decisions db' = insert_row d (onboarding_gate_decisions db)"
    and ids: "map ob_id (counterparty_onboardings db') = map ob_id (counterparty_onboardings db)"
    using gate_rows [OF run] by blast
  show ?case using evidence_gate(2,3)
    unfolding x y evidence_inv_split enqueue_counterparty_onboarding_gate_evidence_def created_by_id [OF ids]
    by (auto simp: enqueue_slots ds insert_row_def intro: enqueue_ok)
next
  case (evidence_recertified e a k ob u d x r3 y)
  obtain rows db where x: "x = (rows, db)" by (cases x)
  from evidence_recertified(1) obtain db' where run: "beginCounterpartyRecertification e a ob u d db = Inr (r3, db')" and "snd y = db'"
    by (auto simp: recertification_with_evidence_def x split: sum.splits)
  then obtain rows' where y: "y = (rows', db')" by (cases y) auto
  have rows': "rows' = rows \<or> (\<exists>c t. rows' = enqueue k (pg_now e) EE_recertification_started c t ''recertification_started'' rows)"
    using evidence_recertified(1) run unfolding x y
    by (auto simp: recertification_with_evidence_def enqueue_counterparty_recertification_evidence_def split: option.splits if_splits)
  have ok: "rows_ok rows'" "evidence_slot ` set rows \<subseteq> evidence_slot ` set rows'"
    using rows' evidence_recertified(2,3) by (auto simp: x evidence_inv_split enqueue_slots intro: enqueue_ok)
  have ids: "map ob_id (counterparty_onboardings db') = map ob_id (counterparty_onboardings db)"
    and ds: "onboarding_gate_decisions db' = onboarding_gate_decisions db" using recertification_rows [OF run] by simp_all
  show ?case using ok evidence_recertified(3) unfolding x y evidence_inv_split created_by_id [OF ids] ds by auto
next
  case (evidence_drained cfg post now limit scope rows res rows' db)
  then show ?case using drain_rows [OF _ evidence_drained(1)] unfolding evidence_inv_split by auto
qed (simp add: evidence_inv_split)

definition evidence_includes :: "evidence_world \<Rightarrow> (evidence_event \<times> string) set \<Rightarrow> outbox_row list \<times> db \<Rightarrow> bool" where
  "evidence_includes w S x \<longleftrightarrow> evidence_inv w x \<and> S \<subseteq> evidence_slot ` set (fst x)"

interpretation outbox: preserved "evidence_includes w S" "evidence_step w" for w S
proof
  show "evidence_includes w S y" if "evidence_includes w S x" "evidence_step w x y" for x y
    using evidence_step_inv [OF that(2)] that(1) unfolding evidence_includes_def by blast
qed

section \<open>Properties\<close>

text \<open>
  C13: Along any run of onboarding operations, drains and other work, every onboarding and every gate
  decision has its evidence row in the outbox, at most one row per event and correlation, no
  evidence ever disappears, and a delivered row was attempted and has its time of delivery.
\<close>

theorem evidence_complete:
  assumes run: "(evidence_step w)\<^sup>*\<^sup>* ([], db0) (rows, db)" and more: "(evidence_step w)\<^sup>*\<^sup>* (rows, db) (rows', db')"
    and start: "counterparty_onboardings db0 = []" "onboarding_gate_decisions db0 = []"
  shows "(\<forall>ob \<in> set (counterparty_onboardings db). (EE_created, created_correlation w ob) \<in> evidence_slot ` set rows) \<and>
    (\<forall>d \<in> set (onboarding_gate_decisions db). (EE_gate_decided, gate_correlation w d) \<in> evidence_slot ` set rows) \<and>
    distinct_keys evidence_slot rows \<and> evidence_slot ` set rows \<subseteq> evidence_slot ` set rows' \<and>
    (\<forall>r \<in> set rows. oe_delivery_state r = DS_delivered \<longrightarrow> oe_delivered_at r \<noteq> None \<and> 0 < oe_delivery_attempts r)"
proof -
  have "evidence_includes w {} ([], db0)" using start by (simp add: evidence_includes_def evidence_inv_def)
  then have "evidence_includes w {} (rows, db)" using outbox.run_inv [OF run] by blast
  then have inv: "evidence_inv w (rows, db)" by (simp add: evidence_includes_def)
  then have "evidence_includes w (evidence_slot ` set rows) (rows, db)" by (simp add: evidence_includes_def)
  then have "evidence_includes w (evidence_slot ` set rows) (rows', db')" using outbox.run_inv [OF more] by blast
  then have "evidence_slot ` set rows \<subseteq> evidence_slot ` set rows'" by (simp add: evidence_includes_def)
  then show ?thesis using inv by (auto simp: evidence_inv_def)
qed

definition sample_onboarding :: counterparty_onboarding where
  "sample_onboarding = \<lparr>ob_id = 1, ob_counterparty_id = 2, ob_country_overlays = [NIGERIA_NGN], ob_stage = OB_pilot, ob_cycle_number = 1,
     ob_legal_evidence_uri = ''u'', ob_technical_evidence_uri = Some ''u'', ob_pilot_evidence_uri = None,
     ob_recertification_due_at = Some 9, ob_current_reason = None, ob_created_by = ''adm'', ob_updated_at = 0\<rparr>"

definition first_approval :: onboarding_gate_decision where
  "first_approval = \<lparr>gd_onboarding_id = 1, gd_cycle_number = 1, gd_gate = Gate_pilot, gd_decision = Decision_approved, gd_evidence_uri = ''u'',
     gd_rationale = ''r'', gd_decided_by = ''officer'', gd_decided_role = Compliance_officer\<rparr>"

definition pilot_db :: db where
  "pilot_db = empty_db\<lparr>counterparty_onboardings := [sample_onboarding], onboarding_gate_decisions := [first_approval]\<rparr>"

definition plain_world :: evidence_world where
  "plain_world = \<lparr>ew_sha256 = id, ew_uuid_text = nat_text\<rparr>"

definition pilot_rows :: "outbox_row list" where
  "pilot_rows = enqueue 11 0 EE_gate_decided (gate_correlation plain_world first_approval) 0 ''approved''
     (enqueue 10 0 EE_created (created_correlation plain_world sample_onboarding) 0 ''created'' [])"

definition evidence_clock :: env where
  "evidence_clock = \<lparr>js_now = 1, pg_now = 1, pg_today = 0, new_uuid = 50, node_uuid = 51\<rparr>"

definition entered_db :: db where
  "entered_db = empty_db\<lparr>counterparties := [\<lparr>cp_id = 2, cp_legal_name = ''Bank'', cp_counterparty_type = ''licensed_psp'', cp_jurisdiction = ''Nigeria'',
     cp_lp_archetype = None, cp_bank_archetype = None, cp_psp_archetype = None, cp_stablecoin_issuer_archetype = None,
     cp_compliance_vendor_archetype = None\<rparr>]\<rparr>"

theorem evidence_complete_witness:
  "\<exists>rows db. (evidence_step plain_world)\<^sup>*\<^sup>* ([], entered_db) (rows, db) \<and> length (counterparty_onboardings db) = 1 \<and>
     (EE_created, ''50'') \<in> evidence_slot ` set rows"
proof -
  let ?x = "onboarding_created_with_evidence plain_world evidence_clock \<lparr>openId = ''adm'', role = Admin\<rparr> 10 2 [NIGERIA_NGN] ''https://e'' 99 ([], entered_db)"
  have ok: "\<not> isl ?x" and ids: "map ob_id (counterparty_onboardings (snd (snd (projr ?x)))) = [50]" by code_simp+
  then obtain r rows db where x: "?x = Inr (r, rows, db)" by (cases ?x) auto
  have "evidence_step plain_world ([], entered_db) (rows, db)" by (rule evidence_created [OF x]) simp
  then have run: "(evidence_step plain_world)\<^sup>*\<^sup>* ([], entered_db) (rows, db)" by blast
  have start: "counterparty_onboardings entered_db = []" "onboarding_gate_decisions entered_db = []"
    by (simp_all add: entered_db_def empty_db_def)
  obtain ob where obs: "counterparty_onboardings db = [ob]" "ob_id ob = 50" using ids x by (auto simp: map_eq_Cons_conv)
  have "created_correlation plain_world ob = ''50''" using obs(2) by (simp add: created_correlation_def plain_world_def) code_simp
  then have "(EE_created, ''50'') \<in> evidence_slot ` set rows"
    using evidence_complete [OF run rtranclp.rtrancl_refl start] obs by simp
  moreover have "length (counterparty_onboardings db) = 1" using obs by simp
  ultimately show ?thesis using run by blast
qed

text \<open>
  C32: A drain with a valid configuration attempts as many open rows as the bound allows, each exactly
  once, and leaves all other rows as they are: an attempted row is delivered when the catalogue
  accepts it and otherwise stays open with its error, the counts add up, and the run ends.
\<close>

theorem drain_attempts_once:
  assumes keys: "distinct_keys oe_id rows"
    and run: "drainLakehouseControlEvidence (Dispatch u t) post now limit scope rows = ((st, c), rows')"
  shows "st = ''completed'' \<and>
    (\<exists>att. att \<subseteq> oe_id ` set (filter (open_row scope) rows) \<and>
       card att = min (drain_bound limit) (length (filter (open_row scope) rows)) \<and>
       dc_pending c = card att \<and> dc_delivered c + dc_failed c = card att \<and>
       rows' = map (\<lambda>r. if oe_id r \<in> att then attempted_row now (post r) r else r) rows)"
proof -
  let ?zero = "\<lparr>dc_delivered = 0, dc_pending = 0, dc_failed = 0\<rparr>"
  obtain c1 r1 where loop: "drain_loop post now scope (drain_bound limit) [] ?zero rows = (c1, r1)"
    by (cases "drain_loop post now scope (drain_bound limit) [] ?zero rows")
  then have eqs: "st = ''completed''" "c1 = c" "r1 = rows'" using run by (simp_all add: drainLakehouseControlEvidence_def)
  obtain new where new: "distinct new" "set new \<subseteq> oe_id ` set (filter (open_row scope) rows)"
    "length new = min (drain_bound limit) (length (filter (open_row scope) rows))" "dc_pending c1 = length new"
    "dc_delivered c1 + dc_failed c1 = length new" "r1 = attempts_once post now (set new) rows"
    using drain_loop_effect [OF keys loop] by auto
  then show ?thesis using eqs by (intro conjI exI [of _ "set new"]) (auto simp: distinct_card attempts_once_def)
qed

theorem drain_attempts_once_witness:
  "\<exists>c rows'. drainLakehouseControlEvidence (Dispatch sample_service_url ''tok'') (\<lambda>r. if oe_event_type r = EE_created then Response 200 None else Aborted)
      7 25 None pilot_rows = ((''completed'', c), rows') \<and> dc_pending c = 2 \<and> dc_delivered c + dc_failed c = 2 \<and> length rows' = 2"
proof -
  let ?run = "drainLakehouseControlEvidence (Dispatch sample_service_url ''tok'') (\<lambda>r. if oe_event_type r = EE_created then Response 200 None else Aborted)
      7 25 None pilot_rows"
  have keys: "distinct_keys oe_id pilot_rows" and n: "length (filter (open_row None) pilot_rows) = 2" and l: "length pilot_rows = 2" by code_simp+
  have b: "drain_bound 25 = 25" by (simp add: drain_bound_def)
  obtain st c rows' where run: "?run = ((st, c), rows')" by (metis prod.collapse)
  have "st = ''completed''" "dc_pending c = 2" "dc_delivered c + dc_failed c = 2" "length rows' = 2"
    using drain_attempts_once [OF keys run] n l b by auto
  then show ?thesis using run by blast
qed

text \<open>
  C38: The decision that completes the pilot gate, the second approval that brings a counterparty to
  its steady state, leaves no evidence of its own: its correlation has no trace of who decided, so
  the outbox already has a row for it and the insert is skipped.
\<close>

theorem second_approval_leaves_no_evidence:
  assumes inv: "evidence_inv w (rows, db)" and run: "gate_decided_with_evidence w e a k i (rows, db) = Inr (OB_steady_state, rows', db')"
  shows "rows' = rows \<and> length (onboarding_gate_decisions db') = Suc (length (onboarding_gate_decisions db))"
proof -
  from run have gate: "decideCounterpartyOnboardingGate e a i db = Inr (OB_steady_state, db')"
    and rows': "rows' = enqueue_counterparty_onboarding_gate_evidence w e k (last (onboarding_gate_decisions db')) rows"
    by (auto simp: gate_decided_with_evidence_def split: sum.splits)
  obtain ob where guard: "gate_guard a i ob db = Inr ()" and st: "OB_steady_state = next_stage i ob (onboarding_gate_decisions db')"
    and ds: "onboarding_gate_decisions db' = insert_row (gate_row a i ob) (onboarding_gate_decisions db)"
    using gate_rows [OF gate] by blast
  let ?old = "gate_decisions (gi_onboardingId i) (ob_cycle_number ob) Gate_pilot (onboarding_gate_decisions db)"
  have "ob_stage ob = stageForGate (gi_gate i)" using guard by (auto simp: gate_guard_def split: if_splits)
  then have pilot: "gi_decision i = Decision_approved" "gi_gate i = Gate_pilot"
    and two: "length (filter (\<lambda>d. gd_decision d = Decision_approved)
      (gate_decisions (gi_onboardingId i) (ob_cycle_number ob) Gate_pilot (onboarding_gate_decisions db'))) = 2"
    using st by (auto simp: next_stage_def split: if_splits onboarding_gate.splits gate_decision.splits)
      (metis gate_decision.exhaust)+
  then have "length (filter (\<lambda>d. gd_decision d = Decision_approved) ?old) = 1"
    unfolding ds gate_decisions_insert by (simp add: gate_row_def)
  then obtain d where "filter (\<lambda>d. gd_decision d = Decision_approved) ?old = [d]" by (auto simp: length_Suc_conv)
  then have "d \<in> set (filter (\<lambda>d. gd_decision d = Decision_approved) ?old)" by simp
  then have "d \<in> set ?old" "gd_decision d = Decision_approved" by simp_all
  then have d: "d \<in> set (onboarding_gate_decisions db)" "gate_correlation w d = gate_correlation w (gate_row a i ob)"
    using pilot by (auto simp: gate_decisions_def gate_correlation_def gate_row_def)
  then have "(EE_gate_decided, gate_correlation w (gate_row a i ob)) \<in> evidence_slot ` set rows"
    using inv unfolding evidence_inv_split by metis
  then have "list_ex (\<lambda>r. oe_event_type r = EE_gate_decided \<and> oe_correlation_sha256 r = gate_correlation w (gate_row a i ob)) rows"
    unfolding list_ex_iff evidence_slot_def image_iff by (metis prod.inject)
  then have "rows' = rows" unfolding rows' ds
    by (simp add: insert_row_def enqueue_counterparty_onboarding_gate_evidence_def enqueue_def)
  then show ?thesis by (simp add: ds insert_row_def)
qed

definition second_input :: gate_input where
  "second_input = \<lparr>gi_onboardingId = 1, gi_gate = Gate_pilot, gi_decision = Decision_approved, gi_evidenceUri = ''u'', gi_rationale = ''r''\<rparr>"

theorem second_approval_leaves_no_evidence_witness:
  "\<exists>db'. gate_decided_with_evidence plain_world evidence_clock \<lparr>openId = ''desk'', role = Treasury_operator\<rparr> 12 second_input (pilot_rows, pilot_db) =
      Inr (OB_steady_state, pilot_rows, db') \<and> length (onboarding_gate_decisions db') = 2"
proof -
  let ?x = "gate_decided_with_evidence plain_world evidence_clock \<lparr>openId = ''desk'', role = Treasury_operator\<rparr> 12 second_input (pilot_rows, pilot_db)"
  have inv: "evidence_inv plain_world (pilot_rows, pilot_db)" by code_simp
  have ok: "\<not> isl ?x" and st: "fst (projr ?x) = OB_steady_state" by code_simp+
  then obtain rows' db' where x: "?x = Inr (OB_steady_state, rows', db')" by (cases ?x) auto
  have "length (onboarding_gate_decisions pilot_db) = 1" by (simp add: pilot_db_def)
  then show ?thesis using second_approval_leaves_no_evidence [OF inv x] x by auto
qed

end
