(* ===== verification/Platform.thy ===== *)
theory Platform
  imports Control_Plane Access_Control Control_Evidence
begin

text \<open>
  The canonical store together with the role tables and the evidence outbox. A step is an operation
  of the core that leaves the onboarding tables alone, an onboarding operation with its trigger, an
  operation on roles, or a drain of the outbox.
\<close>

record platform =
  pf_outbox :: "outbox_row list"
  pf_access :: access_tables
  pf_db :: db

definition empty_platform :: platform where
  "empty_platform = \<lparr>pf_outbox = [], pf_access = empty_access, pf_db = empty_db\<rparr>"

inductive platform_step :: "evidence_world \<Rightarrow> platform \<Rightarrow> platform \<Rightarrow> bool" for w where
  core_moved: "umoja_step (pf_db p) db' \<Longrightarrow> counterparty_onboardings db' = counterparty_onboardings (pf_db p) \<Longrightarrow>
    onboarding_gate_decisions db' = onboarding_gate_decisions (pf_db p) \<Longrightarrow> platform_step w p (p\<lparr>pf_db := db'\<rparr>)"
| onboarding_entered: "onboarding_created_with_evidence w e a k c ov u d (pf_outbox p, pf_db p) = Inr (r1, rows', db') \<Longrightarrow>
    k \<notin> oe_id ` set (pf_outbox p) \<Longrightarrow> platform_step w p (p\<lparr>pf_outbox := rows', pf_db := db'\<rparr>)"
| onboarding_gated: "gate_decided_with_evidence w e a k i (pf_outbox p, pf_db p) = Inr (r2, rows', db') \<Longrightarrow>
    k \<notin> oe_id ` set (pf_outbox p) \<Longrightarrow> platform_step w p (p\<lparr>pf_outbox := rows', pf_db := db'\<rparr>)"
| onboarding_renewed: "recertification_with_evidence w e a k ob u d (pf_outbox p, pf_db p) = Inr (r3, rows', db') \<Longrightarrow>
    k \<notin> oe_id ` set (pf_outbox p) \<Longrightarrow> platform_step w p (p\<lparr>pf_outbox := rows', pf_db := db'\<rparr>)"
| outbox_drained: "drainLakehouseControlEvidence cfg post now limit scope (pf_outbox p) = (res, rows') \<Longrightarrow>
    platform_step w p (p\<lparr>pf_outbox := rows'\<rparr>)"
| roles_moved: "access_step (pf_access p, pf_db p) (t', db') \<Longrightarrow> platform_step w p (p\<lparr>pf_access := t', pf_db := db'\<rparr>)"

definition platform_inv :: "evidence_world \<Rightarrow> platform \<Rightarrow> bool" where
  "platform_inv w p \<longleftrightarrow> umoja_inv (pf_db p) \<and> access_inv (pf_access p) \<and> evidence_inv w (pf_outbox p, pf_db p)"

section \<open>Lemmas\<close>

lemma umoja_inv_log:
  assumes "umoja_inv db"
  shows "umoja_inv (db\<lparr>activity_events := activity_events db @ es\<rparr>)" (is "umoja_inv ?db")
proof -
  have invs: "compliance_inv db" "payment_inv db" "registry_inv db" "onboarding_inv db" "office_inv db"
    using assms by (simp_all add: umoja_inv_def)
  have "compliance_inv ?db" by (rule compliance_inv_extend [OF invs(1)]) simp_all
  moreover have "payment_inv ?db" by (rule payment_inv_cong [THEN iffD2, OF _ _ _ invs(2)]) simp_all
  moreover have "registry_inv ?db" by (rule registry_inv_cong [THEN iffD2, OF _ _ _ _ invs(3)]) simp_all
  moreover have "onboarding_inv ?db" by (rule onboarding_inv_cong [THEN iffD2, OF _ _ invs(4)]) simp_all
  moreover have "office_inv ?db" by (rule office_inv_cong [OF _ invs(5)]) (simp add: kept_defs)
  ultimately show ?thesis by (simp add: umoja_inv_def)
qed

lemma evidence_elsewhere_inv:
  assumes "evidence_inv w (rows, db)" and "counterparty_onboardings db' = counterparty_onboardings db"
    and "onboarding_gate_decisions db' = onboarding_gate_decisions db"
  shows "evidence_inv w (rows, db')"
  using evidence_step_inv [OF evidence_step.evidence_elsewhere [OF assms(2,3)] assms(1)] by blast

lemma with_evidence_steps:
  "onboarding_created_with_evidence w e a k c ov u d (rows, db) = Inr (r1, rows', db') \<Longrightarrow> umoja_step db db'"
  "gate_decided_with_evidence w e a k i (rows, db) = Inr (r2, rows', db') \<Longrightarrow> umoja_step db db'"
  "recertification_with_evidence w e a k ob u d (rows, db) = Inr (r3, rows', db') \<Longrightarrow> umoja_step db db'"
  by (auto simp: onboarding_created_with_evidence_def gate_decided_with_evidence_def recertification_with_evidence_def
      split: sum.splits intro!: umoja_step.onboarding intro: onboarding_step.intros)

lemma platform_core:
  assumes "platform_step w p q"
  shows "umoja_step (pf_db p) (pf_db q) \<or> (\<exists>es. pf_db q = (pf_db p)\<lparr>activity_events := activity_events (pf_db p) @ es\<rparr>)"
  using assms
proof cases
  case (outbox_drained cfg post now limit scope res rows')
  then show ?thesis by (intro disjI2 exI [of _ "[]"]) simp
next
  case (roles_moved t' db')
  then show ?thesis using access_step_quiet [OF roles_moved(2)] by simp
qed (simp_all add: with_evidence_steps)

lemma platform_evidence:
  assumes "platform_step w p q" and "evidence_inv w (pf_outbox p, pf_db p)"
  shows "evidence_inv w (pf_outbox q, pf_db q)"
  using assms(1)
proof cases
  case (core_moved db')
  then show ?thesis using evidence_elsewhere_inv [OF assms(2)] by simp
next
  case (onboarding_entered e a k c ov u d r1 rows' db')
  then show ?thesis using evidence_step_inv [OF evidence_step.evidence_created [OF onboarding_entered(2)] assms(2)] by simp
next
  case (onboarding_gated e a k i r2 rows' db')
  then show ?thesis using evidence_step_inv [OF evidence_step.evidence_gate [OF onboarding_gated(2)] assms(2)] by simp
next
  case (onboarding_renewed e a k ob u d r3 rows' db')
  then show ?thesis using evidence_step_inv [OF evidence_step.evidence_recertified [OF onboarding_renewed(2)] assms(2)] by simp
next
  case (outbox_drained cfg post now limit scope res rows')
  then show ?thesis using evidence_step_inv [OF evidence_step.evidence_drained [OF outbox_drained(2)] assms(2)] by simp
next
  case (roles_moved t' db')
  then show ?thesis using access_step_quiet [OF roles_moved(2)] evidence_elsewhere_inv [OF assms(2)] by auto
qed

lemma platform_access:
  assumes "platform_step w p q" and "access_inv (pf_access p)"
  shows "access_inv (pf_access q)"
  using assms(1)
proof cases
  case (roles_moved t' db')
  then show ?thesis using access_step_inv [OF roles_moved(2)] assms(2) by simp
qed (use assms(2) in simp_all)

interpretation whole: preserved "platform_inv w" "platform_step w" for w
proof
  show "platform_inv w q" if inv: "platform_inv w p" and step: "platform_step w p q" for p q
  proof -
    have "umoja_inv (pf_db p)" using inv by (simp add: platform_inv_def)
    then have "umoja_inv (pf_db q)" using platform_core [OF step] umoja_step_inv umoja_inv_log by metis
    then show ?thesis using platform_evidence [OF step] platform_access [OF step] inv by (simp add: platform_inv_def)
  qed
qed

interpretation whole_trail: audited "\<lambda>p. activity_events (pf_db p)" "platform_step w" for w
proof
  show "prefix (activity_events (pf_db p)) (activity_events (pf_db q))" if "platform_step w p q" for p q
    using platform_core [OF that] umoja_step_appends by force
qed

lemma empty_platform_inv: "platform_inv w empty_platform"
  by (simp add: platform_inv_def empty_platform_def empty_db_inv access_inv_def empty_access_def evidence_inv_def)
    (simp add: empty_db_def)

end
