(* ===== verification/Spec2Isabelle.thy ===== *)
theory Spec2Isabelle
  imports Payment_Properties Compliance_Properties Service_Properties Alerting_Properties Assurance_Properties
    Treasury_Properties Registry_Properties Order_Record Payment_Path Office_Path Api_Properties Multi_Rail
    Service_Health Platform
begin

text \<open>
  A verification library for the control plane of UmojaFlowOS, the TypeScript server under
  \<open>src/apps/control-plane/server\<close> (called \<open>server/\<close> below) and the PostgreSQL schema under
  \<open>src/database/postgresql\<close> (\<open>database/\<close>).

  \<^bold>\<open>The program.\<close> The control plane keeps the records of a cross-border payment operation and never
  moves money itself. Operators sign in through an identity provider, get a role from the role
  tables and call the routes of \<open>server/routers.ts\<close>, each behind a role gate. A route runs one operation on
  the canonical store, inside one transaction that also appends to the audit trail
  \<open>activity_events\<close>. Beside the payment path there are compliance work, onboarding of counterparties,
  readiness assurance, treasury, operational alerts, and the bridge to Go, Rust and Python services
  whose answers are validated and never trusted.

  \<^bold>\<open>How code becomes definitions.\<close> A table is a list of rows, a row a record with the columns of
  the schema, the store the record \<^typ>\<open>db\<close>. An operation is a function \<open>db \<Rightarrow> ('r \<times> db) result\<close>:
  \<open>Inl\<close> is an exception or a violated constraint and stands for the rollback, \<open>Inr\<close> for the commit.
  Clocks and generated identifiers come in an \<^typ>\<open>env\<close>. An operation that commits and then calls an
  outside system returns its result beside the new tables. Role tables, samples and the evidence
  outbox are records of their own. Third-party code (zod, the URL parser, fetch, digests, the identity
  provider, the notification service) is a parameter of the definitions that use it.

  \<^bold>\<open>Theories and the code they model.\<close>

  \<^item> \<open>Umoja_Prelude\<close>: basic types, JSON, errors, tables, and the four contracts \<open>keyed_table\<close>,
    \<open>audited\<close>, \<open>preserved\<close> and \<open>lifecycle\<close>. \<open>Umoja_Store\<close>: the tables and enumerations of
    \<open>database/\<close>.
  \<^item> \<open>Payment_Workflow\<close>, \<open>Payment_Properties\<close>: rate locks, orders and legs (\<open>server/paymentWorkflow.ts\<close>
    and the lock operations of \<open>server/postgres.ts\<close>).
  \<^item> \<open>Compliance_Workflow\<close>, \<open>Compliance_Properties\<close>: \<open>server/complianceAlerts.ts\<close>,
    \<open>server/complianceCaseWorkflow.ts\<close> and the filings of \<open>server/postgres.ts\<close>.
  \<^item> \<open>Counterparty_Registry\<close>, \<open>Registry_Properties\<close>: customers, beneficiaries, screening,
    counterparties, authorisations and integrations (\<open>server/postgres.ts\<close>, \<open>server/providerHealthCheck.ts\<close>).
    \<open>Counterparty_Onboarding\<close>: \<open>server/counterpartyOnboarding.ts\<close>. \<open>Customer_Use_Case\<close>:
    \<open>server/customerUseCase.ts\<close>. \<open>Phase_Lifecycles\<close>: \<open>server/operatorOnboardingLifecycle.ts\<close> and
    \<open>server/auditorEngagementLifecycle.ts\<close>.
  \<^item> \<open>Readiness_Assurance\<close>, \<open>Duties_Monitor\<close>, \<open>Assurance_Properties\<close>: \<open>server/vaspReadinessAssurance.ts\<close>,
    \<open>server/legalEntityRegistry.ts\<close>, the dossiers of \<open>server/cbnSandbox.ts\<close>, and
    \<open>server/segregationOfDutiesMonitor.ts\<close> with its audit log.
  \<^item> \<open>Operational_Alerts\<close>, \<open>Alerting_Properties\<close>: \<open>server/operationalAlerts.ts\<close>. \<open>Treasury_Desk\<close>,
    \<open>Treasury_Properties\<close>: treasury, reports and risk reviews of \<open>server/postgres.ts\<close> and the FX
    spread. \<open>Js_Numbers\<close>, \<open>Js_Rounding\<close>: the 64-bit numbers both rely on.
  \<^item> \<open>Service_Contracts\<close>, \<open>Service_Properties\<close>: \<open>server/contracts/\<close>, over the contract
    \<open>zod_validator\<close>. \<open>Service_Bridge\<close>: \<open>server/serviceBridge.ts\<close>. \<open>Service_Health\<close>: \<open>server/serviceHealth.ts\<close>
    and its history, service levels and monitor. \<open>Control_Evidence\<close>: the triggers of
    \<open>database/0014\<close> and \<open>server/lakehouseControlEvidence.ts\<close>. \<open>Multi_Rail\<close>:
    \<open>server/multiRailFailover.ts\<close> and \<open>server/yellowcardAdapter.ts\<close>.
  \<^item> \<open>Access_Control\<close>, \<open>Access_Properties\<close>: \<open>server/operatorRoleGrants.ts\<close>, \<open>operatorDirectory.ts\<close>,
    \<open>externalStakeholders.ts\<close>, \<open>operatorAccessRequests.ts\<close>, \<open>postgresRoleResolver.ts\<close> and
    \<open>_core/context.ts\<close>. \<open>Api_Router\<close>, \<open>Api_Properties\<close>: \<open>server/_core/trpc.ts\<close>, name, gate and kind of
    every route of \<open>server/routers.ts\<close>, the console tables of \<open>client/src/lib\<close> and
    \<open>server/operatorOnboarding.ts\<close>.
  \<^item> \<open>Back_Office\<close> and \<open>Control_Plane\<close> compose the components that share the store into one step relation
    \<^const>\<open>umoja_step\<close>; \<open>Platform\<close> adds role operations and the outbox. \<open>Lock_Book\<close> is
    the abstract contract of rate locks; \<open>Order_Record\<close> says what no run can change about an order;
    \<open>Payment_Path\<close> and \<open>Office_Path\<close> are complete concrete runs.

  \<^bold>\<open>What is shown.\<close> Single operations: when each succeeds, what it writes and
    what it leaves alone, in the \<open>_Properties\<close> theories and at the end of \<open>Multi_Rail\<close>, \<open>Service_Bridge\<close>,
    \<open>Service_Health\<close> and \<open>Control_Evidence\<close>. Whole runs, below: every reachable store satisfies
    the invariants of all components, every order is backed by one lock at its price, the store refines
    the lock book, terms of orders never change, final states stay final, the trail only grows,
    and a payment can in fact be drafted from the empty store. These rest on interpretations of
    the contracts of the prelude on the steps of the model. Some properties show defects, such as
    the replay of an order that is always refused, or two rails that both accept one payment.

  \<^bold>\<open>Bounds and termination.\<close> Every definition is total. The leader election recurses on the configured
  number of attempts and the drain of the outbox on its bound of at most 100 rows; both are the
  loop bounds of the code, so nothing is cut off. The election and
  the redaction of an error text are \<open>function\<close>s with a termination proof by a measure. Amounts are integers scaled
  by the decimals of their column, with the range of the column as a guard. Doubles are the
  rational values of the 64-bit format, rounded to even after every operation, with subnormal
  numbers and overflow; the two zeros are one.

  \<^bold>\<open>Not modelled.\<close> List queries that only read, the rendering of the console and the input schemas of
  the routes; document upload and analysis, regulatory deadlines, the evidence packs of single partner
  kinds, sandbox and readiness records beyond those named; token verification and the HTTP
  of the identity provider; tracing, storage and timers; the Go, Rust and Python
  services themselves. Transactions are atomic and serial: interleaving is modelled between operations,
  and inside an operation only where it awaits an outside system while holding shared state,
  as the rail coordinator does.
\<close>

section \<open>Reachable stores\<close>

definition reachable :: "db \<Rightarrow> bool" where
  "reachable db \<longleftrightarrow> umoja_step\<^sup>*\<^sup>* empty_db db"

lemma reachable_inv: "reachable db \<Longrightarrow> umoja_inv db"
  unfolding reachable_def using empty_db_inv by (rule system.run_inv [rotated])

lemma reachable_parts:
  assumes "reachable db"
  shows "payment_inv db" "compliance_inv db" "registry_inv db" "onboarding_inv db" "office_inv db"
  using reachable_inv [OF assms] by (simp_all add: umoja_inv_def)

lemma reachable_run: "reachable db \<Longrightarrow> umoja_step\<^sup>*\<^sup>* db db' \<Longrightarrow> reachable db'"
  unfolding reachable_def by (rule rtranclp_trans)

lemma path13_reachable: "reachable path13"
  unfolding reachable_def by (rule path_c)

lemma gate7_reachable: "reachable gate7"
  unfolding reachable_def by (rule gate_run)

lemma reg5_reachable: "reachable reg5"
  unfolding reachable_def by (rule register_run)

text \<open>After the cancellation the lock runs out.\<close>

definition "path15 = after (expirePostgresRateLocks (at_time 20000 115) operator path14)"

lemma path15_run: "umoja_step\<^sup>*\<^sup>* path14 path15"
  unfolding path15_def
  by (rule r_into_rtranclp, rule step_after, simp add: expirePostgresRateLocks_def Let_def, rule payment, rule rate_locks_expired)

lemma path14_run: "umoja_step\<^sup>*\<^sup>* path13 path14"
  using path_d by blast

section \<open>Orders and locks\<close>

lemma single_useD:
  assumes "single_use ls" and "l \<in> set ls" "m \<in> set ls" and "rl_payment_order_id l = Some k" "rl_payment_order_id m = Some k"
  shows "rl_id l = rl_id m"
proof -
  from assms(1-3) have "rl_payment_order_id l = rl_payment_order_id m \<longrightarrow> rl_payment_order_id l \<noteq> None \<longrightarrow> rl_id l = rl_id m"
    unfolding single_use_def by blast
  then show ?thesis using assms(4,5) by simp
qed

text \<open>
  C3: In every store the control plane can reach, a payment order is priced by a rate lock bound to
  it: same corridor and assets, the target derived from the locked rate, both amounts positive and
  within NUMERIC(30,12), and no other lock is bound to that order. No order is in a state that
  needs a provider.
\<close>

theorem reachable_orders_backed:
  assumes "reachable db" and "ord \<in> set (payment_orders db)"
  shows "0 < po_source_amount ord \<and> 0 < po_target_amount ord \<and>
    fits_numeric_30_12 (po_source_amount ord) \<and> fits_numeric_30_12 (po_target_amount ord) \<and>
    po_status ord \<notin> set providerDependentOrderStates \<and>
    (\<exists>l \<in> set (rate_locks db). order_backed ord l \<and> 0 < rl_locked_rate l \<and>
       (\<forall>m \<in> set (rate_locks db). rl_payment_order_id m = Some (po_id ord) \<longrightarrow> m = l))"
proof -
  have inv: "payment_inv db" using assms(1) by (rule reachable_parts)
  have ok: "order_ok db ord" using inv assms(2) by (simp add: payment_inv_def)
  then obtain l where l: "l \<in> set (rate_locks db)" "order_backed ord l" by (auto simp: order_ok_def)
  have "m = l" if m: "m \<in> set (rate_locks db)" "rl_payment_order_id m = Some (po_id ord)" for m
  proof -
    have single: "single_use (rate_locks db)" and keys: "inj_on rl_id (set (rate_locks db))"
      using inv by (simp_all add: payment_inv_def distinct_map)
    have "rl_payment_order_id l = Some (po_id ord)" using l(2) by (simp add: order_backed_def)
    with single m l(1) have "rl_id m = rl_id l" by (intro single_useD)
    with keys show ?thesis using m(1) l(1) by (rule inj_onD)
  qed
  moreover have "0 < rl_locked_rate l" using inv l(1) by (simp add: payment_inv_def lock_ok_def)
  ultimately have "\<exists>l \<in> set (rate_locks db). order_backed ord l \<and> 0 < rl_locked_rate l \<and>
       (\<forall>m \<in> set (rate_locks db). rl_payment_order_id m = Some (po_id ord) \<longrightarrow> m = l)"
    using l by (intro bexI [of _ l]) simp_all
  with ok show ?thesis by (simp add: order_ok_def)
qed

theorem reachable_orders_backed_witness:
  "0 < po_source_amount path_order \<and> (\<exists>l \<in> set (rate_locks path13). order_backed path_order l)"
  using reachable_orders_backed [OF path13_reachable, of path_order] path13_ok(2) by auto

text \<open>
  C4: The store refines the book of rate locks: along every run a lock is issued free, bound to at
  most one order while it is open, and closed, and nothing else happens to it. An order that owns
  a lock keeps it for ever and never owns a second one.
\<close>

theorem locks_refine_book:
  assumes "reachable db" and "umoja_step\<^sup>*\<^sup>* db db'"
  shows "book_step\<^sup>*\<^sup>* (book db) (book db') \<and> (\<forall>w k. owns (book db) w k \<longrightarrow> owns (book db') w k) \<and>
    (\<forall>w j k. owns (book db') w j \<longrightarrow> owns (book db') w k \<longrightarrow> j = k)"
proof -
  have run: "book_step\<^sup>*\<^sup>* (book db) (book db')"
    using assms(2) reachable_inv [OF assms(1)] by (rule lock_book.run_refines)
  have empty: "book empty_db = Map.empty" by (rule ext) (simp add: book_def empty_db_def find_row_def)
  have "book_step\<^sup>*\<^sup>* Map.empty (book db')"
    using lock_book.run_refines [OF reachable_run [OF assms, unfolded reachable_def] empty_db_inv] empty by simp
  then show ?thesis using run owns_run [OF run] owns_unique_run by blast
qed

theorem locks_refine_book_witness: "owns (book path13) 113 112 \<and> owns (book path14) 113 112"
proof -
  have "owns (book path13) 113 112"
    by (simp add: owns_def book_def path13_ok(3) find_row_def entry_of_def path_lock_def)
  then show ?thesis using locks_refine_book [OF path13_reachable path14_run] by blast
qed


text \<open>
  C6: Whatever runs, an order keeps its parties, corridor, currencies, amounts, idempotency key,
  policy decision and creator: only its status and its time of update change, and it is never
  deleted.
\<close>

theorem order_terms_immutable:
  assumes "umoja_step\<^sup>*\<^sup>* db db'" and "find_row po_id k (payment_orders db) = Some ord"
  shows "\<exists>st t. find_row po_id k (payment_orders db') = Some (ord\<lparr>po_status := st, po_updated_at := t\<rparr>)"
proof -
  have "order_terms db k = Some (terms_of ord)" using assms(2) by (simp add: order_terms_def)
  from terms_life.run_final [OF assms(1) this] obtain ord' where
      ord': "find_row po_id k (payment_orders db') = Some ord'" "terms_of ord' = terms_of ord"
    by (auto simp: order_terms_def)
  have "ord' = (terms_of ord')\<lparr>po_status := po_status ord', po_updated_at := po_updated_at ord'\<rparr>"
    by (simp add: terms_of_def)
  also have "\<dots> = ord\<lparr>po_status := po_status ord', po_updated_at := po_updated_at ord'\<rparr>"
    unfolding ord'(2) by (simp add: terms_of_def)
  finally show ?thesis using ord'(1) by metis
qed

theorem order_terms_immutable_witness:
  "\<exists>st t. find_row po_id 113 (payment_orders path14) = Some (path_order\<lparr>po_status := st, po_updated_at := t\<rparr>)"
proof -
  have "find_row po_id 113 (payment_orders path13) = Some path_order"
    by (simp add: path13_ok(2) find_row_def path_order_def)
  with path14_run show ?thesis by (rule order_terms_immutable)
qed

text \<open>
  C15: No operation writes a policy decision, and approval needs one. So in a reachable store no
  order and no leg is ever approved, and every request to approve is refused.
\<close>

theorem never_approved:
  assumes "reachable db"
  shows "(\<forall>ord \<in> set (payment_orders db). po_policy_decision_id ord = None \<and> po_status ord \<noteq> PS_approved) \<and>
    (\<forall>l \<in> set (payment_legs db). pl_status l \<noteq> PS_approved) \<and>
    isl (transitionPostgresPaymentOrder e a k PS_approved reason db) \<and>
    isl (transitionPostgresPaymentLeg e a j PS_approved reason db)"
proof -
  have "undecided empty_db" by (simp add: undecided_def empty_db_def)
  with assms have un: "undecided db" unfolding reachable_def by (rule undecided_system.run_inv)
  have "isl (transitionPostgresPaymentOrder e a k PS_approved reason db)"
    using un by (auto simp: transitionPostgresPaymentOrder_def undecided_def dest: find_row_mem split: option.split)
  moreover have "isl (transitionPostgresPaymentLeg e a j PS_approved reason db)"
    using un by (auto simp: transitionPostgresPaymentLeg_def undecided_def dest: find_row_mem split: option.split)
  ultimately show ?thesis using un by (simp add: undecided_def)
qed

theorem never_approved_witness:
  "isl (transitionPostgresPaymentOrder (at_time 15 115) operator 113 PS_approved ''policy allows it'' path13)"
  using never_approved [OF path13_reachable] by blast

section \<open>Lifecycles and trail\<close>

text \<open>
  C14: Final statuses stay final under every run of the whole system: a cancelled order, an expired
  or cancelled lock, an escalated or dismissed alert, a closed case, a submitted or rejected filing
  and a blocked onboarding never move again.
\<close>

theorem final_states:
  assumes "umoja_step\<^sup>*\<^sup>* db db'"
  shows "(order_status db k = Some PS_cancelled \<longrightarrow> order_status db' k = Some PS_cancelled) \<and>
    (leg_status db k = Some PS_cancelled \<longrightarrow> leg_status db' k = Some PS_cancelled) \<and>
    (lst \<noteq> RL_locked \<longrightarrow> lock_status db k = Some lst \<longrightarrow> lock_status db' k = Some lst) \<and>
    (ast \<in> {CA_escalated, CA_dismissed} \<longrightarrow> alert_state_of db k = Some ast \<longrightarrow> alert_state_of db' k = Some ast) \<and>
    (case_status_of db k = Some CC_closed \<longrightarrow> case_status_of db' k = Some CC_closed) \<and>
    (fst' \<in> {SF_submitted, SF_rejected} \<longrightarrow> filing_status_of db k = Some fst' \<longrightarrow> filing_status_of db' k = Some fst') \<and>
    (onboarding_stage_of db k = Some OB_blocked \<longrightarrow> onboarding_stage_of db' k = Some OB_blocked)"
proof -
  have "rate_lock_transitions lst = []" if "lst \<noteq> RL_locked" using that by (cases lst) simp_all
  then show ?thesis
    using order_life.run_final [OF assms, of k PS_cancelled] leg_life.run_final [OF assms, of k PS_cancelled]
      lock_life.run_final [OF assms, of k lst] alert_life.run_final [OF assms, of k ast]
      case_life.run_final [OF assms, of k CC_closed] filing_life.run_final [OF assms, of k fst']
      stage_life.run_final [OF assms, of k OB_blocked]
    by (auto simp: allowedInternalLegTransitions_def)
qed

theorem final_states_witness: "order_status path14 113 = Some PS_cancelled \<and> order_status path15 113 = Some PS_cancelled"
  using final_states [OF path15_run, of 113] by (simp add: order_status_def path14_ok(2) find_row_def path_order_def)

text \<open>
  C16: The audit trail of the control plane is append-only: along every run the earlier trail is a
  prefix of the later one, so no event is altered, reordered or lost.
\<close>

theorem trail_append_only:
  assumes "umoja_step\<^sup>*\<^sup>* db db'"
  shows "prefix (activity_events db) (activity_events db') \<and> set (activity_events db) \<subseteq> set (activity_events db')"
  using trail.run_appends [OF assms] trail.event_never_lost [OF assms] by blast

theorem trail_append_only_witness: "prefix (activity_events path13) (activity_events path14)"
  using trail_append_only [OF path14_run] by blast



section \<open>Gates\<close>

lemma sum_list_sort_key: "sum_list (map f (sort_key g xs)) = (sum_list (map f xs) :: int)"
proof -
  have "sum_list (map f (insort_key g x ys)) = f x + sum_list (map f ys)" for x ys by (induction ys) simp_all
  then show ?thesis by (induction xs) simp_all
qed

text \<open>
  C18: A counterparty in steady state passed all three gates in its current cycle: the legal and the
  technical gate were approved, and the pilot gate by two different people, one compliance officer
  and one treasury operator.
\<close>

theorem steady_state_gated:
  assumes "reachable db" and "ob \<in> set (counterparty_onboardings db)" and "ob_stage ob = OB_steady_state"
  shows "gate_approved (ob_id ob) (ob_cycle_number ob) Gate_legal (onboarding_gate_decisions db) \<and>
    gate_approved (ob_id ob) (ob_cycle_number ob) Gate_technical (onboarding_gate_decisions db) \<and>
    (\<exists>d d'. gate_decisions (ob_id ob) (ob_cycle_number ob) Gate_pilot (onboarding_gate_decisions db) = [d, d'] \<and>
       gd_decided_by d \<noteq> gd_decided_by d' \<and> {gd_decided_role d, gd_decided_role d'} = {Compliance_officer, Treasury_operator} \<and>
       gd_decision d = Decision_approved \<and> gd_decision d' = Decision_approved)"
proof -
  let ?pilots = "gate_decisions (ob_id ob) (ob_cycle_number ob) Gate_pilot (onboarding_gate_decisions db)"
  have ok: "stage_ok (onboarding_gate_decisions db) ob"
    using reachable_parts(4) [OF assms(1)] assms(2) by (simp add: onboarding_inv_def)
  then have "length ?pilots = 2" and ind: "independent_approvals ?pilots"
    using assms(3) by (simp_all add: stage_ok_def Let_def)
  then obtain d d' where two: "?pilots = [d, d']" by (auto simp: length_Suc_conv numeral_2_eq_2)
  then show ?thesis using ok ind assms(3) by (auto simp: stage_ok_def Let_def independent_approvals_def)
qed

theorem steady_state_gated_witness:
  "\<exists>ob \<in> set (counterparty_onboardings gate7). ob_stage ob = OB_steady_state \<and>
     gate_approved (ob_id ob) (ob_cycle_number ob) Gate_legal (onboarding_gate_decisions gate7)"
proof -
  obtain ob where ob: "counterparty_onboardings gate7 = [ob]" "ob_stage ob = OB_steady_state"
    using gate_end by (auto simp: map_eq_Cons_conv)
  then show ?thesis using steady_state_gated [OF gate7_reachable, of ob] by auto
qed



text \<open>
  C20: A readiness register that exists is complete and worth exactly 58 points, whoever
  verified an area is not the person who recorded its evidence, and the segregation-of-duties query finds nothing in any reachable store.
\<close>

theorem register_complete_and_silent:
  assumes "reachable db" and "r \<in> set (assurance_items db)"
  shows "as_totalPoints (assessReadinessAssurance (ri_dossier_id r) db) = 58 \<and>
    (ri_status r = RA_externally_verified \<longrightarrow> ri_verified_by r \<noteq> None \<and> ri_verified_by r \<noteq> ri_evidence_recorded_by r) \<and>
    queryViolations db = []"
proof -
  have inv: "assurance_inv db" using reachable_parts(5) [OF assms(1)] by (simp add: office_inv_def)
  have "sum_list (map ri_max_points (listReadinessAssurance k db)) =
      sum_list (map ri_max_points (filter (\<lambda>x. ri_dossier_id x = k) (assurance_items db)))" for k
    by (simp add: listReadinessAssurance_def sum_list_sort_key)
  moreover have "item_ok r" using inv assms(2) by (simp add: assurance_inv_def)
  ultimately show ?thesis
    using register_totals [OF inv assms(2)] silent_on_invariant [OF inv]
    by (auto simp: assessReadinessAssurance_def Let_def item_ok_def assurance_row_checks_def status_agrees_def)
qed

theorem register_complete_and_silent_witness:
  "as_totalPoints (assessReadinessAssurance 302 reg5) = 58 \<and> queryViolations reg5 = []"
proof -
  obtain r where "find_row assurance_slot (302, Controlled_live_test) (assurance_items reg5) = Some r"
    using register_end by auto
  then have "r \<in> set (assurance_items reg5)" "ri_dossier_id r = 302"
    by (auto dest: find_row_mem simp: assurance_slot_def)
  then show ?thesis using register_complete_and_silent [OF reg5_reachable, of r] by simp
qed

section \<open>Store, roles and outbox together\<close>

text \<open>
  C7: However operations of the store, onboarding operations with their triggers, operations on
  roles and drains of the outbox interleave from the empty platform, the store keeps its invariant, core and external
  roles stay in their own tables with one active grant per subject and role, every onboarding and
  every gate decision has its evidence in the outbox, and the audit trail only grows.
\<close>

theorem platform_consistent:
  assumes start: "(platform_step w)\<^sup>*\<^sup>* empty_platform p" and more: "(platform_step w)\<^sup>*\<^sup>* p q"
  shows "umoja_inv (pf_db q) \<and>
    (\<forall>r \<in> set (user_role_assignments (pf_access q)). ur_role r \<in> set legacyOperatingRoles) \<and>
    (\<forall>r \<in> set (operator_role_assignments (pf_access q)). or_role r \<in> set external_roles) \<and>
    distinct (map grant_slot (filter (\<lambda>r. ur_revoked_at r = None) (user_role_assignments (pf_access q)))) \<and>
    (\<forall>ob \<in> set (counterparty_onboardings (pf_db q)). (EE_created, created_correlation w ob) \<in> evidence_slot ` set (pf_outbox q)) \<and>
    (\<forall>d \<in> set (onboarding_gate_decisions (pf_db q)). (EE_gate_decided, gate_correlation w d) \<in> evidence_slot ` set (pf_outbox q)) \<and>
    prefix (activity_events (pf_db p)) (activity_events (pf_db q))"
proof -
  have "platform_inv w q" using whole.run_inv [OF rtranclp_trans [OF start more] empty_platform_inv] .
  then show ?thesis
    using whole_trail.run_appends [OF more] by (simp add: platform_inv_def access_inv_def evidence_inv_def)
qed

definition plat1 :: platform where
  "plat1 = empty_platform\<lparr>pf_db := path1\<rparr>"

lemma plat1_run: "(platform_step w)\<^sup>*\<^sup>* empty_platform plat1"
proof -
  have "umoja_step empty_db path1" unfolding path1_def by (rule step_after, code_simp, rule registry, rule counterparty_created)
  moreover have "counterparty_onboardings path1 = counterparty_onboardings empty_db" by code_simp
  moreover have "onboarding_gate_decisions path1 = onboarding_gate_decisions empty_db" by code_simp
  ultimately show ?thesis unfolding plat1_def by (intro r_into_rtranclp core_moved) (simp_all add: empty_platform_def)
qed

theorem platform_consistent_witness:
  "\<exists>q. (platform_step plain_world)\<^sup>*\<^sup>* plat1 q \<and> length (counterparty_onboardings (pf_db q)) = 1 \<and>
     (\<exists>ob \<in> set (counterparty_onboardings (pf_db q)). (EE_created, created_correlation plain_world ob) \<in> evidence_slot ` set (pf_outbox q)) \<and>
     prefix (activity_events path1) (activity_events (pf_db q))"
proof -
  let ?x = "onboarding_created_with_evidence plain_world evidence_clock sample_admin 10 101 [NIGERIA_NGN] ''https://e'' 99 (pf_outbox plat1, pf_db plat1)"
  have ok: "\<not> isl ?x" and one: "length (counterparty_onboardings (snd (snd (projr ?x)))) = 1" by code_simp+
  then obtain r rows db where x: "?x = Inr (r, rows, db)" by (cases ?x) auto
  let ?q = "plat1\<lparr>pf_outbox := rows, pf_db := db\<rparr>"
  have "platform_step plain_world plat1 ?q" by (rule onboarding_entered [OF x]) (simp add: plat1_def empty_platform_def)
  then have run: "(platform_step plain_world)\<^sup>*\<^sup>* plat1 ?q" by (rule r_into_rtranclp)
  note facts = platform_consistent [OF plat1_run run]
  obtain ob where "counterparty_onboardings db = [ob]" using one x by (auto simp: length_Suc_conv)
  then show ?thesis using facts run by (intro exI [of _ ?q]) (simp add: plat1_def)
qed

end
